(* ===== verification/Prelude.thy ===== *)
theory Prelude
  imports Main "HOL-Library.Monad_Syntax" "HOL-Library.Signed_Division"
begin

text \<open>
  Shared vocabulary of the development: machine words of the virtual machine, the
  option monad in which an assertion failure of the VM (which aborts the process) is
  the value \<open>None\<close>, and the generic lemmas on lists, maps and bit operations that the
  component theories share.

  The VM is modelled for the 64-bit little-endian build (\<open>__WORDSIZE = 64\<close>). A
  \<open>word_t\<close> (\<open>intptr_t\<close>) is an \<open>int\<close> in the range of 64-bit two's complement;
  \<open>wrap64\<close> is the wrap-around of an operation whose result may leave that range.
  A pointer (\<open>struct Object*\<close>, called an oop) is its address, also an \<open>int\<close>.
\<close>

unbundle bit_operations_syntax

named_theorems vm_simps \<open>rewrite rules of the object model\<close>
named_theorems vm_defs \<open>definitions of small accessors that are safe to unfold\<close>

type_synonym word_t = int
type_synonym addr = int
type_synonym oop = int

section \<open>64-bit words\<close>

definition WORD_MIN :: int where "WORD_MIN = - (2 ^ 63)"
definition WORD_MAX :: int where "WORD_MAX = 2 ^ 63 - 1"

definition is_word :: "int \<Rightarrow> bool" where
  "is_word x \<longleftrightarrow> WORD_MIN \<le> x \<and> x \<le> WORD_MAX"

definition wrap64 :: "int \<Rightarrow> int" where
  "wrap64 x = signed_take_bit 63 x"

lemma wrap64_is_word [simp]: "is_word (wrap64 x)"
proof -
  have "- (2 ^ 63) \<le> signed_take_bit 63 x" by (rule signed_take_bit_int_greater_eq_minus_exp)
  moreover have "signed_take_bit 63 x < 2 ^ 63" by (rule signed_take_bit_int_less_exp)
  ultimately show ?thesis
    unfolding is_word_def wrap64_def WORD_MIN_def WORD_MAX_def by linarith
qed

lemma wrap64_word: "is_word x \<Longrightarrow> wrap64 x = x"
  unfolding is_word_def wrap64_def WORD_MIN_def WORD_MAX_def
  by (subst signed_take_bit_int_eq_self_iff) simp

lemma wrap64_diff_dvd: "2 ^ 64 dvd (wrap64 x - x)"
proof -
  have "take_bit 64 (signed_take_bit 63 x) = take_bit 64 x"
    by (rule take_bit_signed_take_bit) simp
  then have "wrap64 x mod 2 ^ 64 = x mod 2 ^ 64"
    by (simp add: wrap64_def take_bit_eq_mod)
  then show ?thesis by (rule mod_eq_dvd_iff [THEN iffD1])
qed

lemma wrap64_unique:
  assumes "is_word y" and "2 ^ 64 dvd (y - x)"
  shows "wrap64 x = y"
proof -
  have "2 ^ 64 dvd ((y - x) - (wrap64 x - x))"
    by (rule dvd_diff [OF assms(2) wrap64_diff_dvd])
  then have "2 ^ 64 dvd (y - wrap64 x)" by simp
  then obtain k where k: "y - wrap64 x = 2 ^ 64 * k" by (rule dvdE)
  have "- (2 ^ 64) < y - wrap64 x" "y - wrap64 x < 2 ^ 64"
    using assms(1) wrap64_is_word [of x]
    unfolding is_word_def WORD_MIN_def WORD_MAX_def by auto
  with k have "k = 0" by auto
  with k show ?thesis by simp
qed

section \<open>Assertions\<close>

text \<open>\<open>assert(c)\<close> of the source: the process aborts when \<open>c\<close> is false.\<close>

definition check :: "bool \<Rightarrow> unit option" where
  "check c = (if c then Some () else None)"

lemma check_simps [simp]: "check True = Some ()" "check False = None"
  by (simp_all add: check_def)

lemma check_bind_eq_Some [simp]:
  "(check c \<bind> f = Some r) \<longleftrightarrow> c \<and> f () = Some r"
  by (cases c) simp_all

section \<open>Lists\<close>

lemma find_append: "List.find P (xs @ ys) = (case List.find P xs of None \<Rightarrow> List.find P ys | Some x \<Rightarrow> Some x)"
  by (induction xs) auto

text \<open>Cyclic index order: from a start index to the end, then from 0 up to it.\<close>

definition cyclic :: "int \<Rightarrow> int \<Rightarrow> int list" where
  "cyclic start n = [start..n - 1] @ [0..start - 1]"

lemma set_cyclic [simp]: "0 \<le> start \<Longrightarrow> start \<le> n \<Longrightarrow> set (cyclic start n) = {0..<n}"
  by (auto simp: cyclic_def)

lemma distinct_cyclic [simp]: "distinct (cyclic start n)"
  by (auto simp: cyclic_def)

lemma length_cyclic [simp]: "0 \<le> start \<Longrightarrow> start \<le> n \<Longrightarrow> length (cyclic start n) = nat n"
  by (simp add: cyclic_def)

text \<open>
  A linear probe: the first index in the given order whose entry holds the key, unless
  an empty entry comes before it; and the first empty entry.
\<close>

fun probe :: "(int \<Rightarrow> 'k) \<Rightarrow> 'k \<Rightarrow> 'k \<Rightarrow> int list \<Rightarrow> int option" where
  "probe f e k [] = None"
| "probe f e k (i # is) =
     (if f i = k then Some i else if f i = e then None else probe f e k is)"

fun first_empty :: "(int \<Rightarrow> 'k) \<Rightarrow> 'k \<Rightarrow> int list \<Rightarrow> int option" where
  "first_empty f e [] = None"
| "first_empty f e (i # is) = (if f i = e then Some i else first_empty f e is)"

lemma probe_cong: "(\<And>i. i \<in> set is \<Longrightarrow> f i = g i) \<Longrightarrow> probe f e k is = probe g e k is"
  by (induction "is") auto

lemma probe_SomeD: "probe f e k is = Some i \<Longrightarrow> i \<in> set is \<and> f i = k"
  by (induction "is") (auto split: if_splits)

lemma first_empty_SomeD: "first_empty f e is = Some i \<Longrightarrow> i \<in> set is \<and> f i = e"
  by (induction "is") (auto split: if_splits)

lemma first_empty_None_iff: "first_empty f e is = None \<longleftrightarrow> (\<forall>i\<in>set is. f i \<noteq> e)"
  by (induction "is") auto

lemma probe_fill_new:
  "first_empty f e is = Some i \<Longrightarrow> probe f e k is = None \<Longrightarrow> k \<noteq> e \<Longrightarrow>
   probe (f(i := k)) e k is = Some i"
  by (induction "is") (auto split: if_splits)

lemma probe_fill_other:
  "probe f e k is = Some j \<Longrightarrow> f i = e \<Longrightarrow> k \<noteq> e \<Longrightarrow> k' \<noteq> k \<Longrightarrow> k' \<noteq> e \<Longrightarrow>
   probe (f(i := k')) e k is = Some j"
  by (induction "is") (auto split: if_splits)

lemma probe_absent: "(\<And>i. i \<in> set is \<Longrightarrow> f i \<noteq> k) \<Longrightarrow> probe f e k is = None"
  by (induction "is") auto

end
