(* ===== verification/Specials.thy ===== *)
theory Specials
  imports Prelude
begin

text \<open>
  The constants of slate.hpp that the components share: masks and offsets of the
  object header, the indexes of the special objects, sizes of the polymorphic inline
  cache, limits of the argument arrays.
\<close>

section \<open>Header layout\<close>

definition SMALLINT_MASK :: int where "SMALLINT_MASK = 1"
definition MARK_MASK :: int where "MARK_MASK = 1"
definition PINNED_MASK :: int where "PINNED_MASK = 0x3F"
definition PINNED_OFFSET :: nat where "PINNED_OFFSET = 24"
definition ID_HASH_RESERVED :: int where "ID_HASH_RESERVED = 0x7FFFF0"
definition ID_HASH_FORWARDED :: int where "ID_HASH_FORWARDED = ID_HASH_RESERVED"
definition ID_HASH_FREE :: int where "ID_HASH_FREE = 0x7FFFFF"
definition ID_HASH_MAX :: int where "ID_HASH_MAX = ID_HASH_FREE"

definition TYPE_OBJECT :: int where "TYPE_OBJECT = 0"
definition TYPE_OOP_ARRAY :: int where "TYPE_OOP_ARRAY = 1"
definition TYPE_BYTE_ARRAY :: int where "TYPE_BYTE_ARRAY = 2"

definition MAP_FLAG_RESTRICT_DELEGATION :: int where "MAP_FLAG_RESTRICT_DELEGATION = 2"
definition MAP_FLAG_IMMUTABLE :: int where "MAP_FLAG_IMMUTABLE = 4"

definition FLOAT_SIGNIFICAND :: int where "FLOAT_SIGNIFICAND = 0x7FFFFF"
definition FLOAT_EXPONENT_OFFSET :: nat where "FLOAT_EXPONENT_OFFSET = 23"

lemmas header_consts = SMALLINT_MASK_def MARK_MASK_def PINNED_MASK_def PINNED_OFFSET_def
  ID_HASH_RESERVED_def ID_HASH_FORWARDED_def ID_HASH_FREE_def ID_HASH_MAX_def

lemmas type_consts = TYPE_OBJECT_def TYPE_OOP_ARRAY_def TYPE_BYTE_ARRAY_def

section \<open>Stack frames, inline caches, limits\<close>

definition FUNCTION_FRAME_SIZE :: int where "FUNCTION_FRAME_SIZE = 6"
definition FRAME_OFFSET_BEFORE_CALL_STACK_POINTER :: int where "FRAME_OFFSET_BEFORE_CALL_STACK_POINTER = 6"
definition FRAME_OFFSET_RESULT_STACK_POINTER :: int where "FRAME_OFFSET_RESULT_STACK_POINTER = 5"
definition FRAME_OFFSET_CODE_POINTER :: int where "FRAME_OFFSET_CODE_POINTER = 4"
definition FRAME_OFFSET_METHOD :: int where "FRAME_OFFSET_METHOD = 3"
definition FRAME_OFFSET_LEXICAL_CONTEXT :: int where "FRAME_OFFSET_LEXICAL_CONTEXT = 2"
definition FRAME_OFFSET_PREVIOUS_FRAME_POINTER :: int where "FRAME_OFFSET_PREVIOUS_FRAME_POINTER = 1"

lemmas frame_consts = FUNCTION_FRAME_SIZE_def FRAME_OFFSET_BEFORE_CALL_STACK_POINTER_def
  FRAME_OFFSET_RESULT_STACK_POINTER_def FRAME_OFFSET_CODE_POINTER_def FRAME_OFFSET_METHOD_def
  FRAME_OFFSET_LEXICAL_CONTEXT_def FRAME_OFFSET_PREVIOUS_FRAME_POINTER_def

definition METHOD_CACHE_ARITY :: nat where "METHOD_CACHE_ARITY = 6"
definition METHOD_CACHE_SIZE :: int where "METHOD_CACHE_SIZE = 1024 * 64"
definition DELEGATION_STACK_SIZE :: int where "DELEGATION_STACK_SIZE = 256"

definition INLINER_MAX_INLINE_SIZE :: int where "INLINER_MAX_INLINE_SIZE = 50"
definition INLINER_MAX_METHOD_SIZE :: int where "INLINER_MAX_METHOD_SIZE = 200"
definition CALLER_PIC_SETUP_AFTER :: int where "CALLER_PIC_SETUP_AFTER = 500"
definition CALLEE_OPTIMIZE_AFTER :: int where "CALLEE_OPTIMIZE_AFTER = 1000"
definition CALLER_PIC_SIZE :: int where "CALLER_PIC_SIZE = 16"
definition CALLER_PIC_ENTRY_SIZE :: int where "CALLER_PIC_ENTRY_SIZE = 4"
definition PIC_CALLEE :: int where "PIC_CALLEE = 0"
definition PIC_CALLEE_ARITY :: int where "PIC_CALLEE_ARITY = 1"
definition PIC_CALLEE_MAPS :: int where "PIC_CALLEE_MAPS = 2"
definition PIC_CALLEE_COUNT :: int where "PIC_CALLEE_COUNT = 3"

lemmas pic_consts = CALLER_PIC_ENTRY_SIZE_def CALLER_PIC_SIZE_def PIC_CALLEE_def
  PIC_CALLEE_ARITY_def PIC_CALLEE_MAPS_def PIC_CALLEE_COUNT_def

definition MAX_ARITY :: nat where "MAX_ARITY = 16"
definition MAX_OPTS :: nat where "MAX_OPTS = 16"
definition SLATE_ERROR_RETURN :: int where "SLATE_ERROR_RETURN = -1"

section \<open>Indexes of the special objects\<close>

definition SPECIAL_OOP_NO_ROLE :: nat where "SPECIAL_OOP_NO_ROLE = 1"
definition SPECIAL_OOP_NIL :: nat where "SPECIAL_OOP_NIL = 2"
definition SPECIAL_OOP_TRUE :: nat where "SPECIAL_OOP_TRUE = 3"
definition SPECIAL_OOP_FALSE :: nat where "SPECIAL_OOP_FALSE = 4"
definition SPECIAL_OOP_ARRAY_PROTO :: nat where "SPECIAL_OOP_ARRAY_PROTO = 5"
definition SPECIAL_OOP_BYTE_ARRAY_PROTO :: nat where "SPECIAL_OOP_BYTE_ARRAY_PROTO = 6"
definition SPECIAL_OOP_ASCII_PROTO :: nat where "SPECIAL_OOP_ASCII_PROTO = 7"
definition SPECIAL_OOP_METHOD_DEF_PROTO :: nat where "SPECIAL_OOP_METHOD_DEF_PROTO = 9"
definition SPECIAL_OOP_SMALL_INT_PROTO :: nat where "SPECIAL_OOP_SMALL_INT_PROTO = 10"
definition SPECIAL_OOP_FLOAT_PROTO :: nat where "SPECIAL_OOP_FLOAT_PROTO = 11"
definition SPECIAL_OOP_CLOSURE_WINDOW :: nat where "SPECIAL_OOP_CLOSURE_WINDOW = 12"
definition SPECIAL_OOP_COMPILED_METHOD_WINDOW :: nat where "SPECIAL_OOP_COMPILED_METHOD_WINDOW = 13"
definition SPECIAL_OOP_PRIMITIVE_METHOD_WINDOW :: nat where "SPECIAL_OOP_PRIMITIVE_METHOD_WINDOW = 14"
definition SPECIAL_OOP_CLOSURE_PROTO :: nat where "SPECIAL_OOP_CLOSURE_PROTO = 15"
definition SPECIAL_OOP_LEXICAL_CONTEXT_PROTO :: nat where "SPECIAL_OOP_LEXICAL_CONTEXT_PROTO = 16"
definition SPECIAL_OOP_INTERPRETER :: nat where "SPECIAL_OOP_INTERPRETER = 17"
definition SPECIAL_OOP_ENSURE_MARKER :: nat where "SPECIAL_OOP_ENSURE_MARKER = 18"
definition SPECIAL_OOP_NOT_FOUND_ON :: nat where "SPECIAL_OOP_NOT_FOUND_ON = 19"
definition SPECIAL_OOP_WRONG_INPUTS_TO :: nat where "SPECIAL_OOP_WRONG_INPUTS_TO = 21"
definition SPECIAL_OOP_MAY_NOT_RETURN_TO :: nat where "SPECIAL_OOP_MAY_NOT_RETURN_TO = 22"
definition SPECIAL_OOP_SLOT_NOT_FOUND_NAMED :: nat where "SPECIAL_OOP_SLOT_NOT_FOUND_NAMED = 23"
definition SPECIAL_OOP_KEY_NOT_FOUND_ON :: nat where "SPECIAL_OOP_KEY_NOT_FOUND_ON = 24"
definition SPECIAL_OOP_IMMUTABLE :: nat where "SPECIAL_OOP_IMMUTABLE = 25"
definition SPECIAL_OOP_BIT_SHIFT_OVERFLOW :: nat where "SPECIAL_OOP_BIT_SHIFT_OVERFLOW = 26"
definition SPECIAL_OOP_ADD_OVERFLOW :: nat where "SPECIAL_OOP_ADD_OVERFLOW = 27"
definition SPECIAL_OOP_SUBTRACT_OVERFLOW :: nat where "SPECIAL_OOP_SUBTRACT_OVERFLOW = 28"
definition SPECIAL_OOP_MULTIPLY_OVERFLOW :: nat where "SPECIAL_OOP_MULTIPLY_OVERFLOW = 29"
definition SPECIAL_OOP_DIVIDE_BY_ZERO :: nat where "SPECIAL_OOP_DIVIDE_BY_ZERO = 30"
definition SPECIAL_OOP_NOT_A_BOOLEAN :: nat where "SPECIAL_OOP_NOT_A_BOOLEAN = 31"
definition SPECIAL_OOP_APPLY_TO :: nat where "SPECIAL_OOP_APPLY_TO = 32"
definition SPECIAL_OOP_OPTIONALS :: nat where "SPECIAL_OOP_OPTIONALS = 33"
definition SPECIAL_OOP_TYPE_ERROR_ON :: nat where "SPECIAL_OOP_TYPE_ERROR_ON = 34"
definition SPECIAL_OOP_COUNT :: nat where "SPECIAL_OOP_COUNT = 35"

end
