(* ===== verification/SmallInt.thy ===== *)
theory SmallInt
  imports Specials
begin

text \<open>
  Small integers: the tagging of inline.hpp (the low bit of a word is set), the range
  test \<open>smallint_fits_object\<close> of object.cpp, and the \<open>SmallInteger\<close> primitives of
  primitives.cpp. A primitive either stores one oop in the result slot of the stack or
  signals a condition with the given arguments; \<open>prim_outcome\<close> is that choice.
\<close>

section \<open>Tagging (inline.hpp)\<close>

definition object_is_smallint :: "oop \<Rightarrow> bool" where
  "object_is_smallint x \<longleftrightarrow> x AND 1 = 1"

definition object_to_smallint :: "oop \<Rightarrow> word_t" where
  "object_to_smallint x = drop_bit 1 x"

definition smallint_to_object :: "word_t \<Rightarrow> oop" where
  "smallint_to_object x = wrap64 (push_bit 1 x) OR 1"

definition oop_is_object :: "word_t \<Rightarrow> bool" where
  "oop_is_object x \<longleftrightarrow> x AND 1 = 0"

text \<open>The integers that a tagged word can hold.\<close>

definition small_range :: "int \<Rightarrow> bool" where
  "small_range i \<longleftrightarrow> - (2 ^ 62) \<le> i \<and> i < 2 ^ 62"

lemma is_smallint_odd: "object_is_smallint x \<longleftrightarrow> odd x"
  by (simp add: object_is_smallint_def and_one_eq odd_iff_mod_2_eq_one)

lemma oop_is_object_iff: "oop_is_object x \<longleftrightarrow> \<not> object_is_smallint x"
  by (simp add: oop_is_object_def object_is_smallint_def and_one_eq)

lemma to_smallint_div: "object_to_smallint x = x div 2"
  by (simp add: object_to_smallint_def drop_bit_eq_div)

lemma even_or_one: "even (x::int) \<Longrightarrow> x OR 1 = x + 1"
  by (simp add: or_one_eq)

lemma smallint_to_object_odd [simp]: "object_is_smallint (smallint_to_object x)"
  by (simp add: is_smallint_odd smallint_to_object_def even_or_iff)

lemma smallint_to_object_eq: "small_range i \<Longrightarrow> smallint_to_object i = 2 * i + 1"
  by (simp add: smallint_to_object_def small_range_def push_bit_eq_mult wrap64_word
      is_word_def WORD_MIN_def WORD_MAX_def even_or_one mult.commute)

lemma to_smallint_range: "is_word x \<Longrightarrow> small_range (object_to_smallint x)"
  by (auto simp: is_word_def WORD_MIN_def WORD_MAX_def small_range_def to_smallint_div)

lemma tag_untag: "small_range i \<Longrightarrow> object_to_smallint (smallint_to_object i) = i"
  by (simp add: smallint_to_object_eq to_smallint_div)

lemma untag_tag: "is_word x \<Longrightarrow> object_is_smallint x \<Longrightarrow> smallint_to_object (object_to_smallint x) = x"
  by (simp add: smallint_to_object_eq to_smallint_range) (simp add: to_smallint_div is_smallint_odd)

lemma smallint_to_object_word: "small_range i \<Longrightarrow> is_word (smallint_to_object i)"
  by (simp add: smallint_to_object_eq small_range_def is_word_def WORD_MIN_def WORD_MAX_def)

section \<open>The range test (object.cpp)\<close>

definition smallint_fits_object :: "word_t \<Rightarrow> bool" where
  "smallint_fits_object i \<longleftrightarrow> i XOR wrap64 (push_bit 1 i) \<ge> 0"

lemma xor_fits_sign: "0 \<le> i XOR wrap64 (2 * i) \<longleftrightarrow> (0 \<le> i \<longleftrightarrow> 0 \<le> wrap64 (2 * i))"
  by (simp add: not_less [symmetric] xor_negative_int_iff)

lemma wrap_double_big:
  assumes "is_word i" and "2 ^ 62 \<le> i"
  shows "wrap64 (2 * i) = 2 * i - 2 ^ 64"
  by (rule wrap64_unique) (use assms in \<open>auto simp: is_word_def WORD_MIN_def WORD_MAX_def\<close>)

lemma wrap_double_small:
  assumes "is_word i" and "i < - (2 ^ 62)"
  shows "wrap64 (2 * i) = 2 * i + 2 ^ 64"
  by (rule wrap64_unique) (use assms in \<open>auto simp: is_word_def WORD_MIN_def WORD_MAX_def\<close>)

lemma smallint_fits_iff:
  assumes "is_word i"
  shows "smallint_fits_object i \<longleftrightarrow> small_range i"
proof -
  have eq: "smallint_fits_object i \<longleftrightarrow> (0 \<le> i \<longleftrightarrow> 0 \<le> wrap64 (2 * i))"
    by (simp add: smallint_fits_object_def push_bit_eq_mult xor_fits_sign mult.commute)
  consider "small_range i" | "2 ^ 62 \<le> i" | "i < - (2 ^ 62)"
    unfolding small_range_def by linarith
  then show ?thesis
  proof cases
    case 1
    then have "wrap64 (2 * i) = 2 * i"
      by (intro wrap64_word) (simp add: small_range_def is_word_def WORD_MIN_def WORD_MAX_def)
    with 1 show ?thesis by (simp add: eq)
  next
    case 2
    with assms show ?thesis
      by (simp add: eq wrap_double_big small_range_def is_word_def WORD_MAX_def)
  next
    case 3
    with assms show ?thesis
      by (simp add: eq wrap_double_small small_range_def is_word_def WORD_MIN_def)
  qed
qed

section \<open>SmallInteger primitives (primitives.cpp)\<close>

text \<open>
  What a primitive does at its end: store an oop in the result slot of the stack, or
  signal the special object with that index, with the arguments given.
\<close>

datatype prim_outcome = Put oop | Sig nat "oop list"

text \<open>\<open>ASSURE_SMALLINT_ARG\<close>: type error unless the argument is a small integer.\<close>

definition assure_smallint :: "oop \<Rightarrow> prim_outcome \<Rightarrow> prim_outcome" where
  "assure_smallint x k = (if \<not> object_is_smallint x then Sig SPECIAL_OOP_TYPE_ERROR_ON [x] else k)"

definition prim_smallIntegerMinimum :: prim_outcome where
  "prim_smallIntegerMinimum = Put (wrap64 (push_bit 63 1) OR 1)"

definition prim_smallIntegerMaximum :: prim_outcome where
  "prim_smallIntegerMaximum = Put WORD_MAX"

definition prim_equals :: "oop \<Rightarrow> oop \<Rightarrow> oop \<Rightarrow> oop \<Rightarrow> prim_outcome" where
  "prim_equals true_object false_object x y = Put (if x = y then true_object else false_object)"

definition prim_less_than :: "oop \<Rightarrow> oop \<Rightarrow> oop \<Rightarrow> oop \<Rightarrow> prim_outcome" where
  "prim_less_than true_object false_object x y =
     assure_smallint x (assure_smallint y
       (Put (if object_to_smallint x < object_to_smallint y then true_object else false_object)))"

definition prim_bitand :: "oop \<Rightarrow> oop \<Rightarrow> prim_outcome" where
  "prim_bitand x y = assure_smallint x (assure_smallint y (Put (x AND y)))"

definition prim_bitor :: "oop \<Rightarrow> oop \<Rightarrow> prim_outcome" where
  "prim_bitor x y = assure_smallint x (assure_smallint y (Put (x OR y)))"

definition prim_bitxor :: "oop \<Rightarrow> oop \<Rightarrow> prim_outcome" where
  "prim_bitxor x y = assure_smallint x (assure_smallint y (Put ((x XOR y) OR SMALLINT_MASK)))"

definition prim_bitnot :: "oop \<Rightarrow> prim_outcome" where
  "prim_bitnot x = assure_smallint x (Put ((NOT x) OR SMALLINT_MASK))"

definition prim_plus :: "oop \<Rightarrow> oop \<Rightarrow> prim_outcome" where
  "prim_plus x y =
     (let z = wrap64 (object_to_smallint x + object_to_smallint y) in
      assure_smallint x (assure_smallint y
        (if smallint_fits_object z then Put (smallint_to_object z)
         else Sig SPECIAL_OOP_ADD_OVERFLOW [x, y])))"

definition prim_minus :: "oop \<Rightarrow> oop \<Rightarrow> prim_outcome" where
  "prim_minus x y =
     (let z = wrap64 (object_to_smallint x - object_to_smallint y) in
      assure_smallint x (assure_smallint y
        (if smallint_fits_object z then Put (smallint_to_object z)
         else Sig SPECIAL_OOP_SUBTRACT_OVERFLOW [x, y])))"

definition prim_times :: "oop \<Rightarrow> oop \<Rightarrow> prim_outcome" where
  "prim_times a0 a1 =
     (let x = object_to_smallint a0; y = object_to_smallint a1; z = wrap64 (x * y) in
      assure_smallint a0 (assure_smallint a1
        (if y \<noteq> 0 \<and> (z sdiv y \<noteq> x \<or> \<not> smallint_fits_object z)
         then Sig SPECIAL_OOP_MULTIPLY_OVERFLOW [a0, a1]
         else Put (smallint_to_object z))))"

definition prim_quo :: "oop \<Rightarrow> oop \<Rightarrow> prim_outcome" where
  "prim_quo x y =
     assure_smallint x (assure_smallint y
       (if object_to_smallint y = 0 then Sig SPECIAL_OOP_DIVIDE_BY_ZERO [x, y]
        else Put (smallint_to_object (object_to_smallint x sdiv object_to_smallint y))))"

text \<open>
  \<open>bits << shift\<close> with a shift of 64 or more only happens for \<open>bits = 0\<close>, where every
  implementation gives 0.
\<close>

definition prim_bitshift :: "oop \<Rightarrow> oop \<Rightarrow> prim_outcome" where
  "prim_bitshift a0 a1 =
     (let bits = object_to_smallint a0; shift = object_to_smallint a1 in
      assure_smallint a0 (assure_smallint a1
        (if shift \<ge> 0 then
           (if shift \<ge> 64 \<and> bits \<noteq> 0 then Sig SPECIAL_OOP_BIT_SHIFT_OVERFLOW [a0, a1]
            else let z = wrap64 (push_bit (nat shift) bits) in
              (if \<not> smallint_fits_object z \<or> drop_bit (nat shift) z \<noteq> bits
               then Sig SPECIAL_OOP_BIT_SHIFT_OVERFLOW [a0, a1]
               else Put (smallint_to_object z)))
         else if shift \<le> - 64 then Put (smallint_to_object (drop_bit 63 bits))
         else Put (smallint_to_object (drop_bit (nat (- shift)) bits)))))"

section \<open>Exactness of the arithmetic\<close>

lemma assure_smallint_ok [simp]: "object_is_smallint x \<Longrightarrow> assure_smallint x k = k"
  by (simp add: assure_smallint_def)

lemma assure_smallint_bad: "\<not> object_is_smallint x \<Longrightarrow> assure_smallint x k = Sig SPECIAL_OOP_TYPE_ERROR_ON [x]"
  by (simp add: assure_smallint_def)

lemma small_range_word: "small_range i \<Longrightarrow> is_word i"
  by (simp add: small_range_def is_word_def WORD_MIN_def WORD_MAX_def)

text \<open>
  The contract that addition and subtraction share: the exact result of the integers
  cannot leave 64 bits, so testing the wrapped word against the 63-bit range is exact.
\<close>

locale checked_arith =
  fixes f :: "int \<Rightarrow> int \<Rightarrow> int"
    and prim :: "oop \<Rightarrow> oop \<Rightarrow> prim_outcome"
    and overflow :: nat
  assumes fits_word: "small_range a \<Longrightarrow> small_range b \<Longrightarrow> is_word (f a b)"
    and prim_eq: "prim x y =
      assure_smallint x (assure_smallint y
        (if smallint_fits_object (wrap64 (f (object_to_smallint x) (object_to_smallint y)))
         then Put (smallint_to_object (wrap64 (f (object_to_smallint x) (object_to_smallint y))))
         else Sig overflow [x, y]))"
begin

lemma exact:
  assumes "small_range a" and "small_range b"
  shows "prim (smallint_to_object a) (smallint_to_object b) =
    (if small_range (f a b) then Put (smallint_to_object (f a b))
     else Sig overflow [smallint_to_object a, smallint_to_object b])"
proof -
  have "is_word (f a b)" using assms by (rule fits_word)
  with assms show ?thesis
    by (simp add: prim_eq tag_untag wrap64_word smallint_fits_iff)
qed

lemma type_error:
  "\<not> object_is_smallint x \<Longrightarrow> prim x y = Sig SPECIAL_OOP_TYPE_ERROR_ON [x]"
  "object_is_smallint x \<Longrightarrow> \<not> object_is_smallint y \<Longrightarrow> prim x y = Sig SPECIAL_OOP_TYPE_ERROR_ON [y]"
  by (simp_all add: prim_eq assure_smallint_bad)

end

interpretation plus: checked_arith "(+)" prim_plus SPECIAL_OOP_ADD_OVERFLOW
  by unfold_locales
    (auto simp: small_range_def is_word_def WORD_MIN_def WORD_MAX_def prim_plus_def Let_def)

interpretation minus: checked_arith "(-)" prim_minus SPECIAL_OOP_SUBTRACT_OVERFLOW
  by unfold_locales
    (auto simp: small_range_def is_word_def WORD_MIN_def WORD_MAX_def prim_minus_def Let_def)

subsection \<open>Multiplication\<close>

lemma sdiv_mult_smod: "(k::int) = (k sdiv l) * l + k smod l"
  by (metis sdiv_mult_smod_eq mult.commute)

lemma abs_smod_less: "(l::int) \<noteq> 0 \<Longrightarrow> \<bar>k smod l\<bar> < \<bar>l\<bar>"
  by (simp add: signed_modulo_int_def abs_mult)

lemma wrapped_product_test:
  assumes x: "small_range x" and y: "small_range y" "y \<noteq> 0"
    and eq: "wrap64 (x * y) sdiv y = x"
  shows "wrap64 (x * y) = x * y"
proof -
  define r where "r = wrap64 (x * y) smod y"
  have z: "wrap64 (x * y) = x * y + r"
    using sdiv_mult_smod [of "wrap64 (x * y)" y] eq by (simp add: r_def)
  with wrap64_diff_dvd [of "x * y"] have "2 ^ 64 dvd r" by simp
  then obtain k where k: "r = 2 ^ 64 * k" by (rule dvdE)
  have "\<bar>r\<bar> < \<bar>y\<bar>" unfolding r_def by (rule abs_smod_less) fact
  moreover have "\<bar>y\<bar> \<le> 2 ^ 62" using y(1) by (auto simp: small_range_def abs_le_iff)
  ultimately have "\<bar>2 ^ 64 * k\<bar> < 2 ^ 62" unfolding k by linarith
  then have "\<bar>k\<bar> < 1" by (simp add: abs_mult)
  then have "k = 0" by simp
  with k z show ?thesis by simp
qed


subsection \<open>Shifts\<close>

definition shift_value :: "int \<Rightarrow> int \<Rightarrow> int" where
  "shift_value b s = (if s \<ge> 0 then b * 2 ^ nat s else b div 2 ^ nat (- s))"

lemma left_shift_back:
  assumes "n < 64" and "drop_bit n (wrap64 (b * 2 ^ n)) = b"
  shows "wrap64 (b * 2 ^ n) = b * 2 ^ n"
proof -
  have "(2::int) ^ n dvd 2 ^ 64" using assms(1) by (intro le_imp_power_dvd) simp
  then have "2 ^ n dvd (wrap64 (b * 2 ^ n) - b * 2 ^ n)"
    using wrap64_diff_dvd dvd_trans by blast
  then have "2 ^ n dvd wrap64 (b * 2 ^ n)"
    by (metis dvd_diff_commute dvd_triv_right dvd_diffD1 diff_add_cancel dvd_add)
  then have "wrap64 (b * 2 ^ n) = (wrap64 (b * 2 ^ n) div 2 ^ n) * 2 ^ n" by simp
  with assms(2) show ?thesis by (simp add: drop_bit_eq_div)
qed

lemma div_big_power:
  assumes "- (2 ^ m) \<le> (b::int)" and "b < 2 ^ m" and "m \<le> n"
  shows "b div 2 ^ n = (if b < 0 then - 1 else 0)"
proof -
  have "(2::int) ^ m \<le> 2 ^ n" using assms(3) by simp
  then have "- (2 ^ n) \<le> b" "b < 2 ^ n" using assms(1,2) by linarith+
  moreover have "(b + 1 * 2 ^ n) div 2 ^ n = 1 + b div 2 ^ n" by (rule div_mult_self1) simp
  ultimately show ?thesis
    by (cases "b < 0") (auto simp: div_pos_pos_trivial)
qed

lemma right_shift_range: "small_range b \<Longrightarrow> small_range (b div 2 ^ n)"
  unfolding small_range_def
  by (smt (verit) div_by_1 int_div_less_self pos_imp_zdiv_neg_iff zdiv_mono2_neg zero_less_power
      div_pos_pos_trivial pos_imp_zdiv_nonneg_iff one_le_power zdiv_mono2)

lemma not_small_range: "2 ^ 64 \<le> \<bar>v\<bar> \<Longrightarrow> \<not> small_range v"
  by (auto simp: small_range_def abs_if split: if_splits)

text \<open>
  C20. A shift by any small integer returns the exact value (multiplication by a power of two,
  or the floor of the division) when it fits, and signals the overflow otherwise.
\<close>

theorem bitshift_exact:
  assumes b: "small_range b" and s: "small_range s"
  shows "prim_bitshift (smallint_to_object b) (smallint_to_object s) =
    (if small_range (shift_value b s) then Put (smallint_to_object (shift_value b s))
     else Sig SPECIAL_OOP_BIT_SHIFT_OVERFLOW [smallint_to_object b, smallint_to_object s])"
proof (cases "s \<ge> 0")
  case neg: False
  have "drop_bit 63 b = b div 2 ^ nat (- s)" if "s \<le> - 64"
  proof -
    have "64 \<le> nat (- s)" using that by linarith
    then have "b div 2 ^ nat (- s) = (if b < 0 then - 1 else 0)"
      using b unfolding small_range_def by (intro div_big_power [of 62]) auto
    moreover have "b div 2 ^ 63 = (if b < 0 then - 1 else 0)"
      using b unfolding small_range_def by (intro div_big_power [of 62]) auto
    ultimately show ?thesis by (simp add: drop_bit_eq_div)
  qed
  with neg b s show ?thesis
    by (simp add: prim_bitshift_def Let_def tag_untag shift_value_def right_shift_range)
      (simp add: drop_bit_eq_div)
next
  case pos: True
  define n where "n = nat s"
  have sv: "shift_value b s = b * 2 ^ n" using pos by (simp add: shift_value_def n_def)
  show ?thesis
  proof (cases "s \<ge> 64 \<and> b \<noteq> 0")
    case True
    have "(2::int) ^ 64 \<le> 2 ^ n" using True by (intro power_increasing) (auto simp: n_def)
    moreover have "1 * (2::int) ^ n \<le> \<bar>b\<bar> * 2 ^ n" using True by (intro mult_right_mono) auto
    ultimately have "2 ^ 64 \<le> \<bar>b\<bar> * 2 ^ n" by linarith
    then have "2 ^ 64 \<le> \<bar>b * 2 ^ n\<bar>" by (simp add: abs_mult)
    then have "\<not> small_range (shift_value b s)" unfolding sv by (rule not_small_range)
    with True pos b s show ?thesis by (simp add: prim_bitshift_def Let_def tag_untag)
  next
    case False
    let ?z = "wrap64 (b * 2 ^ n)"
    have test: "(smallint_fits_object ?z \<and> drop_bit n ?z = b) \<longleftrightarrow> small_range (b * 2 ^ n)"
    proof (cases "n < 64")
      case True
      show ?thesis
      proof
        assume "smallint_fits_object ?z \<and> drop_bit n ?z = b"
        then show "small_range (b * 2 ^ n)"
          using left_shift_back [OF True, of b] by (auto simp: smallint_fits_iff)
      next
        assume r: "small_range (b * 2 ^ n)"
        then have "?z = b * 2 ^ n" by (intro wrap64_word small_range_word)
        with r show "smallint_fits_object ?z \<and> drop_bit n ?z = b"
          by (simp add: smallint_fits_iff small_range_word drop_bit_eq_div)
      qed
    next
      case big: False
      with False have "b = 0" by (simp add: n_def)
      then show ?thesis
        by (simp add: wrap64_word is_word_def WORD_MIN_def WORD_MAX_def smallint_fits_iff small_range_def)
    qed
    have "?z = b * 2 ^ n" if "small_range (b * 2 ^ n)"
      using that by (intro wrap64_word small_range_word)
    with test False pos b s show ?thesis
      by (auto simp: prim_bitshift_def Let_def tag_untag sv push_bit_eq_mult n_def [symmetric])
  qed
qed

subsection \<open>Bitwise operations and quotient\<close>

lemma small_range_bits: "small_range i \<longleftrightarrow> (\<forall>n. bit i (min 62 n) = bit i n)"
proof -
  have "small_range i \<longleftrightarrow> signed_take_bit 62 i = i"
    by (simp add: small_range_def signed_take_bit_int_eq_self_iff)
  then show ?thesis by (simp add: bit_eq_iff bit_signed_take_bit_iff)
qed

lemma tag_bits: "small_range i \<Longrightarrow> smallint_to_object i = push_bit 1 i OR 1"
  by (simp add: smallint_to_object_eq push_bit_eq_mult even_or_one)

lemma bitwise_exact:
  assumes a: "small_range a" and b: "small_range b"
  shows "prim_bitand (smallint_to_object a) (smallint_to_object b) = Put (smallint_to_object (a AND b))"
    and "prim_bitor (smallint_to_object a) (smallint_to_object b) = Put (smallint_to_object (a OR b))"
    and "prim_bitxor (smallint_to_object a) (smallint_to_object b) = Put (smallint_to_object (a XOR b))"
    and "prim_bitnot (smallint_to_object a) = Put (smallint_to_object (NOT a))"
proof -
  have r: "small_range (a AND b)" "small_range (a OR b)" "small_range (a XOR b)" "small_range (NOT a)"
    using a b unfolding small_range_bits by (simp_all add: bit_simps)
  show "prim_bitand (smallint_to_object a) (smallint_to_object b) = Put (smallint_to_object (a AND b))"
    using a b r by (simp add: prim_bitand_def) (auto simp: tag_bits bit_eq_iff bit_simps)
  show "prim_bitor (smallint_to_object a) (smallint_to_object b) = Put (smallint_to_object (a OR b))"
    using a b r by (simp add: prim_bitor_def) (auto simp: tag_bits bit_eq_iff bit_simps)
  show "prim_bitxor (smallint_to_object a) (smallint_to_object b) = Put (smallint_to_object (a XOR b))"
    using a b r by (simp add: prim_bitxor_def SMALLINT_MASK_def) (auto simp: tag_bits bit_eq_iff bit_simps)
  show "prim_bitnot (smallint_to_object a) = Put (smallint_to_object (NOT a))"
    using a r by (simp add: prim_bitnot_def SMALLINT_MASK_def)
      (simp add: smallint_to_object_eq not_int_def even_or_one)
qed

lemma abs_sdiv_le:
  assumes "k \<le> \<bar>b\<bar>" "0 < k"
  shows "\<bar>(a::int) sdiv b\<bar> \<le> \<bar>a\<bar> div k"
proof -
  have "\<bar>a sdiv b\<bar> \<le> \<bar>a\<bar> div \<bar>b\<bar>"
    by (auto simp: signed_divide_int_def abs_mult abs_sgn_eq pos_imp_zdiv_nonneg_iff)
  also have "\<dots> \<le> \<bar>a\<bar> div k" using assms by (intro zdiv_mono2) auto
  finally show ?thesis .
qed

lemma quo_small_range:
  assumes "small_range a" "small_range b" "\<not> (a = - (2 ^ 62) \<and> b = - 1)"
  shows "small_range (a sdiv b)"
proof -
  have le: "\<bar>a sdiv b\<bar> \<le> \<bar>a\<bar>"
    using abs_sdiv_le [of 1 b a] by (cases "b = 0") auto
  show ?thesis
  proof (cases "a = - (2 ^ 62)")
    case False
    with assms(1) have "\<bar>a\<bar> < 2 ^ 62" by (auto simp: small_range_def abs_less_iff)
    with le have "\<bar>a sdiv b\<bar> < 2 ^ 62" by linarith
    then show ?thesis by (auto simp: small_range_def abs_less_iff)
  next
    case True
    with assms(3) consider "b = 0" | "b = 1" | "2 \<le> \<bar>b\<bar>" by linarith
    then show ?thesis
    proof cases
      case 3
      then have "\<bar>a sdiv b\<bar> \<le> 2 ^ 61" using abs_sdiv_le [of 2 b a] True by simp
      then show ?thesis by (auto simp: small_range_def abs_le_iff)
    qed (use True in \<open>simp_all add: small_range_def signed_divide_int_def\<close>)
  qed
qed

section \<open>Properties\<close>

text \<open>
  C17. Addition and subtraction of small integers are exact: the primitive returns the exact
  result when it fits 63 bits, and otherwise signals the overflow with both operands.
\<close>

theorem plus_minus_exact:
  assumes "small_range a" and "small_range b"
  shows "prim_plus (smallint_to_object a) (smallint_to_object b) =
      (if small_range (a + b) then Put (smallint_to_object (a + b))
       else Sig SPECIAL_OOP_ADD_OVERFLOW [smallint_to_object a, smallint_to_object b]) \<and>
    prim_minus (smallint_to_object a) (smallint_to_object b) =
      (if small_range (a - b) then Put (smallint_to_object (a - b))
       else Sig SPECIAL_OOP_SUBTRACT_OVERFLOW [smallint_to_object a, smallint_to_object b])"
  using plus.exact [OF assms] minus.exact [OF assms] by blast

theorem plus_minus_exact_witness:
  "prim_plus (smallint_to_object (2 ^ 62 - 1)) (smallint_to_object 1)
      = Sig SPECIAL_OOP_ADD_OVERFLOW [smallint_to_object (2 ^ 62 - 1), smallint_to_object 1] \<and>
    prim_minus (smallint_to_object (2 ^ 62 - 1)) (smallint_to_object 1) = Put (smallint_to_object (2 ^ 62 - 2))"
  using plus_minus_exact [of "2 ^ 62 - 1" 1] by (simp add: small_range_def)


theorem bitshift_exact_witness:
  "prim_bitshift (smallint_to_object 5) (smallint_to_object 3) = Put (smallint_to_object 40) \<and>
    prim_bitshift (smallint_to_object (-5)) (smallint_to_object (-1)) = Put (smallint_to_object (-3))"
  using bitshift_exact [of 5 3] bitshift_exact [of "-5" "-1"] by (simp add: small_range_def shift_value_def)

text \<open>
  The bitwise primitives work on the tagged words and yet compute the operation on the
  integers: the tag bit never leaks into the result.
\<close>

theorem bitwise_primitives_exact:
  assumes "small_range a" and "small_range b"
  shows "prim_bitand (smallint_to_object a) (smallint_to_object b) = Put (smallint_to_object (a AND b)) \<and>
    prim_bitor (smallint_to_object a) (smallint_to_object b) = Put (smallint_to_object (a OR b)) \<and>
    prim_bitxor (smallint_to_object a) (smallint_to_object b) = Put (smallint_to_object (a XOR b)) \<and>
    prim_bitnot (smallint_to_object a) = Put (smallint_to_object (NOT a))"
  using bitwise_exact [OF assms] by blast

theorem bitwise_primitives_exact_witness:
  "prim_bitxor (smallint_to_object 6) (smallint_to_object (-3)) = Put (smallint_to_object (-5)) \<and>
    prim_bitnot (smallint_to_object 6) = Put (smallint_to_object (-7))"
  using bitwise_primitives_exact [of 6 "-3"] by (simp add: small_range_def)

text \<open>
  C21. The quotient truncates towards zero and signals a division by zero; its result fits 63 bits
  except for the least small integer divided by -1, which wraps to itself without a signal.
\<close>

theorem quo_exact:
  assumes "small_range a" and "small_range b"
  shows "prim_quo (smallint_to_object a) (smallint_to_object b) =
      (if b = 0 then Sig SPECIAL_OOP_DIVIDE_BY_ZERO [smallint_to_object a, smallint_to_object b]
       else Put (smallint_to_object (if a = - (2 ^ 62) \<and> b = - 1 then a else a sdiv b)))
    \<and> (\<not> (a = - (2 ^ 62) \<and> b = - 1) \<longrightarrow> small_range (a sdiv b))"
proof -
  have "smallint_to_object ((- (2 ^ 62)) sdiv (- 1)) = smallint_to_object (- (2 ^ 62))"
    by code_simp
  with assms quo_small_range [OF assms] show ?thesis
    by (auto simp: prim_quo_def tag_untag)
qed

theorem quo_exact_witness:
  "prim_quo (smallint_to_object (-7)) (smallint_to_object 2) = Put (smallint_to_object (-3)) \<and>
    prim_quo (smallint_to_object (- (2 ^ 62))) (smallint_to_object (-1)) = Put (smallint_to_object (- (2 ^ 62)))"
  using quo_exact [of "-7" 2] quo_exact [of "- (2 ^ 62)" "-1"]
  by (simp add: small_range_def signed_divide_int_def)

end
