(* ===== verification/ObjectModel.thy ===== *)
theory ObjectModel
  imports SmallInt
begin

text \<open>
  The object memory of the VM, with the layout of slate.hpp.

  Memory is a map from object addresses to blocks of 64-bit words: \<open>rd m o k\<close> is the
  word at byte offset \<open>8 * k\<close> of the object at address \<open>o\<close>. The first four words are
  the C header of \<open>struct Object\<close>: \<open>header\<close> (mark bit, identity hash, pin count, format),
  \<open>objectSize\<close> in words, \<open>payloadSize\<close> in bytes, \<open>map\<close>; the slots follow, then the payload
  of an array. A struct field of slate.hpp is the word with its offset. Blocks at
  different addresses do not overlap as long as the spaces are partitioned into
  objects (the invariant \<open>chunks\<close> of theory Spaces), so writing one object never
  changes another.
\<close>

section \<open>Blocks of words\<close>

type_synonym mem = "addr \<Rightarrow> nat \<Rightarrow> word_t"

definition rd :: "mem \<Rightarrow> addr \<Rightarrow> nat \<Rightarrow> word_t" where
  "rd m p k = m p k"

definition wr :: "mem \<Rightarrow> addr \<Rightarrow> nat \<Rightarrow> word_t \<Rightarrow> mem" where
  "wr m p k v = m(p := (m p)(k := v))"

lemma rd_wr [simp, vm_simps]:
  "rd (wr m p k v) q j = (if p = q \<and> k = j then v else rd m q j)"
  by (simp add: rd_def wr_def)

lemma wr_block [simp]: "p \<noteq> q \<Longrightarrow> wr m p k v q = m q"
  by (simp add: wr_def)

lemma rd_block_cong: "m p = m' p \<Longrightarrow> rd m p k = rd m' p k"
  by (simp add: rd_def)

text \<open>\<open>copy_words_into\<close> (misc.cpp): \<open>n\<close> words from one object to another (\<open>memcpy\<close>).\<close>

definition copy_words_into :: "mem \<Rightarrow> addr \<Rightarrow> nat \<Rightarrow> nat \<Rightarrow> addr \<Rightarrow> nat \<Rightarrow> mem" where
  "copy_words_into m src soff n dst doff =
     m(dst := (\<lambda>k. if doff \<le> k \<and> k < doff + n then rd m src (soff + (k - doff)) else rd m dst k))"

text \<open>\<open>fill_words_with\<close> (misc.cpp).\<close>

definition fill_words_with :: "mem \<Rightarrow> addr \<Rightarrow> nat \<Rightarrow> nat \<Rightarrow> word_t \<Rightarrow> mem" where
  "fill_words_with m dst doff n v =
     m(dst := (\<lambda>k. if doff \<le> k \<and> k < doff + n then v else rd m dst k))"

lemma rd_copy [simp, vm_simps]:
  "rd (copy_words_into m src soff n dst doff) q k =
     (if q = dst \<and> doff \<le> k \<and> k < doff + n then rd m src (soff + (k - doff)) else rd m q k)"
  by (simp add: copy_words_into_def rd_def)

lemma rd_fill [simp, vm_simps]:
  "rd (fill_words_with m dst doff n v) q k =
     (if q = dst \<and> doff \<le> k \<and> k < doff + n then v else rd m q k)"
  by (simp add: fill_words_with_def rd_def)

section \<open>Header fields (inline.hpp, object.cpp)\<close>

abbreviation (input) HEADER :: nat where "HEADER \<equiv> 0"
abbreviation (input) OBJECT_SIZE :: nat where "OBJECT_SIZE \<equiv> 1"
abbreviation (input) PAYLOAD_SIZE :: nat where "PAYLOAD_SIZE \<equiv> 2"
abbreviation (input) MAP :: nat where "MAP \<equiv> 3"

text \<open>Bit-field arithmetic on the header word itself.\<close>

definition hdr_markbit :: "word_t \<Rightarrow> word_t" where "hdr_markbit h = h AND MARK_MASK"
definition hdr_hash :: "word_t \<Rightarrow> word_t" where "hdr_hash h = drop_bit 1 h AND ID_HASH_MAX"
definition hdr_pins :: "word_t \<Rightarrow> word_t" where "hdr_pins h = drop_bit PINNED_OFFSET h AND PINNED_MASK"
definition hdr_type :: "word_t \<Rightarrow> word_t" where "hdr_type h = drop_bit 30 h AND 3"

definition hdr_set_markbit :: "word_t \<Rightarrow> word_t \<Rightarrow> word_t" where
  "hdr_set_markbit h v = (h AND NOT MARK_MASK) OR (v AND MARK_MASK)"

definition hdr_set_hash :: "word_t \<Rightarrow> word_t \<Rightarrow> word_t" where
  "hdr_set_hash h v = (h AND NOT (push_bit 1 ID_HASH_MAX)) OR push_bit 1 (v AND ID_HASH_MAX)"

definition hdr_set_pins :: "word_t \<Rightarrow> word_t \<Rightarrow> word_t" where
  "hdr_set_pins h v = (h AND NOT (push_bit PINNED_OFFSET PINNED_MASK)) OR push_bit PINNED_OFFSET v"

text \<open>
  \<open>3<<30\<close> is an \<open>int\<close> with the sign bit set; its complement is the positive
  \<open>0x3FFFFFFF\<close>, so the source's mask also clears the upper half of the word.
\<close>

definition hdr_set_type :: "word_t \<Rightarrow> word_t \<Rightarrow> word_t" where
  "hdr_set_type h v = (h AND 0x3FFFFFFF) OR push_bit 30 (v AND 3)"

lemma mask_consts:
  "MARK_MASK = mask 1" "ID_HASH_MAX = mask 23" "PINNED_MASK = mask 6"
  "(3::int) = mask 2" "(0x3FFFFFFF::int) = mask 30" "PINNED_OFFSET = 24"
  by (simp_all add: header_consts mask_eq_exp_minus_1)

lemma bit_hdr:
  "bit (hdr_markbit h) n \<longleftrightarrow> n < 1 \<and> bit h n"
  "bit (hdr_hash h) n \<longleftrightarrow> n < 23 \<and> bit h (n + 1)"
  "bit (hdr_pins h) n \<longleftrightarrow> n < 6 \<and> bit h (n + 24)"
  "bit (hdr_type h) n \<longleftrightarrow> n < 2 \<and> bit h (n + 30)"
  unfolding hdr_markbit_def hdr_hash_def hdr_pins_def hdr_type_def mask_consts
  by (auto simp: bit_simps add.commute)

lemma bit_hdr_set:
  "bit (hdr_set_markbit h v) n \<longleftrightarrow> (if n < 1 then bit v n else bit h n)"
  "bit (hdr_set_hash h v) n \<longleftrightarrow> (if 1 \<le> n \<and> n < 24 then bit v (n - 1) else bit h n)"
  "bit (hdr_set_type h v) n \<longleftrightarrow> (if 30 \<le> n then n < 32 \<and> bit v (n - 30) else bit h n)"
  unfolding hdr_set_markbit_def hdr_set_hash_def hdr_set_type_def mask_consts
  by (auto simp: bit_simps simp del: push_bit_Suc One_nat_def)

lemma bit_hdr_set_pins:
  assumes "0 \<le> v" and "v \<le> PINNED_MASK"
  shows "bit (hdr_set_pins h v) n \<longleftrightarrow> (if 24 \<le> n \<and> n < 30 then bit v (n - 24) else bit h n)"
proof -
  have "v = take_bit 6 v"
    using assms by (intro sym [OF take_bit_int_eq_self]) (simp_all add: header_consts)
  then have v: "bit v k \<Longrightarrow> k < 6" for k
    by (metis bit_take_bit_iff)
  show ?thesis
    unfolding hdr_set_pins_def mask_consts
    by (auto simp: bit_simps simp del: push_bit_Suc dest: v)
qed

text \<open>Each setter changes its own field only, and a getter reads back what was set.\<close>

lemma hdr_get_set_mark [simp]:
  "hdr_markbit (hdr_set_markbit h v) = v AND 1"
  "hdr_hash (hdr_set_markbit h v) = hdr_hash h"
  "hdr_pins (hdr_set_markbit h v) = hdr_pins h"
  "hdr_type (hdr_set_markbit h v) = hdr_type h"
  by (rule bit_eqI, auto simp: bit_hdr bit_hdr_set bit_simps)+

lemma hdr_get_set_hash [simp]:
  "hdr_markbit (hdr_set_hash h v) = hdr_markbit h"
  "hdr_hash (hdr_set_hash h v) = v AND ID_HASH_MAX"
  "hdr_pins (hdr_set_hash h v) = hdr_pins h"
  "hdr_type (hdr_set_hash h v) = hdr_type h"
  unfolding mask_consts by (rule bit_eqI, auto simp: bit_hdr bit_hdr_set bit_simps)+

lemma hdr_get_set_type [simp]:
  "hdr_markbit (hdr_set_type h v) = hdr_markbit h"
  "hdr_hash (hdr_set_type h v) = hdr_hash h"
  "hdr_pins (hdr_set_type h v) = hdr_pins h"
  "hdr_type (hdr_set_type h v) = v AND 3"
  unfolding mask_consts by (rule bit_eqI, auto simp: bit_hdr bit_hdr_set bit_simps)+

lemma hdr_get_set_pins:
  assumes "0 \<le> v" and "v \<le> PINNED_MASK"
  shows "hdr_markbit (hdr_set_pins h v) = hdr_markbit h"
    and "hdr_hash (hdr_set_pins h v) = hdr_hash h"
    and "hdr_pins (hdr_set_pins h v) = v"
    and "hdr_type (hdr_set_pins h v) = hdr_type h"
proof -
  note b = bit_hdr_set_pins [OF assms, of h]
  have "take_bit 6 v = v"
    using assms by (intro take_bit_int_eq_self) (simp_all add: header_consts)
  then have v: "bit v k \<Longrightarrow> k < 6" for k by (metis bit_take_bit_iff)
  show "hdr_markbit (hdr_set_pins h v) = hdr_markbit h" "hdr_hash (hdr_set_pins h v) = hdr_hash h"
    "hdr_type (hdr_set_pins h v) = hdr_type h"
    by (rule bit_eqI, auto simp: bit_hdr b)+
  show "hdr_pins (hdr_set_pins h v) = v"
    by (rule bit_eqI) (auto simp: bit_hdr b dest: v)
qed

lemma hdr_zero_pins: "h AND NOT (push_bit PINNED_OFFSET PINNED_MASK) = hdr_set_pins h 0"
  by (simp add: hdr_set_pins_def)

lemma hdr_ranges:
  "0 \<le> hdr_markbit h" "hdr_markbit h \<le> 1"
  "0 \<le> hdr_hash h" "hdr_hash h \<le> ID_HASH_MAX"
  "0 \<le> hdr_pins h" "hdr_pins h \<le> PINNED_MASK"
  "0 \<le> hdr_type h" "hdr_type h \<le> 3"
  unfolding hdr_markbit_def hdr_hash_def hdr_pins_def hdr_type_def
  by (simp_all add: header_consts AND_upper2)

lemma mask_hash_id: "0 \<le> v \<Longrightarrow> v \<le> ID_HASH_MAX \<Longrightarrow> v AND ID_HASH_MAX = v"
  by (simp add: mask_consts(2) take_bit_eq_mask [symmetric] take_bit_int_eq_self_iff)
    (simp add: mask_eq_exp_minus_1)

lemma mark_and: "c = 0 \<or> c = 1 \<Longrightarrow> c AND 1 = (c::int)" "c = 0 \<or> c = 1 \<Longrightarrow> NOT c AND 1 = 1 - (c::int)"
  by auto

end
