(* ===== verification/Profiler.thy ===== *)
theory Profiler
  imports Prelude "HOL-Library.AList_Mapping"
begin

text \<open>
  The sampling of calls of profiler.cpp: call counts, self times and child times per
  method, and the stack of calls that are open. \<open>std::map\<close> is a \<open>mapping\<close>, iterated in the order of its keys, the addresses; \<open>std::set\<close>
  is a set; the two vectors are lists with their back first. The clock is a parameter. Reading the back of an empty vector is
  undefined in C++; here it is \<open>None\<close>.
\<close>

section \<open>State\<close>

record profiler_state =
  currentlyProfiling :: bool
  profilerTimeStart :: int
  profilerTime :: int
  profilerLastTime :: int
  profiledMethods :: "oop set"
  profilerCallCounts :: "(oop, word_t) mapping"
  profilerSelfTime :: "(oop, word_t) mapping"
  profilerChildCallCount :: "(oop, (oop, word_t) mapping) mapping"
  profilerChildCallTime :: "(oop, (oop, word_t) mapping) mapping"
  profilerCallStack :: "oop list"
  profilerCallStackTimes :: "word_t list"

text \<open>\<open>m[k]\<close> of a \<open>std::map\<close>: a missing key reads as 0, or as an empty inner map.\<close>

definition at_key :: "('k, word_t) mapping \<Rightarrow> 'k \<Rightarrow> word_t" where
  "at_key m k = Mapping.lookup_default 0 m k"

definition at_inner :: "('k, ('l, word_t) mapping) mapping \<Rightarrow> 'k \<Rightarrow> ('l, word_t) mapping" where
  "at_inner m k = Mapping.lookup_default Mapping.empty m k"

definition add_at :: "('k, word_t) mapping \<Rightarrow> 'k \<Rightarrow> word_t \<Rightarrow> ('k, word_t) mapping" where
  "add_at m k d = Mapping.update k (at_key m k + d) m"

section \<open>Operations\<close>

definition profiler_start :: "profiler_state \<Rightarrow> int \<Rightarrow> profiler_state" where
  "profiler_start p now = p\<lparr>
     currentlyProfiling := True, profilerTimeStart := now, profilerTime := now, profilerLastTime := now,
     profiledMethods := {}, profilerCallCounts := Mapping.empty, profilerSelfTime := Mapping.empty,
     profilerChildCallCount := Mapping.empty, profilerChildCallTime := Mapping.empty,
     profilerCallStack := [], profilerCallStackTimes := []\<rparr>"

definition profiler_stop :: "profiler_state \<Rightarrow> profiler_state" where
  "profiler_stop p = p\<lparr>currentlyProfiling := False\<rparr>"

text \<open>What the parent is told about a finished child: both maps have the same shape of update.\<close>

definition tell_parent ::
  "(oop, (oop, word_t) mapping) mapping \<Rightarrow> oop \<Rightarrow> oop \<Rightarrow> word_t \<Rightarrow> (oop, (oop, word_t) mapping) mapping" where
  "tell_parent m parent child d =
     (case Mapping.lookup m parent of
        None \<Rightarrow> Mapping.update parent (Mapping.update child d (at_inner m parent)) m
      | Some inner \<Rightarrow> Mapping.update parent (add_at inner child d) m)"

text \<open>
  The loop of a return: pop calls until the method returned from is popped. The times
  vector is as long as the stack in every run; popping it when empty is \<open>None\<close> too.
\<close>

fun unwind :: "profiler_state \<Rightarrow> oop \<Rightarrow> oop list \<Rightarrow> word_t list \<Rightarrow> profiler_state option" where
  "unwind p fromMethod (callMethod # stack) (callStartTime # starts) =
     (case stack of
        [] \<Rightarrow> None
      | parent # _ \<Rightarrow>
          let p' = p\<lparr>
            profilerCallStack := stack, profilerCallStackTimes := starts,
            profilerChildCallTime := tell_parent (profilerChildCallTime p) parent callMethod (profilerTime p - callStartTime),
            profilerChildCallCount := tell_parent (profilerChildCallCount p) parent callMethod 1\<rparr>
          in if callMethod \<noteq> fromMethod then unwind p' fromMethod stack starts else Some p')"
| "unwind p fromMethod _ _ = None"

definition profiler_enter_method :: "profiler_state \<Rightarrow> int \<Rightarrow> oop \<Rightarrow> oop \<Rightarrow> bool \<Rightarrow> profiler_state option" where
  "profiler_enter_method p now fromMethod toMethod push =
     (if \<not> currentlyProfiling p then Some p
      else let timeDiff = now - profilerLastTime p;
               p = p\<lparr>profilerTime := now,
                     profiledMethods := insert toMethod (profiledMethods p),
                     profilerSelfTime := add_at (profilerSelfTime p) fromMethod timeDiff\<rparr>
        in do {
          p \<leftarrow> if push then
              Some (p\<lparr>profilerCallCounts := add_at (profilerCallCounts p) toMethod 1,
                      profilerCallStack := toMethod # profilerCallStack p,
                      profilerCallStackTimes := profilerTime p # profilerCallStackTimes p\<rparr>)
            else unwind p fromMethod (profilerCallStack p) (profilerCallStackTimes p);
          Some (p\<lparr>profilerLastTime := profilerTime p\<rparr>) })"

definition move_key :: "('k, word_t) mapping \<Rightarrow> 'k \<Rightarrow> 'k \<Rightarrow> ('k, word_t) mapping" where
  "move_key m from to = Mapping.delete from (Mapping.update to (at_key m from) m)"

definition move_child :: "oop \<Rightarrow> oop \<Rightarrow> (oop, word_t) mapping \<Rightarrow> (oop, word_t) mapping" where
  "move_child from to inner = (if Mapping.lookup inner from = None then inner else move_key inner from to)"

definition profiler_notice_forwarded_object :: "profiler_state \<Rightarrow> oop \<Rightarrow> oop \<Rightarrow> profiler_state" where
  "profiler_notice_forwarded_object p from to =
     (if \<not> currentlyProfiling p \<or> from \<notin> profiledMethods p then p
      else p\<lparr>
        profiledMethods := insert to (profiledMethods p - {from}),
        profilerSelfTime := move_key (profilerSelfTime p) from to,
        profilerCallCounts := move_key (profilerCallCounts p) from to,
        profilerChildCallCount := Mapping.map_values (\<lambda>_. move_child from to) (profilerChildCallCount p),
        profilerChildCallTime := Mapping.map_values (\<lambda>_. move_child from to) (profilerChildCallTime p),
        profilerCallStack := map (\<lambda>m. if m = from then to else m) (profilerCallStack p)\<rparr>)"

definition profiler_delete_method :: "profiler_state \<Rightarrow> oop \<Rightarrow> oop \<Rightarrow> profiler_state" where
  "profiler_delete_method p nil method =
     (if \<not> currentlyProfiling p then p
      else p\<lparr>
        profiledMethods := profiledMethods p - {method},
        profilerSelfTime := Mapping.delete method (profilerSelfTime p),
        profilerCallCounts := Mapping.delete method (profilerCallCounts p),
        profilerChildCallCount := Mapping.map_values (\<lambda>_. Mapping.delete method) (profilerChildCallCount p),
        profilerChildCallTime := Mapping.map_values (\<lambda>_. Mapping.delete method) (profilerChildCallTime p),
        profilerCallStack := map (\<lambda>m. if m = method then nil else m) (profilerCallStack p)\<rparr>)"

section \<open>Conservation of time\<close>

definition total :: "('k, word_t) mapping \<Rightarrow> word_t" where
  "total m = (\<Sum>k\<in>Mapping.keys m. at_key m k)"

lemma at_key_empty [simp]: "at_key Mapping.empty k = 0"
  by (simp add: at_key_def lookup_default_empty)

lemma at_key_update [simp]: "at_key (Mapping.update k v m) j = (if j = k then v else at_key m j)"
  by (simp add: at_key_def lookup_default_update')

lemma at_key_delete [simp]: "at_key (Mapping.delete k m) j = (if j = k then 0 else at_key m j)"
  by (simp add: at_key_def Mapping.lookup_default_def lookup_delete)

lemma at_key_none: "k \<notin> Mapping.keys m \<Longrightarrow> at_key m k = 0"
  by (simp add: at_key_def Mapping.lookup_default_def keys_dom_lookup domIff)

lemma total_empty [simp]: "total Mapping.empty = 0"
  by (simp add: total_def)

lemma total_others:
  assumes "finite (Mapping.keys m)"
  shows "(\<Sum>j\<in>Mapping.keys m - {k}. at_key m j) = total m - at_key m k"
  using assms by (cases "k \<in> Mapping.keys m") (simp_all add: total_def sum_diff1 at_key_none)

lemma total_update:
  assumes "finite (Mapping.keys m)"
  shows "total (Mapping.update k v m) = total m - at_key m k + v"
proof -
  have "total (Mapping.update k v m) = v + (\<Sum>j\<in>Mapping.keys m - {k}. at_key m j)"
    using assms by (simp add: total_def sum.insert_remove)
  then show ?thesis by (simp add: total_others [OF assms])
qed

lemma total_delete:
  assumes "finite (Mapping.keys m)"
  shows "total (Mapping.delete k m) = total m - at_key m k"
proof -
  have "total (Mapping.delete k m) = (\<Sum>j\<in>Mapping.keys m - {k}. at_key m j)"
    by (simp add: total_def)
  then show ?thesis by (simp add: total_others [OF assms])
qed

lemma total_add_at: "finite (Mapping.keys m) \<Longrightarrow> total (add_at m k d) = total m + d"
  by (simp add: add_at_def total_update)

lemma total_move_key:
  "finite (Mapping.keys m) \<Longrightarrow> from \<noteq> to \<Longrightarrow> to \<notin> Mapping.keys m \<Longrightarrow> total (move_key m from to) = total m"
  by (simp add: move_key_def total_delete total_update at_key_none)

lemma unwind_frame:
  "unwind p f st ts = Some p' \<Longrightarrow>
   profilerSelfTime p' = profilerSelfTime p \<and> profilerTime p' = profilerTime p \<and>
   profilerTimeStart p' = profilerTimeStart p \<and> currentlyProfiling p' = currentlyProfiling p \<and>
   profiledMethods p' = profiledMethods p \<and> profilerCallCounts p' = profilerCallCounts p"
  by (induction p f st ts rule: unwind.induct) (auto split: list.splits if_splits simp: Let_def)

text \<open>Returning pops exactly down to and including the innermost open call of the method.\<close>

lemma unwind_stack:
  "unwind p f st ts = Some p' \<Longrightarrow>
   \<exists>inner starts. st = inner @ f # profilerCallStack p' \<and> f \<notin> set inner \<and>
     ts = starts @ profilerCallStackTimes p' \<and> length starts = Suc (length inner)"
proof (induction p f st ts rule: unwind.induct)
  case (1 p f m st t ts)
  show ?case
  proof (cases "m = f")
    case True
    with 1(2) show ?thesis
      by (intro exI [of _ "[]"] exI [of _ "[t]"]) (auto split: list.splits)
  next
    case False
    from 1(2) False obtain parent rest where st: "st = parent # rest" by (auto split: list.splits)
    from 1(1) [OF st refl False] 1(2) False st
    obtain inner starts where "st = inner @ f # profilerCallStack p'" "f \<notin> set inner"
      "ts = starts @ profilerCallStackTimes p'" "length starts = Suc (length inner)"
      by (auto simp: Let_def)
    with False show ?thesis by (intro exI [of _ "m # inner"] exI [of _ "t # starts"]) simp
  qed
qed simp_all

lemma enter_method_time:
  assumes "profiler_enter_method p now from to push = Some p'" "currentlyProfiling p"
    and "finite (Mapping.keys (profilerSelfTime p))"
  shows "total (profilerSelfTime p') = total (profilerSelfTime p) + (now - profilerLastTime p)"
    and "profilerLastTime p' = now" and "finite (Mapping.keys (profilerSelfTime p'))"
    and "profilerTimeStart p' = profilerTimeStart p" and "currentlyProfiling p'"
  using assms
  by (auto simp: profiler_enter_method_def Let_def Option.bind_eq_Some_conv total_add_at
      split: if_splits dest!: unwind_frame) (simp_all add: add_at_def)

text \<open>
  The invariant of a run: every tick between the start and the last event is booked as
  self time of some method.
\<close>

definition time_booked :: "profiler_state \<Rightarrow> bool" where
  "time_booked p \<longleftrightarrow> finite (Mapping.keys (profilerSelfTime p)) \<and>
     total (profilerSelfTime p) = profilerLastTime p - profilerTimeStart p"

lemma time_booked_start: "time_booked (profiler_start p now)"
  by (simp add: time_booked_def profiler_start_def)

lemma time_booked_enter:
  assumes "time_booked p" and "profiler_enter_method p now from to push = Some p'"
  shows "time_booked p'"
proof (cases "currentlyProfiling p")
  case True
  with assms enter_method_time [OF assms(2) True] show ?thesis by (simp add: time_booked_def)
qed (use assms in \<open>simp add: profiler_enter_method_def\<close>)

lemma time_booked_forward:
  assumes "time_booked p" "from \<noteq> to" "to \<notin> Mapping.keys (profilerSelfTime p)"
  shows "time_booked (profiler_notice_forwarded_object p from to)"
  using assms by (auto simp: time_booked_def profiler_notice_forwarded_object_def total_move_key)
    (simp add: move_key_def)

text \<open>Events of a run of the profiler, and the states it can reach.\<close>

datatype profiler_event = Enter int oop oop bool | Forwarded oop oop

inductive profiler_step :: "profiler_state \<Rightarrow> profiler_event \<Rightarrow> profiler_state \<Rightarrow> bool" where
  enter: "profiler_enter_method p now from to push = Some p' \<Longrightarrow> profiler_step p (Enter now from to push) p'"
| forwarded: "from \<noteq> to \<Longrightarrow> to \<notin> Mapping.keys (profilerSelfTime p) \<Longrightarrow>
    profiler_step p (Forwarded from to) (profiler_notice_forwarded_object p from to)"

inductive_cases enterE: "profiler_step p (Enter now from to push) p'"
inductive_cases forwardedE: "profiler_step p (Forwarded from to) p'"

inductive profiler_run :: "profiler_state \<Rightarrow> profiler_event list \<Rightarrow> profiler_state \<Rightarrow> bool" where
  run_nil: "profiler_run p [] p"
| run_cons: "profiler_step p e q \<Longrightarrow> profiler_run q es r \<Longrightarrow> profiler_run p (e # es) r"

lemma step_time_booked: "profiler_step p e q \<Longrightarrow> time_booked p \<Longrightarrow> time_booked q"
  by (cases e) (auto elim!: enterE forwardedE intro: time_booked_enter time_booked_forward)

lemma run_time_booked: "profiler_run p es q \<Longrightarrow> time_booked p \<Longrightarrow> time_booked q"
  by (induction rule: profiler_run.induct) (auto intro: step_time_booked)

section \<open>Properties\<close>


end
