(* ===== verification/Handles.thy ===== *)
theory Handles
  imports Prelude
begin

text \<open>
  Tables of handles. The VM gives the image small integers for memory areas, files,
  directories and address lookups; each module keeps an array and looks for its first
  free entry. \<open>handle_table\<close> is the contract of that search, which the modules below
  satisfy.
\<close>

definition first_free :: "(int \<Rightarrow> bool) \<Rightarrow> int \<Rightarrow> int option" where
  "first_free used n = List.find (\<lambda>h. \<not> used h) [0..n - 1]"

lemma first_free_SomeD: "first_free used n = Some h \<Longrightarrow> 0 \<le> h \<and> h < n \<and> \<not> used h \<and> (\<forall>g. 0 \<le> g \<and> g < h \<longrightarrow> used g)"
proof -
  assume "first_free used n = Some h"
  then obtain i where i: "i < length [0..n - 1]" "\<not> used ([0..n - 1] ! i)" "h = [0..n - 1] ! i"
    "\<forall>j<i. used ([0..n - 1] ! j)"
    by (auto simp: first_free_def find_Some_iff)
  then have h: "h = int i" "int i < n" by (auto simp: nth_upto)
  moreover have "used g" if "0 \<le> g" "g < h" for g
  proof -
    have "nat g < i" "[0..n - 1] ! nat g = g" using that h by (auto simp: nth_upto)
    with i(4) show ?thesis by metis
  qed
  ultimately show ?thesis using i(2,3) by auto
qed

lemma first_free_None_iff: "first_free used n = None \<longleftrightarrow> (\<forall>h. 0 \<le> h \<and> h < n \<longrightarrow> used h)"
  by (auto simp: first_free_def find_None_iff)

lemma first_free_0: "0 < n \<Longrightarrow> \<not> used 0 \<Longrightarrow> first_free used n = Some 0"
  by (simp add: first_free_def upto_rec1)

text \<open>
  \<open>used\<close> says which handles are open, \<open>limit\<close> how many entries the table has; \<open>allocate\<close>
  answers a handle, or a negative number, and the table, which may have grown.
\<close>

locale handle_table =
  fixes used :: "'s \<Rightarrow> int \<Rightarrow> bool"
    and limit :: "'s \<Rightarrow> int"
    and allocate :: "'s \<Rightarrow> int \<times> 's"
    and well_formed :: "'s \<Rightarrow> bool"
  assumes used_range: "well_formed s \<Longrightarrow> used s h \<Longrightarrow> 0 \<le> h \<and> h < limit s"
    and allocate_fresh: "well_formed s \<Longrightarrow> allocate s = (h, s') \<Longrightarrow> 0 \<le> h \<Longrightarrow> h < limit s' \<and> \<not> used s' h"
    and allocate_keeps: "well_formed s \<Longrightarrow> allocate s = (h, s') \<Longrightarrow> used s' g = used s g"
    and allocate_full: "well_formed s \<Longrightarrow> allocate s = (h, s') \<Longrightarrow> h < 0 \<Longrightarrow> 0 \<le> g \<Longrightarrow> g < limit s \<Longrightarrow> used s g"
begin

lemma finite_used: "well_formed s \<Longrightarrow> finite {h. used s h}"
  by (rule finite_subset [of _ "{0..<limit s}"]) (auto dest: used_range)

lemma not_handed_out_twice:
  "well_formed s \<Longrightarrow> allocate s = (h, s') \<Longrightarrow> 0 \<le> h \<Longrightarrow> \<not> used s h"
  using allocate_fresh allocate_keeps by blast

text \<open>As long as fewer handles are open than the table has entries, a handle is found.\<close>

lemma room_gives_handle:
  assumes "well_formed s" "allocate s = (h, s')" "card {g. used s g} < nat (limit s)"
  shows "0 \<le> h"
proof (rule ccontr)
  assume "\<not> 0 \<le> h"
  then have "{0..<limit s} \<subseteq> {g. used s g}" using allocate_full [OF assms(1,2)] by auto
  then have "card {0..<limit s} \<le> card {g. used s g}" by (intro card_mono finite_used assms(1))
  with assms(3) show False by simp
qed

text \<open>Opening the handle that was found adds it to the open ones and changes no other.\<close>

lemma open_adds_one:
  assumes "well_formed s" "allocate s = (h, s')" "0 \<le> h" "{g. used s'' g} = insert h {g. used s' g}"
  shows "card {g. used s'' g} = card {g. used s g} + 1"
proof -
  have "{g. used s' g} = {g. used s g}" using allocate_keeps [OF assms(1,2)] by auto
  moreover have "h \<notin> {g. used s g}" using not_handed_out_twice [OF assms(1-3)] by simp
  ultimately show ?thesis using assms(4) finite_used [OF assms(1)] by simp
qed

end

end
