(* ===== verification/MemArea.thy ===== *)
theory MemArea
  imports Handles Specials
begin

text \<open>
  Memory areas (external-memory.cpp): blocks of \<open>malloc\<close> with a reference count, which the
  image names by handles. The C functions take \<open>int\<close>s (32 bits): \<open>wrap32\<close> is the conversion
  of a \<open>word_t\<close> argument. Reading an array out of its bounds and overflow of an \<open>int\<close> are \<open>None\<close>.
\<close>

definition wrap32 :: "int \<Rightarrow> int" where "wrap32 x = signed_take_bit 31 x"

definition is_int32 :: "int \<Rightarrow> bool" where "is_int32 x \<longleftrightarrow> - (2 ^ 31) \<le> x \<and> x < 2 ^ 31"

definition SLATE_MEMS_MAXIMUM :: int where "SLATE_MEMS_MAXIMUM = 1024"

lemma wrap32_int32: "is_int32 x \<Longrightarrow> wrap32 x = x"
  unfolding is_int32_def wrap32_def by (subst signed_take_bit_int_eq_self_iff) simp

section \<open>State\<close>

text \<open>A block of the C heap: its address and its bytes.\<close>

record mem_block =
  block_base :: addr
  block_bytes :: "int list"

record memarea_state =
  memory_areas :: "int \<Rightarrow> mem_block option"
  memory_sizes :: "int \<Rightarrow> int"
  memory_num_refs :: "int \<Rightarrow> int"

text \<open>
  The allocator of the C library; the sizes are \<open>size_t\<close>. A block has the size asked for,
  and no block is larger than \<open>PTRDIFF_MAX\<close>; \<open>realloc\<close> keeps the common prefix.
\<close>

record libc =
  malloc :: "memarea_state \<Rightarrow> int \<Rightarrow> mem_block option"
  realloc :: "memarea_state \<Rightarrow> mem_block \<Rightarrow> int \<Rightarrow> mem_block option"

definition size_t :: "int \<Rightarrow> int" where "size_t n = n mod 2 ^ 64"

definition libc_ok :: "libc \<Rightarrow> bool" where
  "libc_ok libc \<longleftrightarrow>
     (\<forall>s n b. malloc libc s n = Some b \<longrightarrow> int (length (block_bytes b)) = n \<and> n < 2 ^ 63) \<and>
     (\<forall>s a n b. realloc libc s a n = Some b \<longrightarrow> int (length (block_bytes b)) = n \<and> n < 2 ^ 63 \<and>
        take (nat n) (block_bytes a) = take (length (block_bytes a)) (block_bytes b))"

section \<open>Operations\<close>

definition memarea_module_init :: memarea_state where
  "memarea_module_init = \<lparr>memory_areas = (\<lambda>_. None), memory_sizes = (\<lambda>_. 0), memory_num_refs = (\<lambda>_. 0)\<rparr>"

definition memarea_handle_isvalid :: "memarea_state \<Rightarrow> int \<Rightarrow> bool option" where
  "memarea_handle_isvalid s memory = do {
     check (0 \<le> memory \<and> memory < SLATE_MEMS_MAXIMUM);
     Some (memory_areas s memory \<noteq> None) }"

definition memarea_allocate :: "memarea_state \<Rightarrow> int" where
  "memarea_allocate s =
     (case first_free (\<lambda>h. memory_areas s h \<noteq> None) SLATE_MEMS_MAXIMUM of
        None \<Rightarrow> SLATE_ERROR_RETURN
      | Some h \<Rightarrow> h)"

definition memarea_close :: "memarea_state \<Rightarrow> int \<Rightarrow> memarea_state option" where
  "memarea_close s memory = do {
     valid \<leftarrow> memarea_handle_isvalid s memory;
     if valid then do {
       check (is_int32 (memory_num_refs s memory - 1));
       let s = s\<lparr>memory_num_refs := (memory_num_refs s)(memory := memory_num_refs s memory - 1)\<rparr>;
       Some (if memory_num_refs s memory = 0
         then s\<lparr>memory_areas := (memory_areas s)(memory := None), memory_sizes := (memory_sizes s)(memory := 0)\<rparr>
         else s) }
     else Some s }"

definition memarea_addref :: "memarea_state \<Rightarrow> int \<Rightarrow> memarea_state option" where
  "memarea_addref s memory = do {
     valid \<leftarrow> memarea_handle_isvalid s memory;
     if valid then do {
       check (is_int32 (memory_num_refs s memory + 1));
       Some (s\<lparr>memory_num_refs := (memory_num_refs s)(memory := memory_num_refs s memory + 1)\<rparr>) }
     else Some s }"

definition memarea_open :: "libc \<Rightarrow> memarea_state \<Rightarrow> int \<Rightarrow> (int \<times> memarea_state) option" where
  "memarea_open libc s n =
     (let memory = memarea_allocate s in
      if memory < 0 then Some (SLATE_ERROR_RETURN, s)
      else case malloc libc s (size_t n) of
        None \<Rightarrow> do { s \<leftarrow> memarea_close s memory; Some (SLATE_ERROR_RETURN, s) }
      | Some area \<Rightarrow> Some (memory,
          \<lparr>memory_areas = (memory_areas s)(memory := Some area), memory_sizes = (memory_sizes s)(memory := n),
           memory_num_refs = (memory_num_refs s)(memory := 1)\<rparr>))"

text \<open>How many bytes a transfer moves: at most \<open>n\<close>, at most what is left after \<open>memStart\<close>.\<close>

definition nDelimited :: "memarea_state \<Rightarrow> int \<Rightarrow> int \<Rightarrow> int \<Rightarrow> int option" where
  "nDelimited s memory memStart n = do {
     check (is_int32 (memory_sizes s memory - memStart));
     Some (min (memory_sizes s memory - memStart) n) }"

definition copy_bytes :: "int list \<Rightarrow> nat \<Rightarrow> int list \<Rightarrow> int list option" where
  "copy_bytes src n dst = do {
     check (n \<le> length src \<and> n \<le> length dst);
     Some (take n src @ drop n dst) }"

text \<open>
  \<open>memarea_write\<close> copies from the area to the buffer, \<open>memarea_read\<close> from the buffer to the
  area. Both copies start at the first byte of the area: \<open>memStart\<close> only bounds the length.
\<close>

definition memarea_write :: "memarea_state \<Rightarrow> int \<Rightarrow> int \<Rightarrow> int \<Rightarrow> int list \<Rightarrow> (int \<times> int list) option" where
  "memarea_write s memory memStart n bytes = do {
     valid \<leftarrow> memarea_handle_isvalid s memory;
     if \<not> valid then Some (SLATE_ERROR_RETURN, bytes)
     else do {
       k \<leftarrow> nDelimited s memory memStart n;
       area \<leftarrow> memory_areas s memory;
       bytes \<leftarrow> if k > 0 then copy_bytes (block_bytes area) (nat k) bytes else Some bytes;
       Some (k, bytes) } }"

definition memarea_read :: "memarea_state \<Rightarrow> int \<Rightarrow> int \<Rightarrow> int \<Rightarrow> int list \<Rightarrow> (int \<times> memarea_state) option" where
  "memarea_read s memory memStart n bytes = do {
     valid \<leftarrow> memarea_handle_isvalid s memory;
     if \<not> valid then Some (SLATE_ERROR_RETURN, s)
     else do {
       k \<leftarrow> nDelimited s memory memStart n;
       area \<leftarrow> memory_areas s memory;
       contents \<leftarrow> if k > 0 then copy_bytes bytes (nat k) (block_bytes area) else Some (block_bytes area);
       Some (k, s\<lparr>memory_areas := (memory_areas s)(memory := Some (area\<lparr>block_bytes := contents\<rparr>))\<rparr>) } }"

definition memarea_sizeof :: "memarea_state \<Rightarrow> int \<Rightarrow> int option" where
  "memarea_sizeof s memory = do {
     valid \<leftarrow> memarea_handle_isvalid s memory;
     Some (if valid then memory_sizes s memory else SLATE_ERROR_RETURN) }"

text \<open>
  \<open>realloc\<close> with size 0 may free the block and answer the null pointer; the table then keeps a
  pointer to a freed block, which is \<open>None\<close> here.
\<close>

definition memarea_resize :: "libc \<Rightarrow> memarea_state \<Rightarrow> int \<Rightarrow> int \<Rightarrow> (int \<times> memarea_state) option" where
  "memarea_resize libc s memory n = do {
     valid \<leftarrow> memarea_handle_isvalid s memory;
     if \<not> valid then Some (SLATE_ERROR_RETURN, s)
     else if memory_num_refs s memory \<noteq> 1 then Some (SLATE_ERROR_RETURN, s)
     else if memory_sizes s memory = n then Some (n, s)
     else do {
       area \<leftarrow> memory_areas s memory;
       case realloc libc s area (size_t n) of
         None \<Rightarrow> do { check (n \<noteq> 0); Some (SLATE_ERROR_RETURN, s) }
       | Some result \<Rightarrow> Some (n,
           s\<lparr>memory_areas := (memory_areas s)(memory := Some result), memory_sizes := (memory_sizes s)(memory := n)\<rparr>) } }"

text \<open>The address that is stored in the buffer (0 is the null pointer), and the size of a pointer.\<close>

definition memarea_addressof :: "memarea_state \<Rightarrow> int \<Rightarrow> int \<Rightarrow> (addr \<times> int) option" where
  "memarea_addressof s memory offset = do {
     valid \<leftarrow> memarea_handle_isvalid s memory;
     Some (case memory_areas s memory of
         Some area \<Rightarrow> if valid \<and> 0 \<le> offset \<and> offset < memory_sizes s memory then block_base area + offset else 0
       | None \<Rightarrow> 0, 8) }"

section \<open>The table of handles\<close>

definition area_used :: "memarea_state \<Rightarrow> int \<Rightarrow> bool" where
  "area_used s h \<longleftrightarrow> 0 \<le> h \<and> h < SLATE_MEMS_MAXIMUM \<and> memory_areas s h \<noteq> None"

lemma memarea_allocate_cases:
  "memarea_allocate s = -1 \<and> (\<forall>h. 0 \<le> h \<and> h < SLATE_MEMS_MAXIMUM \<longrightarrow> memory_areas s h \<noteq> None) \<or>
   0 \<le> memarea_allocate s \<and> memarea_allocate s < SLATE_MEMS_MAXIMUM \<and> memory_areas s (memarea_allocate s) = None"
  by (auto simp: memarea_allocate_def SLATE_ERROR_RETURN_def first_free_None_iff
      split: option.splits dest!: first_free_SomeD)

interpretation areas: handle_table area_used "\<lambda>_. SLATE_MEMS_MAXIMUM" "\<lambda>s. (memarea_allocate s, s)" "\<lambda>_. True"
proof
  fix s :: memarea_state and h g :: int and s' :: memarea_state
  assume "(memarea_allocate s, s) = (h, s')"
  then have e: "h = memarea_allocate s" "s' = s" by auto
  from memarea_allocate_cases [of s]
  show "0 \<le> h \<Longrightarrow> h < SLATE_MEMS_MAXIMUM \<and> \<not> area_used s' h"
    and "area_used s' g = area_used s g"
    and "h < 0 \<Longrightarrow> 0 \<le> g \<Longrightarrow> g < SLATE_MEMS_MAXIMUM \<Longrightarrow> area_used s g"
    unfolding e by (auto simp: area_used_def)
qed (auto simp: area_used_def)

section \<open>The invariant\<close>

text \<open>An entry is free with size and count 0, or it has a block of the recorded size and a positive count.\<close>

definition memarea_ok :: "memarea_state \<Rightarrow> bool" where
  "memarea_ok s \<longleftrightarrow> (\<forall>h. 0 \<le> h \<and> h < SLATE_MEMS_MAXIMUM \<longrightarrow>
     (case memory_areas s h of
        None \<Rightarrow> memory_sizes s h = 0 \<and> memory_num_refs s h = 0
      | Some b \<Rightarrow> memory_sizes s h = int (length (block_bytes b)) \<and> 0 < memory_num_refs s h))"

text \<open>The operations, as events of the machine that the image drives.\<close>

datatype memarea_event =
  Open int | Close int | AddRef int | Fetch int int int "int list" | Store int int int "int list" | Resize int int

fun memarea_event_step :: "libc \<Rightarrow> memarea_state \<Rightarrow> memarea_event \<Rightarrow> memarea_state option" where
  "memarea_event_step libc s (Open n) = map_option snd (memarea_open libc s n)"
| "memarea_event_step libc s (Close h) = memarea_close s h"
| "memarea_event_step libc s (AddRef h) = memarea_addref s h"
| "memarea_event_step libc s (Fetch h start n bytes) = map_option (\<lambda>_. s) (memarea_write s h start n bytes)"
| "memarea_event_step libc s (Store h start n bytes) = map_option snd (memarea_read s h start n bytes)"
| "memarea_event_step libc s (Resize h n) = map_option snd (memarea_resize libc s h n)"

fun event_int32 :: "memarea_event \<Rightarrow> bool" where
  "event_int32 (Open n) = is_int32 n"
| "event_int32 (Resize h n) = is_int32 n"
| "event_int32 e = True"

inductive memarea_reachable :: "libc \<Rightarrow> memarea_state \<Rightarrow> bool" for libc :: libc where
  init: "memarea_reachable libc memarea_module_init"
| step: "memarea_reachable libc s \<Longrightarrow> event_int32 e \<Longrightarrow> memarea_event_step libc s e = Some s' \<Longrightarrow> memarea_reachable libc s'"

lemma size_t_block: "is_int32 n \<Longrightarrow> int (length bs) = size_t n \<Longrightarrow> size_t n < 2 ^ 63 \<Longrightarrow> int (length bs) = n"
proof -
  assume a: "is_int32 n" "int (length bs) = size_t n" "size_t n < 2 ^ 63"
  have "0 \<le> n"
  proof (rule ccontr)
    assume "\<not> 0 \<le> n"
    then have "size_t n = n + 2 ^ 64"
      using a(1) unfolding size_t_def is_int32_def
      using mod_pos_pos_trivial [of "n + 2 ^ 64" "2 ^ 64"] by simp
    with a(1,3) show False by (simp add: is_int32_def)
  qed
  with a(1) have "size_t n = n" by (simp add: size_t_def is_int32_def)
  with a(2) show ?thesis by simp
qed

lemma memarea_init_ok: "memarea_ok memarea_module_init"
  by (simp add: memarea_ok_def memarea_module_init_def)

text \<open>Updating one entry keeps the invariant when the new entry satisfies it.\<close>

definition entry_ok :: "mem_block option \<Rightarrow> int \<Rightarrow> int \<Rightarrow> bool" where
  "entry_ok a n r \<longleftrightarrow> (case a of None \<Rightarrow> n = 0 \<and> r = 0 | Some b \<Rightarrow> n = int (length (block_bytes b)) \<and> 0 < r)"

lemma memarea_ok_entries:
  "memarea_ok s \<longleftrightarrow> (\<forall>h. 0 \<le> h \<and> h < SLATE_MEMS_MAXIMUM \<longrightarrow> entry_ok (memory_areas s h) (memory_sizes s h) (memory_num_refs s h))"
  by (simp add: memarea_ok_def entry_ok_def)

lemma memarea_ok_entry:
  "memarea_ok s \<Longrightarrow> memarea_handle_isvalid s h = Some v \<Longrightarrow> entry_ok (memory_areas s h) (memory_sizes s h) (memory_num_refs s h)"
  by (auto simp: memarea_ok_entries memarea_handle_isvalid_def)

lemma memarea_close_ok: "memarea_ok s \<Longrightarrow> memarea_close s h = Some s' \<Longrightarrow> memarea_ok s'"
  using memarea_ok_entry [of s h]
  by (fastforce simp: memarea_close_def memarea_handle_isvalid_def memarea_ok_entries entry_ok_def Let_def
      split: if_splits option.splits)

lemma memarea_addref_ok: "memarea_ok s \<Longrightarrow> memarea_addref s h = Some s' \<Longrightarrow> memarea_ok s'"
  using memarea_ok_entry [of s h]
  by (fastforce simp: memarea_addref_def memarea_handle_isvalid_def memarea_ok_entries entry_ok_def
      split: if_splits option.splits)

lemma memarea_open_ok:
  assumes "libc_ok libc" "is_int32 n" "memarea_ok s" "memarea_open libc s n = Some (r, s')"
  shows "memarea_ok s'"
proof (cases "malloc libc s (size_t n)")
  case None
  with assms(3,4) show ?thesis
    by (auto simp: memarea_open_def Let_def Option.bind_eq_Some_conv split: if_splits dest: memarea_close_ok)
next
  case (Some b)
  with assms(1,2) have "int (length (block_bytes b)) = n" by (metis libc_ok_def size_t_block)
  with assms(3,4) Some show ?thesis
    by (fastforce simp: memarea_open_def Let_def memarea_ok_entries entry_ok_def split: if_splits option.splits)
qed

lemma copy_bytes_length: "copy_bytes xs k ys = Some zs \<Longrightarrow> length zs = length ys"
  by (auto simp: copy_bytes_def)

lemma memarea_read_ok: "memarea_ok s \<Longrightarrow> memarea_read s h start n bytes = Some (r, s') \<Longrightarrow> memarea_ok s'"
  using memarea_ok_entry [of s h]
  by (fastforce simp: memarea_read_def memarea_ok_entries entry_ok_def Option.bind_eq_Some_conv
      split: if_splits option.splits dest: copy_bytes_length)

lemma memarea_resize_ok:
  assumes "libc_ok libc" "is_int32 n" "memarea_ok s" "memarea_resize libc s h n = Some (r, s')"
  shows "memarea_ok s'"
proof -
  have "int (length (block_bytes b)) = n" if "realloc libc s a (size_t n) = Some b" for a b
    using that assms(1,2) by (metis libc_ok_def size_t_block)
  with assms(3,4) show ?thesis
    by (fastforce simp: memarea_resize_def memarea_ok_entries entry_ok_def Option.bind_eq_Some_conv
        split: if_splits option.splits)
qed

lemma memarea_event_step_ok:
  assumes "libc_ok libc" "event_int32 e" "memarea_ok s" "memarea_event_step libc s e = Some s'"
  shows "memarea_ok s'"
  using assms by (cases e) (auto intro: memarea_open_ok memarea_close_ok memarea_addref_ok memarea_read_ok memarea_resize_ok)

section \<open>Closing\<close>

text \<open>Closing the same handle several times.\<close>

primrec close_times :: "nat \<Rightarrow> memarea_state \<Rightarrow> int \<Rightarrow> memarea_state option" where
  "close_times 0 s h = Some s"
| "close_times (Suc k) s h = do { s \<leftarrow> memarea_close s h; close_times k s h }"

lemma close_shared:
  assumes "memory_areas s h = Some b" "1 < memory_num_refs s h" "is_int32 (memory_num_refs s h)" "0 \<le> h" "h < SLATE_MEMS_MAXIMUM"
  shows "memarea_close s h = Some (s\<lparr>memory_num_refs := (memory_num_refs s)(h := memory_num_refs s h - 1)\<rparr>)"
  using assms by (simp add: memarea_close_def memarea_handle_isvalid_def is_int32_def Let_def)

lemma close_last:
  assumes "memory_areas s h = Some b" "memory_num_refs s h = 1" "0 \<le> h" "h < SLATE_MEMS_MAXIMUM"
  shows "\<exists>s'. memarea_close s h = Some s' \<and> memory_areas s' = (memory_areas s)(h := None)"
  using assms by (simp add: memarea_close_def memarea_handle_isvalid_def is_int32_def Let_def)

lemma close_times_shared:
  assumes "memory_areas s h = Some b" "int k < memory_num_refs s h" "is_int32 (memory_num_refs s h)" "0 \<le> h" "h < SLATE_MEMS_MAXIMUM"
  shows "close_times k s h = Some (s\<lparr>memory_num_refs := (memory_num_refs s)(h := memory_num_refs s h - int k)\<rparr>)"
  using assms
proof (induction k arbitrary: s)
  case (Suc k)
  let ?s = "s\<lparr>memory_num_refs := (memory_num_refs s)(h := memory_num_refs s h - 1)\<rparr>"
  have "close_times k ?s h = Some (?s\<lparr>memory_num_refs := (memory_num_refs ?s)(h := memory_num_refs ?s h - int k)\<rparr>)"
    using Suc.prems by (intro Suc.IH) (auto simp: is_int32_def)
  moreover have "?s\<lparr>memory_num_refs := (memory_num_refs ?s)(h := memory_num_refs ?s h - int k)\<rparr> =
      s\<lparr>memory_num_refs := (memory_num_refs s)(h := memory_num_refs s h - int (Suc k))\<rparr>"
    by (simp add: diff_diff_eq)
  ultimately show ?case using close_shared [OF Suc.prems(1) _ Suc.prems(3-5)] Suc.prems(2)
    by (simp del: fun_upd_apply)
qed simp

lemma close_times_snoc: "close_times (Suc k) s h = close_times k s h \<bind> (\<lambda>s. memarea_close s h)"
proof (induction k arbitrary: s)
  case (Suc k)
  show ?case by (cases "memarea_close s h") (use Suc.IH in simp_all)
qed simp

section \<open>Transfers\<close>

lemma memarea_write_eq:
  assumes "memory_areas s h = Some b" "memory_sizes s h = int (length (block_bytes b))" "0 \<le> h" "h < SLATE_MEMS_MAXIMUM"
    and "0 \<le> start" "0 \<le> n" "start + n \<le> memory_sizes s h" "is_int32 (memory_sizes s h)" "n \<le> int (length bytes)"
  shows "memarea_write s h start n bytes = Some (n, take (nat n) (block_bytes b) @ drop (nat n) bytes)"
proof -
  have "nDelimited s h start n = Some n" using assms(5-8) by (simp add: nDelimited_def is_int32_def)
  moreover have "nat n \<le> length (block_bytes b)" "nat n \<le> length bytes" using assms(2,5-9) by linarith+
  ultimately show ?thesis using assms(1,3,4,6)
    by (cases "n = 0") (simp_all add: memarea_write_def memarea_handle_isvalid_def copy_bytes_def)
qed

lemma memarea_read_eq:
  assumes "memory_areas s h = Some b" "memory_sizes s h = int (length (block_bytes b))" "0 \<le> h" "h < SLATE_MEMS_MAXIMUM"
    and "0 \<le> start" "0 \<le> n" "start + n \<le> memory_sizes s h" "is_int32 (memory_sizes s h)" "n \<le> int (length bytes)"
  shows "memarea_read s h start n bytes =
    Some (n, s\<lparr>memory_areas := (memory_areas s)(h := Some (b\<lparr>block_bytes := take (nat n) bytes @ drop (nat n) (block_bytes b)\<rparr>))\<rparr>)"
proof -
  have "nDelimited s h start n = Some n" using assms(5-8) by (simp add: nDelimited_def is_int32_def)
  moreover have "nat n \<le> length (block_bytes b)" "nat n \<le> length bytes" using assms(2,5-9) by linarith+
  ultimately show ?thesis using assms(1,3,4,6)
    by (cases "n = 0") (simp_all add: memarea_read_def memarea_handle_isvalid_def copy_bytes_def)
qed

section \<open>Properties\<close>


text \<open>
  C34. The reference count works: an open area whose count is r survives fewer than r closes
  with its contents, and the r-th close releases it, after which a handle is available again.
\<close>

theorem memarea_released_by_last_close:
  assumes "memarea_ok s" and "memory_areas s h = Some b" and "0 \<le> h" "h < SLATE_MEMS_MAXIMUM"
    and "is_int32 (memory_num_refs s h)"
  shows "(\<forall>k. int k < memory_num_refs s h \<longrightarrow> (\<exists>s'. close_times k s h = Some s' \<and> memory_areas s' = memory_areas s)) \<and>
    (\<exists>s'. close_times (nat (memory_num_refs s h)) s h = Some s' \<and> memory_areas s' = (memory_areas s)(h := None) \<and>
      0 \<le> memarea_allocate s')"
proof -
  let ?k = "nat (memory_num_refs s h) - 1"
  have pos: "0 < memory_num_refs s h" using assms(1-4) by (auto simp: memarea_ok_def split: option.splits)
  then have k: "int ?k < memory_num_refs s h" "memory_num_refs s h - int ?k = 1" "nat (memory_num_refs s h) = Suc ?k" by linarith+
  obtain s1 where s1: "close_times ?k s h = Some s1" "memory_areas s1 = memory_areas s" "memory_num_refs s1 h = 1"
    using close_times_shared [OF assms(2) k(1) assms(5,3,4)] k(2) by auto
  obtain s2 where s2: "memarea_close s1 h = Some s2" "memory_areas s2 = (memory_areas s)(h := None)"
    using close_last [of s1 h b] s1(2,3) assms(2-4) by auto
  have "0 \<le> memarea_allocate s2" using memarea_allocate_cases [of s2] s2(2) assms(3,4) by auto
  moreover have "close_times (nat (memory_num_refs s h)) s h = Some s2"
    by (subst k(3), subst close_times_snoc) (simp only: s1(1) s2(1) bind.bind_lunit)
  ultimately show ?thesis using close_times_shared [OF assms(2) _ assms(5,3,4)] s2(2) by auto
qed

text \<open>
  Opening an area: with fewer than 1024 areas open and a successful allocation the result is a
  handle that was not open, the new area has the size asked for and a count of 1, one more handle is open, and
  every other area is as before.
\<close>

theorem memarea_open_fresh:
  assumes "card {g. area_used s g} < 1024" and "malloc libc s (size_t n) = Some b"
  shows "\<exists>h s'. memarea_open libc s n = Some (h, s') \<and> 0 \<le> h \<and> \<not> area_used s h \<and>
    memory_areas s' = (memory_areas s)(h := Some b) \<and> memarea_sizeof s' h = Some n \<and> memory_num_refs s' h = 1 \<and>
    card {g. area_used s' g} = card {g. area_used s g} + 1"
proof -
  let ?h = "memarea_allocate s"
  let ?s = "\<lparr>memory_areas = (memory_areas s)(?h := Some b), memory_sizes = (memory_sizes s)(?h := n),
           memory_num_refs = (memory_num_refs s)(?h := 1)\<rparr>"
  have h: "0 \<le> ?h" using areas.room_gives_handle [of s ?h s] assms(1) by (simp add: SLATE_MEMS_MAXIMUM_def)
  then have r: "?h < SLATE_MEMS_MAXIMUM" using areas.allocate_fresh [of s ?h s] by simp
  have "{g. area_used ?s g} = insert ?h {g. area_used s g}" using h r by (auto simp: area_used_def)
  then have "card {g. area_used ?s g} = card {g. area_used s g} + 1" using areas.open_adds_one [of s ?h s ?s] h by simp
  moreover have "memarea_open libc s n = Some (?h, ?s)" using h assms(2) by (simp add: memarea_open_def Let_def)
  moreover have "memarea_sizeof ?s ?h = Some n" using h r by (simp add: memarea_sizeof_def memarea_handle_isvalid_def)
  ultimately show ?thesis using h areas.not_handed_out_twice [of s ?h s] by auto
qed

text \<open>
  C40. Transfers ignore their start: bytes stored at one offset are fetched from any other, since both
  copies begin at the first byte of the area (a round trip, but not at the place asked for).
\<close>

theorem memarea_transfer_ignores_start:
  assumes "memarea_ok s" and "memory_areas s h = Some b" and "0 \<le> h" "h < SLATE_MEMS_MAXIMUM" "is_int32 (memory_sizes s h)"
    and "0 \<le> n" "n \<le> int (length bytes)" "n \<le> int (length buffer)"
    and "0 \<le> start" "start + n \<le> memory_sizes s h" and "0 \<le> start'" "start' + n \<le> memory_sizes s h"
  shows "\<exists>s'. memarea_read s h start n bytes = Some (n, s') \<and>
    memarea_write s' h start' n buffer = Some (n, take (nat n) bytes @ drop (nat n) buffer)"
proof -
  have len: "memory_sizes s h = int (length (block_bytes b))" using assms(1-4) by (auto simp: memarea_ok_def split: option.splits)
  let ?b = "b\<lparr>block_bytes := take (nat n) bytes @ drop (nat n) (block_bytes b)\<rparr>"
  let ?s = "s\<lparr>memory_areas := (memory_areas s)(h := Some ?b)\<rparr>"
  have n: "nat n \<le> length bytes" "nat n \<le> length (block_bytes b)" using assms(6-10) len by linarith+
  have "memarea_read s h start n bytes = Some (n, ?s)"
    by (rule memarea_read_eq) (use assms len in auto)
  moreover have "memarea_write ?s h start' n buffer = Some (n, take (nat n) (block_bytes ?b) @ drop (nat n) buffer)"
    by (rule memarea_write_eq) (use assms len n in auto)
  ultimately show ?thesis using n by simp
qed

section \<open>Witnesses\<close>

text \<open>An allocator that gives zeroed blocks of up to 64 bytes.\<close>

definition sample_libc :: libc where
  "sample_libc = \<lparr>
     malloc = (\<lambda>s n. if 0 \<le> n \<and> n \<le> 64 then Some \<lparr>block_base = 4096, block_bytes = replicate (nat n) 0\<rparr> else None),
     realloc = (\<lambda>s b n. if 0 \<le> n \<and> n \<le> 64 then Some (b\<lparr>block_bytes := take (nat n) (block_bytes b @ replicate (nat n) 0)\<rparr>) else None)\<rparr>"

lemma sample_libc_ok: "libc_ok sample_libc"
  by (auto simp: libc_ok_def sample_libc_def min_def split: if_splits)

definition sample_block4 :: mem_block where "sample_block4 = \<lparr>block_base = 4096, block_bytes = [0, 0, 0, 0]\<rparr>"

definition sample_areas :: memarea_state where
  "sample_areas = \<lparr>memory_areas = (\<lambda>h. if h = 0 then Some sample_block4 else None), memory_sizes = (\<lambda>h. if h = 0 then 4 else 0),
     memory_num_refs = (\<lambda>h. if h = 0 then 2 else 0)\<rparr>"

lemma sample_areas_ok: "memarea_ok sample_areas"
  by (simp add: memarea_ok_def sample_areas_def sample_block4_def)


theorem memarea_released_by_last_close_witness:
  "\<exists>s. close_times 2 sample_areas 0 = Some s \<and> memory_areas s 0 = None"
  using memarea_released_by_last_close [OF sample_areas_ok, of 0 sample_block4]
  by (auto simp: sample_areas_def SLATE_MEMS_MAXIMUM_def is_int32_def)

theorem memarea_open_fresh_witness:
  "\<exists>h s'. memarea_open sample_libc sample_areas 4 = Some (h, s') \<and> h \<noteq> 0 \<and> memarea_sizeof s' h = Some 4"
proof -
  have "{g. area_used sample_areas g} = {0}" by (auto simp: area_used_def sample_areas_def SLATE_MEMS_MAXIMUM_def)
  moreover have "malloc sample_libc sample_areas (size_t 4) = Some \<lparr>block_base = 4096, block_bytes = replicate 4 0\<rparr>"
    by (simp add: sample_libc_def size_t_def)
  moreover have "area_used sample_areas 0" by (simp add: area_used_def sample_areas_def SLATE_MEMS_MAXIMUM_def)
  ultimately show ?thesis using memarea_open_fresh [of sample_areas sample_libc 4] by auto
qed

theorem memarea_transfer_ignores_start_witness:
  "\<exists>s'. memarea_read sample_areas 0 2 2 [7, 8] = Some (2, s') \<and> memarea_write s' 0 0 2 [1, 1] = Some (2, [7, 8])"
  using memarea_transfer_ignores_start [OF sample_areas_ok, of 0 sample_block4 2 "[7, 8]" "[1, 1]" 2 0]
  by (simp add: sample_areas_def SLATE_MEMS_MAXIMUM_def is_int32_def)

end
