(* ===== verification/Bytes.thy ===== *)
theory Bytes
  imports MemArea
begin

text \<open>
  Byte buffers (misc.cpp): taking the contents of a byte array as a C string. The array is
  given by the bytes of the memory from its first element on and by its payload size; a
  read or write out of the bytes that are there is \<open>None\<close>.
\<close>

definition copy_bytes_into :: "int list \<Rightarrow> word_t \<Rightarrow> int list \<Rightarrow> int list option" where
  "copy_bytes_into src n dst = copy_bytes src (nat n) dst"

definition byte_array_extract_into :: "int list \<Rightarrow> word_t \<Rightarrow> int list \<Rightarrow> word_t \<Rightarrow> (word_t \<times> int list) option" where
  "byte_array_extract_into fromArray payloadSize targetBuffer bufferSize =
     (if bufferSize < payloadSize then Some (SLATE_ERROR_RETURN, targetBuffer)
      else do {
        targetBuffer \<leftarrow> copy_bytes_into fromArray bufferSize targetBuffer;
        Some (payloadSize, targetBuffer) })"

definition extractCString :: "int list \<Rightarrow> word_t \<Rightarrow> int list \<Rightarrow> word_t \<Rightarrow> (word_t \<times> int list) option" where
  "extractCString array payloadSize buffer bufferSize = do {
     (arrayLength, buffer) \<leftarrow> byte_array_extract_into array payloadSize buffer (bufferSize - 1);
     if arrayLength < 0 then Some (SLATE_ERROR_RETURN, buffer)
     else do {
       check (arrayLength < int (length buffer));
       Some (arrayLength, buffer[nat arrayLength := 0]) } }"

text \<open>What a C function sees of a buffer: the bytes before the first zero.\<close>

definition c_string :: "int list \<Rightarrow> int list" where
  "c_string bs = takeWhile (\<lambda>b. b \<noteq> 0) bs"

lemma extractCString_eq:
  assumes "0 \<le> payload" "payload < bufferSize" "bufferSize \<le> int (length buffer)" "bufferSize - 1 \<le> int (length array)"
  shows "\<exists>buffer'. extractCString array payload buffer bufferSize = Some (payload, buffer') \<and>
    length buffer' = length buffer \<and> take (nat payload) buffer' = take (nat payload) array \<and> buffer' ! nat payload = 0"
proof -
  let ?n = "nat (bufferSize - 1)"
  let ?b = "take ?n array @ drop ?n buffer"
  have n: "?n \<le> length array" "?n \<le> length buffer" "nat payload \<le> ?n" "nat payload < length buffer" using assms by linarith+
  have "byte_array_extract_into array payload buffer (bufferSize - 1) = Some (payload, ?b)"
    using n(1,2) assms(2) by (simp add: byte_array_extract_into_def copy_bytes_into_def copy_bytes_def)
  moreover have len: "length ?b = length buffer" using n(1,2) by simp
  ultimately have "extractCString array payload buffer bufferSize = Some (payload, ?b[nat payload := 0])"
    using assms(1) n(4) by (simp add: extractCString_def)
  moreover have "take (nat payload) (?b[nat payload := 0]) = take (nat payload) array"
    using n(1,3) by (simp add: take_update_cancel min_def)
  ultimately show ?thesis using len n(4) by simp
qed

lemma c_string_prefix:
  assumes "n < length bs" "bs ! n = 0" "\<forall>b\<in>set (take n bs). b \<noteq> 0"
  shows "c_string bs = take n bs"
proof -
  have "bs = take n bs @ 0 # drop (Suc n) bs" using assms(1,2) id_take_nth_drop by metis
  moreover have "takeWhile (\<lambda>b. b \<noteq> 0) (take n bs @ 0 # drop (Suc n) bs) = take n bs"
    using assms(3) by (subst takeWhile_append2) auto
  ultimately show ?thesis unfolding c_string_def by metis
qed

section \<open>Properties\<close>

text \<open>
  A byte array without zero bytes that fits the buffer arrives as the C string with the same
  bytes, whatever the rest of the buffer held; its length is the answer.
\<close>

theorem extractCString_string:
  assumes "0 \<le> payload" "payload < bufferSize" "bufferSize \<le> int (length buffer)" "bufferSize - 1 \<le> int (length array)"
    and "\<forall>b\<in>set (take (nat payload) array). b \<noteq> 0"
  shows "\<exists>buffer'. extractCString array payload buffer bufferSize = Some (payload, buffer') \<and>
    c_string buffer' = take (nat payload) array"
proof -
  from extractCString_eq [OF assms(1-4)] obtain b where
    b: "extractCString array payload buffer bufferSize = Some (payload, b)" "length b = length buffer"
      "take (nat payload) b = take (nat payload) array" "b ! nat payload = 0" by blast
  have "nat payload < length b" using assms(1-3) b(2) by linarith
  with c_string_prefix [of "nat payload" b] b(3,4) assms(5) have "c_string b = take (nat payload) array" by simp
  with b(1) show ?thesis by blast
qed

theorem extractCString_string_witness:
  "\<exists>b. extractCString [104, 105, 7, 7] 2 [1, 1, 1, 1, 1] 5 = Some (2, b) \<and> c_string b = [104, 105]"
  using extractCString_string [of 2 5 "[1, 1, 1, 1, 1]" "[104, 105, 7, 7]"] by simp

end
