(* ===== verification/Sockets.thy ===== *)
theory Sockets
  imports Bytes
begin

text \<open>
  Address lookups (socket.cpp): a table of tickets, each with a thread that calls
  \<open>getaddrinfo\<close> and then marks the ticket finished, and the translations between the numbers of
  Slate and those of the operating system (Linux). The machine below interleaves the primitives
  of the interpreter with the steps of the threads.
\<close>

section \<open>Constants\<close>

definition SLATE_NETTICKET_MAXIMUM :: int where "SLATE_NETTICKET_MAXIMUM = 1024"

definition socket_lookup_domain :: "word_t \<Rightarrow> int" where
  "socket_lookup_domain domain = (if domain = 1 then 1 else if domain = 2 then 2 else if domain = 3 then 10 else 2)"

definition socket_reverse_lookup_domain :: "word_t \<Rightarrow> int" where
  "socket_reverse_lookup_domain domain = (if domain = 1 then 1 else if domain = 2 then 2 else if domain = 10 then 3 else 2)"

definition socket_lookup_type :: "word_t \<Rightarrow> int" where
  "socket_lookup_type type = 1"

definition socket_reverse_lookup_type :: "word_t \<Rightarrow> int" where
  "socket_reverse_lookup_type type = 1"

definition socket_lookup_protocol :: "word_t \<Rightarrow> int" where
  "socket_lookup_protocol protocol = 0"

definition socket_reverse_lookup_protocol :: "word_t \<Rightarrow> int" where
  "socket_reverse_lookup_protocol protocol = 0"

text \<open>
  The errors of the system as those of Slate, by their numbers on Linux: EACCES 13, EAFNOSUPPORT
  97, EINVAL 22, EMFILE 24, ENFILE 23, ENOMEM 12, EPROTONOSUPPORT 93, EADDRINUSE 98, EBADF 9, ENOTSOCK 88,
  EFAULT 14, EOPNOTSUPP 95, EAGAIN 11, ECONNABORTED 103, EINTR 4, EPERM 1, EALREADY 114, ECONNREFUSED 111,
  EINPROGRESS 115, EISCONN 106, ENETUNREACH 101, ETIMEDOUT 110.
\<close>

definition error_table :: "(int \<times> int) list" where
  "error_table = [(13, -2), (97, -3), (22, -4), (24, -5), (23, -5), (12, -6), (93, -3), (98, -7), (9, -8), (88, -8),
     (14, -4), (95, -3), (11, -9), (103, -11), (4, -12), (1, -2), (114, -13), (111, -14), (115, -15), (106, -16),
     (101, -17), (110, -18)]"

definition socket_return :: "word_t \<Rightarrow> word_t" where
  "socket_return ret = (if ret \<ge> 0 then ret else case map_of error_table (- ret) of None \<Rightarrow> -1 | Some e \<Rightarrow> e)"

section \<open>Tickets\<close>

text \<open>What \<open>getaddrinfo\<close> is asked (\<open>None\<close> is the null pointer) and one of its answers.\<close>

record ai_query =
  q_hostname :: "int list option"
  q_service :: "int list option"
  q_flags :: int
  q_family :: int
  q_socktype :: int
  q_protocol :: int

record addrinfo =
  ai_flags :: int
  ai_family :: int
  ai_socktype :: int
  ai_protocol :: int
  ai_addr :: "int list"
  ai_canonname :: "int list option"

text \<open>\<open>struct slate_addrinfo_request\<close>; the strings are the buffers, the empty result list is the null pointer.\<close>

record addrinfo_request =
  rq_hostname :: "int list option"
  rq_service :: "int list option"
  rq_family :: word_t
  rq_socktype :: word_t
  rq_protocol :: word_t
  rq_flags :: word_t
  rq_result :: word_t
  rq_inUse :: word_t
  rq_finished :: word_t
  rq_addrResult :: "addrinfo list"

text \<open>\<open>threads\<close> are the tickets whose threads have been created and have not returned.\<close>

record socket_state =
  socketTickets :: "int \<Rightarrow> addrinfo_request"
  socketTicketCount :: int
  threads :: "int set"

definition empty_request :: addrinfo_request where
  "empty_request = \<lparr>rq_hostname = None, rq_service = None, rq_family = 0, rq_socktype = 0, rq_protocol = 0, rq_flags = 0,
     rq_result = 0, rq_inUse = 0, rq_finished = 0, rq_addrResult = []\<rparr>"

definition socket_module_init :: socket_state where
  "socket_module_init = \<lparr>socketTickets = (\<lambda>_. empty_request), socketTicketCount = SLATE_NETTICKET_MAXIMUM, threads = {}\<rparr>"

definition set_ticket :: "socket_state \<Rightarrow> int \<Rightarrow> addrinfo_request \<Rightarrow> socket_state" where
  "set_ticket s i t = s\<lparr>socketTickets := (socketTickets s)(i := t)\<rparr>"

text \<open>
  The buffer for a name of \<open>nameSize - 1\<close> bytes, of \<open>allocated\<close> zero bytes (\<open>calloc\<close>), with the
  bytes of the array copied into it.
\<close>

definition name_buffer :: "int list \<Rightarrow> word_t \<Rightarrow> word_t \<Rightarrow> int list option option" where
  "name_buffer name nameSize allocated =
     (if nameSize = 0 then Some None
      else map_option (\<lambda>(_, buffer). Some buffer)
        (extractCString name (int (length name)) (replicate (nat allocated) 0) nameSize))"

text \<open>
  \<open>socket_getaddrinfo\<close>; \<open>created\<close> says whether the thread could be created. The buffer of the
  service is allocated with the size of the host name, as in the source.
\<close>

definition socket_getaddrinfo ::
  "socket_state \<Rightarrow> int list \<Rightarrow> word_t \<Rightarrow> int list \<Rightarrow> word_t \<Rightarrow> word_t \<Rightarrow> word_t \<Rightarrow> word_t \<Rightarrow> word_t \<Rightarrow> bool
   \<Rightarrow> (int \<times> socket_state) option" where
  "socket_getaddrinfo s host hostnameSize serv serviceSize fam styp prot flags created =
     (case first_free (\<lambda>i. rq_inUse (socketTickets s i) \<noteq> 0) (socketTicketCount s) of
        None \<Rightarrow> Some (-1, s)
      | Some i \<Rightarrow> do {
          h \<leftarrow> name_buffer host hostnameSize hostnameSize;
          v \<leftarrow> name_buffer serv serviceSize hostnameSize;
          let t = \<lparr>rq_hostname = h, rq_service = v, rq_family = fam, rq_socktype = styp, rq_protocol = prot, rq_flags = flags,
                   rq_result = 0, rq_inUse = 1, rq_finished = 0, rq_addrResult = []\<rparr>;
          if created then Some (i, (set_ticket s i t)\<lparr>threads := insert i (threads s)\<rparr>)
          else Some (-1, set_ticket s i (t\<lparr>rq_hostname := None, rq_service := None\<rparr>)) })"

definition request_query :: "addrinfo_request \<Rightarrow> ai_query" where
  "request_query req = \<lparr>q_hostname = map_option c_string (rq_hostname req), q_service = map_option c_string (rq_service req),
     q_flags = rq_flags req, q_family = socket_lookup_domain (rq_family req), q_socktype = socket_lookup_type (rq_socktype req),
     q_protocol = socket_lookup_protocol (rq_protocol req)\<rparr>"

text \<open>\<open>socket_getaddrinfo_callback\<close>, with the answer of \<open>getaddrinfo\<close>; the thread returns.\<close>

definition socket_getaddrinfo_callback :: "socket_state \<Rightarrow> int \<Rightarrow> word_t \<times> addrinfo list \<Rightarrow> socket_state" where
  "socket_getaddrinfo_callback s i answer =
     (set_ticket s i ((socketTickets s i)\<lparr>rq_result := fst answer, rq_addrResult := snd answer, rq_finished := 1\<rparr>))
       \<lparr>threads := threads s - {i}\<rparr>"

text \<open>The guard that the two primitives on tickets share.\<close>

definition ticket_pending :: "socket_state \<Rightarrow> word_t \<Rightarrow> bool" where
  "ticket_pending s ticket \<longleftrightarrow> ticket \<ge> socketTicketCount s \<or> ticket < 0
     \<or> rq_inUse (socketTickets s ticket) = 0 \<or> rq_finished (socketTickets s ticket) = 0"

text \<open>
  What \<open>prim_getAddrInfoResult\<close> reads of a ticket: nothing yet, an error of the lookup, or the
  addresses as the arrays that it builds (flags, domain, type, protocol, address, name).
\<close>

datatype lookup = Pending | Failed word_t | Addresses "(int \<times> int \<times> int \<times> int \<times> int list \<times> int list option) list"

definition address_fields :: "addrinfo \<Rightarrow> int \<times> int \<times> int \<times> int \<times> int list \<times> int list option" where
  "address_fields a = (ai_flags a, socket_reverse_lookup_domain (ai_family a), socket_reverse_lookup_type (ai_socktype a),
     socket_reverse_lookup_protocol (ai_protocol a), ai_addr a,
     (case ai_canonname a of None \<Rightarrow> None | Some n \<Rightarrow> if n = [] then None else Some n))"

definition getAddrInfoResult :: "socket_state \<Rightarrow> word_t \<Rightarrow> lookup" where
  "getAddrInfoResult s ticket =
     (if ticket_pending s ticket then Pending
      else if rq_result (socketTickets s ticket) < 0 then Failed (socket_return (rq_result (socketTickets s ticket)))
      else Addresses (map address_fields (rq_addrResult (socketTickets s ticket))))"

text \<open>\<open>prim_freeAddrInfoResult\<close>; the answer says whether the ticket was released.\<close>

definition freeAddrInfoResult :: "socket_state \<Rightarrow> word_t \<Rightarrow> bool \<times> socket_state" where
  "freeAddrInfoResult s ticket =
     (if ticket_pending s ticket then (False, s)
      else (True, set_ticket s ticket ((socketTickets s ticket)\<lparr>rq_hostname := None, rq_service := None, rq_addrResult := [], rq_inUse := 0\<rparr>)))"

section \<open>The table of tickets\<close>

definition ticket_used :: "socket_state \<Rightarrow> int \<Rightarrow> bool" where
  "ticket_used s i \<longleftrightarrow> 0 \<le> i \<and> i < socketTicketCount s \<and> rq_inUse (socketTickets s i) \<noteq> 0"

definition ticket_allocate :: "socket_state \<Rightarrow> int" where
  "ticket_allocate s = (case first_free (\<lambda>i. rq_inUse (socketTickets s i) \<noteq> 0) (socketTicketCount s) of None \<Rightarrow> -1 | Some i \<Rightarrow> i)"

interpretation tickets: handle_table ticket_used socketTicketCount "\<lambda>s. (ticket_allocate s, s)" "\<lambda>_. True"
  by unfold_locales
    (auto simp: ticket_used_def ticket_allocate_def first_free_None_iff split: option.splits dest!: first_free_SomeD)

section \<open>The machine\<close>

text \<open>
  The name as the source passes it: the size is 0 for nil, one more than the length otherwise.
\<close>

definition name_size :: "int list option \<Rightarrow> word_t" where
  "name_size name = (case name of None \<Rightarrow> 0 | Some bs \<Rightarrow> int (length bs) + 1)"

definition start_lookup :: "socket_state \<Rightarrow> int list option \<Rightarrow> int list option \<Rightarrow> word_t \<Rightarrow> word_t \<Rightarrow> word_t \<Rightarrow> word_t \<Rightarrow> bool
   \<Rightarrow> (int \<times> socket_state) option" where
  "start_lookup s host serv fam styp prot flags created =
     socket_getaddrinfo s (case host of None \<Rightarrow> [] | Some bs \<Rightarrow> bs) (name_size host)
       (case serv of None \<Rightarrow> [] | Some bs \<Rightarrow> bs) (name_size serv) fam styp prot flags created"

text \<open>\<open>answers q a\<close>: the system may answer \<open>a\<close> to the query \<open>q\<close>.\<close>

inductive socket_step :: "(ai_query \<Rightarrow> word_t \<times> addrinfo list \<Rightarrow> bool) \<Rightarrow> socket_state \<Rightarrow> socket_state \<Rightarrow> bool" for answers where
  start: "start_lookup s host serv fam styp prot flags created = Some (i, s') \<Longrightarrow> socket_step answers s s'"
| callback: "i \<in> threads s \<Longrightarrow> answers (request_query (socketTickets s i)) a \<Longrightarrow>
    socket_step answers s (socket_getaddrinfo_callback s i a)"
| free: "freeAddrInfoResult s i = (b, s') \<Longrightarrow> socket_step answers s s'"

inductive_cases socket_stepE: "socket_step answers s s'"

inductive socket_run :: "(ai_query \<Rightarrow> word_t \<times> addrinfo list \<Rightarrow> bool) \<Rightarrow> socket_state \<Rightarrow> socket_state \<Rightarrow> bool" for answers where
  stay: "socket_run answers s s"
| onward: "socket_run answers s s' \<Longrightarrow> socket_step answers s' s'' \<Longrightarrow> socket_run answers s s''"

text \<open>
  The invariant: a thread works on a ticket that is in use and not finished; a ticket in use
  that is finished holds an answer to its own query.
\<close>

definition ticket_ok :: "(ai_query \<Rightarrow> word_t \<times> addrinfo list \<Rightarrow> bool) \<Rightarrow> bool \<Rightarrow> addrinfo_request \<Rightarrow> bool" where
  "ticket_ok answers running t \<longleftrightarrow>
     (running \<longrightarrow> rq_inUse t = 1 \<and> rq_finished t = 0) \<and>
     (rq_inUse t \<noteq> 0 \<and> rq_finished t \<noteq> 0 \<longrightarrow> answers (request_query t) (rq_result t, rq_addrResult t))"

definition tickets_ok :: "(ai_query \<Rightarrow> word_t \<times> addrinfo list \<Rightarrow> bool) \<Rightarrow> socket_state \<Rightarrow> bool" where
  "tickets_ok answers s \<longleftrightarrow> (\<forall>i. ticket_ok answers (i \<in> threads s) (socketTickets s i))"

lemma tickets_ok_set:
  assumes "tickets_ok answers s" "ticket_ok answers (i \<in> T) t" "T - {i} = threads s - {i}"
  shows "tickets_ok answers ((set_ticket s i t)\<lparr>threads := T\<rparr>)"
proof -
  have "j \<in> T \<longleftrightarrow> j \<in> threads s" if "j \<noteq> i" for j using assms(3) that by blast
  with assms(1,2) show ?thesis by (auto simp: tickets_ok_def set_ticket_def)
qed

lemma tickets_ok_set_same:
  "tickets_ok answers s \<Longrightarrow> ticket_ok answers (i \<in> threads s) t \<Longrightarrow> tickets_ok answers (set_ticket s i t)"
  by (auto simp: tickets_ok_def set_ticket_def)

lemma idle_ticket: "tickets_ok answers s \<Longrightarrow> rq_inUse (socketTickets s i) = 0 \<Longrightarrow> i \<notin> threads s"
  by (auto simp: tickets_ok_def ticket_ok_def)

lemma socket_init_ok: "tickets_ok answers socket_module_init"
  by (simp add: tickets_ok_def ticket_ok_def socket_module_init_def empty_request_def)

lemma start_lookup_cases:
  assumes "start_lookup s host serv fam styp prot flags created = Some (r, s')"
  shows "s' = s \<and> r = -1 \<and> ticket_allocate s = -1 \<or>
    (\<exists>i (t :: addrinfo_request). ticket_allocate s = i \<and> 0 \<le> i \<and> i < socketTicketCount s \<and> rq_inUse (socketTickets s i) = 0 \<and> rq_inUse t = 1 \<and> rq_finished t = 0 \<and>
       (created \<and> r = i \<and> s' = (set_ticket s i t)\<lparr>threads := insert i (threads s)\<rparr> \<or> \<not> created \<and> r = -1 \<and> s' = set_ticket s i t))"
proof (cases "first_free (\<lambda>i. rq_inUse (socketTickets s i) \<noteq> 0) (socketTicketCount s)")
  case None
  with assms show ?thesis by (simp add: start_lookup_def socket_getaddrinfo_def ticket_allocate_def)
next
  case (Some i)
  note f = first_free_SomeD [OF Some]
  define mk where "mk h v = \<lparr>rq_hostname = h, rq_service = v, rq_family = fam, rq_socktype = styp, rq_protocol = prot, rq_flags = flags,
                   rq_result = 0, rq_inUse = 1, rq_finished = 0, rq_addrResult = []\<rparr>" for h v
  from assms Some obtain h v where hv: "(if created then Some (i, (set_ticket s i (mk h v))\<lparr>threads := insert i (threads s)\<rparr>)
       else Some (-1, set_ticket s i ((mk h v)\<lparr>rq_hostname := None, rq_service := None\<rparr>))) = Some (r, s')"
    unfolding mk_def by (fastforce simp: start_lookup_def socket_getaddrinfo_def Let_def Option.bind_eq_Some_conv simp del: addrinfo_request.simps)
  define t where "t = mk h v"
  have t: "rq_inUse t = 1" "rq_finished t = 0"
    "(r, s') = (if created then (i, (set_ticket s i t)\<lparr>threads := insert i (threads s)\<rparr>)
       else (-1, set_ticket s i (t\<lparr>rq_hostname := None, rq_service := None\<rparr>)))"
    using hv by (auto simp: t_def mk_def split: if_splits)
  have i: "ticket_allocate s = i" using Some by (simp add: ticket_allocate_def)
  show ?thesis
  proof (cases created)
    case True
    with t i f show ?thesis by auto
  next
    case False
    with t have "r = -1" "s' = set_ticket s i (t\<lparr>rq_hostname := None, rq_service := None\<rparr>)" by auto
    moreover have "rq_inUse (t\<lparr>rq_hostname := None, rq_service := None\<rparr>) = 1" "rq_finished (t\<lparr>rq_hostname := None, rq_service := None\<rparr>) = 0"
      using t(1,2) by simp_all
    ultimately show ?thesis using False i f by blast
  qed
qed

lemma socket_step_ok: "socket_step answers s s' \<Longrightarrow> tickets_ok answers s \<Longrightarrow> tickets_ok answers s'"
proof (induction rule: socket_step.induct)
  case (start s host serv fam styp prot flags created r s')
  from start_lookup_cases [OF start(1)] show ?case
  proof (elim disjE exE conjE)
    fix i and t :: addrinfo_request
    assume a: "rq_inUse (socketTickets s i) = 0" "rq_inUse t = 1" "rq_finished t = 0"
    then have n: "i \<notin> threads s" and ok: "ticket_ok answers running t" for running
      using idle_ticket [OF start(2)] by (auto simp: ticket_ok_def)
    show "s' = (set_ticket s i t)\<lparr>threads := insert i (threads s)\<rparr> \<Longrightarrow> tickets_ok answers s'"
      using tickets_ok_set [OF start(2) ok] by auto
    show "s' = set_ticket s i t \<Longrightarrow> tickets_ok answers s'" using tickets_ok_set_same [OF start(2) ok] by simp
  qed (use start in simp)
next
  case (callback i s a)
  have "tickets_ok answers ((set_ticket s i ((socketTickets s i)\<lparr>rq_result := fst a, rq_addrResult := snd a, rq_finished := 1\<rparr>))
      \<lparr>threads := threads s - {i}\<rparr>)"
    by (rule tickets_ok_set [OF callback(3)])
      (use callback(2) in \<open>auto simp: ticket_ok_def request_query_def\<close>)
  then show ?case by (simp add: socket_getaddrinfo_callback_def)
next
  case (free s i b s')
  then show ?case
    by (auto simp: freeAddrInfoResult_def ticket_pending_def tickets_ok_def ticket_ok_def set_ticket_def split: if_splits)
qed

lemma socket_run_ok: "socket_run answers s s' \<Longrightarrow> tickets_ok answers s \<Longrightarrow> tickets_ok answers s'"
  by (induction rule: socket_run.induct) (auto intro: socket_step_ok)

text \<open>A ticket in use without thread that is not finished stays as it is.\<close>

definition stuck :: "socket_state \<Rightarrow> int \<Rightarrow> bool" where
  "stuck s i \<longleftrightarrow> 0 \<le> i \<and> i < socketTicketCount s \<and> i \<notin> threads s \<and> rq_inUse (socketTickets s i) = 1 \<and> rq_finished (socketTickets s i) = 0"

lemma stuck_step: "socket_step answers s s' \<Longrightarrow> stuck s i \<Longrightarrow> stuck s' i"
proof (induction rule: socket_step.induct)
  case (start s host serv fam styp prot flags created r s')
  from start_lookup_cases [OF start(1)] start(2) show ?case by (auto simp: stuck_def set_ticket_def)
next
  case (callback j s a)
  then show ?case by (auto simp: stuck_def set_ticket_def socket_getaddrinfo_callback_def)
next
  case (free s j b s')
  then show ?case by (auto simp: stuck_def set_ticket_def freeAddrInfoResult_def ticket_pending_def split: if_splits)
qed

lemma stuck_run: "socket_run answers s s' \<Longrightarrow> stuck s i \<Longrightarrow> stuck s' i"
  by (induction rule: socket_run.induct) (auto intro: stuck_step)

section \<open>The buffers\<close>

lemma name_buffer_ok:
  "name_size name \<le> allocated \<Longrightarrow> \<exists>b. name_buffer (case name of None \<Rightarrow> [] | Some bs \<Rightarrow> bs) (name_size name) allocated = Some b"
  using extractCString_eq [of "int (length bs)" "name_size name" "replicate (nat allocated) 0" bs for bs]
  by (cases name) (fastforce simp: name_buffer_def name_size_def)+

lemma name_buffer_short:
  "allocated < name_size name \<Longrightarrow> 0 \<le> allocated \<Longrightarrow>
   name_buffer (case name of None \<Rightarrow> [] | Some bs \<Rightarrow> bs) (name_size name) allocated = None"
  by (cases name)
    (auto simp: name_buffer_def name_size_def extractCString_def byte_array_extract_into_def copy_bytes_into_def
      copy_bytes_def check_def)

section \<open>Properties\<close>


text \<open>
  C35. When the thread of a lookup cannot be created, its ticket is lost: in every continuation it stays in
  use, no result is ever available for it and releasing it is refused.
\<close>

theorem failed_thread_leaks_ticket:
  assumes "socket_run answers socket_module_init s" and "start_lookup s host serv fam styp prot flags False = Some (r, s')"
    and "ticket_allocate s = i" "0 \<le> i" and "socket_run answers s' s''"
  shows "r = -1 \<and> ticket_used s'' i \<and> getAddrInfoResult s'' i = Pending \<and> freeAddrInfoResult s'' i = (False, s'')"
proof -
  have "i \<notin> threads s"
    using start_lookup_cases [OF assms(2)] assms(3,4) idle_ticket [OF socket_run_ok [OF assms(1) socket_init_ok]] by auto
  then have "stuck s' i" and r: "r = -1"
    using start_lookup_cases [OF assms(2)] assms(3,4) by (auto simp: stuck_def set_ticket_def)
  with stuck_run [OF assms(5)] have "stuck s'' i" by simp
  with r show ?thesis
    by (simp add: stuck_def ticket_used_def getAddrInfoResult_def freeAddrInfoResult_def ticket_pending_def)
qed

text \<open>
  C36. With a free ticket, starting a lookup is defined exactly when the service name is not longer
  than the host name: the buffer of the service has the size of the host name, and a longer one is written past its end.
\<close>

theorem lookup_defined_iff:
  assumes "0 \<le> ticket_allocate s"
  shows "start_lookup s host serv fam styp prot flags created \<noteq> None \<longleftrightarrow> name_size serv \<le> name_size host"
proof -
  obtain i where i: "first_free (\<lambda>i. rq_inUse (socketTickets s i) \<noteq> 0) (socketTicketCount s) = Some i"
    using assms by (auto simp: ticket_allocate_def split: option.splits)
  obtain h where h: "name_buffer (case host of None \<Rightarrow> [] | Some bs \<Rightarrow> bs) (name_size host) (name_size host) = Some h"
    using name_buffer_ok by blast
  have "0 \<le> name_size host" by (simp add: name_size_def split: option.splits)
  then show ?thesis
    using name_buffer_ok [of serv "name_size host"] name_buffer_short [of "name_size host" serv]
    by (cases "name_size serv \<le> name_size host") (auto simp: start_lookup_def socket_getaddrinfo_def i h Let_def)
qed

section \<open>Witnesses\<close>

definition sample_address :: addrinfo where
  "sample_address = \<lparr>ai_flags = 0, ai_family = 10, ai_socktype = 1, ai_protocol = 0, ai_addr = [127, 0, 0, 1], ai_canonname = None\<rparr>"

definition sample_answers :: "ai_query \<Rightarrow> word_t \<times> addrinfo list \<Rightarrow> bool" where
  "sample_answers q a \<longleftrightarrow> q_hostname q = Some [97] \<and> a = (0, [sample_address])"

definition sample_start :: "bool \<Rightarrow> (int \<times> socket_state) option" where
  "sample_start created = start_lookup socket_module_init (Some [97]) None 3 1 0 0 created"

lemma sample_allocate: "ticket_allocate socket_module_init = 0"
  by (simp add: ticket_allocate_def first_free_0 socket_module_init_def empty_request_def SLATE_NETTICKET_MAXIMUM_def)

lemma sample_started:
  "\<exists>s. sample_start True = Some (0, s) \<and> threads s = {0} \<and> request_query (socketTickets s 0) =
     \<lparr>q_hostname = Some [97], q_service = None, q_flags = 0, q_family = 10, q_socktype = 1, q_protocol = 0\<rparr> \<and>
     rq_inUse (socketTickets s 0) = 1 \<and> socketTicketCount s = 1024"
  "\<exists>s. sample_start False = Some (-1, s)"
  by (simp_all add: sample_start_def start_lookup_def socket_getaddrinfo_def first_free_0 socket_module_init_def empty_request_def
      SLATE_NETTICKET_MAXIMUM_def name_size_def name_buffer_def extractCString_def byte_array_extract_into_def
      copy_bytes_into_def copy_bytes_def set_ticket_def request_query_def c_string_def socket_lookup_domain_def
      socket_lookup_type_def socket_lookup_protocol_def Let_def numeral_2_eq_2)


theorem failed_thread_leaks_ticket_witness:
  "\<exists>s. sample_start False = Some (-1, s) \<and> ticket_used s 0 \<and> getAddrInfoResult s 0 = Pending"
proof -
  obtain s where s: "start_lookup socket_module_init (Some [97]) None 3 1 0 0 False = Some (-1, s)"
    using sample_started(2) unfolding sample_start_def by blast
  from failed_thread_leaks_ticket [OF socket_run.stay this sample_allocate _ socket_run.stay] s show ?thesis
    unfolding sample_start_def by auto
qed

theorem lookup_defined_iff_witness: "start_lookup socket_module_init (Some [97]) (Some [56, 48]) 3 1 0 0 True = None"
proof -
  have "\<not> start_lookup socket_module_init (Some [97]) (Some [56, 48]) 3 1 0 0 True \<noteq> None"
    unfolding lookup_defined_iff [of socket_module_init, unfolded sample_allocate, OF order_refl] by (simp add: name_size_def)
  then show ?thesis by blast
qed

end
