(* ===== verification/Posix.thy ===== *)
theory Posix
  imports Bytes
begin

text \<open>
  The operating system, as the code under external-files.cpp, external-directory.cpp,
  external-pipes.cpp and primitives.cpp uses it. Every call is recorded, newest first, in the
  trace of the process; what it answers is a parameter that may depend on all the calls before
  it. Handles of the VM are indexes into the tables of the process; streams, directories
  and descriptors are the numbers that the system answered, 0 the null pointer.
\<close>

section \<open>Calls\<close>

text \<open>
  The standard streams have calls of their own: they are never opened or closed, and the flag
  says whether the output goes to \<open>stdout\<close> or to \<open>stderr\<close>. A foreign function is called with the
  flag for its calling convention, its address and its arguments as words.
\<close>

datatype os_call =
    Allocate int
  | Fopen "int list" "int list" | Fclose addr | Fread addr int | Fwrite addr "int list"
  | Ftell addr | Fseek addr int int | Fgetc addr | Ungetc int addr | Fflush addr
  | ReadStd int | WriteStd bool "int list" | FlushStd
  | Unlink "int list" | Stat "int list" | Rename "int list" "int list"
  | Opendir "int list" | Closedir addr | Readdir addr | Getcwd int | Chdir "int list"
  | Mkdir "int list" int | Rmdir "int list"
  | MakePipe | Fork | Waitpid int | Dup2 int int | CloseFd int | ReadFd int int | WriteFd int "int list"
  | Execv "int list" "int list option list"
  | Recv int int | SendTo int "int list" | NewSocket int int int | Fcntl int int int | Listen int int | Accept int
  | Bind int "int list" | Connect int "int list" | Getsockopt int | SocketPair
  | Select "int list" "int list" int int
  | Dlopen "int list" | Dlclose int | Dlsym int "int list" | Dlerror | CallForeign bool int "int list"
  | Uname | Unsetenv "int list" | Setenv "int list" "int list" | System "int list"

text \<open>
  The answer of a call: its value, the words and the strings that it stores for the caller, and \<open>errno\<close> after it.
\<close>

record os_answer =
  ans_value :: int
  ans_words :: "int list"
  ans_strings :: "int list list"
  ans_errno :: int

type_synonym os = "os_call list \<Rightarrow> os_call \<Rightarrow> os_answer"

text \<open>The tables of the process: \<open>oh->file_index\<close>, \<open>oh->dir_index\<close> with their sizes, and the trace.\<close>

record process =
  file_index :: "addr list"
  dir_index :: "addr list"
  os_trace :: "os_call list"

definition sys :: "os \<Rightarrow> process \<Rightarrow> os_call \<Rightarrow> os_answer \<times> process" where
  "sys os p c = (os (os_trace p) c, p\<lparr>os_trace := c # os_trace p\<rparr>)"

lemma sys_simps [simp]:
  "fst (sys os p c) = os (os_trace p) c"
  "file_index (snd (sys os p c)) = file_index p" "dir_index (snd (sys os p c)) = dir_index p"
  "os_trace (snd (sys os p c)) = c # os_trace p"
  by (simp_all add: sys_def)

section \<open>Names\<close>

definition SLATE_FILE_NAME_LENGTH :: int where "SLATE_FILE_NAME_LENGTH = 512"

text \<open>
  The name that a C function gets from a byte array through a buffer on the stack of that
  length: the length that is answered, and the string. The array is its bytes from the first
  element on and its payload size. An uninitialised buffer counts as zeros; what
  it held is never read, since the copy fills it up to its last byte.
\<close>

definition file_name :: "int list \<Rightarrow> word_t \<Rightarrow> (word_t \<times> int list) option" where
  "file_name array payloadSize = do {
     (n, buffer) \<leftarrow> extractCString array payloadSize (replicate (nat SLATE_FILE_NAME_LENGTH) 0) SLATE_FILE_NAME_LENGTH;
     Some (n, c_string buffer) }"

text \<open>A buffer of \<open>payloadSize + 1\<close> bytes on the heap, or of \<open>SLATE_FILE_NAME_LENGTH\<close> bytes on the stack.\<close>

definition counted_name :: "int list \<Rightarrow> int list" where
  "counted_name bs = c_string (bs @ [0])"

end
