(* ===== verification/Files.thy ===== *)
theory Files
  imports Posix
begin

text \<open>
  Files (external-files.cpp): the table of streams, which doubles when it is full, and the
  operations of the C library behind its handles. A failed assertion or a call of
  \<open>error\<close> is \<open>None\<close>.
\<close>

definition SLATE_FILES_MAXIMUM :: int where "SLATE_FILES_MAXIMUM = 256"
definition SF_READ :: int where "SF_READ = 1"
definition SF_WRITE :: int where "SF_WRITE = 2"
definition SF_CREATE :: int where "SF_CREATE = 4"
definition SF_CLEAR :: int where "SF_CLEAR = 8"
definition EOF :: int where "EOF = -1"
definition SEEK_SET :: int where "SEEK_SET = 0"
definition SEEK_END :: int where "SEEK_END = 2"

section \<open>The table\<close>

definition file_module_init :: "process \<Rightarrow> process" where
  "file_module_init p = p\<lparr>file_index := replicate (nat SLATE_FILES_MAXIMUM) 0\<rparr>"

definition file_index_size :: "process \<Rightarrow> int" where
  "file_index_size p = int (length (file_index p))"

definition file_handle_isvalid :: "process \<Rightarrow> word_t \<Rightarrow> bool" where
  "file_handle_isvalid p file \<longleftrightarrow> 0 \<le> file \<and> file < file_index_size p \<and> file_index p ! nat file \<noteq> 0"

definition stream :: "process \<Rightarrow> word_t \<Rightarrow> addr" where
  "stream p file = file_index p ! nat file"

definition set_stream :: "process \<Rightarrow> word_t \<Rightarrow> addr \<Rightarrow> process" where
  "set_stream p file f = p\<lparr>file_index := (file_index p)[nat file := f]\<rparr>"

definition file_allocate :: "os \<Rightarrow> process \<Rightarrow> (word_t \<times> process) option" where
  "file_allocate os p =
     (case first_free (file_handle_isvalid p) (file_index_size p) of
        Some file \<Rightarrow> Some (file, p)
      | None \<Rightarrow> do {
          let (a, p') = sys os p (Allocate (2 * file_index_size p * 8));
          check (ans_value a \<noteq> 0);
          Some (file_index_size p, p'\<lparr>file_index := file_index p @ replicate (length (file_index p)) 0\<rparr>) })"

section \<open>Opening and closing\<close>

definition file_close :: "os \<Rightarrow> process \<Rightarrow> word_t \<Rightarrow> process" where
  "file_close os p file =
     (if file_handle_isvalid p file then
        let (_, p) = sys os p (Fclose (stream p file)) in set_stream p file 0
      else p)"

text \<open>The mode string, as its characters w 119, r 114, + 43, b 98; \<open>error\<close> aborts.\<close>

definition file_mode :: "word_t \<Rightarrow> int list option" where
  "file_mode flags = do {
     check (\<not> ((flags AND SF_CLEAR \<noteq> 0 \<or> flags AND SF_CREATE \<noteq> 0) \<and> flags AND SF_WRITE = 0));
     check (\<not> (flags AND SF_WRITE \<noteq> 0 \<and> flags AND SF_READ = 0));
     Some ((if flags AND SF_WRITE \<noteq> 0 then
              if flags AND SF_CLEAR \<noteq> 0 then (if flags AND SF_READ \<noteq> 0 then [119, 43] else [119])
              else [114, 43]
            else [114]) @ [98]) }"

definition file_open :: "os \<Rightarrow> process \<Rightarrow> int list \<Rightarrow> word_t \<Rightarrow> word_t \<Rightarrow> (word_t \<times> process) option" where
  "file_open os p array payloadSize flags = do {
     (nameLength, name) \<leftarrow> file_name array payloadSize;
     if nameLength \<le> 0 then Some (SLATE_ERROR_RETURN, p)
     else do {
       (file, p) \<leftarrow> file_allocate os p;
       if file < 0 then Some (SLATE_ERROR_RETURN, p)
       else do {
         mode \<leftarrow> file_mode flags;
         let (a, p) = sys os p (Fopen name mode);
         let p = set_stream p file (ans_value a);
         Some (if file_handle_isvalid p file then file else SLATE_ERROR_RETURN, p) } } }"

section \<open>Transfers and positions\<close>

text \<open>\<open>bytes\<close> are those of the buffer that the call reads; a negative count is a huge \<open>size_t\<close>.\<close>

definition file_write :: "os \<Rightarrow> process \<Rightarrow> word_t \<Rightarrow> word_t \<Rightarrow> int list \<Rightarrow> (word_t \<times> process) option" where
  "file_write os p file n bytes =
     (if file_handle_isvalid p file then do {
        check (0 \<le> n \<and> nat n \<le> length bytes);
        let (a, p) = sys os p (Fwrite (stream p file) (take (nat n) bytes));
        Some (ans_value a, p) }
      else Some (SLATE_ERROR_RETURN, p))"

text \<open>The answer of \<open>fread\<close> is the number of bytes that it stores, at most \<open>n\<close>.\<close>

definition file_read :: "os \<Rightarrow> process \<Rightarrow> word_t \<Rightarrow> word_t \<Rightarrow> int list \<Rightarrow> (word_t \<times> int list \<times> process) option" where
  "file_read os p file n bytes =
     (if file_handle_isvalid p file then do {
        check (0 \<le> n \<and> nat n \<le> length bytes);
        let (a, p) = sys os p (Fread (stream p file) n);
        let got = take (nat n) (ans_words a);
        Some (int (length got), got @ drop (length got) bytes, p) }
      else Some (SLATE_ERROR_RETURN, bytes, p))"

definition file_sizeof :: "os \<Rightarrow> process \<Rightarrow> word_t \<Rightarrow> word_t \<times> process" where
  "file_sizeof os p file =
     (if \<not> file_handle_isvalid p file then (SLATE_ERROR_RETURN, p)
      else let f = stream p file;
        (pos, p) = sys os p (Ftell f);
        (_, p) = sys os p (Fseek f 0 SEEK_END);
        (size, p) = sys os p (Ftell f);
        (_, p) = sys os p (Fseek f (ans_value pos) SEEK_SET)
      in (ans_value size, p))"

definition file_seek :: "os \<Rightarrow> process \<Rightarrow> word_t \<Rightarrow> word_t \<Rightarrow> word_t \<times> process" where
  "file_seek os p file offset =
     (if file_handle_isvalid p file then
        let (a, p) = sys os p (Fseek (stream p file) offset SEEK_SET) in
        if ans_value a = 0 then let (b, p) = sys os p (Ftell (stream p file)) in (ans_value b, p)
        else (SLATE_ERROR_RETURN, p)
      else (SLATE_ERROR_RETURN, p))"

definition file_tell :: "os \<Rightarrow> process \<Rightarrow> word_t \<Rightarrow> word_t \<times> process" where
  "file_tell os p file =
     (if \<not> file_handle_isvalid p file then (SLATE_ERROR_RETURN, p)
      else let (a, p) = sys os p (Ftell (stream p file)) in (ans_value a, p))"

definition file_isatend :: "os \<Rightarrow> process \<Rightarrow> word_t \<Rightarrow> bool \<times> process" where
  "file_isatend os p file =
     (if \<not> file_handle_isvalid p file then (True, p)
      else let (c, p) = sys os p (Fgetc (stream p file)) in
        if ans_value c = EOF then (True, p)
        else let (_, p) = sys os p (Ungetc (ans_value c) (stream p file)) in (False, p))"

section \<open>Names in the file system\<close>

definition file_delete :: "os \<Rightarrow> process \<Rightarrow> int list \<Rightarrow> bool \<times> process" where
  "file_delete os p filename = (let (a, p) = sys os p (Unlink filename) in (ans_value a = 0, p))"

definition slate_file_mode :: "int \<Rightarrow> word_t" where "slate_file_mode mode = mode"

text \<open>The five numbers of \<open>file_information\<close>: size, access, modification and status times, mode.\<close>

definition file_information :: "os \<Rightarrow> process \<Rightarrow> int list \<Rightarrow> int list option \<times> process" where
  "file_information os p filename =
     (let (a, p) = sys os p (Stat filename) in
      (if ans_value a \<noteq> 0 then None else Some (take 4 (ans_words a) @ [slate_file_mode (ans_words a ! 4)]), p))"

definition file_rename_to :: "os \<Rightarrow> process \<Rightarrow> int list \<Rightarrow> int list \<Rightarrow> bool \<times> process" where
  "file_rename_to os p src dest = (let (a, p) = sys os p (Rename src dest) in (ans_value a = 0, p))"

end
