(* ===== verification/Directories.thy ===== *)
theory Directories
  imports Files
begin

text \<open>
  Directories (external-directory.cpp), with the numbers of the errors on Linux. A handle is
  used as an index without any check by \<open>dir_close\<close> and \<open>dir_read\<close>: outside of the table, or on a
  closed directory where the system would get a null pointer, the model is \<open>None\<close>.
\<close>

definition SLATE_DIRECTORIES_MAXIMUM :: int where "SLATE_DIRECTORIES_MAXIMUM = 256"
definition EMFILE :: int where "EMFILE = 24"
definition EINVAL :: int where "EINVAL = 22"
definition ENOENT :: int where "ENOENT = 2"

definition dir_module_init :: "process \<Rightarrow> process" where
  "dir_module_init p = p\<lparr>dir_index := replicate (nat SLATE_DIRECTORIES_MAXIMUM) 0\<rparr>"

definition dir_handle_isvalid :: "process \<Rightarrow> word_t \<Rightarrow> bool" where
  "dir_handle_isvalid p dir \<longleftrightarrow> 0 \<le> dir \<and> dir < int (length (dir_index p)) \<and> dir_index p ! nat dir \<noteq> 0"

definition dir_allocate :: "process \<Rightarrow> int" where
  "dir_allocate p =
     (case first_free (\<lambda>i. dir_index p ! nat i \<noteq> 0) SLATE_DIRECTORIES_MAXIMUM of None \<Rightarrow> - EMFILE | Some i \<Rightarrow> i)"

definition set_dir :: "process \<Rightarrow> int \<Rightarrow> addr \<Rightarrow> process" where
  "set_dir p i d = p\<lparr>dir_index := (dir_index p)[nat i := d]\<rparr>"

text \<open>The name is copied into a buffer of \<open>nameLen + 1\<close> bytes of the heap, which the call allocates.\<close>

definition dir_open :: "os \<Rightarrow> process \<Rightarrow> int list \<Rightarrow> int \<times> process" where
  "dir_open os p dirName =
     (let dirHandle = dir_allocate p in
      if dirHandle < 0 then (dirHandle, p)
      else let (a, p) = sys os p (Allocate (int (length dirName) + 1)) in
        if ans_value a = 0 then (- ans_errno a, p)
        else let (d, p) = sys os p (Opendir (counted_name dirName));
            p = set_dir p dirHandle (ans_value d)
          in (if ans_value d = 0 then - ans_errno d else dirHandle, p))"

definition dir_close :: "os \<Rightarrow> process \<Rightarrow> int \<Rightarrow> (int \<times> process) option" where
  "dir_close os p dirHandle = do {
     check (0 \<le> dirHandle \<and> nat dirHandle < length (dir_index p));
     let d = dir_index p ! nat dirHandle;
     if d \<noteq> 0 then do {
       let (_, p) = sys os p (Closedir d);
       Some (0, set_dir p dirHandle 0) }
     else Some (- EINVAL, p) }"

text \<open>
  \<open>readdir_r\<close> answers an error code and stores the name of the entry; at the end of the
  directory it stores none. The buffer is the bytes of the byte array.
\<close>

definition dir_read :: "os \<Rightarrow> process \<Rightarrow> int \<Rightarrow> int list \<Rightarrow> (int \<times> int list \<times> process) option" where
  "dir_read os p dirHandle entNameBuffer =
     (if dirHandle < 0 then Some (- EINVAL, entNameBuffer, p)
      else do {
        check (nat dirHandle < length (dir_index p) \<and> dir_index p ! nat dirHandle \<noteq> 0);
        let (a, p) = sys os p (Readdir (dir_index p ! nat dirHandle));
        if ans_value a \<noteq> 0 then do { check (0 \<le> ans_value a); Some (- ans_value a, entNameBuffer, p) }
        else (case ans_strings a of
            [] \<Rightarrow> Some (0, entNameBuffer, p)
          | name # _ \<Rightarrow>
              let entName = c_string name; entLen = length entName in
              if entLen = 0 then Some (- ENOENT, entNameBuffer, p)
              else do {
                entNameBuffer \<leftarrow> copy_bytes entName entLen entNameBuffer;
                Some (int entLen, entNameBuffer, p) }) })"

text \<open>\<open>getcwd\<close> stores the path and its zero byte, or answers the null pointer.\<close>

definition dir_getcwd :: "os \<Rightarrow> process \<Rightarrow> int list \<Rightarrow> (int \<times> int list \<times> process) option" where
  "dir_getcwd os p pathBuffer =
     (let (a, p) = sys os p (Getcwd (int (length pathBuffer))) in
      if ans_value a = 0 then Some (- ans_errno a, pathBuffer, p)
      else let path = c_string (ans_words a) in do {
        pathBuffer \<leftarrow> copy_bytes (path @ [0]) (length path + 1) pathBuffer;
        Some (int (length path), pathBuffer, p) })"

definition dir_setcwd :: "os \<Rightarrow> process \<Rightarrow> int list \<Rightarrow> int \<times> process" where
  "dir_setcwd os p newpath =
     (let (a, p) = sys os p (Allocate (int (length newpath) + 1)) in
      if ans_value a = 0 then (- ans_errno a, p)
      else let (c, p) = sys os p (Chdir (counted_name newpath)) in
        (if ans_value c = -1 then - ans_errno c else 0, p))"

definition dir_make :: "os \<Rightarrow> process \<Rightarrow> int list \<Rightarrow> bool \<times> process" where
  "dir_make os p dir = (let (a, p) = sys os p (Mkdir dir 511) in (ans_value a = 0, p))"

definition dir_delete :: "os \<Rightarrow> process \<Rightarrow> int list \<Rightarrow> bool \<times> process" where
  "dir_delete os p dir = (let (a, p) = sys os p (Rmdir dir) in (ans_value a = 0, p))"

definition dir_rename_to :: "os \<Rightarrow> process \<Rightarrow> int list \<Rightarrow> int list \<Rightarrow> bool \<times> process" where
  "dir_rename_to os p src dest = (let (a, p) = sys os p (Rename src dest) in (ans_value a = 0, p))"

section \<open>The two tables of handles\<close>

interpretation dirs: handle_table dir_handle_isvalid "\<lambda>p. SLATE_DIRECTORIES_MAXIMUM" "\<lambda>p. (dir_allocate p, p)"
  "\<lambda>p. int (length (dir_index p)) = SLATE_DIRECTORIES_MAXIMUM"
proof unfold_locales
  fix p h g p'
  assume w: "int (length (dir_index p)) = SLATE_DIRECTORIES_MAXIMUM" and a: "(dir_allocate p, p) = (h, p')"
  show "h < SLATE_DIRECTORIES_MAXIMUM \<and> \<not> dir_handle_isvalid p' h" if "0 \<le> h"
    using that a w by (auto simp: dir_allocate_def EMFILE_def dir_handle_isvalid_def split: option.splits dest: first_free_SomeD)
  show "dir_handle_isvalid p' g = dir_handle_isvalid p g" using a by simp
  show "dir_handle_isvalid p g" if "h < 0" "0 \<le> g" "g < SLATE_DIRECTORIES_MAXIMUM"
    using that a w by (auto simp: dir_allocate_def dir_handle_isvalid_def first_free_None_iff split: option.splits dest: first_free_SomeD)
qed (auto simp: dir_handle_isvalid_def)

text \<open>The table of files is never full, unless the allocation of a larger one fails.\<close>

definition file_handle :: "os \<Rightarrow> process \<Rightarrow> int \<times> process" where
  "file_handle os p = (case file_allocate os p of Some r \<Rightarrow> r | None \<Rightarrow> (SLATE_ERROR_RETURN, p))"

lemma doubled_valid:
  assumes "file_index p' = file_index p @ replicate (length (file_index p)) 0"
  shows "file_handle_isvalid p' g = file_handle_isvalid p g"
proof (cases "0 \<le> g \<and> g < int (length (file_index p))")
  case False
  have "file_index p' ! nat g = 0" if "0 \<le> g" "g < 2 * int (length (file_index p))"
  proof -
    have "nat g - length (file_index p) < length (file_index p)" "\<not> nat g < length (file_index p)"
      using that False by linarith+
    then show ?thesis by (simp add: assms nth_append)
  qed
  with False show ?thesis by (auto simp: file_handle_isvalid_def file_index_size_def assms)
qed (auto simp: file_handle_isvalid_def file_index_size_def assms nth_append)

interpretation files: handle_table file_handle_isvalid file_index_size "file_handle os" "\<lambda>p. file_index p \<noteq> []" for os
proof unfold_locales
  fix p h g p'
  assume w: "file_index p \<noteq> []" and a: "file_handle os p = (h, p')"
  have full: "first_free (file_handle_isvalid p) (file_index_size p) = None \<or> (0 \<le> h \<and> p' = p \<and> h < file_index_size p \<and> \<not> file_handle_isvalid p h)"
    using a by (auto simp: file_handle_def file_allocate_def split: option.splits dest: first_free_SomeD)
  have grown: "(h = SLATE_ERROR_RETURN \<and> p' = p) \<or>
      (h = file_index_size p \<and> file_index p' = file_index p @ replicate (length (file_index p)) 0)"
    if "first_free (file_handle_isvalid p) (file_index_size p) = None"
    using a that by (auto simp: file_handle_def file_allocate_def check_def split_beta split: option.splits if_splits)
  show "h < file_index_size p' \<and> \<not> file_handle_isvalid p' h" if "0 \<le> h"
    using full grown that w
    by (auto simp: SLATE_ERROR_RETURN_def file_index_size_def file_handle_isvalid_def nth_append)
  show "file_handle_isvalid p' g = file_handle_isvalid p g"
    using full grown doubled_valid by metis
  show "file_handle_isvalid p g" if "h < 0" "0 \<le> g" "g < file_index_size p"
    using full that by (auto simp: first_free_None_iff)
qed (auto simp: file_handle_isvalid_def file_index_size_def)

end
