(* ===== verification/Pipes.thy ===== *)
theory Pipes
  imports Directories
begin

text \<open>
  Processes at the end of pipes (external-pipes.cpp, \<open>fork2\<close> of misc.cpp). The model follows one
  process: at a \<open>fork\<close> the one that the answer names, 0 for the child. A process that
  exits or is replaced by another program is \<open>None\<close>.
\<close>

text \<open>A status of \<open>waitpid\<close>, as the macros of the system take it apart.\<close>

definition WIFEXITED :: "int \<Rightarrow> bool" where "WIFEXITED status \<longleftrightarrow> status AND 127 = 0"
definition WEXITSTATUS :: "int \<Rightarrow> int" where "WEXITSTATUS status = drop_bit 8 status AND 255"

definition fork2 :: "os \<Rightarrow> process \<Rightarrow> (int \<times> process) option" where
  "fork2 os p = do {
     let (a, p) = sys os p Fork;
     if ans_value a = 0 then do {
       let (b, p) = sys os p Fork;
       check (ans_value b = 0);
       Some (0, p) }
     else if ans_value a < 0 then Some (-1, p)
     else do {
       let (w, p) = sys os p (Waitpid (ans_value a));
       if ans_value w < 0 then Some (-1, p)
       else do {
         check (ans_words w \<noteq> []);
         if WIFEXITED (hd (ans_words w)) \<and> WEXITSTATUS (hd (ans_words w)) = 0 then Some (1, p)
         else Some (-1, p) } } }"

text \<open>The arguments of the program: a null pointer for an argument that is not a byte array.\<close>

fun exec_args :: "(int list \<times> word_t) option list \<Rightarrow> int list option list option" where
  "exec_args [] = Some []"
| "exec_args (None # as) = map_option (\<lambda>vs. None # vs) (exec_args as)"
| "exec_args (Some (array, payloadSize) # as) = do {
     (n, s) \<leftarrow> file_name array payloadSize;
     check (0 \<le> n);
     map_option (\<lambda>vs. Some s # vs) (exec_args as) }"

definition close_fd :: "os \<Rightarrow> process \<Rightarrow> int \<Rightarrow> process" where
  "close_fd os p fd = snd (sys os p (CloseFd fd))"

definition dup_fd :: "os \<Rightarrow> process \<Rightarrow> int \<Rightarrow> int \<Rightarrow> process" where
  "dup_fd os p fd to = snd (sys os p (Dup2 fd to))"

text \<open>
  The two pipes; the descriptor for writing to the program is taken from the reading end, as
  in the source. The second component are the descriptors for the image.
\<close>

definition pipe_child :: "os \<Rightarrow> process \<Rightarrow> int \<Rightarrow> int \<Rightarrow> int \<Rightarrow> int \<Rightarrow> int list \<Rightarrow> int list option list \<Rightarrow> process option" where
  "pipe_child os p readStdin writeStdin readStdout writeStdout path argv = do {
     let p = close_fd os (close_fd os p writeStdin) readStdout;
     let p = close_fd os (dup_fd os p readStdin 0) readStdin;
     let p = close_fd os (dup_fd os p writeStdout 1) writeStdout;
     let (a, p) = sys os p (Execv path argv);
     check (ans_value a < 0);
     Some p }"

definition pipe_open ::
  "os \<Rightarrow> process \<Rightarrow> int list \<Rightarrow> word_t \<Rightarrow> (int list \<times> word_t) option list \<Rightarrow> (word_t \<times> int list \<times> process) option" where
  "pipe_open os p name payloadSize args = do {
     (nameLength, path) \<leftarrow> file_name name payloadSize;
     let (a, p) = sys os p MakePipe;
     if ans_value a = -1 then Some (SLATE_ERROR_RETURN, [], p)
     else do {
       let (b, p) = sys os p MakePipe;
       if ans_value b = -1 then Some (SLATE_ERROR_RETURN, [], p)
       else do {
         check (length (ans_words a) = 2 \<and> length (ans_words b) = 2);
         let readStdin = ans_words a ! 0;
         let writeStdin = ans_words a ! 0;
         let readStdout = ans_words b ! 0;
         let writeStdout = ans_words b ! 1;
         (pid, p) \<leftarrow> fork2 os p;
         check (pid \<noteq> -1);
         if pid = 0 then do {
           check (0 \<le> nameLength);
           argv \<leftarrow> exec_args args;
           p \<leftarrow> pipe_child os p readStdin writeStdin readStdout writeStdout path argv;
           Some (SLATE_ERROR_RETURN, [], p) }
         else do {
           let p = close_fd os (close_fd os p readStdin) writeStdout;
           Some (2, [writeStdin, readStdout], p) } } } }"

definition pipe_write :: "os \<Rightarrow> process \<Rightarrow> word_t \<Rightarrow> word_t \<Rightarrow> int list \<Rightarrow> (word_t \<times> process) option" where
  "pipe_write os p file n bytes = do {
     check (0 \<le> n \<and> nat n \<le> length bytes);
     let (a, p) = sys os p (WriteFd file (take (nat n) bytes));
     Some (ans_value a, p) }"

text \<open>At most \<open>n\<close> bytes are ans_words; a negative ans_value stores none.\<close>

definition pipe_read :: "os \<Rightarrow> process \<Rightarrow> word_t \<Rightarrow> word_t \<Rightarrow> int list \<Rightarrow> (word_t \<times> int list \<times> process) option" where
  "pipe_read os p file n bytes = do {
     check (0 \<le> n \<and> nat n \<le> length bytes);
     let (a, p) = sys os p (ReadFd file n);
     if ans_value a < 0 then Some (ans_value a, bytes, p)
     else do {
       let got = take (nat n) (ans_words a);
       Some (int (length got), got @ drop (length got) bytes, p) } }"

definition pipe_close :: "os \<Rightarrow> process \<Rightarrow> int \<Rightarrow> process" where
  "pipe_close os p pipe = close_fd os p pipe"

lemma fork2_parent: "fork2 os p = Some (1, p') \<Longrightarrow> \<exists>pid. os_trace p' = Waitpid pid # Fork # os_trace p"
  by (auto simp: fork2_def split_beta check_def split: if_splits)

lemma fork2_cases: "fork2 os p = Some (pid, p') \<Longrightarrow> pid = 0 \<or> pid = 1 \<or> pid = -1"
  by (auto simp: fork2_def split_beta check_def split: if_splits)

section \<open>Properties\<close>

text \<open>
  C32. The descriptor that the image gets for writing to the program is the reading end of the first
  pipe, and it is closed already: the calls of the parent are the two pipes, the fork, and the
  closing of that very descriptor and of the writing end of the second pipe. The writing end of
  the first pipe stays open and is in no table.
\<close>

theorem pipe_open_answers_closed:
  assumes "pipe_open os p name payloadSize args = Some (2, fds, p')"
  defines "a \<equiv> ans_words (os (os_trace p) MakePipe)" and "b \<equiv> ans_words (os (MakePipe # os_trace p) MakePipe)"
  shows "fds = [a ! 0, b ! 0] \<and>
    (\<exists>pid. os_trace p' = [CloseFd (b ! 1), CloseFd (a ! 0), Waitpid pid, Fork, MakePipe, MakePipe] @ os_trace p)"
proof -
  let ?q = "snd (sys os (snd (sys os p MakePipe)) MakePipe)"
  obtain pid q where f: "fork2 os ?q = Some (pid, q)" "pid \<noteq> -1" "pid \<noteq> 0" "fds = [a ! 0, b ! 0]"
    "p' = close_fd os (close_fd os q (a ! 0)) (b ! 1)"
    using assms(1) unfolding pipe_open_def a_def b_def SLATE_ERROR_RETURN_def
    by (auto simp: Option.bind_eq_Some_conv split_beta Let_def check_def split: if_splits)
  with fork2_cases have "pid = 1" by blast
  with fork2_parent f(1) obtain c where "os_trace q = Waitpid c # Fork # os_trace ?q" by blast
  with f show ?thesis by (simp add: close_fd_def)
qed

text \<open>A system that makes pipes of new descriptors and whose programs start.\<close>

definition sample_os :: os where
  "sample_os t c = (let n = int (length t) in
     case c of
       Fopen name mode \<Rightarrow> \<lparr>ans_value = n + 1, ans_words = [], ans_strings = [], ans_errno = 0\<rparr>
     | MakePipe \<Rightarrow> \<lparr>ans_value = 0, ans_words = [2 * n + 10, 2 * n + 11], ans_strings = [], ans_errno = 0\<rparr>
     | Fork \<Rightarrow> \<lparr>ans_value = 77, ans_words = [], ans_strings = [], ans_errno = 0\<rparr>
     | _ \<Rightarrow> \<lparr>ans_value = 0, ans_words = [0], ans_strings = [], ans_errno = 0\<rparr>)"

definition sample_process :: process where
  "sample_process = file_module_init (dir_module_init \<lparr>file_index = [], dir_index = [], os_trace = []\<rparr>)"

definition sample_name :: "int list" where "sample_name = [47, 98] @ replicate 510 0"

theorem pipe_open_answers_closed_witness:
  "\<exists>fds p'. pipe_open sample_os sample_process sample_name 2 [] = Some (2, fds, p') \<and> fds ! 0 = 10 \<and>
    (\<exists>pid. os_trace p' = [CloseFd 13, CloseFd 10, Waitpid pid, Fork, MakePipe, MakePipe])"
proof -
  have "map_option (\<lambda>(n, fds, p'). n) (pipe_open sample_os sample_process sample_name 2 []) = Some 2" by code_simp
  then obtain fds p' where 1: "pipe_open sample_os sample_process sample_name 2 [] = Some (2, fds, p')" by auto
  have "os_trace sample_process = []" "ans_words (sample_os [] MakePipe) = [10, 11]" "ans_words (sample_os [MakePipe] MakePipe) = [12, 13]"
    by code_simp+
  with pipe_open_answers_closed [OF 1] 1 show ?thesis by auto
qed

end
