(* ===== verification/Heap.thy ===== *)
theory Heap
  imports ObjectModel Profiler Sockets Pipes "HOL-Library.Multiset"
begin

text \<open>
  The state of the VM (\<open>struct object_heap\<close>) and the accessors of objects: header fields,
  sizes, elements, membership of the two generations, pin counts, identity hashes.
\<close>

section \<open>The state\<close>

text \<open>An entry of the global method cache (\<open>struct MethodCacheEntry\<close>).\<close>

record cache_entry =
  ce_method :: oop
  ce_selector :: oop
  ce_maps :: "nat \<Rightarrow> oop"

text \<open>
  The fields of \<open>struct object_heap\<close> that the modelled code uses. The mark stack is the
  list of its live entries, top first; \<open>std::set\<close> and \<open>std::multiset\<close> are sets and
  multisets, iterated in address order.
\<close>

record object_heap =
  mem :: mem
  mark_color :: word_t
  memoryOld :: addr
  memoryYoung :: addr
  memoryOldSize :: word_t
  memoryYoungSize :: word_t
  memoryOldLimit :: word_t
  memoryYoungLimit :: word_t
  special_objects_oop :: addr
  current_dispatch_id :: word_t
  interrupt_flag :: bool
  automaticallyInline :: bool
  lastHash :: word_t
  method_cache_hit :: word_t
  method_cache_access :: word_t
  nextFree :: addr
  nextOldFree :: addr
  methodCache :: "int \<Rightarrow> cache_entry"
  optimizedMethods :: "addr multiset"
  tenuredObjects :: "addr list"
  markStack :: "addr list"
  rememberedOldObjects :: "addr set"
  doFullGCNext :: bool
  profiler :: profiler_state
  memareas :: memarea_state
  sockets :: socket_state
  process :: process
  c_interpreter :: addr
  c_true_object :: addr
  c_false_object :: addr
  c_nil :: addr
  c_primitive_method_window :: addr
  c_compiled_method_window :: addr
  c_closure_method_window :: addr

definition upd :: "object_heap \<Rightarrow> addr \<Rightarrow> nat \<Rightarrow> word_t \<Rightarrow> object_heap" where
  "upd oh p k v = oh\<lparr>mem := wr (mem oh) p k v\<rparr>"

lemma mem_upd [simp, vm_simps]: "mem (upd oh p k v) = wr (mem oh) p k v"
  by (simp add: upd_def)

lemma upd_fields [simp]:
  "mark_color (upd oh p k v) = mark_color oh"
  "memoryOld (upd oh p k v) = memoryOld oh" "memoryYoung (upd oh p k v) = memoryYoung oh"
  "memoryOldSize (upd oh p k v) = memoryOldSize oh" "memoryYoungSize (upd oh p k v) = memoryYoungSize oh"
  "memoryOldLimit (upd oh p k v) = memoryOldLimit oh"
  "special_objects_oop (upd oh p k v) = special_objects_oop oh"
  "lastHash (upd oh p k v) = lastHash oh" "markStack (upd oh p k v) = markStack oh"
  "rememberedOldObjects (upd oh p k v) = rememberedOldObjects oh"
  "memareas (upd oh p k v) = memareas oh" "sockets (upd oh p k v) = sockets oh" "process (upd oh p k v) = process oh"
  "tenuredObjects (upd oh p k v) = tenuredObjects oh" "profiler (upd oh p k v) = profiler oh"
  "nextFree (upd oh p k v) = nextFree oh" "nextOldFree (upd oh p k v) = nextOldFree oh"
  "c_nil (upd oh p k v) = c_nil oh" "c_interpreter (upd oh p k v) = c_interpreter oh"
  by (simp_all add: upd_def)

section \<open>Header accessors\<close>

definition object_markbit :: "mem \<Rightarrow> oop \<Rightarrow> word_t" where
  "object_markbit m x = hdr_markbit (rd m x HEADER)"

definition object_hash :: "mem \<Rightarrow> oop \<Rightarrow> word_t" where
  "object_hash m x = hdr_hash (rd m x HEADER)"

definition object_type :: "mem \<Rightarrow> oop \<Rightarrow> word_t" where
  "object_type m x = hdr_type (rd m x HEADER)"

definition object_pin_count :: "mem \<Rightarrow> oop \<Rightarrow> word_t" where
  "object_pin_count m x = hdr_pins (rd m x HEADER)"

definition object_size :: "mem \<Rightarrow> oop \<Rightarrow> word_t" where
  "object_size m x = rd m x OBJECT_SIZE"

definition payload_size :: "mem \<Rightarrow> oop \<Rightarrow> word_t" where
  "payload_size m x = rd m x PAYLOAD_SIZE"

definition object_map :: "mem \<Rightarrow> oop \<Rightarrow> oop" where
  "object_map m x = rd m x MAP"

definition object_set_mark :: "object_heap \<Rightarrow> oop \<Rightarrow> object_heap" where
  "object_set_mark oh x = upd oh x HEADER (hdr_set_markbit (rd (mem oh) x HEADER) (mark_color oh))"

definition object_unmark :: "object_heap \<Rightarrow> oop \<Rightarrow> object_heap" where
  "object_unmark oh x = upd oh x HEADER (hdr_set_markbit (rd (mem oh) x HEADER) (NOT (mark_color oh)))"

definition object_is_marked :: "object_heap \<Rightarrow> oop \<Rightarrow> bool" where
  "object_is_marked oh x \<longleftrightarrow> object_markbit (mem oh) x = mark_color oh"

definition object_set_format :: "object_heap \<Rightarrow> oop \<Rightarrow> word_t \<Rightarrow> object_heap" where
  "object_set_format oh x type = upd oh x HEADER (hdr_set_type (rd (mem oh) x HEADER) type)"

definition object_set_idhash :: "object_heap \<Rightarrow> oop \<Rightarrow> word_t \<Rightarrow> object_heap" where
  "object_set_idhash oh x h = upd oh x HEADER (hdr_set_hash (rd (mem oh) x HEADER) h)"

text \<open>The assertion compares unsigned: a negative size passes it.\<close>

definition object_set_size :: "object_heap \<Rightarrow> oop \<Rightarrow> word_t \<Rightarrow> object_heap option" where
  "object_set_size oh x n = do {
     check (n < 0 \<or> n \<ge> 4);
     Some (upd oh x OBJECT_SIZE n) }"

definition payload_set_size :: "object_heap \<Rightarrow> oop \<Rightarrow> word_t \<Rightarrow> object_heap" where
  "payload_set_size oh x n = upd oh x PAYLOAD_SIZE n"

definition object_zero_pin_count :: "object_heap \<Rightarrow> oop \<Rightarrow> object_heap" where
  "object_zero_pin_count oh x =
     upd oh x HEADER (rd (mem oh) x HEADER AND NOT (push_bit PINNED_OFFSET PINNED_MASK))"

definition object_increment_pin_count :: "object_heap \<Rightarrow> oop \<Rightarrow> object_heap option" where
  "object_increment_pin_count oh x =
     (let count = object_pin_count (mem oh) x in do {
        check (count \<noteq> PINNED_MASK);
        check (count + 1 \<noteq> PINNED_MASK);
        Some (upd oh x HEADER (hdr_set_pins (rd (mem oh) x HEADER) (count + 1))) })"

definition object_decrement_pin_count :: "object_heap \<Rightarrow> oop \<Rightarrow> object_heap" where
  "object_decrement_pin_count oh x =
     (let count = object_pin_count (mem oh) x in
      if count = 0 then oh
      else upd oh x HEADER (hdr_set_pins (rd (mem oh) x HEADER) (count - 1)))"

definition object_is_free :: "mem \<Rightarrow> oop \<Rightarrow> bool" where
  "object_is_free m x \<longleftrightarrow> object_hash m x \<ge> ID_HASH_RESERVED"

definition object_is_pinned :: "object_heap \<Rightarrow> oop \<Rightarrow> bool" where
  "object_is_pinned oh x \<longleftrightarrow> object_pin_count (mem oh) x > 0"

definition object_is_immutable :: "mem \<Rightarrow> oop \<Rightarrow> bool" where
  "object_is_immutable m x \<longleftrightarrow> rd m (object_map m x) 4 AND MAP_FLAG_IMMUTABLE \<noteq> 0"

definition heap_pin_object :: "object_heap \<Rightarrow> oop \<Rightarrow> object_heap option" where
  "heap_pin_object oh x =
     (if object_is_smallint x then Some oh
      else do {
        check (object_hash (mem oh) x < ID_HASH_RESERVED);
        object_increment_pin_count oh x })"

definition heap_unpin_object :: "object_heap \<Rightarrow> oop \<Rightarrow> object_heap" where
  "heap_unpin_object oh x =
     (if object_is_smallint x then oh else object_decrement_pin_count oh x)"

section \<open>Sizes and elements\<close>

definition payload_words :: "mem \<Rightarrow> oop \<Rightarrow> word_t" where
  "payload_words m x = (payload_size m x + 7) div 8"

definition object_word_size :: "mem \<Rightarrow> oop \<Rightarrow> word_t" where
  "object_word_size m x =
     (if object_type m x = TYPE_OBJECT then object_size m x
      else object_size m x + payload_words m x)"

definition object_total_size :: "mem \<Rightarrow> oop \<Rightarrow> word_t" where
  "object_total_size m x = object_word_size m x * 8"

definition object_array_size :: "mem \<Rightarrow> oop \<Rightarrow> word_t option" where
  "object_array_size m x = do {
     check (object_type m x \<noteq> TYPE_OBJECT);
     Some (payload_words m x) }"

definition object_array_offset :: "mem \<Rightarrow> oop \<Rightarrow> word_t" where
  "object_array_offset m x = object_size m x * 8"

definition object_byte_size :: "mem \<Rightarrow> oop \<Rightarrow> word_t" where
  "object_byte_size m x =
     (if object_type m x = TYPE_OBJECT then object_array_offset m x
      else object_array_offset m x + payload_size m x)"

definition object_first_slot_offset :: "mem \<Rightarrow> oop \<Rightarrow> word_t" where
  "object_first_slot_offset m x = 32"

definition object_last_slot_offset :: "mem \<Rightarrow> oop \<Rightarrow> word_t" where
  "object_last_slot_offset m x = object_size m x * 8 - 8"

definition object_last_oop_offset :: "mem \<Rightarrow> oop \<Rightarrow> word_t" where
  "object_last_oop_offset m x =
     (if object_type m x = TYPE_OOP_ARRAY then object_last_slot_offset m x + payload_size m x
      else object_last_slot_offset m x)"

definition object_slot_value_at_offset :: "mem \<Rightarrow> oop \<Rightarrow> word_t \<Rightarrow> oop" where
  "object_slot_value_at_offset m x offset = rd m x (nat (offset div 8))"

definition object_array_get_element :: "mem \<Rightarrow> oop \<Rightarrow> word_t \<Rightarrow> oop" where
  "object_array_get_element m x i = rd m x (nat (object_size m x + i))"

text \<open>\<open>elements[i]\<close> of \<open>struct OopArray\<close>: the words right after the C header.\<close>

definition elements :: "mem \<Rightarrow> oop \<Rightarrow> word_t \<Rightarrow> oop" where
  "elements m x i = rd m x (nat (4 + i))"

text \<open>Bytes of a byte array: little-endian parts of the payload words.\<close>

definition byte_array_get_element :: "mem \<Rightarrow> oop \<Rightarrow> word_t \<Rightarrow> word_t" where
  "byte_array_get_element m x i =
     take_bit 8 (drop_bit (8 * nat (i mod 8)) (rd m x (nat (object_size m x + i div 8))))"

definition byte_array_set_element :: "object_heap \<Rightarrow> oop \<Rightarrow> word_t \<Rightarrow> word_t \<Rightarrow> object_heap" where
  "byte_array_set_element oh x i val =
     (let k = nat (object_size (mem oh) x + i div 8); s = 8 * nat (i mod 8);
          w = rd (mem oh) x k
      in upd oh x k (wrap64 ((w AND NOT (push_bit s 255)) OR push_bit s (take_bit 8 val))))"

section \<open>Generations and special objects\<close>

definition object_in_memory :: "oop \<Rightarrow> addr \<Rightarrow> word_t \<Rightarrow> bool" where
  "object_in_memory x memory memorySize \<longleftrightarrow> memory \<le> x \<and> memory + memorySize > x"

definition object_is_old :: "object_heap \<Rightarrow> oop \<Rightarrow> bool" where
  "object_is_old oh x \<longleftrightarrow> memoryOld oh \<le> x \<and> memoryOld oh + memoryOldSize oh > x"

definition object_is_young :: "object_heap \<Rightarrow> oop \<Rightarrow> bool" where
  "object_is_young oh x \<longleftrightarrow> memoryYoung oh \<le> x \<and> memoryYoung oh + memoryYoungSize oh > x"

definition object_after :: "mem \<Rightarrow> oop \<Rightarrow> oop option" where
  "object_after m x = do {
     check (object_total_size m x \<noteq> 0);
     Some (x + object_total_size m x) }"

definition get_special :: "object_heap \<Rightarrow> nat \<Rightarrow> oop" where
  "get_special oh i = elements (mem oh) (special_objects_oop oh) (int i)"

definition object_is_special :: "object_heap \<Rightarrow> oop \<Rightarrow> bool" where
  "object_is_special oh x \<longleftrightarrow> (\<exists>i \<in> set [0..<SPECIAL_OOP_COUNT]. x = get_special oh i)"

definition object_get_map :: "object_heap \<Rightarrow> oop \<Rightarrow> oop" where
  "object_get_map oh x =
     (if object_is_smallint x then object_map (mem oh) (get_special oh SPECIAL_OOP_SMALL_INT_PROTO)
      else object_map (mem oh) x)"

text \<open>
  \<open>object_is_remembered\<close>: the lookup in the remembered set is a statement without effect
  (its value is not returned), so the function answers 0 for every object.
\<close>

definition object_is_remembered :: "object_heap \<Rightarrow> oop \<Rightarrow> bool" where
  "object_is_remembered oh x = (if object_is_old oh x then False else False)"

definition heap_remember_old_object :: "object_heap \<Rightarrow> oop \<Rightarrow> object_heap" where
  "heap_remember_old_object oh x =
     (if object_is_old oh x \<and> \<not> object_is_smallint x
      then oh\<lparr>rememberedOldObjects := insert x (rememberedOldObjects oh)\<rparr> else oh)"

text \<open>The write barrier.\<close>

definition heap_store_into :: "object_heap \<Rightarrow> oop \<Rightarrow> oop \<Rightarrow> object_heap option" where
  "heap_store_into oh src dest = do {
     check (object_is_smallint dest \<or>
            (object_hash (mem oh) dest < ID_HASH_RESERVED \<and> object_hash (mem oh) src < ID_HASH_RESERVED));
     Some (if object_is_young oh dest \<and> object_is_old oh src then heap_remember_old_object oh src else oh) }"

definition object_slot_value_at_offset_put :: "object_heap \<Rightarrow> oop \<Rightarrow> word_t \<Rightarrow> oop \<Rightarrow> object_heap option" where
  "object_slot_value_at_offset_put oh x offset value = do {
     oh \<leftarrow> heap_store_into oh x value;
     Some (upd oh x (nat (offset div 8)) value) }"

definition object_array_set_element :: "object_heap \<Rightarrow> oop \<Rightarrow> word_t \<Rightarrow> oop \<Rightarrow> object_heap option" where
  "object_array_set_element oh x i val = do {
     oh \<leftarrow> heap_store_into oh x val;
     Some (upd oh x (nat (object_size (mem oh) x + i)) val) }"

section \<open>Frame lemmas of the header setters\<close>

text \<open>
  A header setter changes word 0 of one object, and of that word its own field. The
  derived sizes only look at the format and at words 1 and 2.
\<close>

lemma object_set_mark_frame [simp, vm_simps]:
  "object_markbit (mem (object_set_mark oh x)) y = (if y = x then mark_color oh AND 1 else object_markbit (mem oh) y)"
  "object_hash (mem (object_set_mark oh x)) y = object_hash (mem oh) y"
  "object_pin_count (mem (object_set_mark oh x)) y = object_pin_count (mem oh) y"
  "object_type (mem (object_set_mark oh x)) y = object_type (mem oh) y"
  "k \<noteq> 0 \<Longrightarrow> rd (mem (object_set_mark oh x)) y k = rd (mem oh) y k"
  by (auto simp: object_set_mark_def object_markbit_def object_hash_def object_pin_count_def object_type_def)

lemma object_unmark_frame [simp, vm_simps]:
  "object_markbit (mem (object_unmark oh x)) y = (if y = x then NOT (mark_color oh) AND 1 else object_markbit (mem oh) y)"
  "object_hash (mem (object_unmark oh x)) y = object_hash (mem oh) y"
  "object_pin_count (mem (object_unmark oh x)) y = object_pin_count (mem oh) y"
  "object_type (mem (object_unmark oh x)) y = object_type (mem oh) y"
  "k \<noteq> 0 \<Longrightarrow> rd (mem (object_unmark oh x)) y k = rd (mem oh) y k"
  by (auto simp: object_unmark_def object_markbit_def object_hash_def object_pin_count_def object_type_def)

lemma object_set_idhash_frame [simp, vm_simps]:
  "object_markbit (mem (object_set_idhash oh x h)) y = object_markbit (mem oh) y"
  "object_hash (mem (object_set_idhash oh x h)) y = (if y = x then h AND ID_HASH_MAX else object_hash (mem oh) y)"
  "object_pin_count (mem (object_set_idhash oh x h)) y = object_pin_count (mem oh) y"
  "object_type (mem (object_set_idhash oh x h)) y = object_type (mem oh) y"
  "k \<noteq> 0 \<Longrightarrow> rd (mem (object_set_idhash oh x h)) y k = rd (mem oh) y k"
  by (auto simp: object_set_idhash_def object_markbit_def object_hash_def object_pin_count_def object_type_def)

lemma object_set_format_frame [simp, vm_simps]:
  "object_markbit (mem (object_set_format oh x t)) y = object_markbit (mem oh) y"
  "object_hash (mem (object_set_format oh x t)) y = object_hash (mem oh) y"
  "object_pin_count (mem (object_set_format oh x t)) y = object_pin_count (mem oh) y"
  "object_type (mem (object_set_format oh x t)) y = (if y = x then t AND 3 else object_type (mem oh) y)"
  "k \<noteq> 0 \<Longrightarrow> rd (mem (object_set_format oh x t)) y k = rd (mem oh) y k"
  by (auto simp: object_set_format_def object_markbit_def object_hash_def object_pin_count_def object_type_def)

lemma object_zero_pin_count_frame [simp, vm_simps]:
  "object_markbit (mem (object_zero_pin_count oh x)) y = object_markbit (mem oh) y"
  "object_hash (mem (object_zero_pin_count oh x)) y = object_hash (mem oh) y"
  "object_pin_count (mem (object_zero_pin_count oh x)) y = (if y = x then 0 else object_pin_count (mem oh) y)"
  "object_type (mem (object_zero_pin_count oh x)) y = object_type (mem oh) y"
  "k \<noteq> 0 \<Longrightarrow> rd (mem (object_zero_pin_count oh x)) y k = rd (mem oh) y k"
  unfolding object_zero_pin_count_def hdr_zero_pins
  by (auto simp: object_markbit_def object_hash_def object_pin_count_def object_type_def hdr_get_set_pins PINNED_MASK_def)

lemma body_sizes:
  assumes "object_type m y = object_type m' y" and "rd m y 1 = rd m' y 1" and "rd m y 2 = rd m' y 2"
  shows "object_size m y = object_size m' y" "payload_size m y = payload_size m' y"
    "object_word_size m y = object_word_size m' y" "object_total_size m y = object_total_size m' y"
    "object_last_oop_offset m y = object_last_oop_offset m' y" "object_after m y = object_after m' y"
  using assms by (simp_all add: object_size_def payload_size_def object_word_size_def object_total_size_def
      payload_words_def object_last_oop_offset_def object_last_slot_offset_def object_after_def)

lemma header_setter_sizes [simp, vm_simps]:
  "object_word_size (mem (object_set_mark oh x)) y = object_word_size (mem oh) y"
  "object_word_size (mem (object_unmark oh x)) y = object_word_size (mem oh) y"
  "object_word_size (mem (object_set_idhash oh x h)) y = object_word_size (mem oh) y"
  "object_word_size (mem (object_zero_pin_count oh x)) y = object_word_size (mem oh) y"
  by (rule body_sizes; simp)+

lemma header_setter_fields [simp]:
  "mark_color (object_set_mark oh x) = mark_color oh" "mark_color (object_unmark oh x) = mark_color oh"
  "mark_color (object_set_idhash oh x h) = mark_color oh" "mark_color (object_zero_pin_count oh x) = mark_color oh"
  "markStack (object_set_mark oh x) = markStack oh" "markStack (object_unmark oh x) = markStack oh"
  "mark_color (object_set_format oh x t) = mark_color oh"
  by (simp_all add: object_set_mark_def object_unmark_def object_set_idhash_def object_set_format_def
      object_zero_pin_count_def)

section \<open>Pin counts\<close>

text \<open>
  Pinning and unpinning are inverse: a pin count below the limit comes back, nothing
  else of the memory changes.
\<close>

lemma pin_count_range: "0 \<le> object_pin_count m x" "object_pin_count m x \<le> PINNED_MASK"
  by (simp_all add: object_pin_count_def hdr_ranges)

lemma hdr_set_pins_again:
  assumes "0 \<le> v" "v \<le> PINNED_MASK"
  shows "hdr_set_pins (hdr_set_pins h v) (hdr_pins h) = h"
  by (rule bit_eqI)
    (auto simp: bit_hdr_set_pins [OF hdr_ranges(5,6)] bit_hdr_set_pins [OF assms] bit_hdr)

lemma increment_pin_frame:
  assumes "object_increment_pin_count oh x = Some oh'"
  shows "object_pin_count (mem oh') x = object_pin_count (mem oh) x + 1"
    and "object_pin_count (mem oh) x + 1 < PINNED_MASK"
    and "object_hash (mem oh') y = object_hash (mem oh) y"
    and "object_type (mem oh') y = object_type (mem oh) y"
proof -
  have c: "object_pin_count (mem oh) x \<noteq> PINNED_MASK" "object_pin_count (mem oh) x + 1 \<noteq> PINNED_MASK"
    and oh': "oh' = upd oh x HEADER (hdr_set_pins (rd (mem oh) x HEADER) (object_pin_count (mem oh) x + 1))"
    using assms by (auto simp: object_increment_pin_count_def Let_def)
  then show lt: "object_pin_count (mem oh) x + 1 < PINNED_MASK"
    using pin_count_range [of "mem oh" x] by linarith
  with pin_count_range [of "mem oh" x]
  have r: "0 \<le> object_pin_count (mem oh) x + 1" "object_pin_count (mem oh) x + 1 \<le> PINNED_MASK" by auto
  show "object_pin_count (mem oh') x = object_pin_count (mem oh) x + 1"
    "object_hash (mem oh') y = object_hash (mem oh) y" "object_type (mem oh') y = object_type (mem oh) y"
    using hdr_get_set_pins [OF r, of "rd (mem oh) x HEADER"]
    by (auto simp: oh' object_pin_count_def object_hash_def object_type_def)
qed

text \<open>
  Pinning and unpinning are inverse: whenever an object can be pinned, unpinning gives the
  heap back word for word, whatever its pin count was.
\<close>

theorem pin_unpin:
  assumes "heap_pin_object oh x = Some oh'"
  shows "heap_unpin_object oh' x = oh"
proof (cases "object_is_smallint x")
  case True
  with assms show ?thesis by (simp add: heap_pin_object_def heap_unpin_object_def)
next
  case False
  let ?c = "object_pin_count (mem oh) x"
  have inc: "object_increment_pin_count oh x = Some oh'"
    using assms False by (simp add: heap_pin_object_def)
  then have oh': "oh' = upd oh x HEADER (hdr_set_pins (rd (mem oh) x HEADER) (?c + 1))"
    by (simp add: object_increment_pin_count_def Let_def)
  note P = increment_pin_frame [OF inc]
  have r: "0 \<le> ?c + 1" "?c + 1 \<le> PINNED_MASK" using P(2) pin_count_range(1) [of "mem oh" x] by auto
  have "object_decrement_pin_count oh' x
      = upd oh' x HEADER (hdr_set_pins (rd (mem oh') x HEADER) ?c)"
    using P(1) pin_count_range(1) [of "mem oh" x] by (simp add: object_decrement_pin_count_def Let_def)
  also have "rd (mem oh') x HEADER = hdr_set_pins (rd (mem oh) x HEADER) (?c + 1)" by (simp add: oh')
  also have "hdr_set_pins (hdr_set_pins (rd (mem oh) x HEADER) (?c + 1)) ?c = rd (mem oh) x HEADER"
    using hdr_set_pins_again [OF r] by (simp add: object_pin_count_def)
  finally show ?thesis
    using False by (simp add: heap_unpin_object_def oh' upd_def wr_def rd_def fun_upd_idem)
qed

end
