(* ===== verification/NewHash.thy ===== *)
theory NewHash
  imports Heap
begin

text \<open>
  Identity hashes of new objects (\<open>heap_new_hash\<close>, object.cpp): a linear congruential
  generator that is stepped until its low 23 bits fall below the reserved values, which
  mark forwarded and free objects. The loop is a partial function; it is proved to
  return after at most two steps.
\<close>

definition hash_step :: "word_t \<Rightarrow> word_t" where
  "hash_step h = wrap64 (13849 + 27181 * h)"

partial_function (option) new_hash_loop :: "word_t \<Rightarrow> (word_t \<times> word_t) option" where
  "new_hash_loop l0 =
     (let l' = hash_step l0; hash = l' AND ID_HASH_MAX in
      if hash \<ge> ID_HASH_RESERVED then new_hash_loop l' else Some (hash, l'))"

declare new_hash_loop.simps [code]

definition heap_new_hash :: "object_heap \<Rightarrow> (word_t \<times> object_heap) option" where
  "heap_new_hash oh = do {
     (hash, l) \<leftarrow> new_hash_loop (lastHash oh);
     Some (hash, oh\<lparr>lastHash := l\<rparr>) }"

lemma and_hash_max: "x AND ID_HASH_MAX = x mod 2 ^ 23"
  unfolding mask_consts by (simp add: take_bit_eq_mask [symmetric] take_bit_eq_mod)

lemma wrap64_mod: "wrap64 x mod 2 ^ 23 = x mod 2 ^ 23"
proof (rule mod_eq_dvd_iff [THEN iffD2])
  have "(2::int) ^ 23 dvd 2 ^ 64" by (rule le_imp_power_dvd) simp
  then show "2 ^ 23 dvd wrap64 x - x" using wrap64_diff_dvd dvd_trans by blast
qed

lemma hash_step_mod: "hash_step h AND ID_HASH_MAX = (13849 + 27181 * (h mod 2 ^ 23)) mod 2 ^ 23"
  unfolding and_hash_max hash_step_def wrap64_mod
  by (metis mod_add_right_eq mod_mult_right_eq)

text \<open>The successor of a reserved hash is not reserved: sixteen cases.\<close>

lemma reserved_step:
  assumes "ID_HASH_RESERVED \<le> hash_step h AND ID_HASH_MAX"
  shows "hash_step (hash_step h) AND ID_HASH_MAX < ID_HASH_RESERVED"
proof -
  define r where "r = hash_step h AND ID_HASH_MAX"
  have "r < 2 ^ 23" unfolding r_def and_hash_max by simp
  with assms have "r \<in> {8388592 .. 8388607}" by (simp add: r_def ID_HASH_RESERVED_def)
  then have "r \<in> set [8388592 .. 8388607]" unfolding set_upto .
  then have "(13849 + 27181 * r) mod 2 ^ 23 < ID_HASH_RESERVED"
    by (simp add: upto_rec_numeral ID_HASH_RESERVED_def) (elim disjE; simp)
  then show ?thesis using hash_step_mod [of "hash_step h"] unfolding r_def and_hash_max by simp
qed

lemma new_hash_loop_total:
  "\<exists>h l. new_hash_loop l0 = Some (h, l) \<and> 0 \<le> h \<and> h < ID_HASH_RESERVED"
proof (cases "hash_step l0 AND ID_HASH_MAX \<ge> ID_HASH_RESERVED")
  case True
  then have "new_hash_loop l0 = new_hash_loop (hash_step l0)"
    by (subst new_hash_loop.simps) (simp add: Let_def)
  also have "\<dots> = Some (hash_step (hash_step l0) AND ID_HASH_MAX, hash_step (hash_step l0))"
    using reserved_step [OF True] by (subst new_hash_loop.simps) (simp add: Let_def)
  finally show ?thesis using reserved_step [OF True] by (simp add: and_hash_max)
next
  case False
  then show ?thesis by (subst new_hash_loop.simps) (simp add: Let_def and_hash_max)
qed

lemma heap_new_hash_total:
  "\<exists>h l. heap_new_hash oh = Some (h, oh\<lparr>lastHash := l\<rparr>) \<and> 0 \<le> h \<and> h < ID_HASH_RESERVED"
  using new_hash_loop_total [of "lastHash oh"] by (auto simp: heap_new_hash_def)

end
