(* ===== verification/Tables.thy ===== *)
theory Tables
  imports NewHash
begin

text \<open>
  Slot tables and role tables of maps, and the table of forward pointers that the image
  writer uses (object.cpp): open addressing with linear probing that wraps around. A
  table is an array object whose payload is a sequence of entries; entry \<open>i\<close> of a slot
  table is two words (name, offset), of a role table four (name, rolePositions,
  methodDefinition, nextRole).
\<close>

section \<open>Entries and capacities\<close>

definition slot_name :: "mem \<Rightarrow> addr \<Rightarrow> int \<Rightarrow> oop" where "slot_name m t i = rd m t (nat (4 + 2 * i))"
definition slot_offset :: "mem \<Rightarrow> addr \<Rightarrow> int \<Rightarrow> oop" where "slot_offset m t i = rd m t (nat (5 + 2 * i))"
definition role_name :: "mem \<Rightarrow> addr \<Rightarrow> int \<Rightarrow> oop" where "role_name m t i = rd m t (nat (4 + 4 * i))"
definition role_positions :: "mem \<Rightarrow> addr \<Rightarrow> int \<Rightarrow> oop" where "role_positions m t i = rd m t (nat (5 + 4 * i))"
definition role_definition :: "mem \<Rightarrow> addr \<Rightarrow> int \<Rightarrow> oop" where "role_definition m t i = rd m t (nat (6 + 4 * i))"
definition role_next :: "mem \<Rightarrow> addr \<Rightarrow> int \<Rightarrow> oop" where "role_next m t i = rd m t (nat (7 + 4 * i))"

definition set_slot_name :: "object_heap \<Rightarrow> addr \<Rightarrow> int \<Rightarrow> oop \<Rightarrow> object_heap" where
  "set_slot_name oh t i v = upd oh t (nat (4 + 2 * i)) v"
definition set_slot_offset :: "object_heap \<Rightarrow> addr \<Rightarrow> int \<Rightarrow> oop \<Rightarrow> object_heap" where
  "set_slot_offset oh t i v = upd oh t (nat (5 + 2 * i)) v"
definition set_role_name :: "object_heap \<Rightarrow> addr \<Rightarrow> int \<Rightarrow> oop \<Rightarrow> object_heap" where
  "set_role_name oh t i v = upd oh t (nat (4 + 4 * i)) v"
definition set_role_positions :: "object_heap \<Rightarrow> addr \<Rightarrow> int \<Rightarrow> oop \<Rightarrow> object_heap" where
  "set_role_positions oh t i v = upd oh t (nat (5 + 4 * i)) v"
definition set_role_definition :: "object_heap \<Rightarrow> addr \<Rightarrow> int \<Rightarrow> oop \<Rightarrow> object_heap" where
  "set_role_definition oh t i v = upd oh t (nat (6 + 4 * i)) v"
definition set_role_next :: "object_heap \<Rightarrow> addr \<Rightarrow> int \<Rightarrow> oop \<Rightarrow> object_heap" where
  "set_role_next oh t i v = upd oh t (nat (7 + 4 * i)) v"

lemmas entry_defs = slot_name_def slot_offset_def role_name_def role_positions_def role_definition_def
  role_next_def set_slot_name_def set_slot_offset_def set_role_name_def set_role_positions_def
  set_role_definition_def set_role_next_def

definition slot_table_capacity :: "mem \<Rightarrow> addr \<Rightarrow> int option" where
  "slot_table_capacity m t = do { n \<leftarrow> object_array_size m t; Some (n div 2) }"

definition role_table_capacity :: "mem \<Rightarrow> addr \<Rightarrow> int option" where
  "role_table_capacity m t = do { n \<leftarrow> object_array_size m t; Some (n div 4) }"

section \<open>Probing\<close>

definition role_table_entry_for_name :: "object_heap \<Rightarrow> addr \<Rightarrow> oop \<Rightarrow> int option option" where
  "role_table_entry_for_name oh roles name = do {
     tableSize \<leftarrow> role_table_capacity (mem oh) roles;
     if tableSize = 0 then Some None
     else let hash = object_hash (mem oh) name AND (tableSize - 1)
       in Some (probe (role_name (mem oh) roles) (c_nil oh) name (cyclic hash tableSize)) }"

definition role_table_entry_for_inserting_name :: "object_heap \<Rightarrow> addr \<Rightarrow> oop \<Rightarrow> int option option" where
  "role_table_entry_for_inserting_name oh roles name = do {
     tableSize \<leftarrow> role_table_capacity (mem oh) roles;
     if tableSize = 0 then Some None
     else let hash = object_hash (mem oh) name AND (tableSize - 1)
       in Some (first_empty (role_name (mem oh) roles) (c_nil oh) (cyclic hash tableSize)) }"

definition slot_table_entry_for_name :: "object_heap \<Rightarrow> addr \<Rightarrow> oop \<Rightarrow> int option option" where
  "slot_table_entry_for_name oh slots name = do {
     tableSize \<leftarrow> slot_table_capacity (mem oh) slots;
     if tableSize = 0 then Some None
     else let hash = object_hash (mem oh) name AND (tableSize - 1)
       in Some (probe (slot_name (mem oh) slots) (c_nil oh) name (cyclic hash tableSize)) }"

definition slot_table_entry_for_inserting_name :: "object_heap \<Rightarrow> addr \<Rightarrow> oop \<Rightarrow> int option option" where
  "slot_table_entry_for_inserting_name oh slots name = do {
     tableSize \<leftarrow> slot_table_capacity (mem oh) slots;
     if tableSize = 0 then Some None
     else let hash = object_hash (mem oh) name AND (tableSize - 1)
       in Some (first_empty (slot_name (mem oh) slots) (c_nil oh) (cyclic hash tableSize)) }"

text \<open>
  \<open>role_table_insert\<close>: the entry for a new definition of \<open>name\<close>, linked to the end of
  the chain of the entries that already have that name. The chain may not end, so the
  walk is a partial function. With a chain and a full table the C code stores the
  difference of a null pointer; its callers then write through that pointer. Here that
  is \<open>None\<close>.
\<close>

partial_function (option) role_chain_end :: "mem \<Rightarrow> oop \<Rightarrow> addr \<Rightarrow> int \<Rightarrow> int option" where
  "role_chain_end m nil roles chain =
     (if role_next m roles chain = nil then Some chain
      else role_chain_end m nil roles (object_to_smallint (role_next m roles chain)))"

declare role_chain_end.simps [code]

definition role_table_insert :: "object_heap \<Rightarrow> addr \<Rightarrow> oop \<Rightarrow> (int option \<times> object_heap) option" where
  "role_table_insert oh roles name = do {
     chain \<leftarrow> role_table_entry_for_name oh roles name;
     role \<leftarrow> role_table_entry_for_inserting_name oh roles name;
     oh \<leftarrow> heap_store_into oh roles name;
     case chain of
       None \<Rightarrow> Some (role, oh)
     | Some c \<Rightarrow> do {
         last \<leftarrow> role_chain_end (mem oh) (c_nil oh) roles c;
         i \<leftarrow> role;
         Some (role, set_role_next oh roles last (smallint_to_object i)) } }"

definition role_table_empty_space :: "object_heap \<Rightarrow> addr \<Rightarrow> int option" where
  "role_table_empty_space oh roles = do {
     n \<leftarrow> role_table_capacity (mem oh) roles;
     Some (int (length (filter (\<lambda>i. role_name (mem oh) roles i = c_nil oh) [0..n - 1]))) }"

definition slot_table_empty_space :: "object_heap \<Rightarrow> addr \<Rightarrow> int option" where
  "slot_table_empty_space oh slots = do {
     n \<leftarrow> slot_table_capacity (mem oh) slots;
     Some (int (length (filter (\<lambda>i. slot_name (mem oh) slots i = c_nil oh) [0..n - 1]))) }"

section \<open>Sizing\<close>

text \<open>The two loops of the \<open>accommodate\<close> functions.\<close>

function shrink_to :: "int \<Rightarrow> int \<Rightarrow> int" where
  "shrink_to requested tableSize =
     (if tableSize > requested \<and> tableSize > 0 then shrink_to requested (drop_bit 1 tableSize) else tableSize)"

  by pat_completeness auto
termination by (relation "measure (nat \<circ> snd)") (auto simp: drop_bit_eq_div)

declare shrink_to.simps [simp del]

partial_function (option) double_to :: "int \<Rightarrow> int \<Rightarrow> int option" where
  "double_to requested tableSize =
     (if tableSize < requested then double_to requested (wrap64 (push_bit 1 tableSize)) else Some tableSize)"

declare double_to.simps [code]

definition accommodate :: "int \<Rightarrow> int \<Rightarrow> int option" where
  "accommodate tableSize n = do {
     check (tableSize + n \<ge> 0);
     let requested = tableSize + n;
     let tableSize = shrink_to requested tableSize;
     let tableSize = (if tableSize = 0 \<and> requested > 1 then 1 else tableSize);
     double_to requested tableSize }"

definition role_table_accommodate :: "object_heap \<Rightarrow> addr \<Rightarrow> int \<Rightarrow> int option" where
  "role_table_accommodate oh roles n = do { c \<leftarrow> role_table_capacity (mem oh) roles; accommodate c n }"

definition slot_table_accommodate :: "object_heap \<Rightarrow> addr \<Rightarrow> int \<Rightarrow> int option" where
  "slot_table_accommodate oh slots n = do { c \<leftarrow> slot_table_capacity (mem oh) slots; accommodate c n }"

section \<open>The contract of a probed table\<close>

text \<open>
  What both kinds of table share: the key of entry \<open>i\<close>, a way to write it, and the two
  searches. A table is well placed when every name that is in it is found.
\<close>

locale probe_table =
  fixes capacity :: "mem \<Rightarrow> addr \<Rightarrow> int option"
    and entry_name :: "mem \<Rightarrow> addr \<Rightarrow> int \<Rightarrow> oop"
    and set_name :: "object_heap \<Rightarrow> addr \<Rightarrow> int \<Rightarrow> oop \<Rightarrow> object_heap"
    and entry_for_name :: "object_heap \<Rightarrow> addr \<Rightarrow> oop \<Rightarrow> int option option"
    and entry_for_inserting_name :: "object_heap \<Rightarrow> addr \<Rightarrow> oop \<Rightarrow> int option option"
  assumes entry_for_name_eq: "capacity (mem oh) t = Some n \<Longrightarrow> 0 < n \<Longrightarrow>
      entry_for_name oh t name =
        Some (probe (entry_name (mem oh) t) (c_nil oh) name (cyclic (object_hash (mem oh) name AND (n - 1)) n))"
    and entry_for_inserting_name_eq: "capacity (mem oh) t = Some n \<Longrightarrow> 0 < n \<Longrightarrow>
      entry_for_inserting_name oh t name =
        Some (first_empty (entry_name (mem oh) t) (c_nil oh) (cyclic (object_hash (mem oh) name AND (n - 1)) n))"
    and empty_table: "capacity (mem oh) t = Some 0 \<Longrightarrow> entry_for_name oh t name = Some None"
      "capacity (mem oh) t = Some 0 \<Longrightarrow> entry_for_inserting_name oh t name = Some None"
    and name_set: "0 \<le> i \<Longrightarrow> 0 \<le> j \<Longrightarrow>
      entry_name (mem (set_name oh t i v)) t j = (if j = i then v else entry_name (mem oh) t j)"
    and capacity_set: "0 \<le> i \<Longrightarrow> capacity (mem (set_name oh t i v)) t = capacity (mem oh) t"
    and hash_set: "0 \<le> i \<Longrightarrow> object_hash (mem (set_name oh t i v)) x = object_hash (mem oh) x"
    and nil_set: "c_nil (set_name oh t i v) = c_nil oh"
    and capacity_nonneg: "capacity (mem oh) t = Some n \<Longrightarrow> 0 \<le> payload_size (mem oh) t \<Longrightarrow> 0 \<le> n"
begin

definition well_placed :: "object_heap \<Rightarrow> addr \<Rightarrow> int \<Rightarrow> bool" where
  "well_placed oh t n \<longleftrightarrow> capacity (mem oh) t = Some n \<and> 0 \<le> n \<and>
     (\<forall>i\<in>{0..<n}. entry_name (mem oh) t i \<noteq> c_nil oh \<longrightarrow>
        (\<exists>j. entry_for_name oh t (entry_name (mem oh) t i) = Some (Some j)))"

lemma order_set:
  assumes "0 < n"
  shows "set (cyclic (object_hash (mem oh) name AND (n - 1)) n) = {0..<n}"
proof (rule set_cyclic)
  show "0 \<le> object_hash (mem oh) name AND (n - 1)" by (simp add: object_hash_def hdr_ranges)
  have "object_hash (mem oh) name AND (n - 1) \<le> n - 1" using assms by (intro AND_upper2) simp
  then show "object_hash (mem oh) name AND (n - 1) \<le> n" by simp
qed

lemma found:
  assumes "capacity (mem oh) t = Some n" "0 \<le> n" "entry_for_name oh t name = Some (Some i)"
  shows "0 \<le> i" "i < n" "entry_name (mem oh) t i = name"
proof -
  have "0 < n" using assms empty_table(1) [of oh t name] by (cases "n = 0") auto
  then have "probe (entry_name (mem oh) t) (c_nil oh) name (cyclic (object_hash (mem oh) name AND (n - 1)) n) = Some i"
    using assms(3) entry_for_name_eq [OF assms(1), of name] by simp
  from probe_SomeD [OF this] show "0 \<le> i" "i < n" "entry_name (mem oh) t i = name"
    using order_set [OF \<open>0 < n\<close>, of oh name] by auto
qed

lemma placed:
  assumes "capacity (mem oh) t = Some n" "0 \<le> n" "entry_for_inserting_name oh t name = Some (Some i)"
  shows "0 < n" "0 \<le> i" "i < n" "entry_name (mem oh) t i = c_nil oh"
proof -
  show "0 < n" using assms empty_table(2) [of oh t name] by (cases "n = 0") auto
  then have "first_empty (entry_name (mem oh) t) (c_nil oh) (cyclic (object_hash (mem oh) name AND (n - 1)) n) = Some i"
    using assms(3) entry_for_inserting_name_eq [OF assms(1), of name] by simp
  from first_empty_SomeD [OF this] show "0 \<le> i" "i < n" "entry_name (mem oh) t i = c_nil oh"
    using order_set [OF \<open>0 < n\<close>, of oh name] by auto
qed

text \<open>There is a place for a name exactly when some entry is empty.\<close>

lemma place_exists:
  assumes "capacity (mem oh) t = Some n" "i \<in> {0..<n}" "entry_name (mem oh) t i = c_nil oh"
  shows "\<exists>j. entry_for_inserting_name oh t name = Some (Some j)"
proof -
  have "0 < n" using assms by auto
  have "first_empty (entry_name (mem oh) t) (c_nil oh) (cyclic (object_hash (mem oh) name AND (n - 1)) n) \<noteq> None"
    unfolding first_empty_None_iff order_set [OF \<open>0 < n\<close>] using assms by auto
  then show ?thesis using entry_for_inserting_name_eq [OF assms(1) \<open>0 < n\<close>] by auto
qed

lemma absent:
  assumes "capacity (mem oh) t = Some n" "0 \<le> n"
    and "\<And>i. i \<in> {0..<n} \<Longrightarrow> entry_name (mem oh) t i \<noteq> name"
  shows "entry_for_name oh t name = Some None"
proof (cases "n = 0")
  case False
  with assms(2) have "0 < n" by simp
  have "probe (entry_name (mem oh) t) (c_nil oh) name
      (cyclic (object_hash (mem oh) name AND (n - 1)) n) = None"
    by (rule probe_absent) (simp add: order_set [OF \<open>0 < n\<close>] assms(3))
  then show ?thesis using entry_for_name_eq [OF assms(1) \<open>0 < n\<close>] by simp
qed (use assms empty_table in auto)

text \<open>
  Writing a new name into the entry chosen for it: the name is found there, every other
  name is found where it was, and the table stays well placed.
\<close>

lemma after_insert:
  assumes wp: "well_placed oh t n" and new: "entry_for_name oh t name = Some None"
    and ins: "entry_for_inserting_name oh t name = Some (Some i)" and nn: "name \<noteq> c_nil oh"
  defines "oh' \<equiv> set_name oh t i name"
  shows "entry_for_name oh' t name = Some (Some i)"
    and "other \<noteq> name \<Longrightarrow> other \<noteq> c_nil oh \<Longrightarrow> entry_for_name oh' t other = entry_for_name oh t other"
    and "well_placed oh' t n"
proof -
  have c: "capacity (mem oh) t = Some n" "0 \<le> n" using wp by (auto simp: well_placed_def)
  note P = placed [OF c ins]
  have c': "capacity (mem oh') t = Some n" using c P by (simp add: oh'_def capacity_set)
  let ?f = "entry_name (mem oh) t" and ?ord = "\<lambda>k. cyclic (object_hash (mem oh) k AND (n - 1)) n"
  have f': "probe (entry_name (mem oh') t) (c_nil oh) k (?ord k) = probe (?f(i := name)) (c_nil oh) k (?ord k)" for k
    by (rule probe_cong) (use P in \<open>auto simp: oh'_def name_set order_set\<close>)
  have e': "entry_for_name oh' t k = Some (probe (?f(i := name)) (c_nil oh) k (?ord k))" for k
    using entry_for_name_eq [OF c' P(1), of k] P f' [of k] by (simp add: oh'_def hash_set nil_set)
  have e: "entry_for_name oh t k = Some (probe ?f (c_nil oh) k (?ord k))" for k
    by (rule entry_for_name_eq [OF c(1) P(1)])
  show here: "entry_for_name oh' t name = Some (Some i)"
    using ins new nn unfolding e' e entry_for_inserting_name_eq [OF c(1) P(1)]
    by (simp add: probe_fill_new)
  show other: "entry_for_name oh' t other = entry_for_name oh t other"
    if "other \<noteq> name" "other \<noteq> c_nil oh" for other
  proof (cases "entry_for_name oh t other")
    case None then show ?thesis using e by simp
  next
    case (Some r)
    show ?thesis
    proof (cases r)
      case (Some j)
      with \<open>entry_for_name oh t other = Some r\<close> that P nn show ?thesis
        unfolding e' e by (auto intro: probe_fill_other)
    next
      case None
      have "?f k \<noteq> other" if "k \<in> {0..<n}" for k
      proof
        assume "?f k = other"
        with wp that \<open>other \<noteq> c_nil oh\<close> obtain j where "entry_for_name oh t other = Some (Some j)"
          unfolding well_placed_def by blast
        with None \<open>entry_for_name oh t other = Some r\<close> show False by simp
      qed
      then have "probe (?f(i := name)) (c_nil oh) other (?ord other) = None"
        using that P(1) by (intro probe_absent) (auto simp: order_set)
      with None \<open>entry_for_name oh t other = Some r\<close> show ?thesis by (simp add: e')
    qed
  qed
  show "well_placed oh' t n"
    unfolding well_placed_def
  proof (intro conjI ballI impI c' c(2))
    fix k assume k: "k \<in> {0..<n}" and ne: "entry_name (mem oh') t k \<noteq> c_nil oh'"
    show "\<exists>j. entry_for_name oh' t (entry_name (mem oh') t k) = Some (Some j)"
    proof (cases "entry_name (mem oh') t k = name")
      case True with here show ?thesis by auto
    next
      case False
      then have eq: "entry_name (mem oh') t k = ?f k" and "?f k \<noteq> name"
        using k P by (auto simp: oh'_def name_set split: if_splits)
      moreover have "?f k \<noteq> c_nil oh" using ne eq by (simp add: oh'_def nil_set)
      ultimately show ?thesis using wp k other [of "?f k"] unfolding well_placed_def by metis
    qed
  qed
qed
end

text \<open>Words from index 4 on are neither header nor sizes.\<close>

lemma body_write [simp]:
  assumes "4 \<le> k"
  shows "object_hash (wr m t k v) x = object_hash m x"
    "object_type (wr m t k v) x = object_type m x"
    "object_array_size (wr m t k v) x = object_array_size m x"
    "object_size (wr m t k v) x = object_size m x"
    "payload_size (wr m t k v) x = payload_size m x"
    "object_map (wr m t k v) x = object_map m x"
    "object_word_size (wr m t k v) x = object_word_size m x"
  using assms by (auto simp: object_hash_def object_type_def object_array_size_def payload_words_def
      payload_size_def object_size_def object_map_def object_word_size_def)

lemma capacity_write [simp]:
  "0 \<le> i \<Longrightarrow> role_table_capacity (wr m t (nat (4 + i)) v) x = role_table_capacity m x"
  "0 \<le> i \<Longrightarrow> slot_table_capacity (wr m t (nat (4 + i)) v) x = slot_table_capacity m x"
  by (simp_all add: role_table_capacity_def slot_table_capacity_def)

lemma capacity_nonneg:
  "role_table_capacity m t = Some n \<Longrightarrow> 0 \<le> payload_size m t \<Longrightarrow> 0 \<le> n"
  "slot_table_capacity m t = Some n \<Longrightarrow> 0 \<le> payload_size m t \<Longrightarrow> 0 \<le> n"
  by (auto simp: role_table_capacity_def slot_table_capacity_def object_array_size_def payload_words_def
      Option.bind_eq_Some_conv)

interpretation slots: probe_table slot_table_capacity slot_name set_slot_name
    slot_table_entry_for_name slot_table_entry_for_inserting_name
proof unfold_locales
  fix oh t i j v and x :: addr
  show "0 \<le> i \<Longrightarrow> 0 \<le> j \<Longrightarrow> slot_name (mem (set_slot_name oh t i v)) t j
      = (if j = i then v else slot_name (mem oh) t j)"
    by (auto simp: entry_defs eq_nat_nat_iff)
qed (simp_all add: entry_defs slot_table_entry_for_name_def slot_table_entry_for_inserting_name_def
    capacity_nonneg Let_def)

interpretation roles: probe_table role_table_capacity role_name set_role_name
    role_table_entry_for_name role_table_entry_for_inserting_name
proof unfold_locales
  fix oh t i j v and x :: addr
  show "0 \<le> i \<Longrightarrow> 0 \<le> j \<Longrightarrow> role_name (mem (set_role_name oh t i v)) t j
      = (if j = i then v else role_name (mem oh) t j)"
    by (auto simp: entry_defs eq_nat_nat_iff)
qed (simp_all add: entry_defs role_table_entry_for_name_def role_table_entry_for_inserting_name_def
    capacity_nonneg Let_def)

section \<open>Sizes of grown tables\<close>

lemma shrink_to_spec:
  "0 \<le> requested \<Longrightarrow> 0 \<le> c \<Longrightarrow>
   0 \<le> shrink_to requested c \<and> shrink_to requested c \<le> requested \<and>
   (0 < c \<longrightarrow> 0 < requested \<longrightarrow> 0 < shrink_to requested c)"
proof (induction requested c rule: shrink_to.induct)
  case (1 requested c)
  then show ?case
    by (subst (1 2 3) shrink_to.simps) (auto simp: drop_bit_eq_div)
qed

lemma shrink_to_power: "\<exists>k. c = 2 ^ k \<Longrightarrow> 0 < shrink_to requested c \<Longrightarrow> \<exists>k. shrink_to requested c = 2 ^ k"
proof (induction requested c rule: shrink_to.induct)
  case (1 requested c)
  then obtain k where c: "c = 2 ^ k" by blast
  show ?case
  proof (cases "requested < c \<and> 0 < c")
    case True
    show ?thesis
    proof (cases k)
      case 0
      with c True "1.prems" show ?thesis by (subst (asm) shrink_to.simps) (simp add: shrink_to.simps)
    next
      case (Suc j)
      then have "drop_bit 1 c = 2 ^ j" by (simp add: c drop_bit_eq_div)
      with True "1.IH" "1.prems" show ?thesis by (metis shrink_to.simps)
    qed
  next
    case False
    with c show ?thesis by (subst shrink_to.simps) auto
  qed
qed

lemma double_to_spec:
  assumes "0 < c" "requested < 2 ^ 62" "c \<le> max requested 1"
  shows "\<exists>k. double_to requested c = Some (c * 2 ^ k) \<and> requested \<le> c * 2 ^ k \<and>
     c * 2 ^ k \<le> max (2 * requested - 1) 1"
  using assms
proof (induction "nat (requested - c)" arbitrary: c rule: less_induct)
  case less
  show ?case
  proof (cases "c < requested")
    case True
    have w: "wrap64 (push_bit 1 c) = 2 * c"
      using less.prems True by (simp add: push_bit_eq_mult wrap64_word is_word_def WORD_MIN_def WORD_MAX_def)
    show ?thesis
    proof (cases "2 * c \<le> requested")
      case True
      with less.prems \<open>c < requested\<close> obtain k where
        "double_to requested (2 * c) = Some (2 * c * 2 ^ k)" "requested \<le> 2 * c * 2 ^ k"
        "2 * c * 2 ^ k \<le> max (2 * requested - 1) 1"
        using less.hyps [of "2 * c"] by force
      with \<open>c < requested\<close> w show ?thesis
        by (intro exI [of _ "Suc k"]) (subst double_to.simps, auto simp: ac_simps)
    next
      case False
      then have "double_to requested (2 * c) = Some (2 * c)" by (subst double_to.simps) simp
      with w \<open>c < requested\<close> False show ?thesis
        by (intro exI [of _ 1]) (subst double_to.simps, auto)
    qed
  next
    case False
    with less.prems show ?thesis by (intro exI [of _ 0]) (subst double_to.simps, auto)
  qed
qed

text \<open>
  C12. Resizing of slot and role tables: the new capacity holds the entries asked for, is less
  than twice as large, and a power of two stays one (which the hashing by masking needs);
  the single exception is an empty table asked for one more entry.
\<close>

theorem accommodate_spec:
  assumes "0 \<le> c" "0 \<le> c + n" "c + n < 2 ^ 62" and "c \<noteq> 0 \<or> n \<noteq> 1"
  shows "\<exists>r. accommodate c n = Some r \<and> c + n \<le> r \<and> r \<le> max 0 (2 * (c + n) - 1) \<and>
     ((\<exists>k. c = 2 ^ k) \<or> c = 0 \<longrightarrow> r = 0 \<or> (\<exists>k. r = 2 ^ k))"
proof -
  define q where "q = c + n"
  define s where "s = shrink_to q c"
  define s' where "s' = (if s = 0 \<and> q > 1 then 1 else s)"
  have s: "0 \<le> s" "s \<le> q" "0 < c \<longrightarrow> 0 < q \<longrightarrow> 0 < s"
    using shrink_to_spec [of q c] assms by (auto simp: s_def q_def)
  have eq: "accommodate c n = double_to q s'"
    using assms(2) by (simp add: accommodate_def Let_def q_def s_def s'_def)
  show ?thesis
  proof (cases "q = 0")
    case True
    with s have "s' = 0" by (simp add: s'_def)
    then have "accommodate c n = Some 0" using True eq by (simp add: double_to.simps)
    then show ?thesis using True by (intro exI [of _ 0]) (simp add: q_def)
  next
    case False
    with assms s have pos: "0 < s'" "s' \<le> max q 1" "q < 2 ^ 62" "0 < q" by (auto simp: s'_def q_def)
    then obtain k where k: "double_to q s' = Some (s' * 2 ^ k)" "q \<le> s' * 2 ^ k"
      "s' * 2 ^ k \<le> max (2 * q - 1) 1" using double_to_spec [of s' q] by blast
    have "\<exists>j. s' = 2 ^ j" if "(\<exists>k. c = 2 ^ k) \<or> c = 0"
    proof (cases "s = 0")
      case True
      then show ?thesis using pos by (intro exI [of _ 0]) (auto simp: s'_def split: if_splits)
    next
      case False
      with s that have "\<exists>k. c = 2 ^ k" using assms(1) shrink_to.simps [of q 0] by (auto simp: s_def)
      with False s show ?thesis using shrink_to_power [of c q] by (auto simp: s_def s'_def)
    qed
    then show ?thesis
      using k eq pos by (intro exI [of _ "s' * 2 ^ k"]) (auto simp: q_def power_add [symmetric])
  qed
qed

text \<open>An empty table that must take one entry: the doubling loop never ends.\<close>

lemma double_to_zero: "double_to requested 0 = Some r \<Longrightarrow> requested \<le> 0"
proof -
  have "double_to q t = Some r \<Longrightarrow> t = 0 \<longrightarrow> q \<le> 0" for q t
    by (erule double_to.raw_induct [rotated, where P = "\<lambda>q t r. t = 0 \<longrightarrow> q \<le> 0"])
      (auto split: if_splits simp: wrap64_def)
  then show "double_to requested 0 = Some r \<Longrightarrow> requested \<le> 0" by simp
qed

text \<open>
  C13. The exception: growing an empty table by one entry never returns, the doubling loop
  multiplies 0 by 2 forever.
\<close>

theorem accommodate_diverges: "accommodate 0 1 = None"
proof -
  have "accommodate 0 1 = double_to 1 0" by (simp add: accommodate_def shrink_to.simps)
  then show ?thesis using double_to_zero [of 1] by (cases "double_to 1 0") auto
qed

section \<open>Slot tables as maps\<close>

text \<open>The offset that a slot table gives to a name.\<close>

definition slot_map :: "object_heap \<Rightarrow> addr \<Rightarrow> oop \<Rightarrow> oop option" where
  "slot_map oh t name = (case slot_table_entry_for_name oh t name of
     Some (Some i) \<Rightarrow> Some (slot_offset (mem oh) t i) | _ \<Rightarrow> None)"

definition slot_table_relocate_by :: "object_heap \<Rightarrow> addr \<Rightarrow> word_t \<Rightarrow> word_t \<Rightarrow> object_heap option" where
  "slot_table_relocate_by oh slots offset amount = do {
     n \<leftarrow> slot_table_capacity (mem oh) slots;
     Some (fold (\<lambda>i oh.
       if slot_name (mem oh) slots i \<noteq> c_nil oh
          \<and> object_to_smallint (slot_offset (mem oh) slots i) \<ge> offset
       then set_slot_offset oh slots i
         (smallint_to_object (object_to_smallint (slot_offset (mem oh) slots i) + amount))
       else oh) [0..n - 1] oh) }"

text \<open>
  The loop of \<open>slot_table_grow_excluding\<close>: the entries of the old table go into the new
  one. A full new table would be a write through a null pointer (\<open>None\<close>).
\<close>

fun slot_table_copy :: "addr \<Rightarrow> addr \<Rightarrow> oop \<Rightarrow> int list \<Rightarrow> object_heap \<Rightarrow> object_heap option" where
  "slot_table_copy slots newSlots excluding [] oh = Some oh"
| "slot_table_copy slots newSlots excluding (i # is) oh =
     (let slotName = slot_name (mem oh) slots i in
      if slotName \<noteq> c_nil oh \<and> slotName \<noteq> excluding then do {
        slot \<leftarrow> slot_table_entry_for_inserting_name oh newSlots slotName;
        k \<leftarrow> slot;
        slot_table_copy slots newSlots excluding is
          (set_slot_offset (set_slot_name oh newSlots k slotName) newSlots k (slot_offset (mem oh) slots i)) }
      else slot_table_copy slots newSlots excluding is oh)"

abbreviation slot_put :: "object_heap \<Rightarrow> addr \<Rightarrow> int \<Rightarrow> oop \<Rightarrow> oop \<Rightarrow> object_heap" where
  "slot_put oh t k name offset \<equiv> set_slot_offset (set_slot_name oh t k name) t k offset"

lemma set_slot_offset_names [simp]:
  "0 \<le> i \<Longrightarrow> 0 \<le> j \<Longrightarrow> slot_name (mem (set_slot_offset oh t i v)) t j = slot_name (mem oh) t j"
  "0 \<le> i \<Longrightarrow> slot_table_capacity (mem (set_slot_offset oh t i v)) x = slot_table_capacity (mem oh) x"
  "0 \<le> i \<Longrightarrow> object_hash (mem (set_slot_offset oh t i v)) x = object_hash (mem oh) x"
  "c_nil (set_slot_offset oh t i v) = c_nil oh"
  by (auto simp: entry_defs eq_nat_nat_iff slot_table_capacity_def) presburger

lemma set_slot_offset_lookup:
  assumes "0 \<le> i" "slot_table_capacity (mem oh) t = Some n" "0 \<le> n"
  shows "slot_table_entry_for_name (set_slot_offset oh t i v) t name = slot_table_entry_for_name oh t name"
proof (cases "n = 0")
  case False
  with assms(3) have n: "0 < n" by simp
  have c: "slot_table_capacity (mem (set_slot_offset oh t i v)) t = Some n" using assms by simp
  show ?thesis
    unfolding slots.entry_for_name_eq [OF assms(2) n] slots.entry_for_name_eq [OF c n]
    using assms n by (auto intro!: probe_cong simp: slots.order_set)
qed (use assms slots.empty_table in simp)

lemma slot_insert_step:
  fixes off :: oop
  assumes wp: "slots.well_placed oh t n" and new: "slot_table_entry_for_name oh t name = Some None"
    and ins: "slot_table_entry_for_inserting_name oh t name = Some (Some k)" and nn: "name \<noteq> c_nil oh"
  defines "oh' \<equiv> slot_put oh t k name off"
  shows "slots.well_placed oh' t n"
    and "slot_map oh' t name = Some off"
    and "other \<noteq> name \<Longrightarrow> other \<noteq> c_nil oh \<Longrightarrow> slot_map oh' t other = slot_map oh t other"
    and "{j \<in> {0..<n}. slot_name (mem oh') t j \<noteq> c_nil oh'}
       = insert k {j \<in> {0..<n}. slot_name (mem oh) t j \<noteq> c_nil oh}"
    and "c_nil oh' = c_nil oh"
proof -
  have c: "slot_table_capacity (mem oh) t = Some n" "0 \<le> n" using wp by (auto simp: slots.well_placed_def)
  note P = slots.placed [OF c ins] and I = slots.after_insert [OF wp new ins nn]
  let ?m = "set_slot_name oh t k name"
  have c': "slot_table_capacity (mem ?m) t = Some n" using c P by (simp add: slots.capacity_set)
  have L: "slot_table_entry_for_name oh' t x = slot_table_entry_for_name ?m t x" for x
    unfolding oh'_def by (rule set_slot_offset_lookup [OF P(2) c' c(2)])
  have off: "0 \<le> j \<Longrightarrow> slot_offset (mem oh') t j = (if j = k then off else slot_offset (mem oh) t j)" for j
    using P by (auto simp: oh'_def entry_defs eq_nat_nat_iff)
  show "c_nil oh' = c_nil oh" by (simp add: oh'_def slots.nil_set)
  show "slots.well_placed oh' t n"
    using I(3) P L unfolding slots.well_placed_def oh'_def by (simp add: slots.nil_set)
  show "slot_map oh' t name = Some off" using I(1) L off P by (simp add: slot_map_def)
  show "slot_map oh' t other = slot_map oh t other" if "other \<noteq> name" "other \<noteq> c_nil oh"
  proof -
    have "slot_table_entry_for_name oh' t other = slot_table_entry_for_name oh t other"
      using I(2) [OF that] L by simp
    moreover have "j \<noteq> k" "0 \<le> j" if "slot_table_entry_for_name oh t other = Some (Some j)" for j
      using slots.found [OF c that] P \<open>other \<noteq> c_nil oh\<close> by auto
    ultimately show ?thesis by (auto simp: slot_map_def off split: option.splits)
  qed
  show "{j \<in> {0..<n}. slot_name (mem oh') t j \<noteq> c_nil oh'}
       = insert k {j \<in> {0..<n}. slot_name (mem oh) t j \<noteq> c_nil oh}"
    using P nn by (auto simp: oh'_def slots.name_set slots.nil_set split: if_splits)
qed

text \<open>Writing one table leaves the others alone.\<close>

lemma slot_put_other:
  assumes "0 \<le> k" "t \<noteq> u"
  shows "slot_name (mem (slot_put oh t k name off)) u = slot_name (mem oh) u"
    and "slot_offset (mem (slot_put oh t k name off)) u = slot_offset (mem oh) u"
    and "mem (slot_put oh t k name off) u = mem oh u"
    and "object_hash (mem (slot_put oh t k name off)) x = object_hash (mem oh) x"
proof -
  show same: "mem (slot_put oh t k name off) u = mem oh u"
    using assms by (simp add: entry_defs)
  show "slot_name (mem (slot_put oh t k name off)) u = slot_name (mem oh) u"
    "slot_offset (mem (slot_put oh t k name off)) u = slot_offset (mem oh) u"
    using same by (simp_all add: slot_name_def slot_offset_def rd_def fun_eq_iff)
  show "object_hash (mem (slot_put oh t k name off)) x = object_hash (mem oh) x"
    using assms by (simp add: slots.hash_set)
qed

definition kept :: "mem \<Rightarrow> addr \<Rightarrow> oop \<Rightarrow> oop \<Rightarrow> int \<Rightarrow> bool" where
  "kept m slots nil excluding i \<longleftrightarrow> slot_name m slots i \<noteq> nil \<and> slot_name m slots i \<noteq> excluding"

text \<open>What copying the entries with the given indexes must establish.\<close>

definition copied :: "object_heap \<Rightarrow> addr \<Rightarrow> addr \<Rightarrow> int \<Rightarrow> oop \<Rightarrow> int set \<Rightarrow> object_heap \<Rightarrow> bool" where
  "copied oh slots new N ex I oh' \<longleftrightarrow>
     slots.well_placed oh' new N \<and> (\<forall>p. p \<noteq> new \<longrightarrow> mem oh' p = mem oh p) \<and> c_nil oh' = c_nil oh \<and>
     (\<forall>i\<in>I. kept (mem oh) slots (c_nil oh) ex i \<longrightarrow>
        slot_map oh' new (slot_name (mem oh) slots i) = Some (slot_offset (mem oh) slots i)) \<and>
     (\<forall>name. name \<noteq> c_nil oh \<longrightarrow>
        (\<forall>i\<in>I. kept (mem oh) slots (c_nil oh) ex i \<longrightarrow> slot_name (mem oh) slots i \<noteq> name) \<longrightarrow>
        slot_map oh' new name = slot_map oh new name)"

text \<open>
  C10. Growing a slot table copies it as a map: on a table with room, the copy loop returns and
  the new table gives to every name kept its old offset, and is otherwise as before.
\<close>

theorem slot_table_copy_spec:
  assumes "slots.well_placed oh new N" and "slots \<noteq> new" and "distinct is" and "\<forall>i\<in>set is. 0 \<le> i"
    and "inj_on (slot_name (mem oh) slots) {i \<in> set is. kept (mem oh) slots (c_nil oh) ex i}"
    and "\<forall>i\<in>set is. kept (mem oh) slots (c_nil oh) ex i \<longrightarrow>
      slot_map oh new (slot_name (mem oh) slots i) = None"
    and "card {j \<in> {0..<N}. slot_name (mem oh) new j \<noteq> c_nil oh}
       + length (filter (kept (mem oh) slots (c_nil oh) ex) is) \<le> nat N"
  shows "\<exists>oh'. slot_table_copy slots new ex is oh = Some oh' \<and> copied oh slots new N ex (set is) oh'"
  using assms
proof (induction "is" arbitrary: oh)
  case Nil
  then show ?case by (simp add: copied_def)
next
  case (Cons i "is")
  let ?kept = "kept (mem oh) slots (c_nil oh) ex" and ?name = "slot_name (mem oh) slots"
  show ?case
  proof (cases "?kept i")
    case False
    have "\<exists>oh'. slot_table_copy slots new ex is oh = Some oh' \<and> copied oh slots new N ex (set is) oh'"
      by (rule Cons.IH) (use Cons.prems False in \<open>auto intro: inj_on_subset\<close>)
    moreover have "copied oh slots new N ex (set is) oh' = copied oh slots new N ex (set (i # is)) oh'" for oh'
      using False by (simp add: copied_def)
    ultimately show ?thesis using False by (auto simp: kept_def)
  next
    case True
    then have nn: "?name i \<noteq> c_nil oh" by (simp add: kept_def)
    let ?used = "{j \<in> {0..<N}. slot_name (mem oh) new j \<noteq> c_nil oh}"
    have c: "slot_table_capacity (mem oh) new = Some N" "0 \<le> N"
      using Cons.prems(1) by (auto simp: slots.well_placed_def)
    have "card ?used < nat N" using Cons.prems(7) True by simp
    then have "card ?used \<noteq> card {0..<N}" by simp
    then have "?used \<noteq> {0..<N}" by metis
    then have "\<exists>j\<in>{0..<N}. slot_name (mem oh) new j = c_nil oh" by blast
    then obtain j where "j \<in> {0..<N}" "slot_name (mem oh) new j = c_nil oh" ..
    then obtain k where k: "slot_table_entry_for_inserting_name oh new (?name i) = Some (Some k)"
      using slots.place_exists [OF c(1)] by blast
    have new: "slot_table_entry_for_name oh new (?name i) = Some None"
    proof (cases "slot_table_entry_for_name oh new (?name i)")
      case None
      then show ?thesis using slots.empty_table slots.entry_for_name_eq c by (cases "N = 0") auto
    qed (use Cons.prems(6) True in \<open>auto simp: slot_map_def split: option.splits\<close>)
    define oh1 where "oh1 = slot_put oh new k (?name i) (slot_offset (mem oh) slots i)"
    note S = slot_insert_step [OF Cons.prems(1) new k nn, where off = "slot_offset (mem oh) slots i", folded oh1_def]
    have k0: "0 \<le> k" using slots.placed [OF c k] by simp
    note O = slot_put_other [OF k0 Cons.prems(2) [symmetric], of oh "?name i" "slot_offset (mem oh) slots i", folded oh1_def]
    have kept1: "kept (mem oh1) slots (c_nil oh1) ex = ?kept" by (simp add: kept_def fun_eq_iff O S)
    have ne: "?name l \<noteq> ?name i" if "l \<in> set is" "?kept l" for l
      using Cons.prems(3,5) True that by (auto simp: inj_on_def)
    have "\<exists>oh'. slot_table_copy slots new ex is oh1 = Some oh' \<and> copied oh1 slots new N ex (set is) oh'"
    proof (rule Cons.IH)
      show "slots.well_placed oh1 new N" by (rule S)
      show "slots \<noteq> new" "distinct is" "\<forall>i\<in>set is. 0 \<le> i" using Cons.prems by auto
      show "inj_on (slot_name (mem oh1) slots) {i \<in> set is. kept (mem oh1) slots (c_nil oh1) ex i}"
        unfolding kept1 O using Cons.prems(5) by (rule inj_on_subset) auto
      show "\<forall>l\<in>set is. kept (mem oh1) slots (c_nil oh1) ex l \<longrightarrow> slot_map oh1 new (slot_name (mem oh1) slots l) = None"
        unfolding kept1 O using Cons.prems(6) S(3) ne by (auto simp: kept_def)
      show "card {j \<in> {0..<N}. slot_name (mem oh1) new j \<noteq> c_nil oh1}
          + length (filter (kept (mem oh1) slots (c_nil oh1) ex) is) \<le> nat N"
      proof -
        have "finite ?used" by (rule finite_subset [of _ "{0..<N}"]) auto
        then have "card (insert k ?used) \<le> Suc (card ?used)" by (simp add: card_insert_if)
        with Cons.prems(7) True show ?thesis unfolding kept1 S(4) by simp
      qed
    qed
    then obtain oh' where oh': "slot_table_copy slots new ex is oh1 = Some oh'" "copied oh1 slots new N ex (set is) oh'"
      by blast
    have "slot_table_copy slots new ex (i # is) oh = Some oh'"
      using True k oh'(1) by (simp add: kept_def oh1_def)
    moreover have "copied oh slots new N ex (set (i # is)) oh'"
    proof -
      have "mem oh' p = mem oh p" if "p \<noteq> new" for p
        using oh'(2) that slot_put_other(3) [OF k0 that [symmetric]] by (simp add: copied_def oh1_def)
      moreover have "slot_map oh' new (?name i) = Some (slot_offset (mem oh) slots i)"
        using oh'(2) ne nn S(2) unfolding copied_def S(5) kept1 [unfolded S(5)] O(1) by auto
      ultimately show ?thesis
        using oh'(2) ne S(3) True unfolding copied_def S(5) kept1 [unfolded S(5)] O(1,2) by auto
    qed
    ultimately show ?thesis by blast
  qed
qed

section \<open>Properties\<close>

text \<open>
  C11. A slot table is a map: after a name that is not in the table is written into the entry that
  the table offers for it, the name has the new offset, every other name has the offset it
  had, and the probing invariant holds again.
\<close>

theorem slot_table_insert:
  assumes "slots.well_placed oh t n" and "slot_table_entry_for_name oh t name = Some None"
    and "slot_table_entry_for_inserting_name oh t name = Some (Some k)" and "name \<noteq> c_nil oh"
  shows "slot_map (slot_put oh t k name off) t name = Some off \<and>
    (\<forall>other. other \<noteq> name \<and> other \<noteq> c_nil oh \<longrightarrow> slot_map (slot_put oh t k name off) t other = slot_map oh t other) \<and>
    slots.well_placed (slot_put oh t k name off) t n"
  using slot_insert_step [OF assms] by blast

end
