(* ===== verification/Spaces.thy ===== *)
theory Spaces
  imports Tables
begin

text \<open>
  The two memory spaces as sequences of objects (gc.cpp). \<open>chunks m a e xs\<close> says that the
  addresses from \<open>a\<close> to \<open>e\<close> are exactly the objects \<open>xs\<close>, one after the other: the invariant
  of a space. Every loop of the collector that steps with \<open>object_after\<close> is a partial
  function; the locale \<open>heap_walk\<close> shows once that such a loop over a partitioned space
  returns and is the fold of its body over the objects.
\<close>

section \<open>Partitioned spaces\<close>

fun chunks :: "mem \<Rightarrow> addr \<Rightarrow> addr \<Rightarrow> addr list \<Rightarrow> bool" where
  "chunks m a e [] \<longleftrightarrow> a = e"
| "chunks m a e (x # xs) \<longleftrightarrow> x = a \<and> 4 \<le> object_word_size m a \<and> a < e \<and> chunks m (a + object_total_size m a) e xs"

lemma chunks_le: "chunks m a e xs \<Longrightarrow> a \<le> e"
  by (cases xs) auto

lemma chunks_mem: "chunks m a e xs \<Longrightarrow> x \<in> set xs \<Longrightarrow> a \<le> x \<and> x < e \<and> 4 \<le> object_word_size m x"
  by (induction xs arbitrary: a) (force simp: object_total_size_def)+

lemma chunks_sorted: "chunks m a e xs \<Longrightarrow> sorted xs \<and> distinct xs"
proof (induction xs arbitrary: a)
  case (Cons y ys)
  from Cons.prems have t: "chunks m (a + object_total_size m a) e ys" "y = a" "4 \<le> object_word_size m a" by auto
  then have "\<forall>z\<in>set ys. y < z"
    using chunks_mem [OF t(1)] by (force simp: object_total_size_def)
  with Cons.IH [OF t(1)] show ?case by (auto intro: less_imp_le)
qed simp

lemma chunks_end: "chunks m a e (xs @ [x]) \<Longrightarrow> x + object_total_size m x = e"
  by (induction xs arbitrary: a) auto

lemma chunks_append:
  "chunks m a e (xs @ ys) \<longleftrightarrow> (\<exists>b. chunks m a b xs \<and> chunks m b e ys)"
proof (induction xs arbitrary: a)
  case Nil
  show ?case using chunks_le by auto
next
  case (Cons x xs)
  have "a < b" if "4 \<le> object_word_size m a" "chunks m (a + object_total_size m a) b xs" for b
    using chunks_le [OF that(2)] that(1) by (simp add: object_total_size_def)
  moreover have "b \<le> e" if "chunks m b e ys" for b using that by (rule chunks_le)
  ultimately show ?case by (auto simp: Cons.IH) fastforce
qed

lemma chunks_total: "chunks m a e xs \<Longrightarrow> e - a = (\<Sum>x\<leftarrow>xs. object_total_size m x)"
  by (induction xs arbitrary: a) force+

text \<open>Only the sizes of the objects matter.\<close>

definition same_shape :: "mem \<Rightarrow> mem \<Rightarrow> bool" where
  "same_shape m m' \<longleftrightarrow> (\<forall>x. object_word_size m' x = object_word_size m x)"

lemma same_shape_refl [simp]: "same_shape m m"
  by (simp add: same_shape_def)

lemma same_shape_trans: "same_shape m m' \<Longrightarrow> same_shape m' m'' \<Longrightarrow> same_shape m m''"
  by (simp add: same_shape_def)

lemma chunks_cong:
  "(\<And>x. x \<in> set xs \<Longrightarrow> object_word_size m' x = object_word_size m x) \<Longrightarrow> chunks m' a e xs = chunks m a e xs"
  by (induction xs arbitrary: a) (auto simp: object_total_size_def)

lemma chunks_shape: "same_shape m m' \<Longrightarrow> chunks m' a e xs = chunks m a e xs"
  by (rule chunks_cong) (simp add: same_shape_def)

lemma object_after_chunk: "4 \<le> object_word_size m x \<Longrightarrow> object_after m x = Some (x + object_total_size m x)"
  by (simp add: object_after_def object_total_size_def)

text \<open>A sequence of fallible updates.\<close>

fun fold_opt :: "('s \<Rightarrow> 'a \<Rightarrow> 's option) \<Rightarrow> 'a list \<Rightarrow> 's \<Rightarrow> 's option" where
  "fold_opt f [] s = Some s"
| "fold_opt f (x # xs) s = f s x \<bind> fold_opt f xs"

lemma fold_opt_append: "fold_opt f (xs @ ys) s = fold_opt f xs s \<bind> fold_opt f ys"
  by (induction xs arbitrary: s) (auto split: bind_splits)

lemma fold_opt_Some: "(\<And>s x. x \<in> set xs \<Longrightarrow> f s x = Some (g x s)) \<Longrightarrow> fold_opt f xs s = Some (fold g xs s)"
  by (induction xs arbitrary: s) auto

lemma fold_opt_invariant:
  "fold_opt f xs s = Some s' \<Longrightarrow> P s \<Longrightarrow> (\<And>s x s'. x \<in> set xs \<Longrightarrow> P s \<Longrightarrow> f s x = Some s' \<Longrightarrow> P s') \<Longrightarrow> P s'"
  by (induction xs arbitrary: s) (auto simp: Option.bind_eq_Some_conv)

section \<open>Loops over a space\<close>

locale heap_walk =
  fixes body :: "object_heap \<Rightarrow> addr \<Rightarrow> object_heap option"
    and loop :: "addr \<Rightarrow> word_t \<Rightarrow> addr \<Rightarrow> object_heap \<Rightarrow> object_heap option"
  assumes loop_eq: "loop memory memorySize x oh =
      (if object_in_memory x memory memorySize
       then do { oh \<leftarrow> body oh x; x \<leftarrow> object_after (mem oh) x; loop memory memorySize x oh }
       else Some oh)"
    and body_shape: "body oh x = Some oh' \<Longrightarrow> same_shape (mem oh) (mem oh')"
begin

lemma loop_fold_from:
  "chunks (mem oh) a (memory + memorySize) xs \<Longrightarrow> memory \<le> a \<Longrightarrow>
   loop memory memorySize a oh = fold_opt body xs oh"
proof (induction xs arbitrary: a oh)
  case Nil
  then show ?case by (subst loop_eq) (simp add: object_in_memory_def)
next
  case (Cons x xs)
  then have x: "x = a" "4 \<le> object_word_size (mem oh) a" "a < memory + memorySize"
    "chunks (mem oh) (a + object_total_size (mem oh) a) (memory + memorySize) xs" by auto
  show ?case
  proof (cases "body oh a")
    case None
    with x Cons.prems show ?thesis by (subst loop_eq) (simp add: object_in_memory_def)
  next
    case (Some oh')
    then have sh: "same_shape (mem oh) (mem oh')" by (rule body_shape)
    then have t: "object_total_size (mem oh') a = object_total_size (mem oh) a"
      "4 \<le> object_word_size (mem oh') a"
      using x by (simp_all add: same_shape_def object_total_size_def)
    have "loop memory memorySize (a + object_total_size (mem oh) a) oh' = fold_opt body xs oh'"
      by (rule Cons.IH) (use x sh Cons.prems in \<open>auto simp: chunks_shape object_total_size_def\<close>)
    with Some t x Cons.prems show ?thesis
      by (subst loop_eq) (simp add: object_in_memory_def object_after_chunk)
  qed
qed

lemma loop_fold:
  "chunks (mem oh) memory (memory + memorySize) xs \<Longrightarrow> loop memory memorySize memory oh = fold_opt body xs oh"
  by (rule loop_fold_from) simp_all

lemma fold_shape: "fold_opt body xs oh = Some oh' \<Longrightarrow> same_shape (mem oh) (mem oh')"
  by (rule fold_opt_invariant [where P = "\<lambda>s. same_shape (mem oh) (mem s)"])
    (auto intro: same_shape_trans body_shape)

end

section \<open>Free and used space\<close>

definition heap_make_free_space :: "object_heap \<Rightarrow> addr \<Rightarrow> word_t \<Rightarrow> object_heap option" where
  "heap_make_free_space oh obj words = do {
     check (words > 0);
     let oh = object_set_format oh obj TYPE_OBJECT;
     oh \<leftarrow> object_set_size oh obj words;
     let oh = payload_set_size oh obj 0;
     let oh = upd oh obj MAP 0;
     Some (object_set_idhash oh obj ID_HASH_FREE) }"

definition heap_make_used_space :: "object_heap \<Rightarrow> addr \<Rightarrow> word_t \<Rightarrow> object_heap option" where
  "heap_make_used_space oh obj words = do {
     oh \<leftarrow> heap_make_free_space oh obj words;
     (hash, oh) \<leftarrow> heap_new_hash oh;
     Some (object_set_idhash oh obj hash) }"

definition heap_free_object :: "object_heap \<Rightarrow> addr \<Rightarrow> object_heap option" where
  "heap_free_object oh obj =
     (let oh = (if currentlyProfiling (profiler oh)
                then oh\<lparr>profiler := profiler_delete_method (profiler oh) (c_nil oh) obj\<rparr> else oh);
          oh = (if object_is_old oh obj
                then oh\<lparr>rememberedOldObjects := rememberedOldObjects oh - {obj}\<rparr> else oh)
      in heap_make_free_space oh obj (object_word_size (mem oh) obj))"

lemma object_set_idhash_mem: "object_set_idhash oh x h = oh\<lparr>mem := mem (object_set_idhash oh x h)\<rparr>"
  by (simp add: object_set_idhash_def upd_def)

text \<open>
  What becoming free space does: the object at \<open>obj\<close> is a plain object of the given
  words with a free hash; nothing else is written.
\<close>

lemma make_free_space:
  assumes "4 \<le> words"
  shows "\<exists>oh'. heap_make_free_space oh obj words = Some oh'
     \<and> oh' = oh\<lparr>mem := mem oh'\<rparr> \<and> (\<forall>p. p \<noteq> obj \<longrightarrow> mem oh' p = mem oh p)
     \<and> object_word_size (mem oh') obj = words \<and> object_hash (mem oh') obj = ID_HASH_FREE
     \<and> object_markbit (mem oh') obj = object_markbit (mem oh) obj
     \<and> object_pin_count (mem oh') obj = object_pin_count (mem oh) obj"
proof -
  define h where "h = hdr_set_hash (hdr_set_type (rd (mem oh) obj HEADER) TYPE_OBJECT) ID_HASH_FREE"
  define m where "m = wr (wr (wr (wr (wr (mem oh) obj 0 (hdr_set_type (rd (mem oh) obj HEADER) TYPE_OBJECT))
      obj 1 words) obj 2 0) obj 3 0) obj 0 h"
  have "heap_make_free_space oh obj words = Some (oh\<lparr>mem := m\<rparr>)"
    using assms by (simp add: heap_make_free_space_def object_set_format_def object_set_size_def
        payload_set_size_def object_set_idhash_def upd_def h_def m_def Let_def)
  moreover have "object_word_size m obj = words" "object_hash m obj = ID_HASH_FREE"
    "object_markbit m obj = object_markbit (mem oh) obj" "object_pin_count m obj = object_pin_count (mem oh) obj"
    "\<forall>p. p \<noteq> obj \<longrightarrow> m p = mem oh p"
    by (simp_all add: m_def h_def object_word_size_def object_type_def object_size_def object_hash_def
        object_markbit_def object_pin_count_def type_consts header_consts)
  ultimately show ?thesis by auto
qed

lemma make_used_space:
  assumes "4 \<le> words"
  shows "\<exists>oh' l. heap_make_used_space oh obj words = Some oh'
     \<and> oh' = oh\<lparr>mem := mem oh', lastHash := l\<rparr> \<and> (\<forall>p. p \<noteq> obj \<longrightarrow> mem oh' p = mem oh p)
     \<and> object_word_size (mem oh') obj = words \<and> \<not> object_is_free (mem oh') obj
     \<and> object_markbit (mem oh') obj = object_markbit (mem oh) obj"
proof -
  obtain oh1 where oh1: "heap_make_free_space oh obj words = Some oh1" "oh1 = oh\<lparr>mem := mem oh1\<rparr>"
    "\<forall>p. p \<noteq> obj \<longrightarrow> mem oh1 p = mem oh p" "object_word_size (mem oh1) obj = words"
    "object_markbit (mem oh1) obj = object_markbit (mem oh) obj"
    using make_free_space [OF assms, of oh obj] by blast
  obtain h l where hl: "heap_new_hash oh1 = Some (h, oh1\<lparr>lastHash := l\<rparr>)" "0 \<le> h" "h < ID_HASH_RESERVED"
    using heap_new_hash_total by blast
  define oh' where "oh' = object_set_idhash (oh1\<lparr>lastHash := l\<rparr>) obj h"
  have "heap_make_used_space oh obj words = Some oh'"
    using oh1(1) hl(1) by (simp add: heap_make_used_space_def oh'_def)
  moreover have "oh' = oh\<lparr>mem := mem oh', lastHash := l\<rparr>"
  proof -
    have "oh' = oh1\<lparr>mem := mem oh', lastHash := l\<rparr>"
      unfolding oh'_def by (subst (1) object_set_idhash_mem) (cases oh1, simp only: object_heap.update_convs)
    also have "\<dots> = oh\<lparr>mem := mem oh', lastHash := l\<rparr>"
      by (rule trans [OF arg_cong [OF oh1(2), of "\<lambda>s. s\<lparr>mem := mem oh', lastHash := l\<rparr>"]]) simp
    finally show ?thesis .
  qed
  moreover have "\<forall>p. p \<noteq> obj \<longrightarrow> mem oh' p = mem oh p"
    using oh1(3) by (simp add: oh'_def object_set_idhash_def)
  moreover have "object_word_size (mem oh') obj = words" "object_markbit (mem oh') obj = object_markbit (mem oh) obj"
    using oh1(4,5) by (simp_all add: oh'_def object_set_idhash_frame header_setter_sizes)
  moreover have "\<not> object_is_free (mem oh') obj"
    using hl mask_hash_id [of h] by (simp add: object_is_free_def oh'_def header_consts)
  ultimately show ?thesis by blast
qed

end
