(* ===== verification/Alloc.thy ===== *)
theory Alloc
  imports Spaces
begin

text \<open>
  Searching free space and allocating in the old space (gc.cpp): first fit from the last
  position, splitting of the free chunk, growth of the old space at its end.
\<close>

section \<open>First fit\<close>

partial_function (option) heap_find_first_young_free :: "object_heap \<Rightarrow> addr \<Rightarrow> word_t \<Rightarrow> addr option option" where
  "heap_find_first_young_free oh obj bytes =
     (if object_in_memory obj (memoryYoung oh) (memoryYoungSize oh)
      then if object_is_free (mem oh) obj \<and> object_total_size (mem oh) obj \<ge> bytes then Some (Some obj)
        else do { obj \<leftarrow> object_after (mem oh) obj; heap_find_first_young_free oh obj bytes }
      else Some None)"

declare heap_find_first_young_free.simps [code]

partial_function (option) heap_find_first_old_free :: "object_heap \<Rightarrow> addr \<Rightarrow> word_t \<Rightarrow> addr option option" where
  "heap_find_first_old_free oh obj bytes =
     (if object_in_memory obj (memoryOld oh) (memoryOldSize oh)
      then if object_is_free (mem oh) obj \<and> object_total_size (mem oh) obj \<ge> bytes then Some (Some obj)
        else do { obj \<leftarrow> object_after (mem oh) obj; heap_find_first_old_free oh obj bytes }
      else Some None)"

declare heap_find_first_old_free.simps [code]

definition fits :: "mem \<Rightarrow> word_t \<Rightarrow> addr \<Rightarrow> bool" where
  "fits m bytes x \<longleftrightarrow> object_is_free m x \<and> object_total_size m x \<ge> bytes"

locale free_search =
  fixes base :: "object_heap \<Rightarrow> addr" and size_of :: "object_heap \<Rightarrow> word_t"
    and search :: "object_heap \<Rightarrow> addr \<Rightarrow> word_t \<Rightarrow> addr option option"
  assumes search_eq: "search oh obj bytes =
     (if object_in_memory obj (base oh) (size_of oh)
      then if fits (mem oh) bytes obj then Some (Some obj)
        else do { obj \<leftarrow> object_after (mem oh) obj; search oh obj bytes }
      else Some None)"
begin

lemma search_find:
  "chunks (mem oh) a (base oh + size_of oh) xs \<Longrightarrow> base oh \<le> a \<Longrightarrow>
   search oh a bytes = Some (List.find (fits (mem oh) bytes) xs)"
proof (induction xs arbitrary: a)
  case Nil
  then show ?case by (subst search_eq) (simp add: object_in_memory_def)
next
  case (Cons x xs)
  then have "search oh (a + object_total_size (mem oh) a) bytes = Some (List.find (fits (mem oh) bytes) xs)"
    by (auto simp: object_total_size_def)
  with Cons.prems show ?case
    by (subst search_eq) (auto simp: object_in_memory_def object_after_chunk)
qed

text \<open>The search may start at any object; outside the space it finds nothing.\<close>

lemma search_from:
  assumes "chunks (mem oh) (base oh) (base oh + size_of oh) (xs @ ys)" "ys \<noteq> []"
  shows "search oh (hd ys) bytes = Some (List.find (fits (mem oh) bytes) ys)"
proof -
  obtain b where "chunks (mem oh) (base oh) b xs" "chunks (mem oh) b (base oh + size_of oh) ys"
    using assms(1) by (auto simp: chunks_append)
  moreover from this(2) assms(2) have "hd ys = b" by (cases ys) auto
  moreover have "base oh \<le> b" by (rule chunks_le) fact
  ultimately show ?thesis by (auto intro: search_find)
qed

lemma search_outside: "\<not> object_in_memory a (base oh) (size_of oh) \<Longrightarrow> search oh a bytes = Some None"
  by (subst search_eq) simp

end

interpretation young_search: free_search memoryYoung memoryYoungSize heap_find_first_young_free
  by unfold_locales (subst heap_find_first_young_free.simps, simp add: fits_def)

interpretation old_search: free_search memoryOld memoryOldSize heap_find_first_old_free
  by unfold_locales (subst heap_find_first_old_free.simps, simp add: fits_def)

section \<open>Splitting a free chunk\<close>

text \<open>The live objects of a partitioned space.\<close>

definition live :: "mem \<Rightarrow> addr list \<Rightarrow> addr set" where
  "live m xs = {x \<in> set xs. \<not> object_is_free m x}"

text \<open>
  \<open>allocated oh a e e' xs p bytes oh' xs'\<close>: a space from \<open>a\<close> to \<open>e\<close> with objects \<open>xs\<close> became a
  space to \<open>e'\<close> with objects \<open>xs'\<close>, in which \<open>p\<close> is one more live object of the given size
  and the other live objects kept their contents.
\<close>

definition allocated ::
  "mem \<Rightarrow> addr \<Rightarrow> addr list \<Rightarrow> addr \<Rightarrow> addr \<Rightarrow> word_t \<Rightarrow> mem \<Rightarrow> addr list \<Rightarrow> bool" where
  "allocated m a xs e' p bytes m' xs' \<longleftrightarrow>
     chunks m' a e' xs' \<and> p \<notin> live m xs \<and> live m' xs' = insert p (live m xs)
     \<and> object_total_size m' p = bytes \<and> (\<forall>x\<in>live m xs. m' x = m x)"

definition split_free :: "object_heap \<Rightarrow> addr \<Rightarrow> word_t \<Rightarrow> object_heap option" where
  "split_free oh p words = do {
     let oldsize = object_word_size (mem oh) p;
     oh \<leftarrow> heap_make_used_space oh p words;
     next \<leftarrow> object_after (mem oh) p;
     heap_make_free_space oh next (oldsize - words) }"

lemma frame_blocks:
  assumes "\<forall>q. q \<noteq> p \<longrightarrow> m' q = m q" "x \<noteq> p"
  shows "object_word_size m' x = object_word_size m x" "object_hash m' x = object_hash m x"
    "object_is_free m' x = object_is_free m x" "object_total_size m' x = object_total_size m x"
  using assms by (simp_all add: object_word_size_def object_type_def object_size_def payload_words_def
      payload_size_def object_hash_def object_is_free_def object_total_size_def rd_def)

lemma split_free:
  assumes ch: "chunks (mem oh) a e (xs @ p # ys)" and free: "object_is_free (mem oh) p"
    and words: "4 \<le> words" "words + 4 \<le> object_word_size (mem oh) p"
  shows "\<exists>oh' l. split_free oh p words = Some oh' \<and> oh' = oh\<lparr>mem := mem oh', lastHash := l\<rparr> \<and>
    (\<forall>x. x \<noteq> p \<and> x \<noteq> p + 8 * words \<longrightarrow> mem oh' x = mem oh x) \<and>
    allocated (mem oh) a (xs @ p # ys) e p (8 * words) (mem oh') (xs @ p # (p + 8 * words) # ys)"
proof -
  let ?n = "object_word_size (mem oh) p" and ?q = "p + 8 * words"
  obtain oh1 l where oh1: "heap_make_used_space oh p words = Some oh1"
    "oh1 = oh\<lparr>mem := mem oh1, lastHash := l\<rparr>" and f1: "\<forall>x. x \<noteq> p \<longrightarrow> mem oh1 x = mem oh x"
    and s1: "object_word_size (mem oh1) p = words" "\<not> object_is_free (mem oh1) p"
    using make_used_space [OF words(1), of oh p] by blast
  obtain oh2 where oh2: "heap_make_free_space oh1 ?q (?n - words) = Some oh2"
    "oh2 = oh1\<lparr>mem := mem oh2\<rparr>" and f2: "\<forall>x. x \<noteq> ?q \<longrightarrow> mem oh2 x = mem oh1 x"
    and s2: "object_word_size (mem oh2) ?q = ?n - words" "object_hash (mem oh2) ?q = ID_HASH_FREE"
    using make_free_space [of "?n - words" oh1 ?q] words(2) by auto
  have "split_free oh p words = Some oh2"
    using oh1(1) oh2(1) s1 words(1)
    by (simp add: split_free_def Let_def object_after_chunk object_total_size_def mult.commute)
  moreover have "oh2 = oh\<lparr>mem := mem oh2, lastHash := l\<rparr>"
  proof -
    have "oh1\<lparr>mem := mem oh2\<rparr> = oh\<lparr>mem := mem oh2, lastHash := l\<rparr>"
      by (rule trans [OF arg_cong [OF oh1(2), of "\<lambda>s. s\<lparr>mem := mem oh2\<rparr>"]])
        (cases oh, simp only: object_heap.update_convs)
    with oh2(2) show ?thesis by (rule trans)
  qed
  moreover have "\<forall>x. x \<noteq> p \<and> x \<noteq> ?q \<longrightarrow> mem oh2 x = mem oh x" using f1 f2 by metis
  moreover have "allocated (mem oh) a (xs @ p # ys) e p (8 * words) (mem oh2) (xs @ p # ?q # ys)"
  proof -
    obtain b where b: "chunks (mem oh) a b xs" "p = b" "4 \<le> ?n" "b < e" "chunks (mem oh) (p + 8 * ?n) e ys"
      using ch by (auto simp: chunks_append object_total_size_def mult.commute)
    have other: "x \<noteq> p" "x \<noteq> ?q" if "x \<in> set xs \<union> set ys" for x
      using that chunks_mem [OF b(1)] chunks_mem [OF b(5)] b(2) words by force+
    have keep: "mem oh2 x = mem oh x" if "x \<in> set xs \<union> set ys" for x
      using other [OF that] f1 f2 by metis
    have keep': "object_word_size (mem oh2) x = object_word_size (mem oh) x"
      "object_is_free (mem oh2) x = object_is_free (mem oh) x" if "x \<in> set xs \<union> set ys" for x
      using frame_blocks [OF f1 other(1) [OF that]] frame_blocks [OF f2 other(2) [OF that]] by auto
    have pq: "p \<noteq> ?q" using words by simp
    have p: "object_word_size (mem oh2) p = words" "\<not> object_is_free (mem oh2) p"
      using frame_blocks [OF f2 pq] s1 by auto
    have q: "object_is_free (mem oh2) ?q" using s2 by (simp add: object_is_free_def header_consts)
    have "p + 8 * ?n \<le> e" using chunks_le [OF b(5)] .
    have cx: "chunks (mem oh2) a p xs" using b(1,2) keep' chunks_cong [of xs "mem oh2" "mem oh"] by simp
    have cy: "chunks (mem oh2) (p + 8 * ?n) e ys" using b(5) keep' chunks_cong [of ys "mem oh2" "mem oh"] by simp
    have tq: "?q + object_total_size (mem oh2) ?q = p + 8 * ?n" using s2(1) by (simp add: object_total_size_def)
    have tp: "p + object_total_size (mem oh2) p = ?q" using p(1) by (simp add: object_total_size_def)
    have less: "?q < e" "p < e" using words \<open>p + 8 * ?n \<le> e\<close> by auto
    have "chunks (mem oh2) ?q e (?q # ys)"
      unfolding chunks.simps tq using s2(1) words less cy by auto
    then have "chunks (mem oh2) p e (p # ?q # ys)"
      unfolding chunks.simps(2) [of _ _ _ p] tp using p(1) words less by auto
    with cx have "chunks (mem oh2) a e (xs @ p # ?q # ys)" by (auto simp: chunks_append)
    moreover have "live (mem oh2) (xs @ p # ?q # ys) = insert p (live (mem oh) (xs @ p # ys))"
      using keep'(2) p(2) q free by (auto simp: live_def)
    ultimately show ?thesis
      using free p keep by (auto simp: allocated_def live_def object_total_size_def)
  qed
  ultimately show ?thesis by blast
qed

section \<open>Allocation in the old space\<close>

definition gc_allocate_old :: "object_heap \<Rightarrow> word_t \<Rightarrow> (addr \<times> object_heap) option" where
  "gc_allocate_old oh bytes = do {
     let words = bytes div 8;
     check (bytes mod 8 = 0);
     let oh = (if object_in_memory (nextOldFree oh) (memoryOld oh) (memoryOldSize oh) then oh
               else oh\<lparr>nextOldFree := memoryOld oh\<rparr>);
     found \<leftarrow> heap_find_first_old_free oh (nextOldFree oh) (bytes + 32);
     case found of
       None \<Rightarrow> do {
         check (memoryOldSize oh + bytes < memoryOldLimit oh);
         let p = memoryOld oh + memoryOldSize oh;
         oh \<leftarrow> heap_make_used_space (oh\<lparr>nextOldFree := p\<rparr>) p words;
         Some (p, oh\<lparr>memoryOldSize := memoryOldSize oh + bytes\<rparr>) }
     | Some p \<Rightarrow> do {
         oh \<leftarrow> split_free (oh\<lparr>nextOldFree := p\<rparr>) p words;
         Some (p, oh) } }"

lemma find_split: "List.find P zs = Some p \<Longrightarrow> P p \<and> (\<exists>xs ys. zs = xs @ p # ys)"
proof (induction zs)
  case (Cons z zs)
  show ?case
  proof (cases "P z")
    case True
    with Cons.prems show ?thesis by (auto intro: exI [of _ "[]"])
  next
    case False
    with Cons obtain xs ys where "P p" "zs = xs @ p # ys" by auto
    then show ?thesis by (auto intro: exI [of _ "z # xs"])
  qed
qed simp


end
