(* ===== verification/Mark.thy ===== *)
theory Mark
  imports Alloc
begin

text \<open>
  The mark phase of the collector (gc.cpp): unmarking, the mark stack, the roots, and
  the loop that empties the stack. The lemmas show that the loop ends and that the
  objects marked afterwards are exactly the objects reachable from the roots.
\<close>

section \<open>Fields of an object\<close>

text \<open>
  The loop \<open>for (; offset != limit; offset += 8)\<close> over the oops of an object, as word
  indexes. With a limit below the first slot, or one that is no multiple of 8, it runs
  past every object (\<open>None\<close>).
\<close>

definition oop_slots :: "mem \<Rightarrow> addr \<Rightarrow> nat list option" where
  "oop_slots m x = (let limit = object_last_oop_offset m x + 8 in do {
     check (object_first_slot_offset m x \<le> limit \<and> limit mod 8 = 0);
     Some [nat (object_first_slot_offset m x div 8)..<nat (limit div 8)] })"

section \<open>Marking\<close>

definition heap_start_gc :: "object_heap \<Rightarrow> object_heap" where
  "heap_start_gc oh = oh\<lparr>mark_color := mark_color oh XOR MARK_MASK, markStack := []\<rparr>"

partial_function (option) heap_unmark_loop :: "addr \<Rightarrow> word_t \<Rightarrow> addr \<Rightarrow> object_heap \<Rightarrow> object_heap option" where
  "heap_unmark_loop memory memorySize obj oh =
     (if object_in_memory obj memory memorySize
      then let oh = object_unmark oh obj in do {
        obj \<leftarrow> object_after (mem oh) obj;
        heap_unmark_loop memory memorySize obj oh }
      else Some oh)"

declare heap_unmark_loop.simps [code]

definition heap_unmark_all :: "object_heap \<Rightarrow> addr \<Rightarrow> word_t \<Rightarrow> object_heap option" where
  "heap_unmark_all oh memory memorySize = heap_unmark_loop memory memorySize memory oh"

definition heap_mark :: "object_heap \<Rightarrow> addr \<Rightarrow> object_heap" where
  "heap_mark oh obj =
     (if object_markbit (mem oh) obj = mark_color oh then oh
      else let oh = object_set_mark oh obj in oh\<lparr>markStack := obj # markStack oh\<rparr>)"

definition heap_mark_specials :: "object_heap \<Rightarrow> bool \<Rightarrow> object_heap option" where
  "heap_mark_specials oh mark_old = do {
     n \<leftarrow> object_array_size (mem oh) (special_objects_oop oh);
     Some (fold (\<lambda>i oh.
       let obj = elements (mem oh) (special_objects_oop oh) i in
       if \<not> mark_old \<and> object_is_old oh obj then oh
       else if object_is_smallint obj then oh
       else heap_mark oh obj) [0..n - 1] oh) }"

text \<open>Fields of \<open>struct Interpreter\<close> that the collector reads.\<close>

definition interpreter_stack :: "object_heap \<Rightarrow> addr" where
  "interpreter_stack oh = rd (mem oh) (c_interpreter oh) 4"

definition interpreter_stackPointer :: "object_heap \<Rightarrow> word_t" where
  "interpreter_stackPointer oh = rd (mem oh) (c_interpreter oh) 12"

definition heap_mark_interpreter_stack :: "object_heap \<Rightarrow> bool \<Rightarrow> object_heap" where
  "heap_mark_interpreter_stack oh mark_old =
     fold (\<lambda>i oh.
       let obj = elements (mem oh) (interpreter_stack oh) i in
       if object_is_smallint obj then oh
       else if \<not> mark_old \<and> object_is_old oh obj then oh
       else heap_mark oh obj) [0..interpreter_stackPointer oh - 1] oh"

definition heap_mark_fields :: "object_heap \<Rightarrow> addr \<Rightarrow> object_heap option" where
  "heap_mark_fields oh x =
     (let oh = heap_mark oh (object_map (mem oh) x) in do {
        slots \<leftarrow> oop_slots (mem oh) x;
        Some (fold (\<lambda>k oh.
          let val = rd (mem oh) x k in
          if object_is_smallint val then oh else heap_mark oh val) slots oh) })"

partial_function (option) heap_mark_recursively :: "object_heap \<Rightarrow> bool \<Rightarrow> object_heap option" where
  "heap_mark_recursively oh mark_old =
     (case markStack oh of
        [] \<Rightarrow> Some oh
      | obj # rest \<Rightarrow>
          let oh = oh\<lparr>markStack := rest\<rparr> in
          if \<not> mark_old \<and> object_is_old oh obj then heap_mark_recursively oh mark_old
          else do { oh \<leftarrow> heap_mark_fields oh obj; heap_mark_recursively oh mark_old })"

declare heap_mark_recursively.simps [code]

partial_function (option) mark_pinned_loop :: "addr \<Rightarrow> word_t \<Rightarrow> addr \<Rightarrow> object_heap \<Rightarrow> object_heap option" where
  "mark_pinned_loop memory memorySize obj oh =
     (if object_in_memory obj memory memorySize
      then let oh = (if object_hash (mem oh) obj < ID_HASH_RESERVED \<and> object_pin_count (mem oh) obj > 0
                     then heap_mark oh obj else oh) in do {
        obj \<leftarrow> object_after (mem oh) obj;
        mark_pinned_loop memory memorySize obj oh }
      else Some oh)"

declare mark_pinned_loop.simps [code]

definition heap_mark_pinned_young :: "object_heap \<Rightarrow> object_heap option" where
  "heap_mark_pinned_young oh = mark_pinned_loop (memoryYoung oh) (memoryYoungSize oh) (memoryYoung oh) oh"

definition heap_mark_pinned_old :: "object_heap \<Rightarrow> object_heap option" where
  "heap_mark_pinned_old oh = mark_pinned_loop (memoryOld oh) (memoryOldSize oh) (memoryOld oh) oh"

text \<open>
  Remembered old objects: their young referents are marked; those without any (and
  those that are young) leave the set. \<open>std::set\<close> is iterated in address order.
\<close>

definition mark_young_referents :: "object_heap \<Rightarrow> addr \<Rightarrow> (object_heap \<times> bool) option" where
  "mark_young_referents oh x =
     (let young_map = object_is_young oh (object_map (mem oh) x);
          oh = (if young_map then heap_mark oh (object_map (mem oh) x) else oh) in do {
        slots \<leftarrow> oop_slots (mem oh) x;
        Some (fold (\<lambda>k (oh, found).
          let val = rd (mem oh) x k in
          if \<not> object_is_smallint val \<and> object_is_young oh val then (heap_mark oh val, True)
          else (oh, found)) slots (oh, young_map)) })"

definition heap_mark_remembered :: "object_heap \<Rightarrow> object_heap option" where
  "heap_mark_remembered oh = do {
     (oh, bad) \<leftarrow> fold_opt (\<lambda>(oh, bad) x. do {
         (oh, found) \<leftarrow> mark_young_referents oh x;
         Some (oh, if \<not> found \<or> object_is_young oh x then x # bad else bad) })
       (sorted_list_of_set (rememberedOldObjects oh)) (oh, []);
     Some (oh\<lparr>rememberedOldObjects := rememberedOldObjects oh - set bad\<rparr>) }"

section \<open>What marking changes\<close>

text \<open>Two memories that differ in mark bits only.\<close>

definition mark_eq :: "mem \<Rightarrow> mem \<Rightarrow> bool" where
  "mark_eq m m' \<longleftrightarrow> (\<forall>x. (\<forall>k. k \<noteq> 0 \<longrightarrow> rd m' x k = rd m x k) \<and> object_hash m' x = object_hash m x
     \<and> object_type m' x = object_type m x \<and> object_pin_count m' x = object_pin_count m x)"

lemma mark_eq_refl [simp]: "mark_eq m m"
  by (simp add: mark_eq_def)

lemma mark_eq_trans: "mark_eq m m' \<Longrightarrow> mark_eq m' m'' \<Longrightarrow> mark_eq m m''"
  by (simp add: mark_eq_def)

lemma mark_eq_reads:
  assumes "mark_eq m m'"
  shows "k \<noteq> 0 \<Longrightarrow> rd m' x k = rd m x k" "object_hash m' x = object_hash m x" "object_type m' x = object_type m x"
    "object_pin_count m' x = object_pin_count m x" "object_map m' x = object_map m x"
    "object_size m' x = object_size m x" "payload_size m' x = payload_size m x"
    "object_word_size m' x = object_word_size m x" "object_is_free m' x = object_is_free m x"
    "oop_slots m' x = oop_slots m x" "object_array_size m' x = object_array_size m x"
    "0 \<le> i \<Longrightarrow> elements m' x i = elements m x i"
  using assms unfolding mark_eq_def
  by (simp_all add: object_map_def object_size_def payload_size_def object_word_size_def payload_words_def
      object_is_free_def oop_slots_def object_last_oop_offset_def object_last_slot_offset_def
      object_first_slot_offset_def object_array_size_def elements_def nat_add_distrib)

lemma mark_eq_shape: "mark_eq m m' \<Longrightarrow> same_shape m m'"
  by (simp add: same_shape_def mark_eq_reads)

text \<open>The mark phase touches mark bits and the mark stack.\<close>

definition mark_step :: "object_heap \<Rightarrow> object_heap \<Rightarrow> bool" where
  "mark_step oh oh' \<longleftrightarrow> (\<exists>m s. mark_eq (mem oh) m \<and> oh' = oh\<lparr>mem := m, markStack := s\<rparr>)"

lemma mark_stepI: "mark_eq (mem oh) m \<Longrightarrow> mark_step oh (oh\<lparr>mem := m, markStack := s\<rparr>)"
  by (auto simp: mark_step_def)

lemma mark_stepE:
  assumes "mark_step oh oh'"
  obtains m s where "mark_eq (mem oh) m" "oh' = oh\<lparr>mem := m, markStack := s\<rparr>"
  using assms by (auto simp: mark_step_def)

lemma mark_step_mem: "mark_step oh oh' \<Longrightarrow> mark_eq (mem oh) (mem oh')"
  by (auto elim: mark_stepE)

lemma mark_step_refl [simp]: "mark_step oh oh"
  using mark_stepI [of oh "mem oh" "markStack oh"] by simp

lemma mark_step_fields:
  assumes "mark_step oh oh'"
  shows "mark_color oh' = mark_color oh" "memoryOld oh' = memoryOld oh" "memoryYoung oh' = memoryYoung oh"
    "memoryOldSize oh' = memoryOldSize oh" "memoryYoungSize oh' = memoryYoungSize oh"
    "special_objects_oop oh' = special_objects_oop oh" "c_interpreter oh' = c_interpreter oh"
    "rememberedOldObjects oh' = rememberedOldObjects oh"
  using assms by (auto elim!: mark_stepE)

lemma mark_step_trans:
  assumes "mark_step oh oh'" "mark_step oh' oh''"
  shows "mark_step oh oh''"
proof -
  from assms(1) obtain m s where 1: "mark_eq (mem oh) m" "oh' = oh\<lparr>mem := m, markStack := s\<rparr>" by (rule mark_stepE)
  from assms(2) obtain m' s' where 2: "mark_eq (mem oh') m'" "oh'' = oh'\<lparr>mem := m', markStack := s'\<rparr>" by (rule mark_stepE)
  have "oh'' = oh\<lparr>mem := m', markStack := s'\<rparr>" unfolding 2(2) 1(2) by simp
  moreover have "mark_eq (mem oh) m'" using 1 2(1) by (auto intro: mark_eq_trans)
  ultimately show ?thesis by (simp add: mark_stepI)
qed

lemma heap_mark_step: "mark_step oh (heap_mark oh x)"
proof -
  have "mark_eq (mem oh) (mem (object_set_mark oh x))" by (simp add: mark_eq_def)
  moreover have "object_set_mark oh x\<lparr>markStack := x # markStack oh\<rparr>
      = oh\<lparr>mem := mem (object_set_mark oh x), markStack := x # markStack oh\<rparr>"
    unfolding object_set_mark_def upd_def by simp
  ultimately have "mark_step oh (object_set_mark oh x\<lparr>markStack := x # markStack oh\<rparr>)"
    by (simp add: mark_stepI)
  moreover have "markStack (object_set_mark oh x) = markStack oh" by (simp add: object_set_mark_def)
  ultimately show ?thesis by (simp add: heap_mark_def Let_def)
qed

text \<open>Marking a list of objects: every marking operation below is one.\<close>

definition marks :: "addr list \<Rightarrow> object_heap \<Rightarrow> object_heap" where
  "marks xs oh = fold (\<lambda>x oh. heap_mark oh x) xs oh"

lemma marks_simps [simp]: "marks [] oh = oh" "marks (x # xs) oh = marks xs (heap_mark oh x)"
  "marks (xs @ ys) oh = marks ys (marks xs oh)"
  by (simp_all add: marks_def)

lemma marks_step: "mark_step oh (marks xs oh)"
  by (induction xs arbitrary: oh) (auto intro: mark_step_trans heap_mark_step)

definition colored :: "object_heap \<Rightarrow> bool" where
  "colored oh \<longleftrightarrow> mark_color oh = 0 \<or> mark_color oh = 1"

lemma is_marked_stack [simp]: "object_is_marked (oh\<lparr>markStack := s\<rparr>) y = object_is_marked oh y"
  by (simp add: object_is_marked_def)

lemma set_mark_marked:
  assumes "colored oh"
  shows "object_is_marked (object_set_mark oh x) y \<longleftrightarrow> y = x \<or> object_is_marked oh y"
  using assms mark_and(1) [of "mark_color oh"]
  by (auto simp: object_is_marked_def colored_def)

lemma heap_mark_marked:
  assumes "colored oh"
  shows "object_is_marked (heap_mark oh x) y \<longleftrightarrow> y = x \<or> object_is_marked oh y"
    and "markStack (heap_mark oh x) = (if object_is_marked oh x then markStack oh else x # markStack oh)"
    and "colored (heap_mark oh x)"
proof -
  have "heap_mark oh x = (if object_is_marked oh x then oh
      else object_set_mark oh x\<lparr>markStack := x # markStack oh\<rparr>)"
    by (simp add: heap_mark_def Let_def object_is_marked_def)
  then show "object_is_marked (heap_mark oh x) y \<longleftrightarrow> y = x \<or> object_is_marked oh y"
    "markStack (heap_mark oh x) = (if object_is_marked oh x then markStack oh else x # markStack oh)"
    "colored (heap_mark oh x)"
    using assms set_mark_marked [OF assms, of x] by (auto simp: colored_def)
qed

lemma marks_marked:
  assumes "colored oh"
  shows "object_is_marked (marks xs oh) y \<longleftrightarrow> y \<in> set xs \<or> object_is_marked oh y"
    and "set (markStack (marks xs oh)) = set (markStack oh) \<union> {x \<in> set xs. \<not> object_is_marked oh x}"
    and "colored (marks xs oh)"
proof -
  have "colored (marks xs oh) \<and> (object_is_marked (marks xs oh) y \<longleftrightarrow> y \<in> set xs \<or> object_is_marked oh y) \<and>
    set (markStack (marks xs oh)) = set (markStack oh) \<union> {x \<in> set xs. \<not> object_is_marked oh x}" for y
    using assms
  proof (induction xs arbitrary: oh)
    case (Cons x xs)
    from Cons.IH [OF heap_mark_marked(3) [OF Cons.prems, of x]] show ?case
      by (auto simp: heap_mark_marked [OF Cons.prems] split: if_splits)
  qed simp
  then show "object_is_marked (marks xs oh) y \<longleftrightarrow> y \<in> set xs \<or> object_is_marked oh y"
    "set (markStack (marks xs oh)) = set (markStack oh) \<union> {x \<in> set xs. \<not> object_is_marked oh x}"
    "colored (marks xs oh)" by auto
qed

text \<open>The work left: objects still unmarked plus the entries of the stack.\<close>

definition work :: "addr set \<Rightarrow> object_heap \<Rightarrow> nat" where
  "work U oh = card {x \<in> U. \<not> object_is_marked oh x} + length (markStack oh)"

lemma heap_mark_work: "colored oh \<Longrightarrow> finite U \<Longrightarrow> x \<in> U \<Longrightarrow> work U (heap_mark oh x) = work U oh"
proof (cases "object_is_marked oh x")
  case False
  assume c: "colored oh" and f: "finite U" and x: "x \<in> U"
  have "{y \<in> U. \<not> object_is_marked (heap_mark oh x) y} = {y \<in> U. \<not> object_is_marked oh y} - {x}"
    using c by (auto simp: heap_mark_marked)
  moreover have "card {y \<in> U. \<not> object_is_marked oh y} = Suc (card ({y \<in> U. \<not> object_is_marked oh y} - {x}))"
    using f x False by (intro card.remove) auto
  ultimately show ?thesis using False c by (simp add: work_def heap_mark_marked)
qed (simp add: heap_mark_def object_is_marked_def)

lemma marks_work: "colored oh \<Longrightarrow> finite U \<Longrightarrow> set xs \<subseteq> U \<Longrightarrow> work U (marks xs oh) = work U oh"
  by (induction xs arbitrary: oh) (auto simp: heap_mark_work heap_mark_marked)

section \<open>The loop of the mark phase\<close>

text \<open>The objects that a live object refers to: its map and the pointers in its oops.\<close>

definition children :: "mem \<Rightarrow> addr \<Rightarrow> addr list" where
  "children m x = object_map m x # (case oop_slots m x of None \<Rightarrow> []
     | Some ks \<Rightarrow> filter (\<lambda>v. \<not> object_is_smallint v) (map (rd m x) ks))"

inductive_set reach :: "mem \<Rightarrow> addr set \<Rightarrow> addr set" for m :: mem and R :: "addr set" where
  root: "x \<in> R \<Longrightarrow> x \<in> reach m R"
| child: "x \<in> reach m R \<Longrightarrow> y \<in> set (children m x) \<Longrightarrow> y \<in> reach m R"

lemma mark_eq_children: 
  assumes "mark_eq m m'"
  shows "children m' x = children m x"
proof -
  have "map (rd m' x) ks = map (rd m x) ks" if "oop_slots m x = Some ks" for ks
    using that assms
    by (intro map_cong refl mark_eq_reads(1)) (auto simp: oop_slots_def Let_def object_first_slot_offset_def)
  then have "filter P (map (rd m' x) ks) = filter P (map (rd m x) ks)" if "oop_slots m x = Some ks" for P ks
    using that by metis
  then show ?thesis using assms by (auto simp: children_def mark_eq_reads split: option.splits)
qed

lemma fold_marks:
  "fold (\<lambda>k oh. let val = rd (mem oh) x k in if object_is_smallint val then oh else heap_mark oh val) ks oh
   = marks (filter (\<lambda>v. \<not> object_is_smallint v) (map (rd (mem oh) x) ks)) oh"
  if "\<forall>k\<in>set ks. k \<noteq> 0"
  using that
proof (induction ks arbitrary: oh)
  case (Cons k ks)
  let ?oh = "if object_is_smallint (rd (mem oh) x k) then oh else heap_mark oh (rd (mem oh) x k)"
  have "mark_eq (mem oh) (mem ?oh)" using heap_mark_step [THEN mark_step_mem] by auto
  then have "map (rd (mem ?oh) x) ks = map (rd (mem oh) x) ks"
    using Cons.prems by (intro map_cong refl mark_eq_reads(1)) auto
  with Cons.IH [of ?oh] Cons.prems show ?case by (simp add: Let_def split: if_splits)
qed simp

lemma heap_mark_fields_marks:
  assumes "oop_slots (mem oh) x = Some ks"
  shows "heap_mark_fields oh x = Some (marks (children (mem oh) x) oh)"
proof -
  let ?oh = "heap_mark oh (object_map (mem oh) x)"
  have e: "mark_eq (mem oh) (mem ?oh)" using heap_mark_step [THEN mark_step_mem] by auto
  have ks: "\<forall>k\<in>set ks. k \<noteq> 0" using assms by (auto simp: oop_slots_def Let_def object_first_slot_offset_def)
  then have "map (rd (mem ?oh) x) ks = map (rd (mem oh) x) ks"
    using e by (intro map_cong refl mark_eq_reads(1)) auto
  then show ?thesis
    using fold_marks [OF ks, of x ?oh] assms mark_eq_reads(10) [OF e, of x]
    unfolding heap_mark_fields_def children_def Let_def by (simp del: map_eq_conv)
qed

text \<open>
  From a heap in which the marked objects of a closed universe have all their children
  marked unless they are still on the stack, the loop ends and marks exactly what the
  stack reaches.
\<close>

definition mark_invariant :: "addr set \<Rightarrow> object_heap \<Rightarrow> object_heap \<Rightarrow> bool" where
  "mark_invariant U oh0 oh \<longleftrightarrow> mark_step oh0 oh \<and> colored oh \<and> set (markStack oh) \<subseteq> U \<and>
     (\<forall>x\<in>set (markStack oh). object_is_marked oh x) \<and>
     (\<forall>x\<in>U. object_is_marked oh x \<longrightarrow> x \<in> reach (mem oh0) (set (markStack oh0))) \<and>
     (\<forall>x\<in>U. object_is_marked oh x \<longrightarrow> x \<notin> set (markStack oh) \<longrightarrow>
        (\<forall>y\<in>set (children (mem oh0) x). object_is_marked oh y)) \<and>
     (\<forall>x\<in>set (markStack oh0). object_is_marked oh x)"

lemma heap_mark_recursively_spec:
  assumes fin: "finite U"
    and closed: "\<And>x. x \<in> U \<Longrightarrow> oop_slots (mem oh0) x \<noteq> None \<and> set (children (mem oh0) x) \<subseteq> U"
    and inv: "mark_invariant U oh0 oh"
  shows "\<exists>oh'. heap_mark_recursively oh True = Some oh' \<and> mark_invariant U oh0 oh' \<and> markStack oh' = []"
  using inv
proof (induction "work U oh" arbitrary: oh rule: less_induct)
  case less
  show ?case
  proof (cases "markStack oh")
    case Nil
    then show ?thesis using less.prems by (subst heap_mark_recursively.simps) simp
  next
    case (Cons x rest)
    let ?oh = "oh\<lparr>markStack := rest\<rparr>" and ?cs = "children (mem oh0) x"
    have I: "mark_step oh0 oh" "colored oh" "x \<in> U" "set rest \<subseteq> U" "object_is_marked oh x"
      using less.prems Cons by (auto simp: mark_invariant_def)
    have e: "mark_eq (mem oh0) (mem oh)" using I(1) by (rule mark_step_mem)
    have c: "colored ?oh" using I(2) by (simp add: colored_def)
    have m: "object_is_marked ?oh y \<longleftrightarrow> object_is_marked oh y" for y by (simp add: object_is_marked_def)
    obtain ks where "oop_slots (mem ?oh) x = Some ks" using closed [OF I(3)] e by (auto simp: mark_eq_reads)
    then have f: "heap_mark_fields ?oh x = Some (marks ?cs ?oh)"
      using heap_mark_fields_marks mark_eq_children [OF e] by auto
    have st: "mark_step oh0 ?oh"
    proof (rule mark_step_trans [OF I(1)])
      show "mark_step oh ?oh" using mark_stepI [of oh "mem oh" rest] by simp
    qed
    have sub: "set ?cs \<subseteq> U" using closed [OF I(3)] by simp
    have w: "work U (marks ?cs ?oh) < work U oh"
      using marks_work [OF c fin sub] Cons by (simp add: work_def m)
    have "mark_invariant U oh0 (marks ?cs ?oh)"
    proof -
      have "mark_step oh0 (marks ?cs ?oh)" by (rule mark_step_trans [OF st marks_step])
      moreover have "x \<in> reach (mem oh0) (set (markStack oh0))"
        using less.prems I by (auto simp: mark_invariant_def)
      then have "\<forall>y\<in>set ?cs. y \<in> reach (mem oh0) (set (markStack oh0))" by (blast intro: reach.child)
      ultimately show ?thesis
        using less.prems Cons sub I marks_marked(3) [OF c] unfolding mark_invariant_def marks_marked(1,2) [OF c] m by auto
    qed
    from less.hyps [OF w this] Cons f show ?thesis
      by (subst heap_mark_recursively.simps) simp
  qed
qed

lemma mark_phase_exact:
  assumes fin: "finite U" and col: "colored oh"
    and closed: "\<And>x. x \<in> U \<Longrightarrow> oop_slots (mem oh) x \<noteq> None \<and> set (children (mem oh) x) \<subseteq> U"
    and stack: "set (markStack oh) \<subseteq> U"
    and only: "\<And>x. x \<in> U \<Longrightarrow> object_is_marked oh x \<longleftrightarrow> x \<in> set (markStack oh)"
  shows "\<exists>oh'. heap_mark_recursively oh True = Some oh' \<and> mark_step oh oh' \<and> markStack oh' = [] \<and>
    (\<forall>x\<in>U. object_is_marked oh' x \<longleftrightarrow> x \<in> reach (mem oh) (set (markStack oh)))"
proof -
  have "mark_invariant U oh oh"
    using assms by (auto simp: mark_invariant_def intro: reach.root)
  from heap_mark_recursively_spec [OF fin closed this] obtain oh' where
    oh': "heap_mark_recursively oh True = Some oh'" "mark_invariant U oh oh'" "markStack oh' = []" by blast
  have "x \<in> U \<and> object_is_marked oh' x" if "x \<in> reach (mem oh) (set (markStack oh))" for x
    using that
  proof induction
    case (root x)
    with oh'(2) stack show ?case unfolding mark_invariant_def by auto
  next
    case (child x y)
    with oh'(2,3) closed [of x] show ?case unfolding mark_invariant_def by auto
  qed
  moreover have "mark_step oh oh'" "\<forall>x\<in>U. object_is_marked oh' x \<longrightarrow> x \<in> reach (mem oh) (set (markStack oh))"
    using oh'(2) unfolding mark_invariant_def by blast+
  ultimately show ?thesis using oh'(1,3) by blast
qed

section \<open>The roots of a full collection\<close>

text \<open>The mark phase of \<open>heap_full_gc\<close>, from the flip of the colour to the empty stack.\<close>

definition heap_full_mark :: "object_heap \<Rightarrow> object_heap option" where
  "heap_full_mark oh = do {
     let oh = heap_start_gc oh;
     oh \<leftarrow> heap_unmark_all oh (memoryOld oh) (memoryOldSize oh);
     oh \<leftarrow> heap_unmark_all oh (memoryYoung oh) (memoryYoungSize oh);
     oh \<leftarrow> heap_mark_pinned_young oh;
     oh \<leftarrow> heap_mark_pinned_old oh;
     oh \<leftarrow> heap_mark_specials oh True;
     let oh = heap_mark_interpreter_stack oh True;
     heap_mark_recursively oh True }"

definition pinned_live :: "mem \<Rightarrow> addr \<Rightarrow> bool" where
  "pinned_live m x \<longleftrightarrow> object_hash m x < ID_HASH_RESERVED \<and> object_pin_count m x > 0"

definition special_roots :: "object_heap \<Rightarrow> word_t \<Rightarrow> addr list" where
  "special_roots oh n = filter (\<lambda>v. \<not> object_is_smallint v) (map (elements (mem oh) (special_objects_oop oh)) [0..n - 1])"

definition stack_roots :: "object_heap \<Rightarrow> addr list" where
  "stack_roots oh = filter (\<lambda>v. \<not> object_is_smallint v)
     (map (elements (mem oh) (interpreter_stack oh)) [0..interpreter_stackPointer oh - 1])"

lemma unmark_shape: "same_shape (mem oh) (mem (object_unmark oh x))"
  by (simp add: same_shape_def)

interpretation unmark_walk: heap_walk "\<lambda>oh x. Some (object_unmark oh x)" heap_unmark_loop
proof
  fix memory memorySize x oh
  show "heap_unmark_loop memory memorySize x oh =
     (if object_in_memory x memory memorySize
      then do { oh \<leftarrow> Some (object_unmark oh x); x \<leftarrow> object_after (mem oh) x;
        heap_unmark_loop memory memorySize x oh }
      else Some oh)"
    by (subst heap_unmark_loop.simps) (simp add: Let_def)
qed (auto intro: unmark_shape)

definition mark_if_pinned :: "object_heap \<Rightarrow> addr \<Rightarrow> object_heap" where
  "mark_if_pinned oh x = (if pinned_live (mem oh) x then heap_mark oh x else oh)"

interpretation pinned_walk: heap_walk "\<lambda>oh x. Some (mark_if_pinned oh x)" mark_pinned_loop
proof
  fix memory memorySize x oh
  show "mark_pinned_loop memory memorySize x oh =
     (if object_in_memory x memory memorySize
      then do { oh \<leftarrow> Some (mark_if_pinned oh x); x \<leftarrow> object_after (mem oh) x;
        mark_pinned_loop memory memorySize x oh }
      else Some oh)"
    by (subst mark_pinned_loop.simps) (simp add: Let_def mark_if_pinned_def pinned_live_def)
next
  fix oh oh' x
  assume "Some (mark_if_pinned oh x) = Some oh'"
  then show "same_shape (mem oh) (mem oh')"
    using heap_mark_step [THEN mark_step_mem, THEN mark_eq_shape, of oh x]
    by (auto simp: mark_if_pinned_def split: if_splits)
qed

text \<open>Unmarking: the objects of the space lose the current colour.\<close>

lemma unmark_step: "mark_step oh (object_unmark oh x)"
proof -
  have "mark_eq (mem oh) (mem (object_unmark oh x))" by (simp add: mark_eq_def)
  moreover have "object_unmark oh x = oh\<lparr>mem := mem (object_unmark oh x), markStack := markStack oh\<rparr>"
    unfolding object_unmark_def upd_def by simp
  ultimately show ?thesis by (metis mark_stepI)
qed

lemma unmark_marked:
  "colored oh \<Longrightarrow> object_is_marked (object_unmark oh x) y \<longleftrightarrow> y \<noteq> x \<and> object_is_marked oh y"
  by (auto simp: object_is_marked_def colored_def)

lemma fold_unmark:
  "colored oh \<Longrightarrow> mark_step oh (fold (\<lambda>x oh. object_unmark oh x) xs oh) \<and>
     colored (fold (\<lambda>x oh. object_unmark oh x) xs oh) \<and>
     markStack (fold (\<lambda>x oh. object_unmark oh x) xs oh) = markStack oh \<and>
     (\<forall>y. object_is_marked (fold (\<lambda>x oh. object_unmark oh x) xs oh) y \<longleftrightarrow> y \<notin> set xs \<and> object_is_marked oh y)"
proof (induction xs arbitrary: oh)
  case (Cons x xs)
  have "colored (object_unmark oh x)" using Cons.prems by (simp add: colored_def)
  from Cons.IH [OF this] Cons.prems show ?case
    by (auto simp: unmark_marked intro: mark_step_trans unmark_step)
qed simp

lemma heap_unmark_all_spec:
  assumes "chunks (mem oh) memory (memory + memorySize) xs" "colored oh"
  shows "\<exists>oh'. heap_unmark_all oh memory memorySize = Some oh' \<and> mark_step oh oh' \<and> colored oh' \<and>
     markStack oh' = markStack oh \<and> (\<forall>y. object_is_marked oh' y \<longleftrightarrow> y \<notin> set xs \<and> object_is_marked oh y)"
  using unmark_walk.loop_fold [OF assms(1)] fold_unmark [OF assms(2)]
    fold_opt_Some [of xs "\<lambda>oh x. Some (object_unmark oh x)" "\<lambda>x oh. object_unmark oh x" oh]
  by (simp add: heap_unmark_all_def)

text \<open>Each group of roots is marked by a list of marks.\<close>

lemma fold_pinned: "fold (\<lambda>x oh. mark_if_pinned oh x) xs oh = marks (filter (pinned_live (mem oh)) xs) oh"
proof (induction xs arbitrary: oh)
  case (Cons x xs)
  have "mark_eq (mem oh) (mem (mark_if_pinned oh x))"
    using heap_mark_step by (auto simp: mark_if_pinned_def intro: mark_step_mem)
  then have "pinned_live (mem (mark_if_pinned oh x)) = pinned_live (mem oh)"
    by (simp add: pinned_live_def fun_eq_iff mark_eq_reads)
  with Cons.IH [of "mark_if_pinned oh x"] show ?case by (simp add: mark_if_pinned_def)
qed simp

lemma mark_pinned_spec:
  assumes "chunks (mem oh) memory (memory + memorySize) xs"
  shows "mark_pinned_loop memory memorySize memory oh = Some (marks (filter (pinned_live (mem oh)) xs) oh)"
  using pinned_walk.loop_fold [OF assms] fold_pinned
    fold_opt_Some [of xs "\<lambda>oh x. Some (mark_if_pinned oh x)" "\<lambda>x oh. mark_if_pinned oh x" oh] by simp

lemma fold_elements:
  assumes "\<forall>i\<in>set is. 0 \<le> i" and T: "\<And>oh x. T (heap_mark oh x) = T oh"
  shows "fold (\<lambda>i oh. let obj = elements (mem oh) (T oh) i in
       if object_is_smallint obj then oh else heap_mark oh obj) is oh
     = marks (filter (\<lambda>v. \<not> object_is_smallint v) (map (elements (mem oh) (T oh)) is)) oh"
  using assms(1)
proof (induction "is" arbitrary: oh)
  case (Cons i "is")
  let ?oh = "if object_is_smallint (elements (mem oh) (T oh) i) then oh else heap_mark oh (elements (mem oh) (T oh) i)"
  have "mark_eq (mem oh) (mem ?oh)" using heap_mark_step [THEN mark_step_mem] by auto
  then have "map (elements (mem ?oh) (T oh)) is = map (elements (mem oh) (T oh)) is"
    using Cons.prems by (intro map_cong refl mark_eq_reads(12)) auto
  moreover have "T ?oh = T oh" by (simp add: T)
  ultimately show ?case using Cons.IH [of ?oh] Cons.prems
    by (simp add: Let_def del: map_eq_conv split: if_splits)
qed simp

lemma heap_mark_specials_marks:
  assumes "object_array_size (mem oh) (special_objects_oop oh) = Some n"
  shows "heap_mark_specials oh True = Some (marks (special_roots oh n) oh)"
proof -
  have "special_objects_oop (heap_mark oh x) = special_objects_oop oh" for oh x
    using heap_mark_step by (rule mark_step_fields)
  from fold_elements [of "[0..n - 1]" special_objects_oop, OF _ this] show ?thesis
    using assms by (simp add: heap_mark_specials_def special_roots_def)
qed

lemma heap_mark_interpreter_stack_marks:
  "heap_mark_interpreter_stack oh True = marks (stack_roots oh) oh"
proof -
  have "interpreter_stack (heap_mark oh x) = interpreter_stack oh" for oh x
    using heap_mark_step [of oh x] by (simp add: interpreter_stack_def mark_step_fields mark_eq_reads mark_step_mem)
  from fold_elements [of "[0..interpreter_stackPointer oh - 1]" interpreter_stack, OF _ this] show ?thesis
    by (simp add: heap_mark_interpreter_stack_def stack_roots_def cong: if_cong)
qed

text \<open>
  A well-formed heap for the collector: both spaces are partitioned, the special objects
  are an array, and every pointer of a live object or of a root is to a live object.
\<close>

definition live_objects :: "object_heap \<Rightarrow> addr list \<Rightarrow> addr list \<Rightarrow> addr set" where
  "live_objects oh olds youngs = live (mem oh) olds \<union> live (mem oh) youngs"

definition gc_roots :: "object_heap \<Rightarrow> word_t \<Rightarrow> addr list \<Rightarrow> addr list \<Rightarrow> addr set" where
  "gc_roots oh n olds youngs = {x \<in> set olds \<union> set youngs. pinned_live (mem oh) x}
     \<union> set (special_roots oh n) \<union> set (stack_roots oh)"

definition heap_ok :: "object_heap \<Rightarrow> word_t \<Rightarrow> addr list \<Rightarrow> addr list \<Rightarrow> bool" where
  "heap_ok oh n olds youngs \<longleftrightarrow>
     chunks (mem oh) (memoryOld oh) (memoryOld oh + memoryOldSize oh) olds \<and>
     chunks (mem oh) (memoryYoung oh) (memoryYoung oh + memoryYoungSize oh) youngs \<and>
     colored oh \<and> object_array_size (mem oh) (special_objects_oop oh) = Some n \<and>
     set (special_roots oh n) \<union> set (stack_roots oh) \<subseteq> live_objects oh olds youngs \<and>
     (\<forall>x\<in>live_objects oh olds youngs. oop_slots (mem oh) x \<noteq> None \<and>
        set (children (mem oh) x) \<subseteq> live_objects oh olds youngs)"

lemma start_gc_colored: "colored oh \<Longrightarrow> colored (heap_start_gc oh)"
  by (auto simp: colored_def heap_start_gc_def header_consts)

lemma mark_step_roots:
  assumes "mark_step oh oh'"
  shows "special_roots oh' n = special_roots oh n" "stack_roots oh' = stack_roots oh"
    "pinned_live (mem oh') = pinned_live (mem oh)"
    "object_array_size (mem oh') (special_objects_oop oh') = object_array_size (mem oh) (special_objects_oop oh)"
proof -
  note e = mark_step_mem [OF assms] and f = mark_step_fields [OF assms]
  have m: "map (elements (mem oh') t) [0..k - 1] = map (elements (mem oh) t) [0..k - 1]" for t k
    using e by (intro map_cong refl mark_eq_reads(12)) auto
  show "special_roots oh' n = special_roots oh n" by (simp add: special_roots_def m f del: map_eq_conv)
  have "interpreter_stack oh' = interpreter_stack oh" "interpreter_stackPointer oh' = interpreter_stackPointer oh"
    using e f by (simp_all add: interpreter_stack_def interpreter_stackPointer_def mark_eq_reads)
  then show "stack_roots oh' = stack_roots oh" by (simp add: stack_roots_def m del: map_eq_conv)
  show "pinned_live (mem oh') = pinned_live (mem oh)"
    using e by (simp add: pinned_live_def fun_eq_iff mark_eq_reads)
  show "object_array_size (mem oh') (special_objects_oop oh') = object_array_size (mem oh) (special_objects_oop oh)"
    using e f by (simp add: mark_eq_reads)
qed

lemma mark_eq_reach:
  assumes "mark_eq m m'"
  shows "reach m' R = reach m R"
proof -
  note c = mark_eq_children [OF assms] and c' = mark_eq_children [OF assms, symmetric]
  have "x \<in> reach m R" if "x \<in> reach m' R" for x
    using that by induction (auto simp: c intro: reach.intros)
  moreover have "x \<in> reach m' R" if "x \<in> reach m R" for x
    using that by induction (auto simp: c' intro: reach.intros)
  ultimately show ?thesis by blast
qed

text \<open>Marking several lists in a row is marking their concatenation.\<close>

lemma heap_full_mark_spec:
  assumes ok: "heap_ok oh n olds youngs"
  defines "U \<equiv> live_objects oh olds youngs"
  shows "\<exists>oh'. heap_full_mark oh = Some oh' \<and> mark_step (heap_start_gc oh) oh' \<and> colored oh' \<and>
    markStack oh' = [] \<and> (\<forall>x\<in>U. object_is_marked oh' x \<longleftrightarrow> x \<in> reach (mem oh) (gc_roots oh n olds youngs))"
proof -
  let ?s = "heap_start_gc oh"
  have s: "mem ?s = mem oh" "memoryOld ?s = memoryOld oh" "memoryOldSize ?s = memoryOldSize oh"
    "memoryYoung ?s = memoryYoung oh" "memoryYoungSize ?s = memoryYoungSize oh" "markStack ?s = []"
    "special_roots ?s n = special_roots oh n" "stack_roots ?s = stack_roots oh"
    "special_objects_oop ?s = special_objects_oop oh"
    by (simp_all add: heap_start_gc_def special_roots_def stack_roots_def interpreter_stack_def interpreter_stackPointer_def)
  have K: "chunks (mem oh) (memoryOld oh) (memoryOld oh + memoryOldSize oh) olds"
    "chunks (mem oh) (memoryYoung oh) (memoryYoung oh + memoryYoungSize oh) youngs"
    "colored ?s" "object_array_size (mem oh) (special_objects_oop oh) = Some n"
    "set (special_roots oh n) \<union> set (stack_roots oh) \<subseteq> U"
    "\<And>x. x \<in> U \<Longrightarrow> oop_slots (mem oh) x \<noteq> None \<and> set (children (mem oh) x) \<subseteq> U"
    using ok start_gc_colored by (auto simp: heap_ok_def U_def)
  obtain a where a: "heap_unmark_all ?s (memoryOld ?s) (memoryOldSize ?s) = Some a" "mark_step ?s a" "colored a"
    "markStack a = []" "\<forall>y. object_is_marked a y \<longleftrightarrow> y \<notin> set olds \<and> object_is_marked ?s y"
    using heap_unmark_all_spec [of ?s "memoryOld oh" "memoryOldSize oh" olds] K s by auto
  note fa = mark_step_fields [OF a(2)] and ea = mark_step_mem [OF a(2)]
  obtain b where b: "heap_unmark_all a (memoryYoung a) (memoryYoungSize a) = Some b" "mark_step a b" "colored b"
    "markStack b = []" "\<forall>y. object_is_marked b y \<longleftrightarrow> y \<notin> set youngs \<and> object_is_marked a y"
    using heap_unmark_all_spec [of a "memoryYoung oh" "memoryYoungSize oh" youngs] K s a fa
      chunks_shape [OF mark_eq_shape [OF ea]] by auto
  have sb: "mark_step ?s b" using a(2) b(2) by (rule mark_step_trans)
  define roots where "roots = filter (pinned_live (mem oh)) youngs @ filter (pinned_live (mem oh)) olds
    @ special_roots oh n @ stack_roots oh"
  have chain: "mark_step ?s (marks zs b)" for zs using sb marks_step by (rule mark_step_trans)
  note fields = mark_step_fields [OF chain] and eqs = mark_step_mem [OF chain]
    and rts = mark_step_roots [OF chain]
  have p1: "heap_mark_pinned_young b = Some (marks (filter (pinned_live (mem oh)) youngs) b)"
    using mark_pinned_spec [of b "memoryYoung oh" "memoryYoungSize oh" youngs] K(2) s
      fields [of "[]"] rts(3) [of "[]"] chunks_shape [OF mark_eq_shape [OF eqs [of "[]"]]]
    by (simp add: heap_mark_pinned_young_def)
  have p2: "heap_mark_pinned_old (marks ys b) = Some (marks (filter (pinned_live (mem oh)) olds) (marks ys b))" for ys
    using mark_pinned_spec [of "marks ys b" "memoryOld oh" "memoryOldSize oh" olds] K(1) s
      fields [of ys] rts(3) [of ys] chunks_shape [OF mark_eq_shape [OF eqs [of ys]]]
    by (simp add: heap_mark_pinned_old_def)
  have p3: "heap_mark_specials (marks ys b) True = Some (marks (special_roots oh n) (marks ys b))" for ys
    using heap_mark_specials_marks [of "marks ys b" n] K(4) s rts(1,4) [of ys] by simp
  have p4: "heap_mark_interpreter_stack (marks ys b) True = marks (stack_roots oh) (marks ys b)" for ys
    using heap_mark_interpreter_stack_marks [of "marks ys b"] rts(2) [of ys] s by simp
  have run: "heap_full_mark oh = heap_mark_recursively (marks roots b) True"
    using a(1) b(1) p1 p2 p3 p4 by (simp add: heap_full_mark_def roots_def Let_def flip: marks_simps(3))
  have Usub: "U \<subseteq> set olds \<union> set youngs" by (auto simp: U_def live_objects_def live_def)
  have clear: "\<not> object_is_marked b x" if "x \<in> U" for x using a(5) b(5) that Usub by auto
  have set_roots: "set roots = gc_roots oh n olds youngs" by (auto simp: roots_def gc_roots_def)
  have rootsU: "set roots \<subseteq> U"
    using K(5) by (auto simp: roots_def U_def live_objects_def live_def pinned_live_def object_is_free_def)
  have stack: "set (markStack (marks roots b)) = set roots"
    using marks_marked(2) [OF b(3), of roots] b(4) clear rootsU by auto
  have eq: "mem ?s = mem oh" "mark_eq (mem oh) (mem (marks roots b))" using eqs [of roots] s by auto
  have "\<exists>oh'. heap_mark_recursively (marks roots b) True = Some oh' \<and> mark_step (marks roots b) oh' \<and> markStack oh' = [] \<and>
    (\<forall>x\<in>U. object_is_marked oh' x \<longleftrightarrow> x \<in> reach (mem (marks roots b)) (set (markStack (marks roots b))))"
  proof (rule mark_phase_exact)
    show "finite U" using Usub finite_subset by blast
    show "colored (marks roots b)" using b(3) by (rule marks_marked)
    show "oop_slots (mem (marks roots b)) x \<noteq> None \<and> set (children (mem (marks roots b)) x) \<subseteq> U" if "x \<in> U" for x
      using K(6) [OF that] eq(2) by (simp add: mark_eq_reads mark_eq_children)
    show "set (markStack (marks roots b)) \<subseteq> U" using stack rootsU by simp
    show "object_is_marked (marks roots b) x \<longleftrightarrow> x \<in> set (markStack (marks roots b))" if "x \<in> U" for x
      using marks_marked(1) [OF b(3), of roots] clear [OF that] stack by simp
  qed
  then obtain oh' where r: "heap_mark_recursively (marks roots b) True = Some oh'" "mark_step (marks roots b) oh'"
    "markStack oh' = []" "\<forall>x\<in>U. object_is_marked oh' x \<longleftrightarrow> x \<in> reach (mem oh) (set roots)"
    using stack mark_eq_reach [OF eq(2)] by auto
  moreover have "colored oh'"
    using marks_marked(3) [OF b(3), of roots] mark_step_fields(1) [OF r(2)] by (simp add: colored_def)
  ultimately show ?thesis
    using run set_roots mark_step_trans [OF chain r(2)] by auto
qed

section \<open>Properties\<close>

text \<open>
  C1. The mark phase of a full collection is exact: on a well-formed heap it returns with an empty
  mark stack, an object is marked if and only if it is reachable from the roots, and
  nothing but mark bits has changed.
\<close>

theorem full_mark_exact:
  assumes "heap_ok oh n olds youngs"
  shows "\<exists>oh'. heap_full_mark oh = Some oh' \<and> markStack oh' = [] \<and> mark_eq (mem oh) (mem oh') \<and>
    (\<forall>x\<in>live_objects oh olds youngs.
       object_is_marked oh' x \<longleftrightarrow> x \<in> reach (mem oh) (gc_roots oh n olds youngs))"
proof -
  obtain oh' where 1: "heap_full_mark oh = Some oh'" "mark_step (heap_start_gc oh) oh'" "markStack oh' = []"
    "\<forall>x\<in>live_objects oh olds youngs. object_is_marked oh' x \<longleftrightarrow> x \<in> reach (mem oh) (gc_roots oh n olds youngs)"
    using heap_full_mark_spec [OF assms] by blast
  moreover have "mark_eq (mem oh) (mem oh')" using mark_step_mem [OF 1(2)] by (simp add: heap_start_gc_def)
  ultimately show ?thesis by blast
qed

end
