(* ===== verification/Sweep.thy ===== *)
theory Sweep
  imports Mark
begin

text \<open>
  The sweep (\<open>heap_free_and_coalesce_unmarked\<close>, gc.cpp): unmarked objects become free
  space, neighbouring free chunks are merged. The theorem of this theory is that the
  space stays partitioned, exactly the marked live objects survive, with their
  contents, and no two free chunks are left next to each other.
\<close>

definition free_if_dead :: "object_heap \<Rightarrow> addr \<Rightarrow> (object_heap \<times> int) option" where
  "free_if_dead oh obj =
     (if \<not> object_is_free (mem oh) obj \<and> \<not> object_is_marked oh obj
      then do { oh \<leftarrow> heap_free_object oh obj; Some (oh, 1) }
      else Some (oh, 0))"

partial_function (option) sweep_loop ::
  "addr \<Rightarrow> word_t \<Rightarrow> addr \<Rightarrow> addr \<Rightarrow> int \<Rightarrow> int \<Rightarrow> object_heap \<Rightarrow> (object_heap \<times> int \<times> int) option" where
  "sweep_loop memory memorySize obj prev object_count free_count oh =
     (if object_in_memory obj memory memorySize then do {
        (oh, freed) \<leftarrow> free_if_dead oh obj;
        if object_is_free (mem oh) obj \<and> object_is_free (mem oh) prev \<and> obj \<noteq> prev then do {
          oh \<leftarrow> heap_make_free_space oh prev (object_word_size (mem oh) obj + object_word_size (mem oh) prev);
          obj \<leftarrow> object_after (mem oh) prev;
          sweep_loop memory memorySize obj prev (object_count + 1) (free_count + freed) oh }
        else do {
          after \<leftarrow> object_after (mem oh) obj;
          sweep_loop memory memorySize after obj (object_count + 1) (free_count + freed) oh } }
      else Some (oh, object_count, free_count))"

declare sweep_loop.simps [code]

definition heap_free_and_coalesce_unmarked :: "object_heap \<Rightarrow> addr \<Rightarrow> word_t \<Rightarrow> object_heap option" where
  "heap_free_and_coalesce_unmarked oh memory memorySize = do {
     (oh, object_count, free_count) \<leftarrow> sweep_loop memory memorySize memory memory 0 0 oh;
     Some (if memory = memoryOld oh \<and> (free_count = 0 \<or> object_count div free_count > 2)
           then oh\<lparr>doFullGCNext := True\<rparr> else oh) }"

section \<open>Freeing one object\<close>

lemma heap_free_object_spec:
  assumes "4 \<le> object_word_size (mem oh) x"
  shows "\<exists>oh'. heap_free_object oh x = Some oh' \<and> mark_color oh' = mark_color oh \<and>
    (\<forall>p. p \<noteq> x \<longrightarrow> mem oh' p = mem oh p) \<and> object_word_size (mem oh') x = object_word_size (mem oh) x \<and>
    object_hash (mem oh') x = ID_HASH_FREE \<and> rememberedOldObjects oh' \<subseteq> rememberedOldObjects oh \<and>
    memoryOld oh' = memoryOld oh \<and> memoryOldSize oh' = memoryOldSize oh \<and>
    memoryYoung oh' = memoryYoung oh \<and> memoryYoungSize oh' = memoryYoungSize oh"
proof -
  let ?a = "if currentlyProfiling (profiler oh)
      then oh\<lparr>profiler := profiler_delete_method (profiler oh) (c_nil oh) x\<rparr> else oh"
  define b where "b = (if object_is_old ?a x
      then ?a\<lparr>rememberedOldObjects := rememberedOldObjects ?a - {x}\<rparr> else ?a)"
  have b: "mem b = mem oh" "mark_color b = mark_color oh" "rememberedOldObjects b \<subseteq> rememberedOldObjects oh"
    "memoryOld b = memoryOld oh" "memoryOldSize b = memoryOldSize oh"
    "memoryYoung b = memoryYoung oh" "memoryYoungSize b = memoryYoungSize oh"
    by (auto simp: b_def split: if_splits)
  have eq: "heap_free_object oh x = heap_make_free_space b x (object_word_size (mem oh) x)"
    by (simp add: heap_free_object_def Let_def b_def cong: if_cong)
  obtain oh' where oh': "heap_make_free_space b x (object_word_size (mem oh) x) = Some oh'"
    "oh' = b\<lparr>mem := mem oh'\<rparr>" "\<forall>p. p \<noteq> x \<longrightarrow> mem oh' p = mem b p"
    "object_word_size (mem oh') x = object_word_size (mem oh) x" "object_hash (mem oh') x = ID_HASH_FREE"
    using make_free_space [OF assms, of b x] by blast
  have f: "mark_color oh' = mark_color b" "rememberedOldObjects oh' = rememberedOldObjects b"
    "memoryOld oh' = memoryOld b" "memoryOldSize oh' = memoryOldSize b"
    "memoryYoung oh' = memoryYoung b" "memoryYoungSize oh' = memoryYoungSize b"
    by (subst oh'(2), simp)+
  show ?thesis using eq oh'(1,3,4,5) f b by (intro exI [of _ oh']) simp
qed

section \<open>The invariant of the loop\<close>

definition apart :: "mem \<Rightarrow> addr list \<Rightarrow> bool" where
  "apart m xs \<longleftrightarrow> successively (\<lambda>x y. \<not> (object_is_free m x \<and> object_is_free m y)) xs"

lemma apart_cong: "(\<And>x. x \<in> set xs \<Longrightarrow> object_is_free m' x = object_is_free m x) \<Longrightarrow> apart m' xs = apart m xs"
  unfolding apart_def by (rule successively_cong) auto

lemma apart_snoc: "xs \<noteq> [] \<Longrightarrow> apart m (xs @ [y]) \<longleftrightarrow> apart m xs \<and> \<not> (object_is_free m (last xs) \<and> object_is_free m y)"
  by (auto simp: apart_def successively_append_iff)

definition survivors :: "object_heap \<Rightarrow> addr list \<Rightarrow> addr set" where
  "survivors oh xs = {x \<in> live (mem oh) xs. object_is_marked oh x}"

definition swept :: "object_heap \<Rightarrow> addr \<Rightarrow> addr \<Rightarrow> addr set \<Rightarrow> object_heap \<Rightarrow> addr list \<Rightarrow> bool" where
  "swept oh a e keep oh' xs' \<longleftrightarrow> chunks (mem oh') a e xs' \<and> apart (mem oh') xs' \<and>
     live (mem oh') xs' = keep \<and> (\<forall>x\<in>keep. mem oh' x = mem oh x) \<and> mark_color oh' = mark_color oh \<and>
     memoryOld oh' = memoryOld oh \<and> memoryOldSize oh' = memoryOldSize oh \<and>
     memoryYoung oh' = memoryYoung oh \<and> memoryYoungSize oh' = memoryYoungSize oh"

lemma live_append: "live m (xs @ ys) = live m xs \<union> live m ys"
  by (auto simp: live_def)

lemma live_cong: "(\<And>x. x \<in> set xs \<Longrightarrow> object_is_free m' x = object_is_free m x) \<Longrightarrow> live m' xs = live m xs"
  by (auto simp: live_def)

text \<open>The first part of an iteration: the object is freed if it is live and unmarked.\<close>

lemma free_step:
  assumes "4 \<le> object_word_size (mem oh) x"
  shows "\<exists>oh' freed. free_if_dead oh x = Some (oh', freed) \<and>
    (\<forall>p. p \<noteq> x \<longrightarrow> mem oh' p = mem oh p) \<and> object_word_size (mem oh') x = object_word_size (mem oh) x \<and>
    (object_is_free (mem oh') x \<longleftrightarrow> x \<notin> survivors oh [x]) \<and> (x \<in> survivors oh [x] \<longrightarrow> mem oh' x = mem oh x) \<and>
    mark_color oh' = mark_color oh \<and> memoryOld oh' = memoryOld oh \<and> memoryOldSize oh' = memoryOldSize oh \<and>
    memoryYoung oh' = memoryYoung oh \<and> memoryYoungSize oh' = memoryYoungSize oh"
proof (cases "\<not> object_is_free (mem oh) x \<and> \<not> object_is_marked oh x")
  case True
  then show ?thesis
    using heap_free_object_spec [OF assms]
    by (auto simp: free_if_dead_def survivors_def live_def object_is_free_def header_consts)
next
  case False
  then show ?thesis by (auto simp: free_if_dead_def survivors_def live_def)
qed

lemma sweep_loop_spec:
  assumes "chunks (mem oh) a b (pre @ [p])" "chunks (mem oh) b (memory + memorySize) rest"
    and "apart (mem oh) (pre @ [p])" and "memory \<le> a"
  shows "\<exists>oh' oc fc xs'. sweep_loop memory memorySize b p n f oh = Some (oh', oc, fc) \<and>
    swept oh a (memory + memorySize) (live (mem oh) (pre @ [p]) \<union> survivors oh rest) oh' xs'"
  using assms
proof (induction rest arbitrary: b pre p n f oh)
  case Nil
  then have "b = memory + memorySize" by simp
  with Nil show ?case
    by (subst sweep_loop.simps) (auto simp: object_in_memory_def swept_def survivors_def live_def)
next
  case (Cons x rest)
  let ?e = "memory + memorySize"
  from Cons.prems(2) have x: "x = b" "4 \<le> object_word_size (mem oh) x" "b < ?e"
    "chunks (mem oh) (b + object_total_size (mem oh) b) ?e rest" by auto
  have ab: "a \<le> b" using Cons.prems(1) by (rule chunks_le)
  then have inm: "object_in_memory b memory memorySize" using x Cons.prems(4) by (simp add: object_in_memory_def)
  have lo: "z < b" if "z \<in> set (pre @ [p])" for z using chunks_mem [OF Cons.prems(1) that] by simp
  have hi: "b < z" if "z \<in> set rest" for z
    using chunks_mem [OF x(4) that] x by (simp add: object_total_size_def)
  have pb: "p < b" using lo by simp
  obtain oh1 freed where s1: "free_if_dead oh x = Some (oh1, freed)"
    and f1: "\<forall>q. q \<noteq> x \<longrightarrow> mem oh1 q = mem oh q"
    and w1: "object_word_size (mem oh1) x = object_word_size (mem oh) x"
    and fr1: "object_is_free (mem oh1) x \<longleftrightarrow> x \<notin> survivors oh [x]"
    and k1: "x \<in> survivors oh [x] \<longrightarrow> mem oh1 x = mem oh x"
    and c1: "mark_color oh1 = mark_color oh" "memoryOld oh1 = memoryOld oh" "memoryOldSize oh1 = memoryOldSize oh"
      "memoryYoung oh1 = memoryYoung oh" "memoryYoungSize oh1 = memoryYoungSize oh"
    using free_step [OF x(2)] by blast
  have o1: "object_word_size (mem oh1) z = object_word_size (mem oh) z"
    "object_is_free (mem oh1) z = object_is_free (mem oh) z" "mem oh1 z = mem oh z"
    if "z \<in> set (pre @ [p]) \<union> set rest" for z
  proof -
    have "z \<noteq> x" using that lo hi x(1) by force
    then show "object_word_size (mem oh1) z = object_word_size (mem oh) z"
      "object_is_free (mem oh1) z = object_is_free (mem oh) z" "mem oh1 z = mem oh z"
      using frame_blocks [OF f1] f1 by auto
  qed
  have ch1: "chunks (mem oh1) a b (pre @ [p])" "chunks (mem oh1) (b + object_total_size (mem oh) b) ?e rest"
  proof -
    have "chunks (mem oh1) a b (pre @ [p]) = chunks (mem oh) a b (pre @ [p])"
      by (rule chunks_cong) (use o1(1) in auto)
    moreover have "chunks (mem oh1) l ?e rest = chunks (mem oh) l ?e rest" for l
      by (rule chunks_cong) (use o1(1) in auto)
    ultimately show "chunks (mem oh1) a b (pre @ [p])" "chunks (mem oh1) (b + object_total_size (mem oh) b) ?e rest"
      using Cons.prems(1) x(4) by auto
  qed
  have ap1: "apart (mem oh1) (pre @ [p])" 
  proof -
    have "apart (mem oh1) (pre @ [p]) = apart (mem oh) (pre @ [p])" by (rule apart_cong) (use o1(2) in auto)
    with Cons.prems(3) show ?thesis by simp
  qed
  have lv1: "live (mem oh1) (pre @ [p]) = live (mem oh) (pre @ [p])" by (rule live_cong) (use o1 in auto)
  have sv1: "survivors oh1 rest = survivors oh rest"
    using o1(2,3) by (auto simp: survivors_def live_def object_is_marked_def object_markbit_def rd_def c1)
  have tb: "object_total_size (mem oh1) b = object_total_size (mem oh) b" using w1 x(1) by (simp add: object_total_size_def)
  have sx: "survivors oh (x # rest) = survivors oh [x] \<union> survivors oh rest" by (auto simp: survivors_def live_def)
  show ?case
  proof (cases "object_is_free (mem oh1) x \<and> object_is_free (mem oh1) p")
    case True
    let ?w = "object_word_size (mem oh1) x + object_word_size (mem oh1) p"
    have wp: "4 \<le> object_word_size (mem oh1) p" using chunks_mem [OF ch1(1)] by simp
    then have "4 \<le> ?w" using w1 x(2) by simp
    from make_free_space [OF this, of oh1 p] obtain oh2 where
      s2: "heap_make_free_space oh1 p ?w = Some oh2" and eq2: "oh2 = oh1\<lparr>mem := mem oh2\<rparr>"
      and f2: "\<forall>q. q \<noteq> p \<longrightarrow> mem oh2 q = mem oh1 q" and w2: "object_word_size (mem oh2) p = ?w"
      and h2: "object_hash (mem oh2) p = ID_HASH_FREE" by blast
    have c2: "mark_color oh2 = mark_color oh1" "memoryOld oh2 = memoryOld oh1" "memoryOldSize oh2 = memoryOldSize oh1"
      "memoryYoung oh2 = memoryYoung oh1" "memoryYoungSize oh2 = memoryYoungSize oh1" by (subst eq2, simp)+
    have free2: "object_is_free (mem oh2) p" using h2 by (simp add: object_is_free_def header_consts)
    have o2: "object_word_size (mem oh2) z = object_word_size (mem oh1) z"
      "object_is_free (mem oh2) z = object_is_free (mem oh1) z" "mem oh2 z = mem oh1 z" if "z \<noteq> p" for z
      using frame_blocks [OF f2 that] f2 that by auto
    have pre: "z \<noteq> p" if "z \<in> set pre" for z
      using chunks_sorted [OF Cons.prems(1)] that by auto
    obtain c where c: "chunks (mem oh1) a c pre" "p = c" "p + object_total_size (mem oh1) p = b"
      using ch1(1) by (auto simp: chunks_append)
    have tp: "p + object_total_size (mem oh2) p = b + object_total_size (mem oh) b"
      using w2 c(3) w1 x(1) by (simp add: object_total_size_def algebra_simps)
    have bpos: "p < b + object_total_size (mem oh) b" using pb x(1,2) by (simp add: object_total_size_def)
    have "chunks (mem oh2) a (b + object_total_size (mem oh) b) (pre @ [p])"
    proof -
      have "chunks (mem oh2) a c pre" using c(1) o2(1) pre chunks_cong [of pre "mem oh2" "mem oh1"] by auto
      moreover have "chunks (mem oh2) c (b + object_total_size (mem oh) b) [p]"
        using c(2) w2 \<open>4 \<le> ?w\<close> tp bpos by simp
      ultimately show ?thesis by (auto simp: chunks_append)
    qed
    moreover have "chunks (mem oh2) (b + object_total_size (mem oh) b) ?e rest"
      using ch1(2) o2(1) hi pb chunks_cong [of rest "mem oh2" "mem oh1"] by force
    moreover have "object_is_free (mem oh2) z = object_is_free (mem oh1) z" if "z \<in> set (pre @ [p])" for z
      using that o2(2) free2 True by (cases "z = p") auto
    then have ap2: "apart (mem oh2) (pre @ [p])" and lv2: "live (mem oh2) (pre @ [p]) = live (mem oh) (pre @ [p])"
      using ap1 lv1 apart_cong [of "pre @ [p]" "mem oh2" "mem oh1"] live_cong [of "pre @ [p]" "mem oh2" "mem oh1"] by auto
    ultimately obtain oh' oc fc xs' where
      r: "sweep_loop memory memorySize (b + object_total_size (mem oh) b) p (n + 1) (f + freed) oh2 = Some (oh', oc, fc)"
      and sw: "swept oh2 a ?e (live (mem oh2) (pre @ [p]) \<union> survivors oh2 rest) oh' xs'"
      using Cons.IH Cons.prems(4) by blast
    have sv2: "survivors oh2 rest = survivors oh rest"
    proof -
      have "z \<noteq> p" if "z \<in> set rest" for z using that hi pb by force
      then have "survivors oh2 rest = survivors oh1 rest"
        using o2(2,3) by (auto simp: survivors_def live_def object_is_marked_def object_markbit_def rd_def c2)
      with sv1 show ?thesis by simp
    qed
    have "survivors oh [x] = {}" using True fr1 by (auto simp: survivors_def live_def)
    then have keep: "live (mem oh2) (pre @ [p]) \<union> survivors oh2 rest = live (mem oh) (pre @ [p]) \<union> survivors oh (x # rest)"
      using lv2 sv2 sx by simp
    have same: "mem oh2 z = mem oh z" if "z \<in> live (mem oh) (pre @ [p]) \<union> survivors oh (x # rest)" for z
    proof -
      have "z \<in> set (pre @ [p]) \<union> set rest" "\<not> object_is_free (mem oh) z"
        using that sx \<open>survivors oh [x] = {}\<close> by (auto simp: live_def survivors_def)
      then show ?thesis using o1 o2(3) True by metis
    qed
    have "object_after (mem oh2) p = Some (b + object_total_size (mem oh) b)"
      using object_after_chunk [of "mem oh2" p] w2 \<open>4 \<le> ?w\<close> tp by simp
    then have "sweep_loop memory memorySize b p n f oh = Some (oh', oc, fc)"
      using inm s1 s2 r True x(1) pb by (subst sweep_loop.simps) simp
    moreover have "swept oh a ?e (live (mem oh) (pre @ [p]) \<union> survivors oh (x # rest)) oh' xs'"
      using sw same c1 c2 unfolding swept_def keep by simp
    ultimately show ?thesis by blast
  next
    case False
    have "chunks (mem oh1) a (b + object_total_size (mem oh) b) ((pre @ [p]) @ [x])"
    proof -
      have "chunks (mem oh1) b (b + object_total_size (mem oh) b) [x]"
        using x w1 tb by (simp add: object_total_size_def)
      with ch1(1) show ?thesis unfolding chunks_append [of _ _ _ "pre @ [p]"] by blast
    qed
    moreover have "apart (mem oh1) ((pre @ [p]) @ [x])" using ap1 False by (subst apart_snoc) auto
    ultimately obtain oh' oc fc xs' where
      r: "sweep_loop memory memorySize (b + object_total_size (mem oh) b) x (n + 1) (f + freed) oh1 = Some (oh', oc, fc)"
      and sw: "swept oh1 a ?e (live (mem oh1) ((pre @ [p]) @ [x]) \<union> survivors oh1 rest) oh' xs'"
      using Cons.IH ch1(2) Cons.prems(4) by blast
    have keep: "live (mem oh1) ((pre @ [p]) @ [x]) \<union> survivors oh1 rest = live (mem oh) (pre @ [p]) \<union> survivors oh (x # rest)"
    proof -
      have "live (mem oh1) [x] = (if object_is_free (mem oh1) x then {} else {x})" by (auto simp: live_def)
      also have "\<dots> = survivors oh [x]" using fr1 by (auto simp: survivors_def live_def)
      finally show ?thesis unfolding live_append [of _ "pre @ [p]"] lv1 sv1 sx by blast
    qed
    have same: "mem oh1 z = mem oh z" if "z \<in> live (mem oh) (pre @ [p]) \<union> survivors oh (x # rest)" for z
    proof (cases "z = x")
      case True
      then have "x \<in> survivors oh [x]" using that lo [of x] hi [of x] x(1) sx by (auto simp: live_def survivors_def)
      then show ?thesis using k1 True by simp
    qed (use that f1 in blast)
    have "object_after (mem oh1) x = Some (b + object_total_size (mem oh) b)"
      using object_after_chunk [of "mem oh1" x] w1 x tb by simp
    then have "sweep_loop memory memorySize b p n f oh = Some (oh', oc, fc)"
      using inm s1 r False x(1) by (subst sweep_loop.simps) auto
    moreover have "swept oh a ?e (live (mem oh) (pre @ [p]) \<union> survivors oh (x # rest)) oh' xs'"
      using sw same c1 unfolding swept_def keep by simp
    ultimately show ?thesis by blast
  qed
qed

lemma heap_free_and_coalesce_spec:
  assumes "chunks (mem oh) memory (memory + memorySize) xs"
  shows "\<exists>oh' xs'. heap_free_and_coalesce_unmarked oh memory memorySize = Some oh' \<and>
    swept oh memory (memory + memorySize) (survivors oh xs) oh' xs'"
proof -
  have "\<exists>oh' oc fc xs'. sweep_loop memory memorySize memory memory 0 0 oh = Some (oh', oc, fc) \<and>
    swept oh memory (memory + memorySize) (survivors oh xs) oh' xs'"
  proof (cases xs)
    case Nil
    with assms show ?thesis
      by (subst sweep_loop.simps, intro exI [of _ oh] exI [of _ 0] exI [of _ "[]"])
        (auto simp: object_in_memory_def swept_def survivors_def live_def apart_def)
  next
    case (Cons x rest)
    let ?e = "memory + memorySize"
    from assms Cons have x: "x = memory" "4 \<le> object_word_size (mem oh) x" "memory < ?e"
      "chunks (mem oh) (memory + object_total_size (mem oh) memory) ?e rest" by auto
    obtain oh1 freed where s1: "free_if_dead oh x = Some (oh1, freed)"
      and f1: "\<forall>q. q \<noteq> x \<longrightarrow> mem oh1 q = mem oh q"
      and w1: "object_word_size (mem oh1) x = object_word_size (mem oh) x"
      and fr1: "object_is_free (mem oh1) x \<longleftrightarrow> x \<notin> survivors oh [x]"
      and k1: "x \<in> survivors oh [x] \<longrightarrow> mem oh1 x = mem oh x"
      and c1: "mark_color oh1 = mark_color oh" "memoryOld oh1 = memoryOld oh" "memoryOldSize oh1 = memoryOldSize oh"
        "memoryYoung oh1 = memoryYoung oh" "memoryYoungSize oh1 = memoryYoungSize oh"
      using free_step [OF x(2)] by blast
    have ne: "z \<noteq> x" if "z \<in> set rest" for z
      using chunks_mem [OF x(4) that] x by (simp add: object_total_size_def)
    let ?b = "memory + object_total_size (mem oh) memory"
    have "chunks (mem oh1) ?b ?e rest"
      using x(4) ne frame_blocks(1) [OF f1] chunks_cong [of rest "mem oh1" "mem oh"] by auto
    moreover have "chunks (mem oh1) memory ?b ([] @ [x])"
      using x w1 by (simp add: object_total_size_def)
    moreover have "apart (mem oh1) ([] @ [x])" by (simp add: apart_def)
    ultimately obtain oh' oc fc xs' where
      r: "sweep_loop memory memorySize ?b x 1 freed oh1 = Some (oh', oc, fc)"
      and sw: "swept oh1 memory ?e (live (mem oh1) ([] @ [x]) \<union> survivors oh1 rest) oh' xs'"
      using sweep_loop_spec [of oh1 memory ?b "[]" x memory memorySize rest] by blast
    have sv1: "survivors oh1 rest = survivors oh rest"
      using ne f1 frame_blocks(3) [OF f1]
      by (auto simp: survivors_def live_def object_is_marked_def object_markbit_def rd_def c1)
    have keep: "live (mem oh1) ([] @ [x]) \<union> survivors oh1 rest = survivors oh xs"
      unfolding sv1 using Cons fr1 by (auto simp: live_def survivors_def)
    have same: "mem oh1 z = mem oh z" if "z \<in> survivors oh xs" for z
      using that k1 f1 Cons by (auto simp: survivors_def live_def)
    have "object_after (mem oh1) x = Some ?b"
      using object_after_chunk [of "mem oh1" x] w1 x by (simp add: object_total_size_def)
    then have "sweep_loop memory memorySize memory memory 0 0 oh = Some (oh', oc, fc)"
      using s1 [unfolded x(1)] r x(1,3)
      by (subst sweep_loop.simps) (simp add: object_in_memory_def)
    moreover have "swept oh memory ?e (survivors oh xs) oh' xs'"
      using sw same c1 unfolding swept_def keep by simp
    ultimately show ?thesis by blast
  qed
  then obtain oh' oc fc xs' where r: "sweep_loop memory memorySize memory memory 0 0 oh = Some (oh', oc, fc)"
    and sw: "swept oh memory (memory + memorySize) (survivors oh xs) oh' xs'" by blast
  have "swept oh memory (memory + memorySize) (survivors oh xs) (oh'\<lparr>doFullGCNext := True\<rparr>) xs'"
    using sw by (simp add: swept_def)
  with r sw show ?thesis
    by (simp add: heap_free_and_coalesce_unmarked_def) blast
qed

end
