(* ===== verification/Collector.thy ===== *)
theory Collector
  imports Sweep
begin

text \<open>
  The collector as a whole (gc.cpp): tenuring of young objects into the old space with
  forwarding pointers, minor and full collections, allocation in the young space,
  \<open>heap_allocate\<close>, the clone operations, and \<open>heap_forward\<close> (\<open>become:\<close>).
\<close>

section \<open>The method cache\<close>

definition empty_cache_entry :: cache_entry where
  "empty_cache_entry = \<lparr>ce_method = 0, ce_selector = 0, ce_maps = (\<lambda>_. 0)\<rparr>"

definition method_flush_cache :: "object_heap \<Rightarrow> oop \<Rightarrow> object_heap" where
  "method_flush_cache oh selector =
     (if selector = c_nil oh \<or> selector = 0
      then oh\<lparr>methodCache := (\<lambda>i. if 0 \<le> i \<and> i < METHOD_CACHE_SIZE then empty_cache_entry else methodCache oh i)\<rparr>
      else oh\<lparr>methodCache := (\<lambda>i.
        if 0 \<le> i \<and> i < METHOD_CACHE_SIZE \<and> ce_selector (methodCache oh i) = selector
        then (methodCache oh i)\<lparr>ce_selector := c_nil oh\<rparr> else methodCache oh i)\<rparr>)"

section \<open>Forwarding pointers\<close>

text \<open>\<open>target\<close> of \<open>struct ForwardedObject\<close> lies where the map of an object is.\<close>

definition forward_target :: "mem \<Rightarrow> addr \<Rightarrow> addr" where
  "forward_target m x = rd m x 3"

partial_function (option) follow_map :: "object_heap \<Rightarrow> addr \<Rightarrow> object_heap option" where
  "follow_map oh x =
     (if object_hash (mem oh) (object_map (mem oh) x) = ID_HASH_FORWARDED
      then follow_map (upd oh x MAP (forward_target (mem oh) (object_map (mem oh) x))) x
      else Some oh)"

declare follow_map.simps [code]

partial_function (option) follow_slot :: "object_heap \<Rightarrow> addr \<Rightarrow> nat \<Rightarrow> oop \<Rightarrow> (object_heap \<times> oop) option" where
  "follow_slot oh x k val =
     (if \<not> object_is_smallint val \<and> object_hash (mem oh) val = ID_HASH_FORWARDED
      then let val = forward_target (mem oh) val in do {
        oh \<leftarrow> object_slot_value_at_offset_put oh x (8 * int k) val;
        follow_slot oh x k val }
      else Some (oh, val))"

declare follow_slot.simps [code]

definition update_forwarded_object :: "object_heap \<Rightarrow> addr \<Rightarrow> object_heap option" where
  "update_forwarded_object oh x =
     (if object_is_free (mem oh) x then Some oh
      else do {
        oh \<leftarrow> follow_map oh x;
        check (\<not> object_is_free (mem oh) (object_map (mem oh) x));
        slots \<leftarrow> oop_slots (mem oh) x;
        fold_opt (\<lambda>oh k. do {
          (oh, val) \<leftarrow> follow_slot oh x k (rd (mem oh) x k);
          check (object_is_smallint val \<or> \<not> object_is_free (mem oh) val);
          Some oh }) slots oh })"

partial_function (option) update_forwarded_loop :: "addr \<Rightarrow> word_t \<Rightarrow> addr \<Rightarrow> object_heap \<Rightarrow> object_heap option" where
  "update_forwarded_loop memory memorySize x oh =
     (if object_in_memory x memory memorySize
      then do {
        oh \<leftarrow> update_forwarded_object oh x;
        x \<leftarrow> object_after (mem oh) x;
        update_forwarded_loop memory memorySize x oh }
      else Some oh)"

declare update_forwarded_loop.simps [code]

definition heap_update_forwarded_pointers :: "object_heap \<Rightarrow> addr \<Rightarrow> word_t \<Rightarrow> object_heap option" where
  "heap_update_forwarded_pointers oh memory memorySize = update_forwarded_loop memory memorySize memory oh"

section \<open>Tenuring\<close>

definition heap_notice_forwarded_object :: "object_heap \<Rightarrow> addr \<Rightarrow> addr \<Rightarrow> object_heap" where
  "heap_notice_forwarded_object oh from to =
     (if currentlyProfiling (profiler oh)
      then oh\<lparr>profiler := profiler_notice_forwarded_object (profiler oh) from to\<rparr> else oh)"

text \<open>
  One object of the young space: an unmarked one becomes free space; a live unpinned one
  is copied to the old space and turned into a forwarding pointer.
\<close>

definition tenure_object :: "object_heap \<Rightarrow> addr \<Rightarrow> object_heap option" where
  "tenure_object oh obj =
     (if object_is_free (mem oh) obj then Some oh
      else do {
        oh \<leftarrow> if \<not> object_is_marked oh obj then heap_free_object oh obj else Some oh;
        if object_is_pinned oh obj \<or> object_is_free (mem oh) obj then Some oh
        else do {
          (tenure_start, oh) \<leftarrow> gc_allocate_old oh (object_total_size (mem oh) obj);
          let oh = oh\<lparr>mem := copy_words_into (mem oh) obj 0 (nat (object_word_size (mem oh) obj)) tenure_start 0\<rparr>;
          let oh = oh\<lparr>tenuredObjects := tenuredObjects oh @ [tenure_start]\<rparr>;
          let oh = heap_notice_forwarded_object oh obj tenure_start;
          let oh = upd oh obj MAP tenure_start;
          Some (object_set_idhash oh obj ID_HASH_FORWARDED) } })"

partial_function (option) tenure_loop :: "addr \<Rightarrow> object_heap \<Rightarrow> object_heap option" where
  "tenure_loop obj oh =
     (if object_in_memory obj (memoryYoung oh) (memoryYoungSize oh)
      then do {
        oh \<leftarrow> tenure_object oh obj;
        obj \<leftarrow> object_after (mem oh) obj;
        tenure_loop obj oh }
      else Some oh)"

declare tenure_loop.simps [code]

definition points_to_young :: "object_heap \<Rightarrow> addr \<Rightarrow> bool option" where
  "points_to_young oh x =
     (if object_is_young oh (object_map (mem oh) x) then Some True
      else do {
        slots \<leftarrow> oop_slots (mem oh) x;
        Some (\<exists>k\<in>set slots. \<not> object_is_smallint (rd (mem oh) x k) \<and> object_is_young oh (rd (mem oh) x k)) })"

definition remember_tenured :: "object_heap \<Rightarrow> addr \<Rightarrow> object_heap option" where
  "remember_tenured oh x = do {
     young \<leftarrow> points_to_young oh x;
     Some (if young then heap_remember_old_object oh x else oh) }"

partial_function (option) coalesce_young_loop :: "addr \<Rightarrow> addr \<Rightarrow> object_heap \<Rightarrow> object_heap option" where
  "coalesce_young_loop obj prev oh =
     (if object_in_memory obj (memoryYoung oh) (memoryYoungSize oh)
      then if object_is_free (mem oh) obj \<and> object_is_free (mem oh) prev \<and> obj \<noteq> prev
        then do {
          oh \<leftarrow> heap_make_free_space oh prev (object_word_size (mem oh) obj + object_word_size (mem oh) prev);
          obj \<leftarrow> object_after (mem oh) prev;
          coalesce_young_loop obj prev oh }
        else do {
          after \<leftarrow> object_after (mem oh) obj;
          coalesce_young_loop after obj oh }
      else Some oh)"

declare coalesce_young_loop.simps [code]

definition heap_tenure :: "object_heap \<Rightarrow> object_heap option" where
  "heap_tenure oh = do {
     let oh = oh\<lparr>nextOldFree := memoryOld oh, tenuredObjects := []\<rparr>;
     oh \<leftarrow> tenure_loop (memoryYoung oh) oh;
     oh \<leftarrow> heap_update_forwarded_pointers oh (memoryOld oh) (memoryOldSize oh);
     oh \<leftarrow> heap_update_forwarded_pointers oh (memoryYoung oh) (memoryYoungSize oh);
     oh \<leftarrow> fold_opt remember_tenured (tenuredObjects oh) oh;
     oh \<leftarrow> coalesce_young_loop (memoryYoung oh) (memoryYoung oh) oh;
     Some (oh\<lparr>nextFree := memoryYoung oh\<rparr>) }"

section \<open>Collections\<close>

definition heap_finish_gc :: "object_heap \<Rightarrow> object_heap" where
  "heap_finish_gc oh = method_flush_cache oh 0"

definition heap_finish_full_gc :: "object_heap \<Rightarrow> object_heap" where
  "heap_finish_full_gc oh = heap_finish_gc (oh\<lparr>doFullGCNext := False\<rparr>)"

definition heap_full_gc :: "object_heap \<Rightarrow> object_heap option" where
  "heap_full_gc oh = do {
     oh \<leftarrow> heap_full_mark oh;
     oh \<leftarrow> heap_free_and_coalesce_unmarked oh (memoryOld oh) (memoryOldSize oh);
     oh \<leftarrow> heap_tenure oh;
     Some (heap_finish_full_gc oh) }"

definition heap_gc :: "object_heap \<Rightarrow> object_heap option" where
  "heap_gc oh = do {
     let oh = heap_start_gc oh;
     oh \<leftarrow> heap_unmark_all oh (memoryYoung oh) (memoryYoungSize oh);
     oh \<leftarrow> heap_mark_pinned_young oh;
     oh \<leftarrow> heap_mark_specials oh False;
     let oh = heap_mark_interpreter_stack oh False;
     oh \<leftarrow> heap_mark_remembered oh;
     oh \<leftarrow> heap_mark_recursively oh False;
     oh \<leftarrow> heap_free_and_coalesce_unmarked oh (memoryYoung oh) (memoryYoungSize oh);
     Some (heap_finish_gc (oh\<lparr>nextFree := memoryYoung oh\<rparr>)) }"

section \<open>Allocation\<close>

text \<open>
  \<open>gc_allocate\<close>: one attempt is the search from \<open>nextFree\<close> and the split of the chunk found.
  The \<open>goto start\<close> happens at most twice, after the collections of the two flags.
\<close>

definition allocate_attempt :: "object_heap \<Rightarrow> word_t \<Rightarrow> (object_heap \<Rightarrow> (addr \<times> object_heap) option)
    \<Rightarrow> (addr \<times> object_heap) option" where
  "allocate_attempt oh bytes otherwise = do {
     let oh = (if object_in_memory (nextFree oh) (memoryYoung oh) (memoryYoungSize oh) then oh
               else oh\<lparr>nextFree := memoryYoung oh\<rparr>);
     found \<leftarrow> heap_find_first_young_free oh (nextFree oh) (bytes + 32);
     case found of
       None \<Rightarrow> otherwise (oh\<lparr>nextFree := 0\<rparr>)
     | Some p \<Rightarrow> do { oh \<leftarrow> split_free (oh\<lparr>nextFree := p\<rparr>) p (bytes div 8); Some (p, oh) } }"

definition gc_allocate :: "object_heap \<Rightarrow> word_t \<Rightarrow> (addr \<times> object_heap) option" where
  "gc_allocate oh bytes = do {
     check (bytes mod 8 = 0);
     allocate_attempt oh bytes (\<lambda>oh. do {
       oh \<leftarrow> if doFullGCNext oh then heap_full_gc oh else heap_gc oh;
       allocate_attempt (oh\<lparr>nextFree := memoryYoung oh\<rparr>) bytes (\<lambda>oh. do {
         oh \<leftarrow> heap_full_gc oh;
         allocate_attempt (oh\<lparr>nextFree := memoryYoung oh\<rparr>) bytes (\<lambda>oh. gc_allocate_old oh bytes) }) }) }"

definition heap_allocate_with_payload :: "object_heap \<Rightarrow> word_t \<Rightarrow> word_t \<Rightarrow> (addr \<times> object_heap) option" where
  "heap_allocate_with_payload oh words payload = do {
     let bytes = words * 8 + ((payload + 7) AND NOT 7);
     (x, oh) \<leftarrow> gc_allocate oh bytes;
     let oh = object_set_format oh x TYPE_BYTE_ARRAY;
     let oh = payload_set_size oh x payload;
     oh \<leftarrow> object_set_size oh x words;
     let oh = object_set_mark oh x;
     let oh = object_zero_pin_count oh x;
     check (\<not> object_is_free (mem oh) x);
     Some (x, oh) }"

definition heap_allocate :: "object_heap \<Rightarrow> word_t \<Rightarrow> (addr \<times> object_heap) option" where
  "heap_allocate oh words = heap_allocate_with_payload oh words 0"

text \<open>
  \<open>heap_clone\<close>: the prototype is pinned while the copy is allocated. The words from the
  map on are copied; the header words of the copy are its own.
\<close>

definition heap_clone :: "object_heap \<Rightarrow> addr \<Rightarrow> (addr \<times> object_heap) option" where
  "heap_clone oh proto = do {
     oh \<leftarrow> heap_pin_object oh proto;
     (new, oh) \<leftarrow>
       if object_type (mem oh) proto = TYPE_OBJECT
       then heap_allocate oh (object_size (mem oh) proto)
       else heap_allocate_with_payload oh (object_size (mem oh) proto) (payload_size (mem oh) proto);
     let oh = object_set_format oh new (object_type (mem oh) proto);
     (hash, oh) \<leftarrow> heap_new_hash oh;
     let oh = object_set_idhash oh new hash;
     let oh = oh\<lparr>mem := copy_words_into (mem oh) proto 3 (nat (object_word_size (mem oh) proto - 3)) new 3\<rparr>;
     Some (new, heap_unpin_object oh proto) }"

definition heap_clone_special :: "object_heap \<Rightarrow> nat \<Rightarrow> (addr \<times> object_heap) option" where
  "heap_clone_special oh i = heap_clone oh (get_special oh i)"

definition heap_clone_map :: "object_heap \<Rightarrow> addr \<Rightarrow> (addr \<times> object_heap) option" where
  "heap_clone_map oh m = heap_clone oh m"

definition heap_clone_oop_array_sized :: "object_heap \<Rightarrow> addr \<Rightarrow> word_t \<Rightarrow> (addr \<times> object_heap) option" where
  "heap_clone_oop_array_sized oh proto n = do {
     (new, oh) \<leftarrow> heap_allocate_with_payload oh (object_size (mem oh) proto) (n * 8);
     let oh = object_set_format oh new TYPE_OOP_ARRAY;
     (hash, oh) \<leftarrow> heap_new_hash oh;
     let oh = object_set_idhash oh new hash;
     let k = object_size (mem oh) proto;
     let m = copy_words_into (mem oh) proto 3 (nat (k - 3)) new 3;
     Some (new, oh\<lparr>mem := fill_words_with m new (nat k) (nat n) (c_nil oh)\<rparr>) }"

definition heap_clone_byte_array_sized :: "object_heap \<Rightarrow> addr \<Rightarrow> word_t \<Rightarrow> (addr \<times> object_heap) option" where
  "heap_clone_byte_array_sized oh proto bytes = do {
     (new, oh) \<leftarrow> heap_allocate_with_payload oh (object_size (mem oh) proto) bytes;
     let oh = object_set_format oh new TYPE_BYTE_ARRAY;
     (hash, oh) \<leftarrow> heap_new_hash oh;
     let oh = object_set_idhash oh new hash;
     let k = object_size (mem oh) proto;
     let m = copy_words_into (mem oh) proto 3 (nat (k - 3)) new 3;
     Some (new, oh\<lparr>mem := fill_words_with m new (nat k) (nat ((bytes + 7) div 8)) 0\<rparr>) }"

text \<open>The loops that copy C bytes into a new byte array.\<close>

definition put_byte_words :: "addr \<Rightarrow> word_t list \<Rightarrow> object_heap \<Rightarrow> object_heap" where
  "put_byte_words arr bytes oh =
     fold (\<lambda>i oh. byte_array_set_element oh arr i (bytes ! nat i)) [0..int (length bytes) - 1] oh"

definition heap_new_byte_array_with :: "object_heap \<Rightarrow> word_t list \<Rightarrow> (addr \<times> object_heap) option" where
  "heap_new_byte_array_with oh bytes = do {
     (arr, oh) \<leftarrow> heap_clone_byte_array_sized oh (get_special oh SPECIAL_OOP_BYTE_ARRAY_PROTO) (int (length bytes));
     Some (arr, put_byte_words arr bytes oh) }"

definition heap_new_string_with :: "object_heap \<Rightarrow> word_t list \<Rightarrow> (addr \<times> object_heap) option" where
  "heap_new_string_with oh bytes = do {
     (arr, oh) \<leftarrow> heap_clone_byte_array_sized oh (get_special oh SPECIAL_OOP_ASCII_PROTO) (int (length bytes));
     Some (arr, put_byte_words arr bytes oh) }"

section \<open>\<open>heap_forward\<close>\<close>

definition forward_slot :: "addr \<Rightarrow> oop \<Rightarrow> oop \<Rightarrow> object_heap \<Rightarrow> nat \<Rightarrow> object_heap option" where
  "forward_slot obj x y oh k =
     (if rd (mem oh) obj k = x then object_slot_value_at_offset_put oh obj (8 * int k) y else Some oh)"

definition object_forward_pointers_to :: "object_heap \<Rightarrow> addr \<Rightarrow> oop \<Rightarrow> oop \<Rightarrow> object_heap option" where
  "object_forward_pointers_to oh obj x y = do {
     oh \<leftarrow> if object_map (mem oh) obj = x
       then do { oh \<leftarrow> heap_store_into oh obj y; Some (upd oh obj MAP y) }
       else Some oh;
     slots \<leftarrow> oop_slots (mem oh) obj;
     fold_opt (forward_slot obj x y) slots oh }"

partial_function (option) forward_loop :: "oop \<Rightarrow> oop \<Rightarrow> addr \<Rightarrow> word_t \<Rightarrow> addr \<Rightarrow> object_heap \<Rightarrow> object_heap option" where
  "forward_loop x y memory memorySize obj oh =
     (if object_in_memory obj memory memorySize
      then do {
        oh \<leftarrow> if \<not> object_is_free (mem oh) obj then object_forward_pointers_to oh obj x y else Some oh;
        obj \<leftarrow> object_after (mem oh) obj;
        forward_loop x y memory memorySize obj oh }
      else Some oh)"

declare forward_loop.simps [code]

definition heap_forward_from :: "object_heap \<Rightarrow> oop \<Rightarrow> oop \<Rightarrow> addr \<Rightarrow> word_t \<Rightarrow> object_heap option" where
  "heap_forward_from oh x y memory memorySize = forward_loop x y memory memorySize memory oh"

definition heap_forward :: "object_heap \<Rightarrow> oop \<Rightarrow> oop \<Rightarrow> object_heap option" where
  "heap_forward oh x y = do {
     oh \<leftarrow> heap_forward_from oh x y (memoryOld oh) (memoryOldSize oh);
     oh \<leftarrow> heap_forward_from oh x y (memoryYoung oh) (memoryYoungSize oh);
     heap_free_object oh x }"

section \<open>What forwarding changes\<close>

text \<open>The oop positions of an object: its map and its slots.\<close>

definition oop_positions :: "mem \<Rightarrow> addr \<Rightarrow> nat set" where
  "oop_positions m p = insert 3 (case oop_slots m p of None \<Rightarrow> {} | Some ks \<Rightarrow> set ks)"

text \<open>Two memories with the same headers and sizes.\<close>

definition same_heads :: "mem \<Rightarrow> mem \<Rightarrow> bool" where
  "same_heads m m' \<longleftrightarrow> (\<forall>p k. k < 3 \<longrightarrow> rd m' p k = rd m p k)"

lemma same_heads_refl [simp]: "same_heads m m"
  by (simp add: same_heads_def)

lemma same_heads_trans: "same_heads m m' \<Longrightarrow> same_heads m' m'' \<Longrightarrow> same_heads m m''"
  by (simp add: same_heads_def)

lemma same_heads_reads:
  assumes "same_heads m m'"
  shows "object_hash m' p = object_hash m p" "object_type m' p = object_type m p"
    "object_word_size m' p = object_word_size m p" "object_is_free m' p = object_is_free m p"
    "oop_slots m' p = oop_slots m p" "oop_positions m' p = oop_positions m p"
  using assms by (simp_all add: same_heads_def object_hash_def object_type_def object_word_size_def
      object_size_def payload_words_def payload_size_def object_is_free_def oop_slots_def
      object_last_oop_offset_def object_last_slot_offset_def object_first_slot_offset_def oop_positions_def)

lemma same_heads_shape: "same_heads m m' \<Longrightarrow> same_shape m m'"
  by (simp add: same_shape_def same_heads_reads)

lemma same_heads_wr: "3 \<le> k \<Longrightarrow> same_heads m (wr m p k v)"
  by (simp add: same_heads_def)

lemma oop_slots_ge: "oop_slots m p = Some ks \<Longrightarrow> k \<in> set ks \<Longrightarrow> 4 \<le> k"
  by (auto simp: oop_slots_def Let_def object_first_slot_offset_def)

lemma heap_store_into_fields:
  assumes "heap_store_into oh p v = Some oh'"
  shows "mem oh' = mem oh" "memoryOld oh' = memoryOld oh" "memoryOldSize oh' = memoryOldSize oh"
    "memoryYoung oh' = memoryYoung oh" "memoryYoungSize oh' = memoryYoungSize oh" "c_nil oh' = c_nil oh"
  using assms by (auto simp: heap_store_into_def heap_remember_old_object_def split: if_splits)

lemma heap_store_into_Some:
  "object_is_smallint v \<or> (object_hash (mem oh) v < ID_HASH_RESERVED \<and> object_hash (mem oh) p < ID_HASH_RESERVED) \<Longrightarrow>
   \<exists>oh'. heap_store_into oh p v = Some oh'"
  by (simp add: heap_store_into_def)

text \<open>The effect on the words, given as a function of the old memory.\<close>

definition forwarded_words :: "oop \<Rightarrow> oop \<Rightarrow> addr set \<Rightarrow> mem \<Rightarrow> mem \<Rightarrow> bool" where
  "forwarded_words x y P m m' \<longleftrightarrow> (\<forall>p k. rd m' p k =
     (if p \<in> P \<and> k \<in> oop_positions m p \<and> rd m p k = x then y else rd m p k))"

definition same_spaces :: "object_heap \<Rightarrow> object_heap \<Rightarrow> bool" where
  "same_spaces oh oh' \<longleftrightarrow> memoryOld oh' = memoryOld oh \<and> memoryOldSize oh' = memoryOldSize oh \<and>
     memoryYoung oh' = memoryYoung oh \<and> memoryYoungSize oh' = memoryYoungSize oh \<and> c_nil oh' = c_nil oh"

definition storable :: "mem \<Rightarrow> oop \<Rightarrow> addr \<Rightarrow> bool" where
  "storable m v p \<longleftrightarrow> object_is_smallint v \<or> (object_hash m v < ID_HASH_RESERVED \<and> object_hash m p < ID_HASH_RESERVED)"

lemma fold_forward_slot:
  assumes "\<forall>k\<in>set ks. 4 \<le> k" "storable (mem oh) y p"
  shows "\<exists>oh'. fold_opt (forward_slot p x y) ks oh = Some oh' \<and> same_heads (mem oh) (mem oh') \<and> same_spaces oh oh' \<and>
    (\<forall>q k. rd (mem oh') q k = (if q = p \<and> k \<in> set ks \<and> rd (mem oh) q k = x then y else rd (mem oh) q k))"
  using assms
proof (induction ks arbitrary: oh)
  case Nil
  then show ?case by (simp add: same_spaces_def)
next
  case (Cons k ks)
  have "\<exists>oh1. forward_slot p x y oh k = Some oh1 \<and> same_heads (mem oh) (mem oh1) \<and> same_spaces oh oh1 \<and>
      (\<forall>q j. rd (mem oh1) q j = (if q = p \<and> j = k \<and> rd (mem oh) q j = x then y else rd (mem oh) q j))"
  proof (cases "rd (mem oh) p k = x")
    case True
    obtain oh1 where s: "heap_store_into oh p y = Some oh1"
      using heap_store_into_Some [of y oh p] Cons.prems(2) by (auto simp: storable_def)
    note f = heap_store_into_fields [OF s]
    have "forward_slot p x y oh k = Some (upd oh1 p k y)"
      using True s by (simp add: forward_slot_def object_slot_value_at_offset_put_def)
    then show ?thesis
      using f Cons.prems(1) True by (auto simp: same_heads_wr same_spaces_def)
  qed (auto simp: forward_slot_def same_spaces_def)
  then obtain oh1 where 1: "forward_slot p x y oh k = Some oh1" "same_heads (mem oh) (mem oh1)" "same_spaces oh oh1"
    "\<forall>q j. rd (mem oh1) q j = (if q = p \<and> j = k \<and> rd (mem oh) q j = x then y else rd (mem oh) q j)" by blast
  have "storable (mem oh1) y p" using Cons.prems(2) 1(2) by (simp add: storable_def same_heads_reads)
  with Cons.IH [of oh1] Cons.prems(1) obtain oh' where 2: "fold_opt (forward_slot p x y) ks oh1 = Some oh'"
    "same_heads (mem oh1) (mem oh')" "same_spaces oh1 oh'"
    "\<forall>q k. rd (mem oh') q k = (if q = p \<and> k \<in> set ks \<and> rd (mem oh1) q k = x then y else rd (mem oh1) q k)" by auto
  have "fold_opt (forward_slot p x y) (k # ks) oh = Some oh'" using 1(1) 2(1) by simp
  moreover have "same_spaces oh oh'" using 1(3) 2(3) by (simp add: same_spaces_def)
  moreover have "\<forall>q j. rd (mem oh') q j = (if q = p \<and> j \<in> set (k # ks) \<and> rd (mem oh) q j = x then y else rd (mem oh) q j)"
    using 1(4) 2(4) by auto
  ultimately show ?case using same_heads_trans [OF 1(2) 2(2)] by blast
qed

lemma object_forward_spec:
  assumes ks: "oop_slots (mem oh) p = Some ks" and st: "storable (mem oh) y p"
  shows "\<exists>oh'. object_forward_pointers_to oh p x y = Some oh' \<and> same_heads (mem oh) (mem oh') \<and> same_spaces oh oh' \<and>
    forwarded_words x y {p} (mem oh) (mem oh')"
proof -
  have "\<exists>oh1. (if object_map (mem oh) p = x
       then do { oh \<leftarrow> heap_store_into oh p y; Some (upd oh p MAP y) } else Some oh) = Some oh1 \<and>
     same_heads (mem oh) (mem oh1) \<and> same_spaces oh oh1 \<and>
     (\<forall>q j. rd (mem oh1) q j = (if q = p \<and> j = 3 \<and> rd (mem oh) q j = x then y else rd (mem oh) q j))"
  proof (cases "object_map (mem oh) p = x")
    case True
    obtain oh1 where s: "heap_store_into oh p y = Some oh1"
      using heap_store_into_Some [of y oh p] st by (auto simp: storable_def)
    note f = heap_store_into_fields [OF s]
    show ?thesis
      using f True s by (auto simp: same_heads_wr same_spaces_def object_map_def)
  qed (auto simp: same_spaces_def object_map_def)
  then obtain oh1 where 1: "(if object_map (mem oh) p = x
       then do { oh \<leftarrow> heap_store_into oh p y; Some (upd oh p MAP y) } else Some oh) = Some oh1"
     "same_heads (mem oh) (mem oh1)" "same_spaces oh oh1"
     "\<forall>q j. rd (mem oh1) q j = (if q = p \<and> j = 3 \<and> rd (mem oh) q j = x then y else rd (mem oh) q j)" by blast
  have "storable (mem oh1) y p" using st 1(2) by (simp add: storable_def same_heads_reads)
  moreover have k4: "\<forall>k\<in>set ks. 4 \<le> k" using oop_slots_ge [OF ks] by blast
  ultimately obtain oh' where 2: "fold_opt (forward_slot p x y) ks oh1 = Some oh'"
    "same_heads (mem oh1) (mem oh')" "same_spaces oh1 oh'"
    "\<forall>q k. rd (mem oh') q k = (if q = p \<and> k \<in> set ks \<and> rd (mem oh1) q k = x then y else rd (mem oh1) q k)"
    using fold_forward_slot by blast
  have "object_forward_pointers_to oh p x y = Some oh'"
    using 1(1) 2(1) ks same_heads_reads(5) [OF 1(2)] by (simp add: object_forward_pointers_to_def)
  moreover have "same_spaces oh oh'" using 1(3) 2(3) by (simp add: same_spaces_def)
  moreover have "forwarded_words x y {p} (mem oh) (mem oh')"
    using 1(4) 2(4) k4 ks unfolding forwarded_words_def oop_positions_def by auto
  ultimately show ?thesis using same_heads_trans [OF 1(2) 2(2)] by blast
qed

definition forward_body :: "oop \<Rightarrow> oop \<Rightarrow> object_heap \<Rightarrow> addr \<Rightarrow> object_heap option" where
  "forward_body x y oh p = (if \<not> object_is_free (mem oh) p then object_forward_pointers_to oh p x y else Some oh)"

lemma forward_body_heads:
  assumes "forward_body x y oh p = Some oh'"
  shows "same_heads (mem oh) (mem oh')"
proof (cases "object_is_free (mem oh) p")
  case False
  then obtain oh1 ks where 1: "(if object_map (mem oh) p = x
       then do { oh \<leftarrow> heap_store_into oh p y; Some (upd oh p MAP y) } else Some oh) = Some oh1"
     "oop_slots (mem oh1) p = Some ks" "fold_opt (forward_slot p x y) ks oh1 = Some oh'"
    using assms by (auto simp: forward_body_def object_forward_pointers_to_def Option.bind_eq_Some_conv)
  have h1: "same_heads (mem oh) (mem oh1)"
    using 1(1) by (auto simp: Option.bind_eq_Some_conv same_heads_wr split: if_splits dest!: heap_store_into_fields(1))
  have "same_heads (mem oh1) (mem oh')"
  proof (rule fold_opt_invariant [OF 1(3)])
    fix s k s' assume "k \<in> set ks" "same_heads (mem oh1) (mem s)" "forward_slot p x y s k = Some s'"
    moreover have "4 \<le> k" using oop_slots_ge [OF 1(2)] \<open>k \<in> set ks\<close> .
    ultimately show "same_heads (mem oh1) (mem s')"
      by (auto simp: forward_slot_def object_slot_value_at_offset_put_def Option.bind_eq_Some_conv
          same_heads_def split: if_splits dest!: heap_store_into_fields(1))
  qed simp
  with h1 show ?thesis by (rule same_heads_trans)
qed (use assms in \<open>simp add: forward_body_def\<close>)

interpretation forward_walk: heap_walk "forward_body x y" "forward_loop x y" for x y
proof
  fix memory memorySize p oh
  show "forward_loop x y memory memorySize p oh =
     (if object_in_memory p memory memorySize
      then do { oh \<leftarrow> forward_body x y oh p; p \<leftarrow> object_after (mem oh) p; forward_loop x y memory memorySize p oh }
      else Some oh)"
    by (subst forward_loop.simps) (simp add: forward_body_def)
next
  fix oh p oh'
  assume "forward_body x y oh p = Some oh'"
  then show "same_shape (mem oh) (mem oh')" by (intro same_heads_shape forward_body_heads)
qed

lemma fold_forward_body:
  assumes "\<forall>p\<in>live (mem oh) ps. oop_slots (mem oh) p \<noteq> None \<and> storable (mem oh) y p"
  shows "\<exists>oh'. fold_opt (forward_body x y) ps oh = Some oh' \<and> same_heads (mem oh) (mem oh') \<and> same_spaces oh oh' \<and>
    forwarded_words x y (live (mem oh) ps) (mem oh) (mem oh')"
  using assms
proof (induction ps arbitrary: oh)
  case Nil
  then show ?case by (simp add: same_spaces_def forwarded_words_def live_def)
next
  case (Cons p ps)
  have "\<exists>oh1. forward_body x y oh p = Some oh1 \<and> same_heads (mem oh) (mem oh1) \<and> same_spaces oh oh1 \<and>
      forwarded_words x y (live (mem oh) [p]) (mem oh) (mem oh1)"
  proof (cases "object_is_free (mem oh) p")
    case False
    then have "p \<in> live (mem oh) (p # ps)" "live (mem oh) [p] = {p}" by (auto simp: live_def)
    with Cons.prems obtain ks where "oop_slots (mem oh) p = Some ks" "storable (mem oh) y p" by blast
    from object_forward_spec [OF this] False \<open>live (mem oh) [p] = {p}\<close> show ?thesis by (simp add: forward_body_def)
  next
    case True
    then show ?thesis by (auto simp: forward_body_def same_spaces_def forwarded_words_def live_def)
  qed
  then obtain oh1 where 1: "forward_body x y oh p = Some oh1" "same_heads (mem oh) (mem oh1)" "same_spaces oh oh1"
      "forwarded_words x y (live (mem oh) [p]) (mem oh) (mem oh1)" by blast
  have l: "live (mem oh1) ps = live (mem oh) ps" using same_heads_reads(4) [OF 1(2)] by (simp add: live_def)
  have "\<forall>q\<in>live (mem oh1) ps. oop_slots (mem oh1) q \<noteq> None \<and> storable (mem oh1) y q"
    unfolding l using Cons.prems same_heads_reads [OF 1(2)] by (auto simp: storable_def live_def)
  from Cons.IH [OF this] obtain oh' where 2: "fold_opt (forward_body x y) ps oh1 = Some oh'"
    "same_heads (mem oh1) (mem oh')" "same_spaces oh1 oh'" "forwarded_words x y (live (mem oh) ps) (mem oh1) (mem oh')"
    unfolding l by blast
  have "fold_opt (forward_body x y) (p # ps) oh = Some oh'" using 1(1) 2(1) by simp
  moreover have "same_spaces oh oh'" using 1(3) 2(3) by (simp add: same_spaces_def)
  moreover have "live (mem oh) (p # ps) = live (mem oh) [p] \<union> live (mem oh) ps" by (auto simp: live_def)
  then have "forwarded_words x y (live (mem oh) (p # ps)) (mem oh) (mem oh')"
    using 1(4) 2(4) unfolding forwarded_words_def same_heads_reads(6) [OF 1(2)] by auto
  ultimately show ?case using same_heads_trans [OF 1(2) 2(2)] by blast
qed

text \<open>
  C4. \<open>heap_forward\<close> (\<open>become:\<close>) returns on a partitioned heap, redirects every reference to
  \<open>x\<close> in every live object of both spaces to \<open>y\<close>, changes no other word of any object but
  \<open>x\<close>, and frees \<open>x\<close>.
\<close>

theorem heap_forward_spec:
  assumes old: "chunks (mem oh) (memoryOld oh) (memoryOld oh + memoryOldSize oh) olds"
    and young: "chunks (mem oh) (memoryYoung oh) (memoryYoung oh + memoryYoungSize oh) youngs"
    and x: "x \<in> live (mem oh) olds \<union> live (mem oh) youngs"
    and ok: "\<forall>p\<in>live (mem oh) olds \<union> live (mem oh) youngs. oop_slots (mem oh) p \<noteq> None \<and> storable (mem oh) y p"
  shows "\<exists>oh'. heap_forward oh x y = Some oh' \<and> object_is_free (mem oh') x \<and>
    chunks (mem oh') (memoryOld oh) (memoryOld oh + memoryOldSize oh) olds \<and>
    chunks (mem oh') (memoryYoung oh) (memoryYoung oh + memoryYoungSize oh) youngs \<and>
    (\<forall>p k. p \<noteq> x \<longrightarrow> rd (mem oh') p k =
      (if p \<in> live (mem oh) olds \<union> live (mem oh) youngs \<and> k \<in> oop_positions (mem oh) p \<and> rd (mem oh) p k = x
       then y else rd (mem oh) p k))"
proof -
  obtain oh1 where 1: "fold_opt (forward_body x y) olds oh = Some oh1" "same_heads (mem oh) (mem oh1)" "same_spaces oh oh1"
    "forwarded_words x y (live (mem oh) olds) (mem oh) (mem oh1)"
    using fold_forward_body [of oh olds y x] ok by blast
  have l: "live (mem oh1) youngs = live (mem oh) youngs" using same_heads_reads(4) [OF 1(2)] by (simp add: live_def)
  have "\<forall>p\<in>live (mem oh1) youngs. oop_slots (mem oh1) p \<noteq> None \<and> storable (mem oh1) y p"
    unfolding l using ok same_heads_reads [OF 1(2)] by (auto simp: storable_def)
  from fold_forward_body [OF this, of x] obtain oh2 where 2: "fold_opt (forward_body x y) youngs oh1 = Some oh2"
    "same_heads (mem oh1) (mem oh2)" "same_spaces oh1 oh2" "forwarded_words x y (live (mem oh) youngs) (mem oh1) (mem oh2)"
    unfolding l by blast
  note h = same_heads_trans [OF 1(2) 2(2)]
  have y1: "chunks (mem oh1) (memoryYoung oh) (memoryYoung oh + memoryYoungSize oh) youngs"
    using young chunks_shape [OF same_heads_shape [OF 1(2)]] by simp
  have w: "rd (mem oh2) p k = (if p \<in> live (mem oh) olds \<union> live (mem oh) youngs \<and> k \<in> oop_positions (mem oh) p \<and> rd (mem oh) p k = x
       then y else rd (mem oh) p k)" for p k
    using 1(4) 2(4) unfolding forwarded_words_def same_heads_reads(6) [OF 1(2)] by auto
  have mx: "x \<in> set olds \<union> set youngs" using x by (auto simp: live_def)
  then have "4 \<le> object_word_size (mem oh) x" using chunks_mem [OF old] chunks_mem [OF young] by auto
  then have sx: "4 \<le> object_word_size (mem oh2) x" by (simp add: same_heads_reads [OF h])
  from heap_free_object_spec [OF sx] obtain oh3 where 3: "heap_free_object oh2 x = Some oh3"
    "\<forall>p. p \<noteq> x \<longrightarrow> mem oh3 p = mem oh2 p" "object_word_size (mem oh3) x = object_word_size (mem oh2) x"
    "object_hash (mem oh3) x = ID_HASH_FREE" by blast
  have sz: "object_word_size (mem oh3) p = object_word_size (mem oh) p" for p
    using frame_blocks(1) [OF 3(2)] 3(3) same_heads_reads(3) [OF h] by (cases "p = x") auto
  have "heap_forward oh x y = Some oh3"
    using forward_walk.loop_fold [OF old, of x y] forward_walk.loop_fold [OF y1, of x y] 1(1,3) 2(1) 3(1)
    by (simp add: heap_forward_def heap_forward_from_def same_spaces_def)
  moreover have "rd (mem oh3) p k = rd (mem oh2) p k" if "p \<noteq> x" for p k using 3(2) that by (simp add: rd_def)
  moreover have "object_is_free (mem oh3) x" using 3(4) by (simp add: object_is_free_def header_consts)
  ultimately show ?thesis using old young w chunks_cong [of _ "mem oh3" "mem oh"] sz by auto
qed

section \<open>Mark and sweep together\<close>

text \<open>
  C2. A full mark followed by the sweep of the old space returns, keeps exactly the live
  objects of that space that are reachable from the roots (pinned objects, special
  objects, interpreter stack), leaves their contents untouched and leaves no two adjacent
  free chunks.
\<close>

theorem heap_mark_sweep_spec:
  assumes ok: "heap_ok oh n olds youngs"
  defines "R \<equiv> reach (mem oh) (gc_roots oh n olds youngs)"
  shows "\<exists>oh1 oh2 olds'. heap_full_mark oh = Some oh1 \<and>
    heap_free_and_coalesce_unmarked oh1 (memoryOld oh1) (memoryOldSize oh1) = Some oh2 \<and>
    chunks (mem oh2) (memoryOld oh) (memoryOld oh + memoryOldSize oh) olds' \<and> apart (mem oh2) olds' \<and>
    live (mem oh2) olds' = live (mem oh) olds \<inter> R \<and>
    (\<forall>x\<in>live (mem oh) olds \<inter> R. \<forall>k. k \<noteq> 0 \<longrightarrow> rd (mem oh2) x k = rd (mem oh) x k)"
proof -
  obtain oh1 where m: "heap_full_mark oh = Some oh1" "mark_step (heap_start_gc oh) oh1"
    "\<forall>x\<in>live_objects oh olds youngs. object_is_marked oh1 x \<longleftrightarrow> x \<in> R"
    using heap_full_mark_spec [OF ok] unfolding R_def by blast
  have s: "mem (heap_start_gc oh) = mem oh" "memoryOld (heap_start_gc oh) = memoryOld oh"
    "memoryOldSize (heap_start_gc oh) = memoryOldSize oh" by (simp_all add: heap_start_gc_def)
  have e: "mark_eq (mem oh) (mem oh1)" using mark_step_mem [OF m(2)] s by simp
  have f: "memoryOld oh1 = memoryOld oh" "memoryOldSize oh1 = memoryOldSize oh"
    using mark_step_fields [OF m(2)] s by auto
  have "chunks (mem oh1) (memoryOld oh1) (memoryOld oh1 + memoryOldSize oh1) olds"
    using ok chunks_shape [OF mark_eq_shape [OF e]] f by (simp add: heap_ok_def)
  from heap_free_and_coalesce_spec [OF this] obtain oh2 olds' where
    w: "heap_free_and_coalesce_unmarked oh1 (memoryOld oh1) (memoryOldSize oh1) = Some oh2"
      "swept oh1 (memoryOld oh1) (memoryOld oh1 + memoryOldSize oh1) (survivors oh1 olds) oh2 olds'" by blast
  have "survivors oh1 olds = live (mem oh) olds \<inter> R"
    using m(3) e by (auto simp: survivors_def live_def live_objects_def mark_eq_reads)
  with w m(1) f e show ?thesis
    by (intro exI [of _ oh1] exI [of _ oh2] exI [of _ olds'])
      (simp add: swept_def rd_def mark_eq_def)
qed

section \<open>Allocation in the young space\<close>

text \<open>
  Allocation in the young space when a large enough free chunk lies at or after \<open>nextFree\<close>: besides the
  blocks of the new object and of the rest of the chunk only \<open>nextFree\<close> and the last hash change.
\<close>

lemma young_allocation:
  assumes ch: "chunks (mem oh) (memoryYoung oh) (memoryYoung oh + memoryYoungSize oh) (us @ vs)"
    and start: "vs \<noteq> [] \<and> nextFree oh = hd vs"
    and room: "\<exists>v\<in>set vs. fits (mem oh) (bytes + 32) v"
    and bytes: "8 dvd bytes" "32 \<le> bytes"
  shows "\<exists>p oh' l zs'. gc_allocate oh bytes = Some (p, oh') \<and> oh' = oh\<lparr>nextFree := p, mem := mem oh', lastHash := l\<rparr> \<and>
    (\<forall>x. x \<noteq> p \<and> x \<noteq> p + bytes \<longrightarrow> mem oh' x = mem oh x) \<and>
    memoryYoung oh \<le> p \<and> p + bytes < memoryYoung oh + memoryYoungSize oh \<and>
    allocated (mem oh) (memoryYoung oh) (us @ vs) (memoryYoung oh + memoryYoungSize oh) p bytes (mem oh') zs'"
proof -
  obtain p where p: "List.find (fits (mem oh) (bytes + 32)) vs = Some p"
    using room by (cases "List.find (fits (mem oh) (bytes + 32)) vs") (auto simp: find_None_iff)
  obtain xs ys where v: "fits (mem oh) (bytes + 32) p" "vs = xs @ p # ys" using find_split [OF p] by blast
  have words: "4 \<le> bytes div 8" "8 * (bytes div 8) = bytes" using bytes by auto
  obtain b where "chunks (mem oh) b (memoryYoung oh + memoryYoungSize oh) vs" "memoryYoung oh \<le> b"
    using ch by (auto simp: chunks_append dest: chunks_le)
  then have inm: "object_in_memory (nextFree oh) (memoryYoung oh) (memoryYoungSize oh)"
    using start by (cases vs) (auto simp: object_in_memory_def)
  have search: "heap_find_first_young_free oh (nextFree oh) (bytes + 32) = Some (Some p)"
    using young_search.search_from [OF ch] start p by simp
  let ?o = "oh\<lparr>nextFree := p\<rparr>"
  have "\<exists>oh' l. split_free ?o p (bytes div 8) = Some oh' \<and> oh' = ?o\<lparr>mem := mem oh', lastHash := l\<rparr> \<and>
      (\<forall>x. x \<noteq> p \<and> x \<noteq> p + 8 * (bytes div 8) \<longrightarrow> mem oh' x = mem ?o x) \<and>
      allocated (mem ?o) (memoryYoung oh) ((us @ xs) @ p # ys) (memoryYoung oh + memoryYoungSize oh) p (8 * (bytes div 8))
        (mem oh') ((us @ xs) @ p # (p + 8 * (bytes div 8)) # ys)"
    by (rule split_free) (use ch v words in \<open>auto simp: fits_def object_total_size_def\<close>)
  then obtain oh' l where o: "split_free ?o p (bytes div 8) = Some oh'" "oh' = ?o\<lparr>mem := mem oh', lastHash := l\<rparr>"
    and frame: "\<forall>x. x \<noteq> p \<and> x \<noteq> p + bytes \<longrightarrow> mem oh' x = mem oh x"
    and al: "allocated (mem oh) (memoryYoung oh) (us @ vs) (memoryYoung oh + memoryYoungSize oh) p bytes
      (mem oh') (us @ xs @ p # (p + bytes) # ys)"
    using v words by auto
  have "p + bytes + 32 \<le> p + object_total_size (mem oh) p" using v(1) by (simp add: fits_def)
  moreover have "p + object_total_size (mem oh) p \<le> memoryYoung oh + memoryYoungSize oh" "memoryYoung oh \<le> p"
    using ch v(2) chunks_mem [OF ch, of p] by (auto simp: chunks_append dest: chunks_le)
  ultimately have "memoryYoung oh \<le> p" "p + bytes < memoryYoung oh + memoryYoungSize oh" by simp_all
  moreover have "gc_allocate oh bytes = Some (p, oh')"
    using o(1) inm search bytes(1) by (simp add: gc_allocate_def allocate_attempt_def Let_def)
  ultimately show ?thesis using o(2) frame al by blast
qed

end
