(* ===== verification/ObjectOps.thy ===== *)
theory ObjectOps
  imports Collector
begin

text \<open>
  Changing the shape of objects (object.cpp): growing slot and role tables, adding and
  removing slots and roles, giving an object a new map. A \<open>Pinned<T>\<close> variable of the source is a
  value with a pin for the time it is held: \<open>pinned_assign\<close> is its assignment,
  \<open>pinned_end\<close> its destructor.
\<close>

definition pinned_assign :: "object_heap \<Rightarrow> addr \<Rightarrow> addr \<Rightarrow> object_heap option" where
  "pinned_assign oh value v =
     (if v \<noteq> value then do {
        oh \<leftarrow> if v \<noteq> 0 then heap_pin_object oh v else Some oh;
        Some (if value \<noteq> 0 then heap_unpin_object oh value else oh) }
      else Some oh)"

definition pinned_end :: "object_heap \<Rightarrow> addr \<Rightarrow> object_heap" where
  "pinned_end oh value = (if value \<noteq> 0 then heap_unpin_object oh value else oh)"

section \<open>Fields of maps\<close>

definition map_flags :: "mem \<Rightarrow> addr \<Rightarrow> word_t" where "map_flags m p = rd m p 4"
definition map_representative :: "mem \<Rightarrow> addr \<Rightarrow> oop" where "map_representative m p = rd m p 5"
definition map_delegates :: "mem \<Rightarrow> addr \<Rightarrow> oop" where "map_delegates m p = rd m p 6"
definition map_slotCount :: "mem \<Rightarrow> addr \<Rightarrow> oop" where "map_slotCount m p = rd m p 7"
definition map_slotTable :: "mem \<Rightarrow> addr \<Rightarrow> addr" where "map_slotTable m p = rd m p 8"
definition map_roleTable :: "mem \<Rightarrow> addr \<Rightarrow> addr" where "map_roleTable m p = rd m p 9"
definition map_dispatchID :: "mem \<Rightarrow> addr \<Rightarrow> word_t" where "map_dispatchID m p = rd m p 10"
definition map_visitedPositions :: "mem \<Rightarrow> addr \<Rightarrow> word_t" where "map_visitedPositions m p = rd m p 11"

lemmas map_field_defs = map_flags_def map_representative_def map_delegates_def map_slotCount_def
  map_slotTable_def map_roleTable_def map_dispatchID_def map_visitedPositions_def

section \<open>Growing tables\<close>

definition slot_table_grow_excluding :: "object_heap \<Rightarrow> addr \<Rightarrow> int \<Rightarrow> oop \<Rightarrow> (addr \<times> object_heap) option" where
  "slot_table_grow_excluding oh slots n excluding = do {
     oldSize \<leftarrow> slot_table_capacity (mem oh) slots;
     space \<leftarrow> slot_table_empty_space oh slots;
     newSize \<leftarrow> slot_table_accommodate oh slots ((oldSize div 3 - space) + n);
     (newSlots, oh) \<leftarrow> heap_clone_oop_array_sized oh (get_special oh SPECIAL_OOP_ARRAY_PROTO) (newSize * 2);
     oh \<leftarrow> pinned_assign oh 0 newSlots;
     oh \<leftarrow> slot_table_copy slots newSlots excluding [0..oldSize - 1] oh;
     Some (newSlots, pinned_end oh newSlots) }"

text \<open>The loop of \<open>role_table_grow_excluding\<close>; \<open>roleName\<close> is the pinned name of the last entry looked at.\<close>

fun role_table_copy :: "addr \<Rightarrow> addr \<Rightarrow> addr \<Rightarrow> int list \<Rightarrow> oop \<Rightarrow> object_heap \<Rightarrow> (oop \<times> object_heap) option" where
  "role_table_copy roles newRoles method [] roleName oh = Some (roleName, oh)"
| "role_table_copy roles newRoles method (i # is) roleName oh = do {
     let name = role_name (mem oh) roles i;
     oh \<leftarrow> pinned_assign oh roleName name;
     if name \<noteq> c_nil oh \<and> role_definition (mem oh) roles i \<noteq> method then do {
       (role, oh) \<leftarrow> role_table_insert oh newRoles name;
       k \<leftarrow> role;
       let oh = set_role_name oh newRoles k (role_name (mem oh) roles i);
       let oh = set_role_positions oh newRoles k (role_positions (mem oh) roles i);
       let oh = set_role_definition oh newRoles k (role_definition (mem oh) roles i);
       let oh = set_role_next oh newRoles k (c_nil oh);
       role_table_copy roles newRoles method is name oh }
     else role_table_copy roles newRoles method is name oh }"

definition role_table_grow_excluding :: "object_heap \<Rightarrow> addr \<Rightarrow> int \<Rightarrow> addr \<Rightarrow> (addr \<times> object_heap) option" where
  "role_table_grow_excluding oh roles n method = do {
     oldSize \<leftarrow> role_table_capacity (mem oh) roles;
     space \<leftarrow> role_table_empty_space oh roles;
     newSize \<leftarrow> role_table_accommodate oh roles ((oldSize div 3 - space) + n);
     (newRoles, oh) \<leftarrow> heap_clone_oop_array_sized oh (get_special oh SPECIAL_OOP_ARRAY_PROTO) (newSize * 4);
     oh \<leftarrow> pinned_assign oh 0 newRoles;
     (roleName, oh) \<leftarrow> role_table_copy roles newRoles method [0..oldSize - 1] 0 oh;
     Some (newRoles, pinned_end (pinned_end oh roleName) newRoles) }"

section \<open>Maps of objects\<close>

definition object_has_role_named_at :: "mem \<Rightarrow> addr \<Rightarrow> oop \<Rightarrow> word_t \<Rightarrow> addr \<Rightarrow> addr option option" where
  "object_has_role_named_at m obj selector position method = do {
     let roles = map_roleTable m (object_map m obj);
     n \<leftarrow> role_table_capacity m roles;
     Some (map_option (role_definition m roles)
       (List.find (\<lambda>i. role_name m roles i = selector
          \<and> object_to_smallint (role_positions m roles i) AND position = position
          \<and> rd m (role_definition m roles i) 4 = method) [0..n - 1])) }"

definition object_change_map :: "object_heap \<Rightarrow> addr \<Rightarrow> addr \<Rightarrow> object_heap option" where
  "object_change_map oh obj aMap = do {
     let oh = (if map_representative (mem oh) (object_map (mem oh) obj) = obj
               then upd oh (object_map (mem oh) obj) 5 (c_nil oh) else oh);
     oh \<leftarrow> heap_store_into oh obj aMap;
     Some (upd oh obj MAP aMap) }"

definition object_represent :: "object_heap \<Rightarrow> addr \<Rightarrow> addr \<Rightarrow> object_heap option" where
  "object_represent oh obj aMap = do {
     oh \<leftarrow> object_change_map oh obj aMap;
     oh \<leftarrow> heap_store_into oh aMap obj;
     Some (upd oh aMap 5 obj) }"

section \<open>Roles\<close>

partial_function (option) find_in_chain :: "mem \<Rightarrow> oop \<Rightarrow> addr \<Rightarrow> addr \<Rightarrow> int \<Rightarrow> int option option" where
  "find_in_chain m nil roles method entry =
     (if role_definition m roles entry = method then Some (Some entry)
      else if role_next m roles entry = nil then Some None
      else find_in_chain m nil roles method (object_to_smallint (role_next m roles entry)))"

declare find_in_chain.simps [code]

text \<open>
  The loop of \<open>object_add_role_at\<close> over the chain of the selector. The result says whether
  the method was found, in which case its positions have been extended.
\<close>

partial_function (option) add_role_chain ::
  "object_heap \<Rightarrow> addr \<Rightarrow> addr \<Rightarrow> oop \<Rightarrow> word_t \<Rightarrow> addr \<Rightarrow> addr \<Rightarrow> int \<Rightarrow> (object_heap \<times> addr \<times> bool) option" where
  "add_role_chain oh aMap mapRoleTable selector position method table chain = do {
     (oh, mapRoleTable, found) \<leftarrow>
       if role_definition (mem oh) table chain = method then do {
         (new, oh) \<leftarrow> role_table_grow_excluding oh mapRoleTable 0 0;
         let oh = upd oh aMap 9 new;
         oh \<leftarrow> pinned_assign oh mapRoleTable new;
         oh \<leftarrow> heap_store_into oh aMap new;
         entry \<leftarrow> role_table_entry_for_name oh new selector;
         found \<leftarrow> (case entry of None \<Rightarrow> Some None | Some e \<Rightarrow> find_in_chain (mem oh) (c_nil oh) new method e);
         Some (case found of
             None \<Rightarrow> (oh, new, False)
           | Some e \<Rightarrow> (set_role_positions oh new e
               (smallint_to_object (object_to_smallint (role_positions (mem oh) new e) OR position)), new, True)) }
       else Some (oh, mapRoleTable, False);
     if found then Some (oh, mapRoleTable, True)
     else if role_next (mem oh) table chain = c_nil oh then Some (oh, mapRoleTable, False)
     else add_role_chain oh aMap mapRoleTable selector position method
       (map_roleTable (mem oh) aMap) (object_to_smallint (role_next (mem oh) table chain)) }"

declare add_role_chain.simps [code]

definition object_add_role_at :: "object_heap \<Rightarrow> addr \<Rightarrow> oop \<Rightarrow> word_t \<Rightarrow> addr \<Rightarrow> (bool \<times> object_heap) option" where
  "object_add_role_at oh obj selector position method = do {
     let objMap = object_map (mem oh) obj;
     oh \<leftarrow> pinned_assign oh 0 objMap;
     let objMapRoleTable = map_roleTable (mem oh) objMap;
     oh \<leftarrow> pinned_assign oh 0 objMapRoleTable;
     (aMap, oh) \<leftarrow> heap_clone_map oh objMap;
     oh \<leftarrow> pinned_assign oh 0 aMap;
     let mapRoleTable = map_roleTable (mem oh) aMap;
     oh \<leftarrow> pinned_assign oh 0 mapRoleTable;
     chain \<leftarrow> role_table_entry_for_name oh objMapRoleTable selector;
     oh \<leftarrow> object_represent oh obj aMap;
     (oh, mapRoleTable, found) \<leftarrow> (case chain of
         None \<Rightarrow> Some (oh, mapRoleTable, False)
       | Some c \<Rightarrow> add_role_chain oh aMap mapRoleTable selector position method objMapRoleTable c);
     (oh, mapRoleTable) \<leftarrow>
       if found then Some (oh, mapRoleTable)
       else do {
         oh \<leftarrow> pinned_assign oh mapRoleTable (map_roleTable (mem oh) aMap);
         let mapRoleTable = map_roleTable (mem oh) aMap;
         (new, oh) \<leftarrow> role_table_grow_excluding oh mapRoleTable 1 0;
         let oh = upd oh aMap 9 new;
         oh \<leftarrow> pinned_assign oh mapRoleTable new;
         oh \<leftarrow> heap_store_into oh aMap new;
         (entry, oh) \<leftarrow> role_table_insert oh new selector;
         k \<leftarrow> entry;
         let oh = set_role_name oh new k selector;
         let oh = set_role_next oh new k (c_nil oh);
         let oh = set_role_positions oh new k (smallint_to_object position);
         Some (set_role_definition oh new k method, new) };
     Some (\<not> found, pinned_end (pinned_end (pinned_end (pinned_end oh mapRoleTable) objMapRoleTable) objMap) aMap) }"

definition object_remove_role :: "object_heap \<Rightarrow> addr \<Rightarrow> oop \<Rightarrow> addr \<Rightarrow> (bool \<times> object_heap) option" where
  "object_remove_role oh obj selector method = do {
     let roles = map_roleTable (mem oh) (object_map (mem oh) obj);
     oh \<leftarrow> pinned_assign oh 0 roles;
     n \<leftarrow> role_table_capacity (mem oh) roles;
     let matches = int (length (filter (\<lambda>i. role_definition (mem oh) roles i = method) [0..n - 1]));
     if matches = 0 then Some (False, pinned_end oh roles)
     else do {
       (aMap, oh) \<leftarrow> heap_clone_map oh (object_map (mem oh) obj);
       oh \<leftarrow> pinned_assign oh 0 aMap;
       (new, oh) \<leftarrow> role_table_grow_excluding oh roles matches method;
       let oh = upd oh aMap 9 new;
       oh \<leftarrow> heap_store_into oh aMap new;
       oh \<leftarrow> object_represent oh obj aMap;
       Some (True, pinned_end (pinned_end oh roles) aMap) } }"

section \<open>Slots\<close>

text \<open>
  The words of the object with the new slot: those before the offset, the value, those
  from the offset on, one word further. Offsets are multiples of a word.
\<close>

definition copy_with_added_slot :: "object_heap \<Rightarrow> addr \<Rightarrow> addr \<Rightarrow> word_t \<Rightarrow> oop \<Rightarrow> object_heap option" where
  "copy_with_added_slot oh obj new offset value = do {
     check (offset mod 8 = 0);
     let k = nat (offset div 8);
     let oh = oh\<lparr>mem := copy_words_into (mem oh) obj 4 (k - 4) new 4\<rparr>;
     oh \<leftarrow> object_slot_value_at_offset_put oh new offset value;
     Some (oh\<lparr>mem := copy_words_into (mem oh) obj k (nat (object_word_size (mem oh) obj) - k) new (k + 1)\<rparr>) }"

text \<open>
  The words of the object without the slot. The source copies the tail from the second
  slot of the object on, whatever the offset is.
\<close>

definition copy_with_removed_slot :: "object_heap \<Rightarrow> addr \<Rightarrow> addr \<Rightarrow> word_t \<Rightarrow> object_heap option" where
  "copy_with_removed_slot oh obj new offset = do {
     check (offset mod 8 = 0);
     let k = nat (offset div 8);
     let oh = oh\<lparr>mem := copy_words_into (mem oh) obj 4 (k - 4) new 4\<rparr>;
     Some (oh\<lparr>mem := copy_words_into (mem oh) obj (4 + 1) (nat (object_word_size (mem oh) obj) - k - 1) new k\<rparr>) }"

definition allocate_like :: "object_heap \<Rightarrow> addr \<Rightarrow> word_t \<Rightarrow> (addr \<times> object_heap) option" where
  "allocate_like oh obj words = do {
     (new, oh) \<leftarrow> if object_type (mem oh) obj = TYPE_OBJECT then heap_allocate oh words
       else heap_allocate_with_payload oh words (payload_size (mem oh) obj);
     let oh = object_set_format oh new (object_type (mem oh) obj);
     (hash, oh) \<leftarrow> heap_new_hash oh;
     Some (new, object_set_idhash oh new hash) }"

definition object_add_slot_named_at :: "object_heap \<Rightarrow> addr \<Rightarrow> oop \<Rightarrow> oop \<Rightarrow> word_t \<Rightarrow> (addr option \<times> object_heap) option" where
  "object_add_slot_named_at oh obj name value offset = do {
     entry \<leftarrow> slot_table_entry_for_name oh (map_slotTable (mem oh) (object_map (mem oh) obj)) name;
     if entry \<noteq> None then Some (None, oh)
     else do {
       (aMap, oh) \<leftarrow> heap_clone_map oh (object_map (mem oh) obj);
       oh \<leftarrow> pinned_assign oh 0 aMap;
       let slotTable = map_slotTable (mem oh) aMap;
       oh \<leftarrow> pinned_assign oh 0 slotTable;
       (grown, oh) \<leftarrow> slot_table_grow_excluding oh slotTable 1 (c_nil oh);
       let oh = upd oh aMap 8 grown;
       oh \<leftarrow> pinned_assign oh slotTable grown;
       oh \<leftarrow> slot_table_relocate_by oh grown offset 8;
       place \<leftarrow> slot_table_entry_for_inserting_name oh grown name;
       k \<leftarrow> place;
       let oh = slot_put oh grown k name (smallint_to_object offset);
       (new, oh) \<leftarrow> allocate_like oh obj (object_size (mem oh) obj + 1);
       oh \<leftarrow> copy_with_added_slot oh obj new offset value;
       let oh = upd oh new MAP aMap;
       let oh = upd oh aMap 5 new;
       oh \<leftarrow> heap_store_into oh aMap new;
       Some (Some new, pinned_end (pinned_end oh grown) aMap) } }"

definition object_add_slot_named :: "object_heap \<Rightarrow> addr \<Rightarrow> oop \<Rightarrow> oop \<Rightarrow> (addr \<times> object_heap) option" where
  "object_add_slot_named oh obj name value = do {
     (r, oh) \<leftarrow> object_add_slot_named_at oh obj name value
       (object_first_slot_offset (mem oh) obj
        + object_to_smallint (map_slotCount (mem oh) (object_map (mem oh) obj)) * 8);
     Some (case r of
         None \<Rightarrow> (obj, oh)
       | Some new \<Rightarrow> (new, upd oh (object_map (mem oh) new) 7
           (smallint_to_object (object_to_smallint (map_slotCount (mem oh) (object_map (mem oh) new)) + 1)))) }"

definition object_remove_slot :: "object_heap \<Rightarrow> addr \<Rightarrow> oop \<Rightarrow> (addr \<times> object_heap) option" where
  "object_remove_slot oh obj name = do {
     let objSlots = map_slotTable (mem oh) (object_map (mem oh) obj);
     se \<leftarrow> slot_table_entry_for_name oh objSlots name;
     case se of
       None \<Rightarrow> Some (obj, oh)
     | Some i \<Rightarrow> do {
         let offset = object_to_smallint (slot_offset (mem oh) objSlots i);
         (aMap, oh) \<leftarrow> heap_clone_map oh (object_map (mem oh) obj);
         oh \<leftarrow> pinned_assign oh 0 aMap;
         let oh = upd oh aMap 7 (smallint_to_object (object_to_smallint (map_slotCount (mem oh) aMap) - 1));
         let slotTable = map_slotTable (mem oh) aMap;
         oh \<leftarrow> pinned_assign oh 0 slotTable;
         (grown, oh) \<leftarrow> slot_table_grow_excluding oh slotTable (-1) (slot_name (mem oh) objSlots i);
         let oh = upd oh aMap 8 grown;
         oh \<leftarrow> pinned_assign oh slotTable grown;
         oh \<leftarrow> slot_table_relocate_by oh grown offset (-8);
         (new, oh) \<leftarrow> allocate_like oh obj (object_size (mem oh) obj - 1);
         oh \<leftarrow> copy_with_removed_slot oh obj new offset;
         let oh = upd oh new MAP aMap;
         let oh = upd oh aMap 5 new;
         oh \<leftarrow> heap_store_into oh aMap new;
         Some (new, pinned_end (pinned_end oh grown) aMap) } }"

end
