(* ===== verification/Dispatch.thy ===== *)
theory Dispatch
  imports ObjectOps
begin

text \<open>
  Multiple dispatch (method.cpp): the global method cache, and \<open>method_dispatch_on\<close>, which
  walks the delegation graph of every argument, marks the definitions it finds at each
  position and ranks them by the distance at which they were found.
\<close>

section \<open>Fields\<close>

definition symbol_cacheMask :: "mem \<Rightarrow> addr \<Rightarrow> oop" where "symbol_cacheMask m p = rd m p 4"
definition def_method :: "mem \<Rightarrow> addr \<Rightarrow> oop" where "def_method m p = rd m p 4"
definition def_slotAccessor :: "mem \<Rightarrow> addr \<Rightarrow> oop" where "def_slotAccessor m p = rd m p 5"
definition def_dispatchID :: "mem \<Rightarrow> addr \<Rightarrow> word_t" where "def_dispatchID m p = rd m p 6"
definition def_dispatchPositions :: "mem \<Rightarrow> addr \<Rightarrow> word_t" where "def_dispatchPositions m p = rd m p 7"
definition def_foundPositions :: "mem \<Rightarrow> addr \<Rightarrow> word_t" where "def_foundPositions m p = rd m p 8"
definition def_dispatchRank :: "mem \<Rightarrow> addr \<Rightarrow> word_t" where "def_dispatchRank m p = rd m p 9"

lemmas def_field_defs = def_method_def def_slotAccessor_def def_dispatchID_def def_dispatchPositions_def
  def_foundPositions_def def_dispatchRank_def

section \<open>The method cache\<close>

definition hash_selector :: "object_heap \<Rightarrow> oop \<Rightarrow> oop list \<Rightarrow> word_t" where
  "hash_selector oh name arguments =
     fold (\<lambda>a hash. hash XOR object_hash (mem oh) (object_get_map oh a)) arguments name"

definition cache_index :: "object_heap \<Rightarrow> oop \<Rightarrow> oop list \<Rightarrow> int" where
  "cache_index oh name arguments = hash_selector oh name arguments AND (METHOD_CACHE_SIZE - 1)"

definition method_save_cache :: "object_heap \<Rightarrow> addr \<Rightarrow> oop \<Rightarrow> oop list \<Rightarrow> object_heap option" where
  "method_save_cache oh md name arguments = do {
     check (length arguments \<le> METHOD_CACHE_ARITY);
     let k = cache_index oh name arguments;
     let old = methodCache oh k;
     Some (oh\<lparr>methodCache := (methodCache oh)(k :=
       \<lparr>ce_method = md, ce_selector = name,
        ce_maps = (\<lambda>i. if i < length arguments then object_get_map oh (arguments ! i) else ce_maps old i)\<rparr>)\<rparr>) }"

text \<open>The argument positions that the \<open>switch\<close> on the cache mask compares; other masks compare none.\<close>

fun mask_positions :: "int \<Rightarrow> nat list" where
  "mask_positions cmask =
     (if cmask = 1 then [0] else if cmask = 2 then [1] else if cmask = 4 then [2]
      else if cmask = 3 then [0, 1] else if cmask = 5 then [0, 2] else if cmask = 6 then [1, 2]
      else if cmask = 7 then [0, 1, 2] else [])"

text \<open>Comparing left to right, as \<open>||\<close> does; reading past the arguments is \<open>None\<close>.\<close>

fun maps_differ :: "object_heap \<Rightarrow> cache_entry \<Rightarrow> oop list \<Rightarrow> nat list \<Rightarrow> bool option" where
  "maps_differ oh e arguments [] = Some False"
| "maps_differ oh e arguments (i # is) = do {
     check (i < length arguments);
     if object_get_map oh (arguments ! i) \<noteq> ce_maps e i then Some True
     else maps_differ oh e arguments is }"

definition method_check_cache :: "object_heap \<Rightarrow> oop \<Rightarrow> oop list \<Rightarrow> (addr option \<times> object_heap) option" where
  "method_check_cache oh selector arguments = do {
     let e = methodCache oh (cache_index oh selector arguments);
     check (length arguments \<le> METHOD_CACHE_ARITY);
     let oh = oh\<lparr>method_cache_access := method_cache_access oh + 1\<rparr>;
     let cmask = object_to_smallint (symbol_cacheMask (mem oh) selector);
     if ce_selector e \<noteq> selector then Some (None, oh)
     else if cmask > 2 ^ length arguments then Some (None, oh)
     else do {
       differ \<leftarrow> maps_differ oh e arguments (mask_positions cmask);
       if differ then Some (None, oh)
       else Some (if ce_method e = 0 then None else Some (ce_method e),
                  oh\<lparr>method_cache_hit := method_cache_hit oh + 1\<rparr>) } }"

section \<open>Dispatch\<close>

definition WORDT_MAX :: word_t where "WORDT_MAX = 2 ^ 63 - 1"

text \<open>The local variables of \<open>method_dispatch_on\<close>; 0 is the null pointer.\<close>

record dispatch_state =
  ds_dispatch :: addr
  ds_slotLocation :: oop
  ds_bestRank :: word_t
  ds_bestDef :: addr
  ds_resendRank :: word_t

text \<open>A definition newly found at position \<open>i\<close>: \<open>(31 - depth) << ((5 - i) * 5)\<close>, undefined for \<open>i > 5\<close>.\<close>

definition mark_found :: "object_heap \<Rightarrow> addr \<Rightarrow> nat \<Rightarrow> int \<Rightarrow> object_heap option" where
  "mark_found oh def i depth = do {
     check (i \<le> 5);
     let oh = upd oh def 9 (wrap64 (def_dispatchRank (mem oh) def OR push_bit ((5 - i) * 5) (31 - depth)));
     Some (upd oh def 8 (def_foundPositions (mem oh) def OR 2 ^ i)) }"

text \<open>The rescan of the chain when the definition is the one that resends.\<close>

partial_function (option) rescan_roles ::
  "mem \<Rightarrow> oop \<Rightarrow> addr \<Rightarrow> oop \<Rightarrow> int \<Rightarrow> int option \<Rightarrow> dispatch_state \<Rightarrow> dispatch_state option" where
  "rescan_roles m nil roles obj role rescan st =
     (if rescan = Some role then Some st
      else (case rescan of
        None \<Rightarrow> None
      | Some r \<Rightarrow>
          let redef = role_definition m roles r;
              st = (if def_foundPositions m redef = def_dispatchPositions m redef
                       \<and> (ds_dispatch st = 0 \<or> def_dispatchRank m redef \<le> ds_resendRank st)
                    then let st = st\<lparr>ds_dispatch := redef, ds_slotLocation := obj\<rparr> in
                      if def_dispatchRank m redef > ds_bestRank st
                      then st\<lparr>ds_bestRank := def_dispatchRank m redef, ds_bestDef := redef\<rparr> else st
                    else st)
          in rescan_roles m nil roles obj role
               (if role_next m roles r = nil then None else Some (object_to_smallint (role_next m roles r))) st))"

declare rescan_roles.simps [code]

definition select_definition :: "mem \<Rightarrow> addr \<Rightarrow> oop \<Rightarrow> dispatch_state \<Rightarrow> dispatch_state" where
  "select_definition m def obj st =
     (if def_foundPositions m def = def_dispatchPositions m def
         \<and> (ds_dispatch st = 0 \<or> def_dispatchRank m def > def_dispatchRank m (ds_dispatch st))
         \<and> def_dispatchRank m def \<le> ds_resendRank st
      then let st = st\<lparr>ds_dispatch := def, ds_slotLocation := obj\<rparr> in
        if def_dispatchRank m def > ds_bestRank st
        then st\<lparr>ds_bestRank := def_dispatchRank m def, ds_bestDef := def\<rparr> else st
      else st)"

text \<open>One role entry of the chain (the body of \<open>while (role != NULL)\<close>).\<close>

definition visit_role ::
  "object_heap \<Rightarrow> addr \<Rightarrow> oop \<Rightarrow> oop \<Rightarrow> nat \<Rightarrow> int \<Rightarrow> oop \<Rightarrow> int \<Rightarrow> dispatch_state \<Rightarrow> (object_heap \<times> dispatch_state) option" where
  "visit_role oh roles name obj i depth resendMethod role st =
     (if object_to_smallint (role_positions (mem oh) roles role) AND 2 ^ i = 0 then Some (oh, st)
      else
        let def = role_definition (mem oh) roles role;
            oh = (if def_dispatchID (mem oh) def \<noteq> current_dispatch_id oh
                  then upd (upd (upd oh def 6 (current_dispatch_id oh)) def 8 0) def 9 0 else oh)
        in if def_foundPositions (mem oh) def AND 2 ^ i \<noteq> 0 then Some (oh, st)
        else do {
          oh \<leftarrow> mark_found oh def i depth;
          st \<leftarrow>
            if def_method (mem oh) def = resendMethod then do {
              rescan \<leftarrow> role_table_entry_for_name oh roles name;
              rescan_roles (mem oh) (c_nil oh) roles obj role rescan
                (st\<lparr>ds_resendRank := def_dispatchRank (mem oh) def\<rparr>) }
            else Some (select_definition (mem oh) def obj st);
          Some (oh, if def_dispatchRank (mem oh) def \<ge> ds_bestRank st \<and> def \<noteq> ds_bestDef st
            then st\<lparr>ds_bestRank := def_dispatchRank (mem oh) def, ds_bestDef := 0\<rparr> else st) })"

partial_function (option) visit_roles ::
  "object_heap \<Rightarrow> addr \<Rightarrow> oop \<Rightarrow> oop \<Rightarrow> nat \<Rightarrow> int \<Rightarrow> oop \<Rightarrow> int option \<Rightarrow> dispatch_state \<Rightarrow> (object_heap \<times> dispatch_state) option" where
  "visit_roles oh roles name obj i depth resendMethod role st =
     (case role of
        None \<Rightarrow> Some (oh, st)
      | Some r \<Rightarrow> do {
          (oh, st) \<leftarrow> visit_role oh roles name obj i depth resendMethod r st;
          visit_roles oh roles name obj i depth resendMethod
            (if role_next (mem oh) roles r = c_nil oh then None
             else Some (object_to_smallint (role_next (mem oh) roles r))) st })"

declare visit_roles.simps [code]

text \<open>The delegates of a map that go on the delegation stack, which holds 256 entries (a write past it is \<open>None\<close>).\<close>

definition push_delegates :: "object_heap \<Rightarrow> addr \<Rightarrow> oop list \<Rightarrow> oop list option" where
  "push_delegates oh delegates stack = do {
     n \<leftarrow> object_array_size (mem oh) delegates;
     let ds = filter (\<lambda>d. d \<noteq> c_nil oh) (map (object_array_get_element (mem oh) delegates) [0..n - 1]);
     check (int (length stack + length ds) \<le> DELEGATION_STACK_SIZE);
     Some (rev ds @ stack) }"

text \<open>
  The result of a visit: found and to be returned at once, or the state to go on with.
  The delegation stack is a list, top first; its length is \<open>delegationCount\<close>.
\<close>

datatype visit_result = Return object_heap dispatch_state | Continue object_heap dispatch_state int int "oop list"

definition visit_object ::
  "object_heap \<Rightarrow> oop \<Rightarrow> nat \<Rightarrow> oop \<Rightarrow> oop \<Rightarrow> oop \<Rightarrow> int \<Rightarrow> int \<Rightarrow> oop list \<Rightarrow> dispatch_state \<Rightarrow> visit_result option" where
  "visit_object oh name i resendMethod argument arg depth restricted stack st =
     (let obj = (if object_is_smallint arg then get_special oh SPECIAL_OOP_SMALL_INT_PROTO else arg);
          mp = object_map (mem oh) obj;
          oh = (if map_dispatchID (mem oh) mp \<noteq> current_dispatch_id oh
                then upd (upd oh mp 10 (current_dispatch_id oh)) mp 11 0 else oh)
      in if map_visitedPositions (mem oh) mp AND 2 ^ i \<noteq> 0 then Some (Continue oh st depth restricted stack)
      else
        let restricted = (if map_flags (mem oh) mp AND MAP_FLAG_RESTRICT_DELEGATION \<noteq> 0 \<and> arg \<noteq> argument
                          then int (length stack) else restricted);
            oh = upd oh mp 11 (map_visitedPositions (mem oh) mp OR 2 ^ i)
        in do {
          role \<leftarrow> role_table_entry_for_name oh (map_roleTable (mem oh) mp) name;
          (oh, st) \<leftarrow> visit_roles oh (map_roleTable (mem oh) mp) name obj i depth resendMethod role st;
          check (depth \<le> 31);
          if ds_dispatch st \<noteq> 0 \<and> ds_bestDef st = ds_dispatch st then Some (Return oh st)
          else do {
            stack \<leftarrow> if int (length stack) \<le> restricted then push_delegates oh (map_delegates (mem oh) mp) stack
              else Some stack;
            Some (Continue oh st (depth + 1) restricted stack) } })"

partial_function (option) dispatch_position ::
  "object_heap \<Rightarrow> oop \<Rightarrow> nat \<Rightarrow> oop \<Rightarrow> oop \<Rightarrow> oop \<Rightarrow> int \<Rightarrow> int \<Rightarrow> oop list \<Rightarrow> dispatch_state
   \<Rightarrow> (object_heap \<times> dispatch_state \<times> bool) option" where
  "dispatch_position oh name i resendMethod argument arg depth restricted stack st = do {
     r \<leftarrow> visit_object oh name i resendMethod argument arg depth restricted stack st;
     case r of
       Return oh st \<Rightarrow> Some (oh, st, True)
     | Continue oh st depth restricted stack \<Rightarrow>
         let delegationCount = int (length stack) - 1;
             restricted = (if delegationCount < restricted then WORDT_MAX else restricted)
         in if delegationCount < 0 \<or> delegationCount \<ge> DELEGATION_STACK_SIZE then Some (oh, st, False)
         else dispatch_position oh name i resendMethod argument (hd stack) depth restricted (tl stack) st }"

declare dispatch_position.simps [code]

fun dispatch_positions ::
  "object_heap \<Rightarrow> oop \<Rightarrow> oop \<Rightarrow> nat \<Rightarrow> oop list \<Rightarrow> dispatch_state \<Rightarrow> (object_heap \<times> dispatch_state \<times> bool) option" where
  "dispatch_positions oh name resendMethod i [] st = Some (oh, st, False)"
| "dispatch_positions oh name resendMethod i (arg # args) st = do {
     (oh, st, returned) \<leftarrow> dispatch_position oh name i resendMethod arg arg 0 WORDT_MAX [] st;
     if returned then Some (oh, st, True)
     else dispatch_positions oh name resendMethod (Suc i) args st }"

text \<open>
  \<open>method_dispatch_on\<close>: the definition found (0 when none), the arguments, of which the first
  becomes the holder of the slot for a slot accessor, and the heap.
\<close>

definition method_dispatch_on ::
  "object_heap \<Rightarrow> oop \<Rightarrow> oop list \<Rightarrow> oop \<Rightarrow> (addr \<times> oop list \<times> object_heap) option" where
  "method_dispatch_on oh name arguments resendMethod = do {
     let arity = length arguments;
     (cached, oh) \<leftarrow>
       if resendMethod = 0 \<and> arity \<le> METHOD_CACHE_ARITY then method_check_cache oh name arguments
       else Some (None, oh);
     case cached of
       Some d \<Rightarrow> Some (d, arguments, oh)
     | None \<Rightarrow> do {
         let oh = oh\<lparr>current_dispatch_id := current_dispatch_id oh + 1\<rparr>;
         (oh, st, returned) \<leftarrow> dispatch_positions oh name resendMethod 0 arguments
           \<lparr>ds_dispatch = 0, ds_slotLocation = 0, ds_bestRank = 0, ds_bestDef = 0,
            ds_resendRank = (if resendMethod = 0 then WORDT_MAX else 0)\<rparr>;
         let dispatch = ds_dispatch st;
         let arguments = (if dispatch \<noteq> 0 \<and> def_slotAccessor (mem oh) dispatch \<noteq> c_nil oh
           then arguments[0 := ds_slotLocation st] else arguments);
         oh \<leftarrow> if dispatch \<noteq> 0 \<and> resendMethod = 0
                \<and> (if returned then arity \<le> METHOD_CACHE_ARITY else arity < METHOD_CACHE_ARITY)
           then method_save_cache oh dispatch name arguments else Some oh;
         Some (dispatch, arguments, oh) } }"

section \<open>Lemmas on the cache\<close>

lemma maps_differ_same:
  "\<forall>i\<in>set is. i < length arguments \<and> object_get_map oh (arguments ! i) = ce_maps e i \<Longrightarrow>
   maps_differ oh e arguments is = Some False"
  by (induction "is") (auto simp: check_def)

lemma maps_differ_False:
  "maps_differ oh e arguments is = Some False \<Longrightarrow>
   \<forall>i\<in>set is. i < length arguments \<and> object_get_map oh (arguments ! i) = ce_maps e i"
  by (induction "is") (auto simp: check_def split: if_splits)

lemma mask_positions_bound:
  assumes "0 \<le> cmask" "cmask < 2 ^ n" "i \<in> set (mask_positions cmask)"
  shows "i < n"
proof -
  have "i = 0 \<and> 1 \<le> cmask \<or> i = 1 \<and> 2 \<le> cmask \<or> i = 2 \<and> 4 \<le> cmask"
    using assms(1,3) by (auto split: if_splits)
  then have "(2::int) ^ i \<le> cmask" by auto
  then have "(2::int) ^ i < 2 ^ n" using assms(2) by linarith
  then show ?thesis by simp
qed

lemma object_get_map_cache [simp]:
  "object_get_map (oh\<lparr>methodCache := c\<rparr>) x = object_get_map oh x"
  "object_get_map (oh\<lparr>method_cache_access := n\<rparr>) x = object_get_map oh x"
  by (simp_all add: object_get_map_def get_special_def)

lemma cache_index_cache [simp]: "cache_index (oh\<lparr>methodCache := c\<rparr>) s args = cache_index oh s args"
  by (simp add: cache_index_def hash_selector_def)

section \<open>The rank of a definition\<close>

text \<open>The marks that a definition found at the depths \<open>ds\<close> from position \<open>i\<close> on receives, and the rank they amount to.\<close>

fun mark_all :: "object_heap \<Rightarrow> addr \<Rightarrow> nat \<Rightarrow> int list \<Rightarrow> object_heap option" where
  "mark_all oh def i [] = Some oh"
| "mark_all oh def i (d # ds) = do { oh \<leftarrow> mark_found oh def i d; mark_all oh def (Suc i) ds }"

fun rank_from :: "nat \<Rightarrow> int list \<Rightarrow> int" where
  "rank_from i [] = 0"
| "rank_from i (d # ds) = (31 - d) * 32 ^ (5 - i) + rank_from (Suc i) ds"

definition depth_ok :: "int \<Rightarrow> bool" where
  "depth_ok d \<longleftrightarrow> 0 \<le> d \<and> d \<le> 31"

lemma rank_from_bound:
  "i + length ds \<le> 6 \<Longrightarrow> \<forall>d\<in>set ds. depth_ok d \<Longrightarrow> 0 \<le> rank_from i ds \<and> rank_from i ds < 32 ^ (6 - i)"
proof (induction ds arbitrary: i)
  case (Cons d ds)
  then have r: "0 \<le> rank_from (Suc i) ds" "rank_from (Suc i) ds < 32 ^ (5 - i)"
    using Cons.IH [of "Suc i"] by auto
  have "0 \<le> (31 - d) * 32 ^ (5 - i)" "(31 - d) * 32 ^ (5 - i) \<le> 31 * 32 ^ (5 - i)"
    using Cons.prems(2) by (auto simp: depth_ok_def intro: mult_right_mono)
  moreover have "(32::int) ^ (6 - i) = 32 * 32 ^ (5 - i)"
    using Cons.prems(1) by (simp add: Suc_diff_le flip: power_Suc)
  ultimately show ?case using r unfolding rank_from.simps by linarith
qed simp

lemma rank_from_less:
  assumes "i + length (xs @ d # ds) \<le> 6" and "length ds = length es"
    and "\<forall>x\<in>set (xs @ d # ds) \<union> set (e # es). depth_ok x" and "d < e"
  shows "rank_from i (xs @ e # es) < rank_from i (xs @ d # ds)"
  using assms(1,3)
proof (induction xs arbitrary: i)
  case Nil
  have "rank_from (Suc i) es < 32 ^ (5 - i)" "0 \<le> rank_from (Suc i) ds"
    using rank_from_bound [of "Suc i" es] rank_from_bound [of "Suc i" ds] Nil assms(2) by auto
  moreover have "(31 - e + 1) * 32 ^ (5 - i) \<le> (31 - d) * (32::int) ^ (5 - i)"
    using assms(4) by (intro mult_right_mono) auto
  ultimately show ?case by (simp add: algebra_simps)
qed auto

lemma or_disjoint:
  assumes "0 \<le> b" "b < 32"
  shows "(a * 32 ^ Suc n) OR push_bit (n * 5) b = a * 32 ^ Suc n + b * (32::int) ^ n"
proof -
  have p: "(32::int) ^ n = 2 ^ (n * 5)" for n using power_mult [of "2::int" 5 n] by (simp add: mult.commute)
  have "(b::int) = take_bit 5 b" using assms by (simp add: take_bit_eq_mod)
  then have "bit b k \<Longrightarrow> k < 5" for k by (metis bit_take_bit_iff)
  then have "(a * 32) AND b = 0"
    using bit_eqI [of "(a * 32) AND b" 0] bit_push_bit_iff_int [of 5 a]
    by (fastforce simp: bit_and_iff push_bit_eq_mult)
  then have "a * 32 OR b = a * 32 + b" using plus_and_or [of "a * 32" b] by simp
  then have "push_bit (n * 5) (a * 32) OR push_bit (n * 5) b = push_bit (n * 5) (a * 32 + b)"
    by (metis push_bit_or)
  moreover have "push_bit (n * 5) c = c * 32 ^ n" for c :: int by (simp only: push_bit_eq_mult p)
  ultimately show ?thesis by (simp add: algebra_simps)
qed

lemma mark_found_rank:
  assumes "i \<le> 5" "depth_ok d" "def_dispatchRank (mem oh) def = a * 32 ^ (6 - i)" "0 \<le> a" "a < 32 ^ i"
  shows "\<exists>oh'. mark_found oh def i d = Some oh' \<and>
    def_dispatchRank (mem oh') def = a * 32 ^ (6 - i) + (31 - d) * 32 ^ (5 - i)"
proof -
  have s: "6 - i = Suc (5 - i)" using assms(1) by simp
  have "a + 1 \<le> 32 ^ i" using assms(5) by simp
  then have "(a + 1) * 32 ^ (6 - i) \<le> 32 ^ i * (32::int) ^ (6 - i)" by (intro mult_right_mono) auto
  also have "\<dots> = 32 ^ 6" using assms(1) by (simp flip: power_add)
  finally have "a * 32 ^ (6 - i) + 32 ^ (6 - i) \<le> 32 ^ 6" by (simp add: algebra_simps)
  moreover have "(31 - d) * 32 ^ (5 - i) \<le> 32 * (32::int) ^ (5 - i)" "0 \<le> (31 - d) * (32::int) ^ (5 - i)"
    using assms(2) by (auto simp: depth_ok_def intro!: mult_right_mono)
  moreover have "(32::int) ^ (6 - i) = 32 * 32 ^ (5 - i)" using s by simp
  moreover have "0 \<le> a * (32::int) ^ (6 - i)" using assms(4) by simp
  ultimately have "0 \<le> a * 32 ^ (6 - i) + (31 - d) * 32 ^ (5 - i)" "a * 32 ^ (6 - i) + (31 - d) * 32 ^ (5 - i) \<le> (32::int) ^ 6"
    by linarith+
  then have "is_word (a * 32 ^ (6 - i) + (31 - d) * 32 ^ (5 - i))"
    unfolding is_word_def WORD_MIN_def WORD_MAX_def by simp
  moreover have "0 \<le> 31 - d" "31 - d < 32" using assms(2) by (auto simp: depth_ok_def)
  ultimately show ?thesis using assms(1,3) or_disjoint [of "31 - d" a "5 - i"]
    by (simp add: mark_found_def check_def def_field_defs s wrap64_word del: power_Suc)
qed

lemma mark_all_rank:
  assumes "i + length ds \<le> 6" "\<forall>d\<in>set ds. depth_ok d"
    "def_dispatchRank (mem oh) def = a * 32 ^ (6 - i)" "0 \<le> a" "a < 32 ^ i"
  shows "\<exists>oh'. mark_all oh def i ds = Some oh' \<and>
    def_dispatchRank (mem oh') def = a * 32 ^ (6 - i) + rank_from i ds"
  using assms
proof (induction ds arbitrary: oh i a)
  case (Cons d ds)
  from Cons.prems mark_found_rank [of i d oh "def" a] obtain oh1 where
    1: "mark_found oh def i d = Some oh1" "def_dispatchRank (mem oh1) def = a * 32 ^ (6 - i) + (31 - d) * 32 ^ (5 - i)"
    by auto
  let ?a = "a * 32 + (31 - d)"
  have "(32::int) ^ (6 - i) = 32 * 32 ^ (5 - i)" using Cons.prems(1) by (simp add: Suc_diff_le flip: power_Suc)
  then have r: "a * 32 ^ (6 - i) + (31 - d) * 32 ^ (5 - i) = ?a * 32 ^ (6 - Suc i)" by (simp add: algebra_simps)
  have "0 \<le> ?a" "?a < 32 ^ Suc i" using Cons.prems(2,4,5) by (auto simp: depth_ok_def)
  with Cons.IH [of "Suc i" oh1 ?a] Cons.prems(1,2) 1(2) r obtain oh2 where
    "mark_all oh1 def (Suc i) ds = Some oh2" "def_dispatchRank (mem oh2) def = ?a * 32 ^ (6 - Suc i) + rank_from (Suc i) ds"
    by auto
  with 1(1) r show ?case by simp
qed simp

section \<open>Properties\<close>

text \<open>
  C29. The method cache answers what was saved: after a definition is saved for a selector and
  arguments, the lookup with the same selector and arguments is a hit on it, for every
  cache mask of the selector that only names positions of the arguments.
\<close>

theorem cache_hit_after_save:
  assumes "method_save_cache oh md selector arguments = Some oh1" and "md \<noteq> 0"
    and "0 \<le> object_to_smallint (symbol_cacheMask (mem oh) selector)"
    and "object_to_smallint (symbol_cacheMask (mem oh) selector) < 2 ^ length arguments"
  shows "\<exists>oh2. method_check_cache oh1 selector arguments = Some (Some md, oh2)"
proof -
  let ?k = "cache_index oh selector arguments"
  let ?e = "\<lparr>ce_method = md, ce_selector = selector, ce_maps = (\<lambda>i. if i < length arguments
     then object_get_map oh (arguments ! i) else ce_maps (methodCache oh ?k) i)\<rparr>"
  have n: "length arguments \<le> METHOD_CACHE_ARITY" and oh1: "oh1 = oh\<lparr>methodCache := (methodCache oh)(?k := ?e)\<rparr>"
    using assms(1) by (auto simp: method_save_cache_def Let_def check_def split: if_splits)
  have "maps_differ (oh1\<lparr>method_cache_access := a\<rparr>) ?e arguments
      (mask_positions (object_to_smallint (symbol_cacheMask (mem oh) selector))) = Some False" for a
    using mask_positions_bound [OF assms(3,4)] by (intro maps_differ_same) (simp add: oh1)
  then show ?thesis
    using n assms(2,4) by (simp add: method_check_cache_def oh1 check_def Let_def del: mask_positions.simps)
qed

text \<open>
  C30. A hit of the method cache is sound for the positions that the cache mask names when the
  mask is below 8: the entry is for the selector, and the maps of the arguments at those
  positions are the maps that were saved.
\<close>

theorem cache_hit_sound:
  assumes "method_check_cache oh selector arguments = Some (Some md, oh')"
    and "p < 3" and "bit (object_to_smallint (symbol_cacheMask (mem oh) selector)) p"
    and "0 \<le> object_to_smallint (symbol_cacheMask (mem oh) selector)"
    and "object_to_smallint (symbol_cacheMask (mem oh) selector) < 8"
  defines "e \<equiv> methodCache oh (cache_index oh selector arguments)"
  shows "ce_method e = md \<and> ce_selector e = selector \<and> p < length arguments \<and>
    ce_maps e p = object_get_map oh (arguments ! p)"
proof -
  let ?m = "object_to_smallint (symbol_cacheMask (mem oh) selector)"
  let ?o = "oh\<lparr>method_cache_access := method_cache_access oh + 1\<rparr>"
  have h: "ce_method e = md" "ce_selector e = selector" "maps_differ ?o e arguments (mask_positions ?m) = Some False"
    using assms(1) unfolding method_check_cache_def e_def
    by (auto simp: Let_def check_def Option.bind_eq_Some_conv simp del: mask_positions.simps split: if_splits)
  have "p = 0 \<or> p = 1 \<or> p = 2" using assms(2) by auto
  moreover have "?m = 0 \<or> ?m = 1 \<or> ?m = 2 \<or> ?m = 3 \<or> ?m = 4 \<or> ?m = 5 \<or> ?m = 6 \<or> ?m = 7"
    using assms(4,5) by linarith
  ultimately have "p \<in> set (mask_positions ?m)"
    using assms(3) by (elim disjE) (simp_all add: bit_iff_odd)
  with maps_differ_False [OF h(3)] h(1,2) show ?thesis by simp
qed

text \<open>
  C33. For a cache mask of 8 or more (a selector that dispatches on its fourth argument) the
  lookup compares no map at all: any entry for the selector is a hit, whatever maps were
  saved and whatever the arguments are.
\<close>

theorem cache_hit_unchecked:
  assumes "length arguments \<le> METHOD_CACHE_ARITY"
    and "8 \<le> object_to_smallint (symbol_cacheMask (mem oh) selector)"
    and "object_to_smallint (symbol_cacheMask (mem oh) selector) \<le> 2 ^ length arguments"
    and "ce_selector (methodCache oh (cache_index oh selector arguments)) = selector"
    and "ce_method (methodCache oh (cache_index oh selector arguments)) = md" and "md \<noteq> 0"
  shows "\<exists>oh'. method_check_cache oh selector arguments = Some (Some md, oh')"
proof -
  have "mask_positions (object_to_smallint (symbol_cacheMask (mem oh) selector)) = []" using assms(2) by simp
  with assms show ?thesis by (simp add: method_check_cache_def Let_def check_def del: mask_positions.simps)
qed

text \<open>
  C28. The dispatch rank orders definitions lexicographically: of two definitions with
  cleared ranks that are found at all of the same (at most six) positions, the one found at the smaller
  depth at the first position where they differ ends up with the greater rank, and
  marking never runs out of the 30 bits of the rank.
\<close>

theorem rank_lexicographic:
  assumes "length xs + length ds < 6" and "length ds = length es"
    and "\<forall>x\<in>set xs \<union> set ds \<union> set es. depth_ok x" and "0 \<le> d" "d < e" "e \<le> 31"
    and "def_dispatchRank (mem oh) p = 0" "def_dispatchRank (mem oh) q = 0"
  shows "\<exists>oh1 oh2. mark_all oh p 0 (xs @ d # ds) = Some oh1 \<and> mark_all oh q 0 (xs @ e # es) = Some oh2 \<and>
    0 \<le> def_dispatchRank (mem oh2) q \<and> def_dispatchRank (mem oh2) q < def_dispatchRank (mem oh1) p \<and>
    def_dispatchRank (mem oh1) p < 2 ^ 30"
proof -
  have ok: "\<forall>x\<in>set (xs @ d # ds). depth_ok x" "\<forall>x\<in>set (xs @ e # es). depth_ok x"
    using assms(3-6) by (auto simp: depth_ok_def)
  have len: "0 + length (xs @ d # ds) \<le> 6" "0 + length (xs @ e # es) \<le> 6" using assms(1,2) by auto
  obtain oh1 oh2 where "mark_all oh p 0 (xs @ d # ds) = Some oh1" "def_dispatchRank (mem oh1) p = rank_from 0 (xs @ d # ds)"
    "mark_all oh q 0 (xs @ e # es) = Some oh2" "def_dispatchRank (mem oh2) q = rank_from 0 (xs @ e # es)"
    using mark_all_rank [OF len(1) ok(1), of oh p 0] mark_all_rank [OF len(2) ok(2), of oh q 0] assms(7,8) by auto
  moreover have "rank_from 0 (xs @ e # es) < rank_from 0 (xs @ d # ds)"
    using rank_from_less [OF len(1) assms(2) _ assms(5)] ok by auto
  ultimately show ?thesis using rank_from_bound [OF len(1) ok(1)] rank_from_bound [OF len(2) ok(2)] by simp
qed

end
