(* ===== verification/Opcodes.thy ===== *)
theory Opcodes
  imports SmallInt
begin

text \<open>
  The instruction set (slate.hpp) and its tables in optimizer.cpp: lengths, positions of
  the register operands and of the jump operand. Code is a list of words; an opcode is a
  tagged number, a register or a distance is a small integer.
\<close>

section \<open>Opcodes\<close>

datatype opcode =
    OP_SEND | OP_LOAD_LITERAL | OP_SEND_MESSAGE_WITH_OPTS | OP_NEW_CLOSURE | OP_NEW_ARRAY_WITH
  | OP_RESEND_MESSAGE | OP_RETURN_FROM | OP_LOAD_ENVIRONMENT | OP_LOAD_VARIABLE | OP_STORE_VARIABLE
  | OP_LOAD_FREE_VARIABLE | OP_STORE_FREE_VARIABLE | OP_IS_IDENTICAL_TO | OP_BRANCH_KEYED | OP_JUMP_TO
  | OP_MOVE_REGISTER | OP_BRANCH_IF_TRUE | OP_BRANCH_IF_FALSE | OP_RETURN_REGISTER | OP_RETURN_VALUE
  | OP_RESUME | OP_PRIMITIVE_DO | OP_APPLY_TO | OP_IS_NIL | OP_INLINE_PRIMITIVE_CHECK
  | OP_INLINE_METHOD_CHECK | OP_SEND_WITH_OPTIONALS_INLINE | OP_INTERNAL_SEND

fun op_number :: "opcode \<Rightarrow> int" where
  "op_number OP_SEND = 0"
| "op_number OP_LOAD_LITERAL = 3"
| "op_number OP_SEND_MESSAGE_WITH_OPTS = 5"
| "op_number OP_NEW_CLOSURE = 7"
| "op_number OP_NEW_ARRAY_WITH = 8"
| "op_number OP_RESEND_MESSAGE = 9"
| "op_number OP_RETURN_FROM = 10"
| "op_number OP_LOAD_ENVIRONMENT = 11"
| "op_number OP_LOAD_VARIABLE = 12"
| "op_number OP_STORE_VARIABLE = 13"
| "op_number OP_LOAD_FREE_VARIABLE = 14"
| "op_number OP_STORE_FREE_VARIABLE = 15"
| "op_number OP_IS_IDENTICAL_TO = 16"
| "op_number OP_BRANCH_KEYED = 17"
| "op_number OP_JUMP_TO = 18"
| "op_number OP_MOVE_REGISTER = 19"
| "op_number OP_BRANCH_IF_TRUE = 20"
| "op_number OP_BRANCH_IF_FALSE = 21"
| "op_number OP_RETURN_REGISTER = 22"
| "op_number OP_RETURN_VALUE = 23"
| "op_number OP_RESUME = 24"
| "op_number OP_PRIMITIVE_DO = 25"
| "op_number OP_APPLY_TO = 26"
| "op_number OP_IS_NIL = 27"
| "op_number OP_INLINE_PRIMITIVE_CHECK = 28"
| "op_number OP_INLINE_METHOD_CHECK = 29"
| "op_number OP_SEND_WITH_OPTIONALS_INLINE = 30"
| "op_number OP_INTERNAL_SEND = 100"

text \<open>The word of an opcode: \<open>(number << 1) | SMALLINT_MASK\<close>.\<close>

definition op_word :: "opcode \<Rightarrow> word_t" where
  "op_word op = push_bit 1 (op_number op) OR SMALLINT_MASK"

definition all_opcodes :: "opcode list" where
  "all_opcodes = [OP_SEND, OP_LOAD_LITERAL, OP_SEND_MESSAGE_WITH_OPTS, OP_NEW_CLOSURE, OP_NEW_ARRAY_WITH,
    OP_RESEND_MESSAGE, OP_RETURN_FROM, OP_LOAD_ENVIRONMENT, OP_LOAD_VARIABLE, OP_STORE_VARIABLE,
    OP_LOAD_FREE_VARIABLE, OP_STORE_FREE_VARIABLE, OP_IS_IDENTICAL_TO, OP_BRANCH_KEYED, OP_JUMP_TO,
    OP_MOVE_REGISTER, OP_BRANCH_IF_TRUE, OP_BRANCH_IF_FALSE, OP_RETURN_REGISTER, OP_RETURN_VALUE,
    OP_RESUME, OP_PRIMITIVE_DO, OP_APPLY_TO, OP_IS_NIL, OP_INLINE_PRIMITIVE_CHECK,
    OP_INLINE_METHOD_CHECK, OP_SEND_WITH_OPTIONALS_INLINE, OP_INTERNAL_SEND]"

text \<open>The cases of the \<open>switch\<close> statements: \<open>None\<close> is their default.\<close>

definition decode_op :: "word_t \<Rightarrow> opcode option" where
  "decode_op w = List.find (\<lambda>op. op_word op = w) all_opcodes"

lemma op_word_eq: "op_word op = 2 * op_number op + 1"
  by (simp add: op_word_def push_bit_eq_mult SMALLINT_MASK_def even_or_one mult.commute)

lemma op_number_inject: "op_number a = op_number b \<Longrightarrow> a = b"
  by (cases a; cases b) simp_all

lemma op_word_inject: "op_word a = op_word b \<longleftrightarrow> a = b"
  using op_number_inject by (auto simp: op_word_eq)

lemma all_opcodes: "op \<in> set all_opcodes"
  by (cases op) (simp_all add: all_opcodes_def)

lemma decode_op_word [simp]: "decode_op (op_word op) = Some op"
proof -
  have "decode_op (op_word op) \<noteq> None"
    using all_opcodes [of op] by (auto simp: decode_op_def find_None_iff)
  then obtain op' where "decode_op (op_word op) = Some op'" by blast
  then have "op_word op' = op_word op" "decode_op (op_word op) = Some op'"
    by (auto simp: decode_op_def find_Some_iff)
  then show ?thesis by (simp add: op_word_inject)
qed

lemma op_word_smallint: "object_is_smallint (op_word op)"
  by (simp add: is_smallint_odd op_word_eq)

text \<open>Opcodes are ordered by their numbers, as the comparisons of the optimizer need.\<close>

instantiation opcode :: linorder
begin

definition less_eq_opcode :: "opcode \<Rightarrow> opcode \<Rightarrow> bool" where
  "less_eq_opcode a b \<longleftrightarrow> op_number a \<le> op_number b"

definition less_opcode :: "opcode \<Rightarrow> opcode \<Rightarrow> bool" where
  "less_opcode a b \<longleftrightarrow> op_number a < op_number b"

instance
  by standard (auto simp: less_eq_opcode_def less_opcode_def intro: op_number_inject)

end

section \<open>Tables\<close>

fun base_length :: "opcode \<Rightarrow> int" where
  "base_length OP_SEND = 3"
| "base_length OP_INTERNAL_SEND = 3"
| "base_length OP_LOAD_LITERAL = 2"
| "base_length OP_SEND_MESSAGE_WITH_OPTS = 4"
| "base_length OP_SEND_WITH_OPTIONALS_INLINE = 4"
| "base_length OP_NEW_CLOSURE = 2"
| "base_length OP_NEW_ARRAY_WITH = 2"
| "base_length OP_RESEND_MESSAGE = 2"
| "base_length OP_RETURN_FROM = 2"
| "base_length OP_LOAD_ENVIRONMENT = 1"
| "base_length OP_LOAD_VARIABLE = 1"
| "base_length OP_STORE_VARIABLE = 1"
| "base_length OP_LOAD_FREE_VARIABLE = 3"
| "base_length OP_STORE_FREE_VARIABLE = 3"
| "base_length OP_IS_IDENTICAL_TO = 3"
| "base_length OP_BRANCH_KEYED = 2"
| "base_length OP_JUMP_TO = 1"
| "base_length OP_MOVE_REGISTER = 2"
| "base_length OP_BRANCH_IF_TRUE = 2"
| "base_length OP_BRANCH_IF_FALSE = 2"
| "base_length OP_RETURN_REGISTER = 1"
| "base_length OP_RETURN_VALUE = 1"
| "base_length OP_RESUME = 0"
| "base_length OP_PRIMITIVE_DO = 3"
| "base_length OP_APPLY_TO = 3"
| "base_length OP_IS_NIL = 2"
| "base_length OP_INLINE_PRIMITIVE_CHECK = 5"
| "base_length OP_INLINE_METHOD_CHECK = 3"

definition opcode_base_length :: "word_t \<Rightarrow> int" where
  "opcode_base_length rawop = (case decode_op rawop of Some op \<Rightarrow> base_length op | None \<Rightarrow> 0)"

fun jump_offset :: "opcode \<Rightarrow> int" where
  "jump_offset OP_JUMP_TO = 1"
| "jump_offset OP_BRANCH_IF_FALSE = 2"
| "jump_offset OP_BRANCH_IF_TRUE = 2"
| "jump_offset OP_INLINE_PRIMITIVE_CHECK = 5"
| "jump_offset OP_INLINE_METHOD_CHECK = 3"
| "jump_offset _ = 0"

definition opcode_jump_offset :: "word_t \<Rightarrow> int" where
  "opcode_jump_offset rawop = (case decode_op rawop of Some op \<Rightarrow> jump_offset op | None \<Rightarrow> 0)"

fun jump_adjustment :: "opcode \<Rightarrow> int" where
  "jump_adjustment OP_INLINE_PRIMITIVE_CHECK = 0"
| "jump_adjustment OP_INLINE_METHOD_CHECK = 0"
| "jump_adjustment _ = -1"

definition opcode_jump_adjustment :: "word_t \<Rightarrow> int" where
  "opcode_jump_adjustment rawop = (case decode_op rawop of Some op \<Rightarrow> jump_adjustment op | None \<Rightarrow> -1)"

fun can_jump :: "opcode \<Rightarrow> bool" where
  "can_jump OP_JUMP_TO = True"
| "can_jump OP_BRANCH_IF_FALSE = True"
| "can_jump OP_BRANCH_IF_TRUE = True"
| "can_jump OP_INLINE_PRIMITIVE_CHECK = True"
| "can_jump OP_INLINE_METHOD_CHECK = True"
| "can_jump _ = False"

definition opcode_can_jump :: "word_t \<Rightarrow> bool" where
  "opcode_can_jump rawop = (case decode_op rawop of Some op \<Rightarrow> can_jump op | None \<Rightarrow> False)"

text \<open>Bit \<open>b\<close> is set when operand \<open>b\<close> is a register.\<close>

fun register_locations :: "opcode \<Rightarrow> int" where
  "register_locations OP_SEND_MESSAGE_WITH_OPTS = 1 + 8"
| "register_locations OP_STORE_FREE_VARIABLE = 4"
| "register_locations OP_IS_IDENTICAL_TO = 1 + 2 + 4"
| "register_locations OP_BRANCH_KEYED = 1 + 2"
| "register_locations OP_JUMP_TO = 0"
| "register_locations OP_MOVE_REGISTER = 1 + 2"
| "register_locations OP_RETURN_VALUE = 0"
| "register_locations OP_RESUME = 0"
| "register_locations OP_PRIMITIVE_DO = 1 + 4"
| "register_locations OP_APPLY_TO = 1 + 4"
| "register_locations OP_IS_NIL = 1 + 2"
| "register_locations OP_INLINE_METHOD_CHECK = 0"
| "register_locations _ = 1"

definition opcode_register_locations :: "word_t \<Rightarrow> int" where
  "opcode_register_locations rawop = (case decode_op rawop of Some op \<Rightarrow> register_locations op | None \<Rightarrow> 0)"

text \<open>
  The number of further operands, read from the code. A read outside the vector is
  undefined in C++ and \<open>None\<close> here.
\<close>

definition code_at :: "word_t list \<Rightarrow> int \<Rightarrow> word_t option" where
  "code_at code i = (if 0 \<le> i \<and> i < int (length code) then Some (code ! nat i) else None)"

definition small_at :: "word_t list \<Rightarrow> int \<Rightarrow> int option" where
  "small_at code i = map_option object_to_smallint (code_at code i)"

fun arg_length :: "opcode \<Rightarrow> word_t list \<Rightarrow> int \<Rightarrow> int option" where
  "arg_length OP_SEND code i = small_at code (i + 2)"
| "arg_length OP_INTERNAL_SEND code i = small_at code (i + 2)"
| "arg_length OP_SEND_MESSAGE_WITH_OPTS code i = small_at code (i + 2)"
| "arg_length OP_SEND_WITH_OPTIONALS_INLINE code i =
     do { a \<leftarrow> small_at code (i + 2); b \<leftarrow> small_at code (i + 3); Some (a + b) }"
| "arg_length OP_NEW_ARRAY_WITH code i = small_at code (i + 1)"
| "arg_length OP_PRIMITIVE_DO code i = small_at code (i + 1)"
| "arg_length OP_APPLY_TO code i = small_at code (i + 1)"
| "arg_length OP_INLINE_PRIMITIVE_CHECK code i = small_at code (i + 3)"
| "arg_length OP_INLINE_METHOD_CHECK code i = small_at code (i + 1)"
| "arg_length _ code i = Some 0"

definition opcode_arg_length :: "word_t list \<Rightarrow> int \<Rightarrow> int option" where
  "opcode_arg_length code start = do {
     op \<leftarrow> code_at code start;
     case decode_op op of Some op \<Rightarrow> arg_length op code (start + 1) | None \<Rightarrow> Some 0 }"

definition opcode_length :: "word_t list \<Rightarrow> int \<Rightarrow> int option" where
  "opcode_length code start = do {
     op \<leftarrow> code_at code start;
     n \<leftarrow> opcode_arg_length code start;
     Some (1 + opcode_base_length op + n) }"

section \<open>Sanity of the tables\<close>

text \<open>Register operands lie among the base operands, and the jump operand is one that is no register.\<close>

lemma register_locations_range: "0 \<le> register_locations op \<and> register_locations op < 16"
  by (cases op) simp_all

lemma register_bits:
  "bit (register_locations op) 0 \<longrightarrow> 0 < base_length op"
  "bit (register_locations op) 1 \<longrightarrow> 1 < base_length op"
  "bit (register_locations op) 2 \<longrightarrow> 2 < base_length op"
  "bit (register_locations op) 3 \<longrightarrow> 3 < base_length op"
  by (cases op; simp add: bit_iff_odd)+

lemma register_locations_base:
  assumes "bit (register_locations op) b"
  shows "int b < base_length op"
proof -
  have "take_bit 4 (register_locations op) = register_locations op"
    using register_locations_range by (simp add: take_bit_int_eq_self_iff)
  then have "b < 4" using assms by (metis bit_take_bit_iff)
  then consider "b = 0" | "b = 1" | "b = 2" | "b = 3" by linarith
  then show ?thesis using assms register_bits [of op] by cases simp_all
qed

lemma jump_offset_base: "can_jump op \<Longrightarrow> 1 \<le> jump_offset op \<and> jump_offset op \<le> base_length op"
  by (cases op) simp_all

lemma jump_no_register: "can_jump op \<Longrightarrow> \<not> bit (register_locations op) (nat (jump_offset op - 1))"
  by (cases op) (simp_all add: bit_iff_odd)

end
