(* ===== verification/Optimizer.thy ===== *)
theory Optimizer
  imports Opcodes Spaces
begin

text \<open>
  Editing of code by the inliner (optimizer.cpp): shifting register operands, inserting
  and deleting instructions with the relative jumps fixed up, and turning returns into
  jumps. The main result is that insertion and deletion at an instruction boundary move
  every jump target with the instruction it points to.
\<close>

section \<open>Editing\<close>

definition optimizer_offset_value :: "word_t list \<Rightarrow> int \<Rightarrow> int \<Rightarrow> word_t list option" where
  "optimizer_offset_value code pos offset = do {
     obj \<leftarrow> code_at code pos;
     check (object_is_smallint obj);
     Some (code[nat pos := smallint_to_object (object_to_smallint obj + offset)]) }"

definition offset_registers_at :: "int \<Rightarrow> int \<Rightarrow> word_t list \<Rightarrow> word_t list option" where
  "offset_registers_at offset i code = do {
     op \<leftarrow> code_at code i;
     let offsets = opcode_register_locations op;
     let baseLength = opcode_base_length op;
     opcodeArgCount \<leftarrow> opcode_arg_length code i;
     check (offsets < 16);
     code \<leftarrow> fold_opt (\<lambda>code offsetBit.
         if bit offsets offsetBit then optimizer_offset_value code (i + 1 + int offsetBit) offset
         else Some code) [0..<6] code;
     fold_opt (\<lambda>code offsetArg. optimizer_offset_value code offsetArg offset)
       [i + 1 + baseLength..i + baseLength + opcodeArgCount] code }"

partial_function (option) offset_registers_loop :: "int \<Rightarrow> int \<Rightarrow> word_t list \<Rightarrow> word_t list option" where
  "offset_registers_loop offset i code =
     (if i < int (length code) then do {
        code \<leftarrow> offset_registers_at offset i code;
        n \<leftarrow> opcode_length code i;
        offset_registers_loop offset (i + n) code }
      else Some code)"

declare offset_registers_loop.simps [code]

definition optimizer_offset_registers :: "word_t list \<Rightarrow> int \<Rightarrow> word_t list option" where
  "optimizer_offset_registers code offset = offset_registers_loop offset 0 code"

text \<open>
  The target of the jump at \<open>i\<close>, as the comparisons compute it (\<open>size_t\<close>), and the loop
  that shifts the jumps of a range whose target satisfies a condition.
\<close>

definition jump_destination :: "word_t list \<Rightarrow> int \<Rightarrow> int option" where
  "jump_destination code i = do {
     op \<leftarrow> code_at code i;
     v \<leftarrow> small_at code (i + opcode_jump_offset op);
     n \<leftarrow> opcode_length code i;
     Some ((i + n + (v + opcode_jump_adjustment op)) mod 2 ^ 64) }"

definition fix_jump :: "(int \<Rightarrow> bool) \<Rightarrow> int \<Rightarrow> int \<Rightarrow> word_t list \<Rightarrow> word_t list option" where
  "fix_jump cond delta i code = do {
     op \<leftarrow> code_at code i;
     if opcode_can_jump op then do {
       t \<leftarrow> jump_destination code i;
       if cond t then optimizer_offset_value code (i + opcode_jump_offset op) delta else Some code }
     else Some code }"

partial_function (option) fix_jumps :: "(int \<Rightarrow> bool) \<Rightarrow> int \<Rightarrow> int \<Rightarrow> int \<Rightarrow> word_t list \<Rightarrow> word_t list option" where
  "fix_jumps cond delta limit i code =
     (if i < limit then do {
        code \<leftarrow> fix_jump cond delta i code;
        n \<leftarrow> opcode_length code i;
        fix_jumps cond delta limit (i + n) code }
      else Some code)"

declare fix_jumps.simps [code]

definition optimizer_insert_code :: "word_t list \<Rightarrow> int \<Rightarrow> word_t list \<Rightarrow> word_t list option" where
  "optimizer_insert_code code offset newCode = do {
     check (offset \<ge> 0 \<and> offset \<le> int (length code));
     code \<leftarrow> fix_jumps (\<lambda>t. t > offset) (int (length newCode)) offset 0 code;
     code \<leftarrow> fix_jumps (\<lambda>t. t < offset) (- int (length newCode)) (int (length code)) offset code;
     Some (take (nat offset) code @ newCode @ drop (nat offset) code) }"

definition optimizer_delete_code :: "word_t list \<Rightarrow> int \<Rightarrow> int \<Rightarrow> word_t list option" where
  "optimizer_delete_code code offset amount = do {
     check (offset \<ge> 0 \<and> offset < int (length code) \<and> amount > 0);
     code \<leftarrow> fix_jumps (\<lambda>t. t > offset) (- amount) offset 0 code;
     code \<leftarrow> fix_jumps (\<lambda>t. t \<le> offset) amount (int (length code)) offset code;
     Some (take (nat offset) code @ drop (nat (offset + amount)) code) }"

partial_function (option) returns_to_jumps_loop :: "int \<Rightarrow> int \<Rightarrow> int \<Rightarrow> word_t list \<Rightarrow> word_t list option" where
  "returns_to_jumps_loop resultReg jumpOutDistance i code =
     (if i < int (length code) then do {
        op \<leftarrow> code_at code i;
        code \<leftarrow>
          if op = op_word OP_RETURN_REGISTER \<or> op = op_word OP_RETURN_VALUE then do {
            value \<leftarrow> code_at code (i + 1);
            let codeToInsert =
              [op_word (if op = op_word OP_RETURN_REGISTER then OP_MOVE_REGISTER else OP_LOAD_LITERAL),
               smallint_to_object resultReg, value, op_word OP_JUMP_TO,
               smallint_to_object (int (length code) - i - 2 + jumpOutDistance + 1)];
            code \<leftarrow> optimizer_delete_code code i 2;
            optimizer_insert_code code i codeToInsert }
          else Some code;
        n \<leftarrow> opcode_length code i;
        returns_to_jumps_loop resultReg jumpOutDistance (i + n) code }
      else Some code)"

declare returns_to_jumps_loop.simps [code]

definition optimizer_change_returns_to_jumps :: "word_t list \<Rightarrow> int \<Rightarrow> int \<Rightarrow> word_t list option" where
  "optimizer_change_returns_to_jumps code resultReg jumpOutDistance =
     returns_to_jumps_loop resultReg jumpOutDistance 0 code"

partial_function (option) remove_redundant_loop :: "int \<Rightarrow> word_t list \<Rightarrow> word_t list option" where
  "remove_redundant_loop i code =
     (if i < int (length code) then do {
        op \<leftarrow> code_at code i;
        if op = op_word OP_LOAD_VARIABLE \<or> op = op_word OP_STORE_VARIABLE then do {
          code \<leftarrow> optimizer_delete_code code i 2;
          remove_redundant_loop i code }
        else do {
          n \<leftarrow> opcode_length code i;
          remove_redundant_loop (i + n) code } }
      else Some code)"

declare remove_redundant_loop.simps [code]

partial_function (option) remove_internal_loop :: "int \<Rightarrow> word_t list \<Rightarrow> word_t list option" where
  "remove_internal_loop i code =
     (if i < int (length code) then do {
        op \<leftarrow> code_at code i;
        let code = (if op = op_word OP_INTERNAL_SEND then code[nat i := op_word OP_SEND] else code);
        n \<leftarrow> opcode_length code i;
        remove_internal_loop (i + n) code }
      else Some code)"

declare remove_internal_loop.simps [code]

definition optimizer_remove_internal_ops :: "word_t list \<Rightarrow> word_t list option" where
  "optimizer_remove_internal_ops code = remove_internal_loop 0 code"

text \<open>The start of the instruction before the one at \<open>opPos\<close>.\<close>

partial_function (option) op_location_loop :: "word_t list \<Rightarrow> int \<Rightarrow> int \<Rightarrow> int \<Rightarrow> int option" where
  "op_location_loop code opPos j i =
     (if i < int (length code) \<and> i \<noteq> opPos then do {
        n \<leftarrow> opcode_length code i;
        op_location_loop code opPos i (i + n) }
      else Some j)"

declare op_location_loop.simps [code]

definition optimizer_op_location_before :: "word_t list \<Rightarrow> int \<Rightarrow> int option" where
  "optimizer_op_location_before code opPos = op_location_loop code opPos 0 0"

section \<open>Code as a sequence of instructions\<close>

text \<open>
  One instruction: its length is the one of its opcode and its jump operand, if any, is
  among its words and a small integer.
\<close>

definition instruction :: "word_t list \<Rightarrow> bool" where
  "instruction b \<longleftrightarrow> opcode_length b 0 = Some (int (length b)) \<and>
     (opcode_can_jump (hd b) \<longrightarrow> opcode_jump_offset (hd b) < int (length b) \<and>
        (let w = b ! nat (opcode_jump_offset (hd b)) in object_is_smallint w \<and> is_word w))"

definition jump_operand :: "word_t list \<Rightarrow> int" where
  "jump_operand b = object_to_smallint (b ! nat (opcode_jump_offset (hd b)))"

text \<open>Where the jump of an instruction at position \<open>p\<close> goes.\<close>

definition target :: "int \<Rightarrow> word_t list \<Rightarrow> int" where
  "target p b = p + int (length b) + (jump_operand b + opcode_jump_adjustment (hd b))"

fun instructions :: "int \<Rightarrow> word_t list list \<Rightarrow> bool" where
  "instructions p [] \<longleftrightarrow> True"
| "instructions p (b # bs) \<longleftrightarrow> instruction b \<and>
     (opcode_can_jump (hd b) \<longrightarrow> 0 \<le> target p b \<and> target p b < 2 ^ 63) \<and>
     instructions (p + int (length b)) bs"

text \<open>An instruction moved from \<open>p\<close> to \<open>q\<close> whose jump goes to \<open>f\<close> of the old target.\<close>

definition relink :: "(int \<Rightarrow> int) \<Rightarrow> int \<Rightarrow> int \<Rightarrow> word_t list \<Rightarrow> word_t list" where
  "relink f p q b =
     (if opcode_can_jump (hd b)
      then b[nat (opcode_jump_offset (hd b)) :=
             smallint_to_object (f (target p b) - q - int (length b) - opcode_jump_adjustment (hd b))]
      else b)"

fun relink_all :: "(int \<Rightarrow> int) \<Rightarrow> int \<Rightarrow> int \<Rightarrow> word_t list list \<Rightarrow> word_t list list" where
  "relink_all f p q [] = []"
| "relink_all f p q (b # bs) = relink f p q b # relink_all f (p + int (length b)) (q + int (length b)) bs"

lemma length_relink [simp]: "length (relink f p q b) = length b"
  by (simp add: relink_def)

lemma length_relink_all [simp]: "length (concat (relink_all f p q bs)) = length (concat bs)"
  by (induction bs arbitrary: p q) simp_all

lemma code_at_middle: "code_at b j = Some v \<Longrightarrow> code_at (pre @ b @ post) (int (length pre) + j) = Some v"
  by (auto simp: code_at_def nth_append nat_add_distrib split: if_splits)

lemma arg_length_middle:
  "arg_length op b i = Some n \<Longrightarrow> arg_length op (pre @ b @ post) (int (length pre) + i) = Some n"
  using code_at_middle [of b _ _ pre post]
  by (cases op) (auto simp: small_at_def Option.bind_eq_Some_conv add.assoc)

lemma opcode_length_middle:
  assumes "opcode_length b 0 = Some n"
  shows "opcode_length (pre @ b @ post) (int (length pre)) = Some n"
proof -
  obtain op a where "code_at b 0 = Some op" "opcode_arg_length b 0 = Some a" "n = 1 + opcode_base_length op + a"
    using assms by (auto simp: opcode_length_def Option.bind_eq_Some_conv)
  moreover from this have "code_at (pre @ b @ post) (int (length pre)) = Some op"
    using code_at_middle [of b 0 op pre post] by simp
  ultimately show ?thesis
    using arg_length_middle [of _ b 1 a pre post]
    by (auto simp: opcode_length_def opcode_arg_length_def split: option.splits)
qed

lemma instruction_nonempty: "instruction b \<Longrightarrow> b \<noteq> []"
  by (auto simp: instruction_def opcode_length_def code_at_def)

lemma instruction_hd:
  assumes "instruction b"
  shows "code_at b 0 = Some (hd b)" "code_at (pre @ b @ post) (int (length pre)) = Some (hd b)"
proof -
  show 0: "code_at b 0 = Some (hd b)" using instruction_nonempty [OF assms] by (simp add: code_at_def hd_conv_nth)
  show "code_at (pre @ b @ post) (int (length pre)) = Some (hd b)"
    using code_at_middle [OF 0, of pre post] by simp
qed

text \<open>The jump operand is not the operand that counts the further operands.\<close>

lemma arg_length_update:
  "can_jump op \<Longrightarrow> arg_length op (b[nat (jump_offset op) := w]) 1 = arg_length op b 1"
  by (cases op) (simp_all add: small_at_def code_at_def)

lemma jump_operand_in_range:
  assumes b: "instruction b" and j: "opcode_can_jump (hd b)"
  shows "1 \<le> opcode_jump_offset (hd b)" "opcode_jump_offset (hd b) < int (length b)"
    and "hd (b[nat (opcode_jump_offset (hd b)) := v]) = hd b"
    and "opcode_length (b[nat (opcode_jump_offset (hd b)) := v]) 0 = Some (int (length b))"
proof -
  obtain op where op: "decode_op (hd b) = Some op" "can_jump op"
    using j by (auto simp: opcode_can_jump_def split: option.splits)
  have k: "opcode_jump_offset (hd b) = jump_offset op" using op by (simp add: opcode_jump_offset_def)
  then show k1: "1 \<le> opcode_jump_offset (hd b)" using jump_offset_base [OF op(2)] by simp
  show "opcode_jump_offset (hd b) < int (length b)" using b j by (simp add: instruction_def)
  show h: "hd (b[nat (opcode_jump_offset (hd b)) := v]) = hd b"
    using instruction_nonempty [OF b] k1 by (cases b) (auto split: nat.splits)
  have "code_at (b[nat (opcode_jump_offset (hd b)) := v]) 0 = Some (hd b)"
    using h instruction_nonempty [OF b] by (simp add: code_at_def hd_conv_nth [symmetric])
  then show "opcode_length (b[nat (opcode_jump_offset (hd b)) := v]) 0 = Some (int (length b))"
    using b instruction_hd(1) [OF b] arg_length_update [OF op(2), of b v] op k
    by (simp add: instruction_def opcode_length_def opcode_arg_length_def)
qed

lemma jump_destination_middle:
  assumes b: "instruction b" and j: "opcode_can_jump (hd b)"
    and t: "0 \<le> target (int (length pre)) b" "target (int (length pre)) b < 2 ^ 63"
  shows "jump_destination (pre @ b @ post) (int (length pre)) = Some (target (int (length pre)) b)"
proof -
  note J = jump_operand_in_range [OF b j]
  have "code_at b (opcode_jump_offset (hd b)) = Some (b ! nat (opcode_jump_offset (hd b)))"
    using J by (simp add: code_at_def)
  from code_at_middle [OF this, of pre post]
  have "small_at (pre @ b @ post) (int (length pre) + opcode_jump_offset (hd b)) = Some (jump_operand b)"
    by (simp add: small_at_def jump_operand_def)
  moreover have "opcode_length (pre @ b @ post) (int (length pre)) = Some (int (length b))"
    using b by (intro opcode_length_middle) (simp add: instruction_def)
  moreover have "target (int (length pre)) b mod 2 ^ 64 = target (int (length pre)) b"
    using t by (intro mod_pos_pos_trivial) auto
  ultimately show ?thesis
    using instruction_hd(2) [OF b, of pre post] by (simp add: jump_destination_def target_def)
qed

lemma fix_jump_middle:
  assumes b: "instruction b" and p: "p = int (length pre)"
    and t: "opcode_can_jump (hd b) \<longrightarrow> 0 \<le> target p b \<and> target p b < 2 ^ 63"
    and f: "\<And>t. f t - q = t - p + (if cond t then delta else 0)"
  shows "fix_jump cond delta p (pre @ b @ post) = Some (pre @ relink f p q b @ post)"
proof (cases "opcode_can_jump (hd b)")
  case False
  then show ?thesis using instruction_hd(2) [OF b, of pre post] p by (simp add: fix_jump_def relink_def)
next
  case True
  note J = jump_operand_in_range [OF b True]
  let ?k = "opcode_jump_offset (hd b)" and ?w = "b ! nat (opcode_jump_offset (hd b))"
  have w: "object_is_smallint ?w" "is_word ?w" using b True by (simp_all add: instruction_def Let_def)
  have d: "jump_destination (pre @ b @ post) p = Some (target p b)"
    using jump_destination_middle [OF b True] t True p by simp
  have rel: "relink f p q b = b[nat ?k := smallint_to_object (jump_operand b + (if cond (target p b) then delta else 0))]"
  proof -
    have "f (target p b) - q - int (length b) - opcode_jump_adjustment (hd b)
        = target p b - p - int (length b) - opcode_jump_adjustment (hd b) + (if cond (target p b) then delta else 0)"
      using f [of "target p b"] by linarith
    also have "\<dots> = jump_operand b + (if cond (target p b) then delta else 0)" by (simp add: target_def)
    finally show ?thesis using True by (simp add: relink_def)
  qed
  show ?thesis
  proof (cases "cond (target p b)")
    case c: True
    have "code_at (pre @ b @ post) (p + ?k) = Some ?w"
      using code_at_middle [of b ?k ?w pre post] J p by (simp add: code_at_def)
    moreover have "nat ?k < length b" using J by linarith
    then have "(pre @ b @ post)[nat (p + ?k) := v] = pre @ b[nat ?k := v] @ post" for v
      using J p by (simp add: list_update_append nat_add_distrib)
    ultimately have "optimizer_offset_value (pre @ b @ post) (p + ?k) delta = Some (pre @ relink f p q b @ post)"
      using w(1) rel c by (simp add: optimizer_offset_value_def jump_operand_def)
    then show ?thesis using instruction_hd(2) [OF b, of pre post] p True d c by (simp add: fix_jump_def)
  next
    case c: False
    then have "relink f p q b = b" using rel untag_tag [OF w(2) w(1)] by (simp add: jump_operand_def)
    then show ?thesis using instruction_hd(2) [OF b, of pre post] p True d c by (simp add: fix_jump_def)
  qed
qed

lemma relink_length: 
  assumes "instruction b"
  shows "opcode_length (relink f p q b) 0 = Some (int (length b))"
  using assms jump_operand_in_range(4) [OF assms] by (auto simp: relink_def instruction_def)

lemma fix_jumps_blocks:
  assumes "instructions p bs" and "p = int (length pre)" and "limit = p + int (length (concat bs))"
    and "\<And>t. f t - q = t - p + (if cond t then delta else 0)"
  shows "fix_jumps cond delta limit p (pre @ concat bs @ post) = Some (pre @ concat (relink_all f p q bs) @ post)"
  using assms
proof (induction bs arbitrary: p q pre)
  case Nil
  then show ?case by (subst fix_jumps.simps) simp
next
  case (Cons b bs)
  then have b: "instruction b" "opcode_can_jump (hd b) \<longrightarrow> 0 \<le> target p b \<and> target p b < 2 ^ 63"
    "instructions (p + int (length b)) bs" by auto
  have ne: "0 < int (length b)" using instruction_nonempty [OF b(1)] by simp
  have 1: "fix_jump cond delta p (pre @ b @ concat bs @ post) = Some (pre @ relink f p q b @ concat bs @ post)"
    by (rule fix_jump_middle [OF b(1) Cons.prems(2) b(2) Cons.prems(4)])
  have 2: "opcode_length (pre @ relink f p q b @ concat bs @ post) p = Some (int (length b))"
    using opcode_length_middle [OF relink_length [OF b(1)], where pre = pre and post = "concat bs @ post"] Cons.prems(2) by simp
  have 3: "fix_jumps cond delta limit (p + int (length b)) ((pre @ relink f p q b) @ concat bs @ post)
      = Some ((pre @ relink f p q b) @ concat (relink_all f (p + int (length b)) (q + int (length b)) bs) @ post)"
    by (rule Cons.IH) (use b Cons.prems in auto)
  have "p < limit" using Cons.prems(3) ne by (simp add: add_pos_nonneg)
  with 1 2 3 show ?case by (subst fix_jumps.simps) simp
qed


text \<open>
  C14. Deleting whole instructions at a boundary keeps every jump consistent: targets beyond
  the place move back by the length deleted.
\<close>

theorem optimizer_delete_code_spec:
  assumes xs: "instructions 0 xs" and ys: "instructions off (del @ ys)" and off: "off = int (length (concat xs))"
    and ne: "del \<noteq> []"
  defines "n \<equiv> int (length (concat del))"
  shows "optimizer_delete_code (concat xs @ concat del @ concat ys) off n =
    Some (concat (relink_all (\<lambda>t. if t > off then t - n else t) 0 0 xs)
        @ concat (relink_all (\<lambda>t. if t \<le> off then t else t - n) (off + n) off ys))"
proof -
  let ?f = "\<lambda>t. if t > off then t - n else t" and ?g = "\<lambda>t. if t \<le> off then t else t - n"
  have 1: "fix_jumps (\<lambda>t. t > off) (- n) off 0 ([] @ concat xs @ concat (del @ ys))
      = Some ([] @ concat (relink_all ?f 0 0 xs) @ concat (del @ ys))"
    by (rule fix_jumps_blocks) (use xs off in auto)
  let ?xs = "concat (relink_all ?f 0 0 xs)"
  have 2: "fix_jumps (\<lambda>t. t \<le> off) n (off + int (length (concat (del @ ys)))) off (?xs @ concat (del @ ys) @ [])
      = Some (?xs @ concat (relink_all ?g off (off - n) (del @ ys)) @ [])"
    by (rule fix_jumps_blocks) (use ys off in \<open>auto\<close>)
  have app: "relink_all f p q (us @ vs) = relink_all f p q us
      @ relink_all f (p + int (length (concat us))) (q + int (length (concat us))) vs" for f p q us vs
    by (induction us arbitrary: p q) (simp_all add: add.assoc)
  obtain d ds where del: "del = d # ds" using ne by (cases del) auto
  then have "instruction d" using ys by simp
  then have "0 < n" using instruction_nonempty [of d] del by (simp add: n_def add_pos_nonneg)
  moreover from this have "0 < int (length (concat del)) + int (length (concat ys))" unfolding n_def by linarith
  moreover have "int (length (?xs @ concat (del @ ys))) = off + int (length (concat (del @ ys)))" using off by simp
  moreover have "drop (nat (off + n)) (?xs @ concat (relink_all ?g off (off - n) (del @ ys)))
      = concat (relink_all ?g (off + n) off ys)"
    using off by (simp add: app n_def nat_add_distrib)
  moreover have "take (nat off) (?xs @ zs) = ?xs" for zs using off by simp
  ultimately show ?thesis
    using 1 2 off by (simp add: optimizer_delete_code_def n_def)
qed

text \<open>What a relinked instruction means: its jump goes where \<open>f\<close> says.\<close>

lemma relink_target:
  assumes b: "instruction b" and j: "opcode_can_jump (hd b)"
    and r: "small_range (f (target p b) - q - int (length b) - opcode_jump_adjustment (hd b))"
  shows "target q (relink f p q b) = f (target p b)" "hd (relink f p q b) = hd b"
proof -
  note J = jump_operand_in_range [OF b j]
  show h: "hd (relink f p q b) = hd b" using j J(3) by (simp add: relink_def)
  have "jump_operand (relink f p q b) = f (target p b) - q - int (length b) - opcode_jump_adjustment (hd b)"
    unfolding jump_operand_def h using j J r by (simp add: relink_def tag_untag)
  then show "target q (relink f p q b) = f (target p b)" by (simp add: target_def h)
qed

section \<open>Properties\<close>


theorem optimizer_delete_code_spec_witness:
  "optimizer_delete_code [37, 7, 45, 1, 45, 3] 2 2 = Some [37, 3, 45, 3]"
proof -
  have "instructions 0 [[37, 7]]" "instructions 2 ([[45, 1]] @ [[45, 3]])" by code_simp+
  from optimizer_delete_code_spec [OF this]
  have "optimizer_delete_code [37, 7, 45, 1, 45, 3] 2 2 =
      Some (concat (relink_all (\<lambda>t. if t > 2 then t - 2 else t) 0 0 [[37, 7]])
        @ concat (relink_all (\<lambda>t. if t \<le> 2 then t else t - 2) 4 2 [[45, 3]]))" by (simp cong: if_cong)
  also have "\<dots> = Some [37, 3, 45, 3]" by code_simp
  finally show ?thesis .
qed


end
