(* ===== verification/Methods.thy ===== *)
theory Methods
  imports Dispatch Optimizer
begin

text \<open>
  Compiled methods (method.cpp, optimizer.cpp): the polymorphic inline caches (PICs) of the
  callers, the inliner with its heap side, removal of optimised code, and the definition
  of a method on the roles of its arguments.
\<close>

section \<open>Fields of compiled methods\<close>

definition cm_method :: "mem \<Rightarrow> addr \<Rightarrow> addr" where "cm_method m p = rd m p 4"
definition cm_selector :: "mem \<Rightarrow> addr \<Rightarrow> oop" where "cm_selector m p = rd m p 5"
definition cm_inputVariables :: "mem \<Rightarrow> addr \<Rightarrow> oop" where "cm_inputVariables m p = rd m p 6"
definition cm_localVariables :: "mem \<Rightarrow> addr \<Rightarrow> oop" where "cm_localVariables m p = rd m p 7"
definition cm_restVariable :: "mem \<Rightarrow> addr \<Rightarrow> oop" where "cm_restVariable m p = rd m p 8"
definition cm_optionalKeywords :: "mem \<Rightarrow> addr \<Rightarrow> addr" where "cm_optionalKeywords m p = rd m p 9"
definition cm_heapAllocate :: "mem \<Rightarrow> addr \<Rightarrow> oop" where "cm_heapAllocate m p = rd m p 10"
definition cm_environment :: "mem \<Rightarrow> addr \<Rightarrow> oop" where "cm_environment m p = rd m p 11"
definition cm_selectors :: "mem \<Rightarrow> addr \<Rightarrow> addr" where "cm_selectors m p = rd m p 13"
definition cm_code :: "mem \<Rightarrow> addr \<Rightarrow> addr" where "cm_code m p = rd m p 14"
definition cm_isInlined :: "mem \<Rightarrow> addr \<Rightarrow> oop" where "cm_isInlined m p = rd m p 17"
definition cm_oldCode :: "mem \<Rightarrow> addr \<Rightarrow> oop" where "cm_oldCode m p = rd m p 18"
definition cm_callCount :: "mem \<Rightarrow> addr \<Rightarrow> oop" where "cm_callCount m p = rd m p 19"
definition cm_calleeCount :: "mem \<Rightarrow> addr \<Rightarrow> oop" where "cm_calleeCount m p = rd m p 20"
definition cm_registerCount :: "mem \<Rightarrow> addr \<Rightarrow> oop" where "cm_registerCount m p = rd m p 21"
definition cm_cachedInCallers :: "mem \<Rightarrow> addr \<Rightarrow> oop" where "cm_cachedInCallers m p = rd m p 22"
definition cm_cachedInCallersCount :: "mem \<Rightarrow> addr \<Rightarrow> oop" where "cm_cachedInCallersCount m p = rd m p 23"
definition cm_nextInlineAtCallCount :: "mem \<Rightarrow> addr \<Rightarrow> oop" where "cm_nextInlineAtCallCount m p = rd m p 24"

lemmas cm_defs = cm_method_def cm_selector_def cm_inputVariables_def cm_localVariables_def cm_restVariable_def
  cm_optionalKeywords_def cm_heapAllocate_def cm_environment_def cm_selectors_def cm_code_def cm_isInlined_def
  cm_oldCode_def cm_callCount_def cm_calleeCount_def cm_registerCount_def cm_cachedInCallers_def
  cm_cachedInCallersCount_def cm_nextInlineAtCallCount_def

text \<open>\<open>PrimitiveMethod\<close>: the index in the table of primitives, and the selector.\<close>

definition pm_index :: "mem \<Rightarrow> addr \<Rightarrow> oop" where "pm_index m p = rd m p 4"
definition pm_selector :: "mem \<Rightarrow> addr \<Rightarrow> oop" where "pm_selector m p = rd m p 5"

text \<open>The first delegate of the map tells what kind of method an object is.\<close>

definition traitsWindow :: "mem \<Rightarrow> addr \<Rightarrow> oop" where
  "traitsWindow m x = elements m (map_delegates m (object_map m x)) 0"

text \<open>A new array of the prototype array, and the copy of words of the C side into an object.\<close>

definition new_array :: "object_heap \<Rightarrow> word_t \<Rightarrow> (addr \<times> object_heap) option" where
  "new_array oh n = heap_clone_oop_array_sized oh (get_special oh SPECIAL_OOP_ARRAY_PROTO) n"

definition put_words :: "object_heap \<Rightarrow> addr \<Rightarrow> nat \<Rightarrow> word_t list \<Rightarrow> object_heap" where
  "put_words oh p k ws = oh\<lparr>mem := (mem oh)(p := (\<lambda>j.
     if k \<le> j \<and> j < k + length ws then ws ! (j - k) else rd (mem oh) p j))\<rparr>"

lemma rd_put_words [simp, vm_simps]:
  "rd (mem (put_words oh p k ws)) q j =
     (if q = p \<and> k \<le> j \<and> j < k + length ws then ws ! (j - k) else rd (mem oh) q j)"
  by (simp add: put_words_def rd_def)

text \<open>\<open>x > (struct Object* )n\<close> for a small constant: pointers compare unsigned.\<close>

definition pointer_above :: "oop \<Rightarrow> int \<Rightarrow> bool" where
  "pointer_above x n \<longleftrightarrow> x < 0 \<or> x > n"

section \<open>The call stack\<close>

definition i_stack :: "object_heap \<Rightarrow> addr" where "i_stack oh = rd (mem oh) (c_interpreter oh) 4"
definition i_method :: "object_heap \<Rightarrow> addr" where "i_method oh = rd (mem oh) (c_interpreter oh) 5"
definition i_closure :: "object_heap \<Rightarrow> addr" where "i_closure oh = rd (mem oh) (c_interpreter oh) 6"
definition i_lexicalContext :: "object_heap \<Rightarrow> addr" where "i_lexicalContext oh = rd (mem oh) (c_interpreter oh) 7"
definition i_ensureHandlers :: "object_heap \<Rightarrow> oop" where "i_ensureHandlers oh = rd (mem oh) (c_interpreter oh) 8"
definition i_framePointer :: "object_heap \<Rightarrow> word_t" where "i_framePointer oh = rd (mem oh) (c_interpreter oh) 9"
definition i_codePointer :: "object_heap \<Rightarrow> word_t" where "i_codePointer oh = rd (mem oh) (c_interpreter oh) 10"
definition i_codeSize :: "object_heap \<Rightarrow> word_t" where "i_codeSize oh = rd (mem oh) (c_interpreter oh) 11"
definition i_stackPointer :: "object_heap \<Rightarrow> word_t" where "i_stackPointer oh = rd (mem oh) (c_interpreter oh) 12"
definition i_stackSize :: "object_heap \<Rightarrow> word_t" where "i_stackSize oh = rd (mem oh) (c_interpreter oh) 13"

lemmas i_defs = i_stack_def i_method_def i_closure_def i_lexicalContext_def i_ensureHandlers_def
  i_framePointer_def i_codePointer_def i_codeSize_def i_stackPointer_def i_stackSize_def

definition stack_at :: "object_heap \<Rightarrow> word_t \<Rightarrow> oop" where
  "stack_at oh k = elements (mem oh) (i_stack oh) k"

partial_function (option) on_call_stack_loop :: "object_heap \<Rightarrow> addr \<Rightarrow> word_t \<Rightarrow> addr \<Rightarrow> bool option" where
  "on_call_stack_loop oh aMethod fp closure =
     (if cm_method (mem oh) closure = aMethod then Some True
      else let fp = object_to_smallint (stack_at oh (fp - FRAME_OFFSET_PREVIOUS_FRAME_POINTER)) in
        if fp < FUNCTION_FRAME_SIZE then Some False
        else on_call_stack_loop oh aMethod fp (stack_at oh (fp - FRAME_OFFSET_METHOD)))"

declare on_call_stack_loop.simps [code]

text \<open>
  The loop ends by the \<open>break\<close>, where the last closure has been compared already, so the
  comparison after it answers false.
\<close>

definition method_on_call_stack :: "object_heap \<Rightarrow> addr \<Rightarrow> bool option" where
  "method_on_call_stack oh aMethod = on_call_stack_loop oh aMethod (i_framePointer oh) (i_method oh)"

section \<open>Code that can be optimised or inlined\<close>

text \<open>\<open>optimizer_append_code_to_vector\<close>.\<close>

definition optimizer_append_code_to_vector :: "mem \<Rightarrow> addr \<Rightarrow> word_t list option" where
  "optimizer_append_code_to_vector m code = do {
     n \<leftarrow> object_array_size m code;
     Some (map (elements m code) [0..n - 1]) }"

text \<open>No instruction of the code has an opcode of the list.\<close>

partial_function (option) code_avoids :: "word_t list \<Rightarrow> opcode list \<Rightarrow> int \<Rightarrow> bool option" where
  "code_avoids code ops i =
     (if i < int (length code) then do {
        w \<leftarrow> code_at code i;
        if w \<in> op_word ` set ops then Some False
        else do { n \<leftarrow> opcode_length code i; code_avoids code ops (i + n) } }
      else Some True)"

declare code_avoids.simps [code]

definition optimizer_method_can_be_optimized :: "object_heap \<Rightarrow> addr \<Rightarrow> bool option" where
  "optimizer_method_can_be_optimized oh aMethod =
     (let m = mem oh in
      if cm_heapAllocate m aMethod = c_true_object oh then Some False
      else if cm_restVariable m aMethod = c_true_object oh then Some False
      else if traitsWindow m aMethod = c_primitive_method_window oh then Some False
      else do {
        k \<leftarrow> object_array_size m (cm_optionalKeywords m aMethod);
        if k \<noteq> 0 then Some False
        else do {
          code \<leftarrow> optimizer_append_code_to_vector m (cm_code m aMethod);
          if int (length code) > INLINER_MAX_METHOD_SIZE then Some False
          else code_avoids code [OP_BRANCH_KEYED] 0 } })"

definition optimizer_method_can_be_inlined :: "object_heap \<Rightarrow> addr \<Rightarrow> bool option" where
  "optimizer_method_can_be_inlined oh aMethod =
     (let m = mem oh in
      if cm_heapAllocate m aMethod = c_true_object oh then Some False
      else if cm_restVariable m aMethod = c_true_object oh then Some False
      else if traitsWindow m aMethod = c_primitive_method_window oh then Some True
      else do {
        k \<leftarrow> object_array_size m (cm_optionalKeywords m aMethod);
        if k \<noteq> 0 then Some False
        else do {
          code \<leftarrow> optimizer_append_code_to_vector m (cm_code m aMethod);
          if int (length code) > INLINER_MAX_INLINE_SIZE then Some False
          else code_avoids code [OP_RESEND_MESSAGE, OP_RESUME, OP_RETURN_FROM, OP_BRANCH_KEYED,
                 OP_STORE_FREE_VARIABLE, OP_LOAD_FREE_VARIABLE] 0 } })"

definition optimizer_remove_redundant_ops :: "object_heap \<Rightarrow> addr \<Rightarrow> word_t list \<Rightarrow> word_t list option" where
  "optimizer_remove_redundant_ops oh aMethod code =
     (if cm_heapAllocate (mem oh) aMethod = c_true_object oh then Some code
      else remove_redundant_loop 0 code)"

text \<open>
  The entries of the PIC for a selector, as their first index, the most called first.
  \<open>std::sort\<close> may order entries of the same count either way; the model keeps them in the
  order of the array.
\<close>

definition optimizer_commonly_called_implementations :: "object_heap \<Rightarrow> addr \<Rightarrow> oop \<Rightarrow> int list option" where
  "optimizer_commonly_called_implementations oh aMethod selector =
     (let m = mem oh; pic = cm_calleeCount m aMethod in
      if pic = c_nil oh then Some []
      else do {
        n \<leftarrow> object_array_size m pic;
        entries \<leftarrow> fold_opt (\<lambda>es i.
            let d = elements m pic (i + PIC_CALLEE); picMethod = def_method m d in
            if d = c_nil oh then Some es
            else do {
              check (traitsWindow m picMethod = c_compiled_method_window oh \<or>
                     traitsWindow m picMethod = c_primitive_method_window oh);
              Some (if selector \<noteq> cm_selector m picMethod then es else es @ [i]) })
          (map (\<lambda>k. k * CALLER_PIC_ENTRY_SIZE) [0..(n + CALLER_PIC_ENTRY_SIZE - 1) div CALLER_PIC_ENTRY_SIZE - 1]) [];
        fold_opt (\<lambda>es i. do {
            good \<leftarrow> optimizer_method_can_be_inlined oh (def_method m (elements m pic (i + PIC_CALLEE)));
            Some (if good then es @ [i] else es) })
          (sort_key (\<lambda>i. - elements m pic (i + PIC_CALLEE_COUNT)) entries) [] })"

section \<open>The inliner\<close>

text \<open>
  Sends that earlier inlining left behind a check become internal, so that they get no
  second check. The distances of both checks have adjustment 0.
\<close>

definition mark_inlined_sends :: "int \<Rightarrow> word_t list \<Rightarrow> word_t list option" where
  "mark_inlined_sends i code = do {
     op \<leftarrow> code_at code i;
     code \<leftarrow>
       if op = op_word OP_INLINE_PRIMITIVE_CHECK then do {
         jumpAmount \<leftarrow> small_at code (i + opcode_jump_offset op);
         n \<leftarrow> opcode_length code i;
         let j = i + n + jumpAmount;
         plainSendLocation \<leftarrow> optimizer_op_location_before code j;
         send \<leftarrow> code_at code plainSendLocation;
         check (plainSendLocation < j \<and> (send = op_word OP_SEND \<or> send = op_word OP_INTERNAL_SEND));
         Some (if send = op_word OP_SEND then code[nat plainSendLocation := op_word OP_INTERNAL_SEND] else code) }
       else Some code;
     if op = op_word OP_INLINE_METHOD_CHECK then do {
       jumpAmount \<leftarrow> small_at code (i + opcode_jump_offset op);
       n \<leftarrow> opcode_length code i;
       let j = i + n + jumpAmount;
       send \<leftarrow> code_at code j;
       Some (if send = op_word OP_SEND then code[nat j := op_word OP_INTERNAL_SEND] else code) }
     else Some code }"

definition send_operands :: "word_t list \<Rightarrow> int \<Rightarrow> int \<Rightarrow> word_t list option" where
  "send_operands code i arity =
     fold_opt (\<lambda>ws g. do { w \<leftarrow> code_at code (i + 4 + g); Some (ws @ [w]) }) [0..arity - 1] []"

text \<open>The code that replaces a call of a compiled method: the check, the moves and the body.\<close>

definition inline_method_code ::
  "object_heap \<Rightarrow> addr \<Rightarrow> oop \<Rightarrow> word_t list \<Rightarrow> int \<Rightarrow> int \<Rightarrow> int \<Rightarrow> int \<Rightarrow> word_t list option" where
  "inline_method_code oh cmethod aMaps code i resultReg arity newRegisterCount = do {
     n \<leftarrow> opcode_length code i;
     params \<leftarrow> send_operands code i arity;
     let preludeMoveRegisters = concat (map (\<lambda>g.
           [op_word OP_MOVE_REGISTER, smallint_to_object (int g + newRegisterCount), params ! g]) [0..<length params]);
     codeToInsert \<leftarrow> optimizer_append_code_to_vector (mem oh)
       (if cm_oldCode (mem oh) cmethod \<noteq> c_nil oh then cm_oldCode (mem oh) cmethod else cm_code (mem oh) cmethod);
     codeToInsert \<leftarrow> optimizer_offset_registers codeToInsert newRegisterCount;
     codeToInsert \<leftarrow> optimizer_remove_redundant_ops oh cmethod codeToInsert;
     codeToInsert \<leftarrow> optimizer_insert_code codeToInsert 0 preludeMoveRegisters;
     codeToInsert \<leftarrow> optimizer_change_returns_to_jumps codeToInsert resultReg n;
     Some ([op_word OP_INLINE_METHOD_CHECK, aMaps, smallint_to_object arity,
            smallint_to_object (int (length codeToInsert))] @ params @ codeToInsert) }"

definition inline_primitive_code :: "object_heap \<Rightarrow> addr \<Rightarrow> oop \<Rightarrow> word_t list \<Rightarrow> int \<Rightarrow> int \<Rightarrow> int \<Rightarrow> word_t list option" where
  "inline_primitive_code oh pmethod aMaps code i resultReg arity = do {
     n \<leftarrow> opcode_length code i;
     params \<leftarrow> send_operands code i arity;
     Some ([op_word OP_INLINE_PRIMITIVE_CHECK, smallint_to_object resultReg, aMaps, pm_index (mem oh) pmethod,
            smallint_to_object arity, smallint_to_object n] @ params) }"

text \<open>One implementation from the PIC, inserted before the send at \<open>i\<close>.\<close>

definition inline_implementation ::
  "object_heap \<Rightarrow> addr \<Rightarrow> int \<Rightarrow> int \<Rightarrow> (word_t list \<times> int \<times> int) \<Rightarrow> int \<Rightarrow> (word_t list \<times> int \<times> int) option" where
  "inline_implementation oh pic resultReg arity st entry =
     (case st of (code, i, newRegisterCount) \<Rightarrow>
      let m = mem oh; callee = def_method m (elements m pic (entry + PIC_CALLEE));
          aMaps = elements m pic (entry + PIC_CALLEE_MAPS) in
      if traitsWindow m callee = c_compiled_method_window oh then do {
        inserted \<leftarrow> inline_method_code oh callee aMaps code i resultReg arity newRegisterCount;
        code \<leftarrow> optimizer_insert_code code i inserted;
        Some (code, i + int (length inserted), newRegisterCount + object_to_smallint (cm_registerCount m callee)) }
      else if traitsWindow m callee = c_primitive_method_window oh then do {
        inserted \<leftarrow> inline_primitive_code oh callee aMaps code i resultReg arity;
        code \<leftarrow> optimizer_insert_code code i inserted;
        Some (code, i + int (length inserted), newRegisterCount) }
      else None)"

definition inline_send ::
  "object_heap \<Rightarrow> addr \<Rightarrow> word_t list \<Rightarrow> int \<Rightarrow> int \<Rightarrow> (word_t list \<times> int \<times> int) option" where
  "inline_send oh aMethod code i newRegisterCount = do {
     let code = code[nat i := op_word OP_INTERNAL_SEND];
     resultReg \<leftarrow> small_at code (i + 1);
     selector \<leftarrow> code_at code (i + 2);
     arity \<leftarrow> small_at code (i + 3);
     entries \<leftarrow> optimizer_commonly_called_implementations oh aMethod selector;
     fold_opt (inline_implementation oh (cm_calleeCount (mem oh) aMethod) resultReg arity)
       (take 3 entries) (code, i, newRegisterCount) }"

partial_function (option) inline_loop ::
  "object_heap \<Rightarrow> addr \<Rightarrow> word_t list \<Rightarrow> int \<Rightarrow> int \<Rightarrow> (word_t list \<times> int) option" where
  "inline_loop oh aMethod code i newRegisterCount =
     (if i < int (length code) then do {
        code \<leftarrow> mark_inlined_sends i code;
        op \<leftarrow> code_at code i;
        (code, i, newRegisterCount) \<leftarrow>
          if op \<noteq> op_word OP_SEND then Some (code, i, newRegisterCount)
          else inline_send oh aMethod code i newRegisterCount;
        n \<leftarrow> opcode_length code i;
        inline_loop oh aMethod code (i + n) newRegisterCount }
      else Some (code, newRegisterCount))"

declare inline_loop.simps [code]

definition optimizer_inline_callees :: "object_heap \<Rightarrow> addr \<Rightarrow> object_heap option" where
  "optimizer_inline_callees oh aMethod = do {
     code \<leftarrow> optimizer_append_code_to_vector (mem oh) (cm_code (mem oh) aMethod);
     (code, newRegisterCount) \<leftarrow> inline_loop oh aMethod code 0 (object_to_smallint (cm_registerCount (mem oh) aMethod));
     code \<leftarrow> optimizer_remove_redundant_ops oh aMethod code;
     code \<leftarrow> optimizer_remove_internal_ops code;
     (newCode, oh) \<leftarrow> new_array oh (int (length code));
     let oh = put_words oh newCode 4 code;
     let oh = upd oh aMethod 14 newCode;
     let oh = upd oh aMethod 21 (smallint_to_object newRegisterCount);
     heap_store_into oh aMethod newCode }"

section \<open>Optimising and unoptimising a method\<close>

definition method_unoptimize :: "object_heap \<Rightarrow> addr \<Rightarrow> object_heap option" where
  "method_unoptimize oh aMethod = do {
     active \<leftarrow> method_on_call_stack oh aMethod;
     if active then Some oh
     else do {
       let oh = upd oh aMethod 14 (cm_oldCode (mem oh) aMethod);
       oh \<leftarrow> heap_store_into oh (cm_code (mem oh) aMethod) (cm_oldCode (mem oh) aMethod);
       let oh = upd oh aMethod 17 (c_false_object oh);
       let oh = upd oh aMethod 20 (c_nil oh);
       let oh = upd oh aMethod 19 (smallint_to_object 0);
       Some (oh\<lparr>optimizedMethods := filter_mset (\<lambda>x. x \<noteq> aMethod) (optimizedMethods oh)\<rparr>) } }"

definition sends_selector :: "mem \<Rightarrow> addr \<Rightarrow> oop \<Rightarrow> bool option" where
  "sends_selector m aMethod symbol =
     (if cm_selector m aMethod = symbol then Some True
      else do {
        n \<leftarrow> object_array_size m (cm_selectors m aMethod);
        Some (symbol \<in> elements m (cm_selectors m aMethod) ` {0..<n}) })"

text \<open>
  \<open>method_remove_optimized_sending\<close> erases from the multiset it iterates over; erasing the
  element of the iterator makes \<open>i++\<close> undefined. In the model every element is visited once.
\<close>

definition method_remove_optimized_sending :: "object_heap \<Rightarrow> oop \<Rightarrow> object_heap option" where
  "method_remove_optimized_sending oh symbol =
     fold_opt (\<lambda>oh aMethod. do {
         sends \<leftarrow> sends_selector (mem oh) aMethod symbol;
         if sends then method_unoptimize oh aMethod else Some oh })
       (sorted_list_of_multiset (optimizedMethods oh)) oh"

definition method_optimize :: "object_heap \<Rightarrow> addr \<Rightarrow> object_heap option" where
  "method_optimize oh aMethod =
     (if object_is_young oh aMethod then Some oh
      else do {
        active \<leftarrow> method_on_call_stack oh aMethod;
        if active then Some oh
        else do {
          good \<leftarrow> optimizer_method_can_be_optimized oh aMethod;
          if \<not> good then
            Some (upd (upd (upd oh aMethod 17 (c_true_object oh)) aMethod 18 (cm_code (mem oh) aMethod)) aMethod 24 (c_nil oh))
          else do {
            oh \<leftarrow> if cm_oldCode (mem oh) aMethod = c_nil oh then do {
                let oh = upd oh aMethod 18 (cm_code (mem oh) aMethod);
                heap_store_into oh (cm_oldCode (mem oh) aMethod) (cm_code (mem oh) aMethod) }
              else Some oh;
            oh \<leftarrow> heap_store_into oh (cm_oldCode (mem oh) aMethod) (cm_code (mem oh) aMethod);
            let oh = upd oh aMethod 17 (c_true_object oh);
            let oh = oh\<lparr>optimizedMethods := add_mset aMethod (optimizedMethods oh)\<rparr>;
            optimizer_inline_callees oh aMethod } } })"

section \<open>Polymorphic inline caches\<close>

definition method_pic_setup :: "object_heap \<Rightarrow> addr \<Rightarrow> object_heap option" where
  "method_pic_setup oh caller = do {
     (new, oh) \<leftarrow> new_array oh (CALLER_PIC_SIZE * CALLER_PIC_ENTRY_SIZE);
     let oh = upd oh caller 20 new;
     heap_store_into oh caller new }"

text \<open>The first entry to look at; a PIC of fewer than four words divides by zero.\<close>

definition method_pic_hash :: "object_heap \<Rightarrow> addr \<Rightarrow> oop list \<Rightarrow> int option" where
  "method_pic_hash oh callerMethod args = do {
     arraySize \<leftarrow> object_array_size (mem oh) (cm_calleeCount (mem oh) callerMethod);
     check (arraySize div CALLER_PIC_ENTRY_SIZE \<noteq> 0);
     Some ((hash_selector oh 0 args mod (arraySize div CALLER_PIC_ENTRY_SIZE)) * CALLER_PIC_ENTRY_SIZE) }"

text \<open>The entries in the order of the two loops, and the first empty one.\<close>

definition pic_entries :: "int \<Rightarrow> int \<Rightarrow> int list" where
  "pic_entries entryStart arraySize =
     map (\<lambda>k. k * CALLER_PIC_ENTRY_SIZE) (cyclic (entryStart div CALLER_PIC_ENTRY_SIZE)
       ((arraySize + CALLER_PIC_ENTRY_SIZE - 1) div CALLER_PIC_ENTRY_SIZE))"

definition pic_method_selector :: "object_heap \<Rightarrow> addr \<Rightarrow> oop" where
  "pic_method_selector oh closure =
     (if traitsWindow (mem oh) closure = c_primitive_method_window oh then pm_selector (mem oh) closure
      else cm_selector (mem oh) (cm_method (mem oh) closure))"

definition method_pic_match_selector ::
  "object_heap \<Rightarrow> addr \<Rightarrow> int \<Rightarrow> oop \<Rightarrow> oop list \<Rightarrow> bool \<Rightarrow> (addr option \<times> object_heap)" where
  "method_pic_match_selector oh pic entry selector args incrementWhenFound =
     (let m = mem oh; callee = elements m pic (entry + PIC_CALLEE) in
      if pic_method_selector oh (def_method m callee) = selector
         \<and> object_to_smallint (elements m pic (entry + PIC_CALLEE_ARITY)) = int (length args)
         \<and> (\<forall>j\<in>set [0..<length args].
              elements m (elements m pic (entry + PIC_CALLEE_MAPS)) (int j) = object_get_map oh (args ! j))
      then (Some callee,
            if incrementWhenFound
            then upd oh pic (nat (4 + entry + PIC_CALLEE_COUNT))
              (smallint_to_object (object_to_smallint (elements m pic (entry + PIC_CALLEE_COUNT)) + 1))
            else oh)
      else (None, oh))"

fun pic_find :: "object_heap \<Rightarrow> addr \<Rightarrow> oop \<Rightarrow> oop list \<Rightarrow> int list \<Rightarrow> (addr option \<times> object_heap)" where
  "pic_find oh pic selector args [] = (None, oh)"
| "pic_find oh pic selector args (i # is) =
     (if elements (mem oh) pic (i + PIC_CALLEE) = c_nil oh then (None, oh)
      else case method_pic_match_selector oh pic i selector args True of
        (Some d, oh) \<Rightarrow> (Some d, oh)
      | (None, oh) \<Rightarrow> pic_find oh pic selector args is)"

text \<open>\<open>retval\<close> is a pinned variable: the callee found is pinned and unpinned again.\<close>

definition method_pic_find_callee :: "object_heap \<Rightarrow> addr \<Rightarrow> oop \<Rightarrow> oop list \<Rightarrow> (addr option \<times> object_heap) option" where
  "method_pic_find_callee oh callerMethod selector args = do {
     let pic = cm_calleeCount (mem oh) callerMethod;
     arraySize \<leftarrow> object_array_size (mem oh) pic;
     entryStart \<leftarrow> method_pic_hash oh callerMethod args;
     let (found, oh) = pic_find oh pic selector args (pic_entries entryStart arraySize);
     case found of
       None \<Rightarrow> Some (None, oh)
     | Some d \<Rightarrow> do { oh \<leftarrow> pinned_assign oh 0 d; Some (Some d, pinned_end oh d) } }"

text \<open>The maps of the arguments go into a new array, one by one.\<close>

definition put_map :: "addr \<Rightarrow> oop list \<Rightarrow> object_heap \<Rightarrow> nat \<Rightarrow> object_heap option" where
  "put_map arr args oh j =
     (let oh = upd oh arr (4 + j) (object_get_map oh (args ! j)) in
      heap_store_into oh arr (elements (mem oh) arr (int j)))"

definition method_pic_insert :: "object_heap \<Rightarrow> addr \<Rightarrow> int \<Rightarrow> addr \<Rightarrow> oop list \<Rightarrow> object_heap option" where
  "method_pic_insert oh pic entry def args = do {
     let oh = upd oh pic (nat (4 + entry + PIC_CALLEE)) def;
     let oh = upd oh pic (nat (4 + entry + PIC_CALLEE_ARITY)) (smallint_to_object (int (length args)));
     let oh = upd oh pic (nat (4 + entry + PIC_CALLEE_COUNT)) (smallint_to_object 1);
     (arr, oh) \<leftarrow> new_array oh (int (length args));
     let oh = upd oh pic (nat (4 + entry + PIC_CALLEE_MAPS)) arr;
     oh \<leftarrow> heap_store_into oh pic (elements (mem oh) pic (entry + PIC_CALLEE));
     oh \<leftarrow> heap_store_into oh pic arr;
     fold_opt (put_map arr args) [0..<length args] oh }"

definition method_pic_flush_caller_pics :: "object_heap \<Rightarrow> addr \<Rightarrow> object_heap option" where
  "method_pic_flush_caller_pics oh callee = do {
     let callee = (if traitsWindow (mem oh) callee = c_closure_method_window oh then cm_method (mem oh) callee else callee);
     check (traitsWindow (mem oh) callee = c_compiled_method_window oh);
     if \<not> object_is_smallint (cm_cachedInCallersCount (mem oh) callee) then Some oh
     else fold_opt (\<lambda>oh i. method_pic_setup oh (elements (mem oh) (cm_cachedInCallers (mem oh) callee) i))
       [0..object_to_smallint (cm_cachedInCallersCount (mem oh) callee) - 1] oh }"

definition grow_cached_in_callers :: "object_heap \<Rightarrow> addr \<Rightarrow> object_heap option" where
  "grow_cached_in_callers oh callee = do {
     n \<leftarrow> object_array_size (mem oh) (cm_cachedInCallers (mem oh) callee);
     if object_to_smallint (cm_cachedInCallersCount (mem oh) callee) \<ge> n then do {
       (newArray, oh) \<leftarrow> new_array oh (n * 2);
       let oh = oh\<lparr>mem := copy_words_into (mem oh) (cm_cachedInCallers (mem oh) callee) 4 (nat n) newArray 4\<rparr>;
       let oh = upd oh callee 22 newArray;
       heap_store_into oh callee newArray }
     else Some oh }"

definition method_pic_add_callee_backreference :: "object_heap \<Rightarrow> addr \<Rightarrow> addr \<Rightarrow> object_heap option" where
  "method_pic_add_callee_backreference oh caller callee = do {
     let callee = (if traitsWindow (mem oh) callee = c_closure_method_window oh then cm_method (mem oh) callee else callee);
     if traitsWindow (mem oh) callee = c_primitive_method_window oh then Some oh
     else do {
       check (traitsWindow (mem oh) callee = c_compiled_method_window oh);
       oh \<leftarrow> if cm_cachedInCallers (mem oh) callee = c_nil oh then do {
           (arr, oh) \<leftarrow> new_array oh 32;
           oh \<leftarrow> heap_store_into (upd oh callee 22 arr) callee arr;
           Some (upd oh callee 23 (smallint_to_object 0)) }
         else Some oh;
       oh \<leftarrow> grow_cached_in_callers oh callee;
       let arr = cm_cachedInCallers (mem oh) callee;
       let k = object_to_smallint (cm_cachedInCallersCount (mem oh) callee);
       oh \<leftarrow> heap_store_into (upd oh arr (nat (4 + k)) caller) arr caller;
       Some (upd oh callee 23 (smallint_to_object (k + 1))) } }"

text \<open>
  The first loop pins the array over the insertion, the second one does not (its entries
  come before the start).
\<close>

definition method_pic_add_callee :: "object_heap \<Rightarrow> addr \<Rightarrow> addr \<Rightarrow> oop list \<Rightarrow> object_heap option" where
  "method_pic_add_callee oh callerMethod def args = do {
     let pic = cm_calleeCount (mem oh) callerMethod;
     arraySize \<leftarrow> object_array_size (mem oh) pic;
     entryStart \<leftarrow> method_pic_hash oh callerMethod args;
     case List.find (\<lambda>i. elements (mem oh) pic (i + PIC_CALLEE) = c_nil oh) (pic_entries entryStart arraySize) of
       None \<Rightarrow> Some oh
     | Some i \<Rightarrow> do {
         oh \<leftarrow> if i \<ge> entryStart then pinned_assign oh 0 pic else Some oh;
         oh \<leftarrow> method_pic_insert oh pic i def args;
         let defMethod = def_method (mem oh) def;
         oh \<leftarrow> pinned_assign oh 0 defMethod;
         oh \<leftarrow> method_pic_add_callee_backreference oh callerMethod defMethod;
         let oh = pinned_end oh defMethod;
         Some (if i \<ge> entryStart then pinned_end oh pic else oh) } }"

section \<open>Defining a method\<close>

text \<open>The definition of the method on the roles of the arguments, if it has all its positions there.\<close>

definition method_is_on_arity :: "mem \<Rightarrow> oop \<Rightarrow> oop \<Rightarrow> oop list \<Rightarrow> addr option option" where
  "method_is_on_arity m aMethod selector args = do {
     (positions, found) \<leftarrow> fold_opt (\<lambda>(positions, found) i.
         if object_is_smallint (args ! i) then Some (positions, found)
         else do {
           roleDef \<leftarrow> object_has_role_named_at m (args ! i) selector (2 ^ i) aMethod;
           Some (case roleDef of None \<Rightarrow> (positions, found) | Some d \<Rightarrow> (positions OR 2 ^ i, Some d)) })
       [0..<length args] (0, None);
     Some (case found of None \<Rightarrow> None | Some d \<Rightarrow> if positions = def_dispatchPositions m d then Some d else None) }"

definition has_role_at :: "object_heap \<Rightarrow> oop \<Rightarrow> bool" where
  "has_role_at oh a \<longleftrightarrow> \<not> object_is_smallint a \<and> a \<noteq> get_special oh SPECIAL_OOP_NO_ROLE"

definition define_roles :: "oop \<Rightarrow> addr \<Rightarrow> addr \<Rightarrow> oop list \<Rightarrow> object_heap \<Rightarrow> nat \<Rightarrow> object_heap option" where
  "define_roles selector oldDef def args oh i =
     (if has_role_at oh (args ! i) then do {
        (_, oh) \<leftarrow> if oldDef \<noteq> 0 then object_remove_role oh (args ! i) selector oldDef else Some (False, oh);
        (_, oh) \<leftarrow> object_add_role_at oh (args ! i) selector (2 ^ i) def;
        Some oh }
      else Some oh)"

text \<open>\<open>oldDef\<close> is 0 for the null pointer.\<close>

definition method_define :: "object_heap \<Rightarrow> oop \<Rightarrow> oop \<Rightarrow> oop list \<Rightarrow> (addr \<times> object_heap) option" where
  "method_define oh aMethod selector args = do {
     (def, oh) \<leftarrow> heap_clone_special oh SPECIAL_OOP_METHOD_DEF_PROTO;
     oh \<leftarrow> pinned_assign oh 0 def;
     let positions = fold (\<lambda>i p. if has_role_at oh (args ! i) then p OR 2 ^ i else p) [0..<length args] 0;
     oh \<leftarrow> method_remove_optimized_sending oh selector;
     let oh = upd oh selector 4 (smallint_to_object (object_to_smallint (symbol_cacheMask (mem oh) selector) OR positions));
     check (length args \<le> MAX_ARITY);
     (found, _, oh) \<leftarrow> method_dispatch_on oh selector args 0;
     oh \<leftarrow> pinned_assign oh 0 found;
     stays \<leftarrow> if found = 0 \<or> def_dispatchPositions (mem oh) found \<noteq> positions then Some False
       else do { d \<leftarrow> method_is_on_arity (mem oh) (def_method (mem oh) found) selector args; Some (d = Some found) };
     oh \<leftarrow> if stays then Some oh else pinned_assign oh found 0;
     let oldDef = (if stays then found else 0);
     oh \<leftarrow> if oldDef \<noteq> 0 then do {
         let oldDefMethod = def_method (mem oh) oldDef;
         oh \<leftarrow> pinned_assign oh 0 oldDefMethod;
         oh \<leftarrow> method_pic_flush_caller_pics oh oldDefMethod;
         Some (pinned_end oh oldDefMethod) }
       else Some oh;
     let oh = upd oh def 4 aMethod;
     oh \<leftarrow> heap_store_into oh def aMethod;
     let oh = upd oh def 7 positions;
     oh \<leftarrow> fold_opt (define_roles selector oldDef def args) [0..<length args] oh;
     Some (def, pinned_end (pinned_end oh oldDef) def) }"

end
