(* ===== verification/Interp.thy ===== *)
theory Interp
  imports Methods
begin

text \<open>
  The interpreter (interpreter.cpp): the operand stack, application of methods, sends with
  their inline caches, returns through ensure handlers, resends, and the instructions. The
  interpreter is an object of the heap; its fields are read with the accessors \<open>i_stack\<close>,
  \<open>i_framePointer\<close> and so on of theory Methods. What the interpreter gets from outside is
  in \<open>vm_env\<close>: the clock, the table of primitives, which call back into the interpreter, the
  allocator of the C library, the arguments and the environment of the process, whether a thread can be created,
  the system; the NaN that the machine answers for two operands, the functions of the
  mathematical library on floats, what the uninitialised words of the C stack hold, and what the last of the calls made so
  far, a foreign function, has stored in the memory of the heap.
\<close>

record vm_env =
  getTickCount :: "object_heap \<Rightarrow> int"
  primitives :: "word_t \<Rightarrow> object_heap \<Rightarrow> oop list \<Rightarrow> oop list \<Rightarrow> word_t \<Rightarrow> object_heap option"
  die_on_break :: bool
  c_library :: libc
  argvSaved :: "int list list"
  envp :: "int list list"
  errno :: "object_heap \<Rightarrow> int"
  thread_created :: "object_heap \<Rightarrow> bool"
  operating_system :: os
  nan_bits :: "nat \<Rightarrow> nat \<Rightarrow> nat"
  libm :: "string \<Rightarrow> nat list \<Rightarrow> nat"
  stale_word :: "object_heap \<Rightarrow> nat \<Rightarrow> word_t"
  foreign_stores :: "os_call list \<Rightarrow> mem \<Rightarrow> mem"

section \<open>The stack\<close>

definition set_i :: "object_heap \<Rightarrow> nat \<Rightarrow> word_t \<Rightarrow> object_heap" where
  "set_i oh k v = upd oh (c_interpreter oh) k v"

abbreviation "set_stack oh v \<equiv> set_i oh 4 v"
abbreviation "set_method oh v \<equiv> set_i oh 5 v"
abbreviation "set_closure oh v \<equiv> set_i oh 6 v"
abbreviation "set_lexicalContext oh v \<equiv> set_i oh 7 v"
abbreviation "set_ensureHandlers oh v \<equiv> set_i oh 8 v"
abbreviation "set_framePointer oh v \<equiv> set_i oh 9 v"
abbreviation "set_codePointer oh v \<equiv> set_i oh 10 v"
abbreviation "set_codeSize oh v \<equiv> set_i oh 11 v"
abbreviation "set_stackPointer oh v \<equiv> set_i oh 12 v"
abbreviation "set_stackSize oh v \<equiv> set_i oh 13 v"

definition set_stack_at :: "object_heap \<Rightarrow> word_t \<Rightarrow> oop \<Rightarrow> object_heap" where
  "set_stack_at oh k v = upd oh (i_stack oh) (nat (4 + k)) v"

partial_function (option) double_stack_size :: "word_t \<Rightarrow> word_t \<Rightarrow> word_t option" where
  "double_stack_size n minimum =
     (let n = wrap64 (n * 2) in if n < minimum then double_stack_size n minimum else Some n)"

declare double_stack_size.simps [code]

definition interpreter_grow_stack :: "object_heap \<Rightarrow> word_t \<Rightarrow> object_heap option" where
  "interpreter_grow_stack oh minimum = do {
     n \<leftarrow> double_stack_size (i_stackSize oh) minimum;
     (newStack, oh) \<leftarrow> new_array (set_stackSize oh n) n;
     let oh = oh\<lparr>mem := copy_words_into (mem oh) (i_stack oh) 4 (nat (i_stackPointer oh)) newStack 4\<rparr>;
     Some (set_stack oh newStack) }"

definition interpreter_stack_allocate :: "object_heap \<Rightarrow> word_t \<Rightarrow> object_heap option" where
  "interpreter_stack_allocate oh n = do {
     oh \<leftarrow> if i_stackPointer oh + n > i_stackSize oh then do {
         oh \<leftarrow> interpreter_grow_stack oh (i_stackPointer oh + n);
         check (i_stackPointer oh + n \<le> i_stackSize oh);
         Some oh }
       else Some oh;
     Some (set_stackPointer oh (i_stackPointer oh + n)) }"

definition interpreter_stack_push :: "object_heap \<Rightarrow> oop \<Rightarrow> object_heap option" where
  "interpreter_stack_push oh value = do {
     check (object_is_smallint value \<or> object_hash (mem oh) value < ID_HASH_RESERVED);
     oh \<leftarrow> if i_stackPointer oh = i_stackSize oh then interpreter_grow_stack oh 0 else Some oh;
     oh \<leftarrow> heap_store_into oh (i_stack oh) value;
     let oh = set_stack_at oh (i_stackPointer oh) value;
     Some (set_stackPointer oh (i_stackPointer oh + 1)) }"

definition interpreter_stack_pop :: "object_heap \<Rightarrow> (oop \<times> object_heap) option" where
  "interpreter_stack_pop oh = do {
     check (i_stackPointer oh \<noteq> 0);
     let oh = set_stackPointer oh (i_stackPointer oh - 1);
     Some (stack_at oh (i_stackPointer oh), oh) }"

definition interpreter_stack_pop_amount :: "object_heap \<Rightarrow> word_t \<Rightarrow> object_heap option" where
  "interpreter_stack_pop_amount oh amount = do {
     check (i_stackPointer oh - amount \<ge> 0);
     Some (set_stackPointer oh (i_stackPointer oh - amount)) }"

definition heap_store_into_stack :: "object_heap \<Rightarrow> word_t \<Rightarrow> object_heap option" where
  "heap_store_into_stack oh resultStackPointer = heap_store_into oh (i_stack oh) (stack_at oh resultStackPointer)"

section \<open>Applying a method\<close>

definition interpreter_dispatch_optional_keyword :: "object_heap \<Rightarrow> oop \<Rightarrow> oop \<Rightarrow> object_heap option" where
  "interpreter_dispatch_optional_keyword oh key value = do {
     let optKeys = cm_optionalKeywords (mem oh) (i_method oh);
     n \<leftarrow> object_array_size (mem oh) optKeys;
     case List.find (\<lambda>k. elements (mem oh) optKeys k = key) [0..n - 1] of
       None \<Rightarrow> Some oh
     | Some optKey \<Rightarrow>
         let offset = object_to_smallint (cm_inputVariables (mem oh) (i_method oh)) + optKey in
         if cm_heapAllocate (mem oh) (i_method oh) = c_true_object oh then do {
           oh \<leftarrow> heap_store_into oh (i_lexicalContext oh) value;
           Some (upd oh (i_lexicalContext oh) (nat (5 + offset)) value) }
         else do {
           oh \<leftarrow> heap_store_into oh (i_stack oh) value;
           Some (set_stack_at oh (i_framePointer oh + offset) value) } }"

text \<open>Key and value alternate; a key without value is a read past the array.\<close>

fun interpreter_dispatch_optionals :: "oop list \<Rightarrow> object_heap \<Rightarrow> object_heap option" where
  "interpreter_dispatch_optionals [] oh = Some oh"
| "interpreter_dispatch_optionals [k] oh = None"
| "interpreter_dispatch_optionals (k # v # opts) oh = do {
     oh \<leftarrow> interpreter_dispatch_optional_keyword oh k v;
     interpreter_dispatch_optionals opts oh }"

definition enter_profiled :: "vm_env \<Rightarrow> object_heap \<Rightarrow> oop \<Rightarrow> oop \<Rightarrow> bool \<Rightarrow> object_heap option" where
  "enter_profiled env oh fromMethod toMethod push =
     (if currentlyProfiling (profiler oh) then do {
        p \<leftarrow> profiler_enter_method (profiler oh) (getTickCount env oh) fromMethod toMethod push;
        Some (oh\<lparr>profiler := p\<rparr>) }
      else Some oh)"

text \<open>Optimising the callee when it has been called often.\<close>

definition optimize_callee :: "object_heap \<Rightarrow> addr \<Rightarrow> object_heap option" where
  "optimize_callee oh aMethod = do {
     oh \<leftarrow> if automaticallyInline oh \<and> pointer_above (cm_callCount (mem oh) aMethod) CALLEE_OPTIMIZE_AFTER
             \<and> cm_isInlined (mem oh) aMethod = c_false_object oh
       then method_optimize oh aMethod else Some oh;
     if cm_nextInlineAtCallCount (mem oh) aMethod \<noteq> c_nil oh
        \<and> cm_nextInlineAtCallCount (mem oh) aMethod < cm_callCount (mem oh) aMethod
     then do {
       oh \<leftarrow> method_optimize oh aMethod;
       Some (upd oh aMethod 24 (smallint_to_object (object_to_smallint (cm_callCount (mem oh) aMethod) * 2))) }
     else Some oh }"

text \<open>
  The new frame: the base address and the word where the variables start, the lexical
  context (nil when the variables live on the stack).
\<close>

definition allocate_frame :: "object_heap \<Rightarrow> addr \<Rightarrow> oop list \<Rightarrow> (addr \<times> nat \<times> addr \<times> object_heap) option" where
  "allocate_frame oh aMethod inputArgs =
     (let framePointer = i_stackPointer oh + FUNCTION_FRAME_SIZE in
      if cm_heapAllocate (mem oh) aMethod = c_true_object oh then do {
        (context, oh) \<leftarrow> heap_clone_oop_array_sized oh (get_special oh SPECIAL_OOP_LEXICAL_CONTEXT_PROTO)
          (object_to_smallint (cm_localVariables (mem oh) aMethod));
        oh \<leftarrow> pinned_assign oh 0 context;
        let oh = upd oh context 4 (smallint_to_object framePointer);
        oh \<leftarrow> interpreter_stack_allocate oh
          (FUNCTION_FRAME_SIZE + object_to_smallint (cm_registerCount (mem oh) aMethod));
        oh \<leftarrow> fold_opt (\<lambda>oh a. heap_store_into oh context a) inputArgs oh;
        Some (context, 5, context, oh) }
      else do {
        let context = c_nil oh;
        oh \<leftarrow> pinned_assign oh 0 context;
        oh \<leftarrow> interpreter_stack_allocate oh
          (FUNCTION_FRAME_SIZE + object_to_smallint (cm_localVariables (mem oh) aMethod)
           + object_to_smallint (cm_registerCount (mem oh) aMethod));
        oh \<leftarrow> fold_opt (\<lambda>oh a. heap_store_into oh (i_stack oh) a) inputArgs oh;
        Some (i_stack oh, nat (4 + framePointer), context, oh) })"

text \<open>The six words below the frame pointer.\<close>

definition write_frame :: "object_heap \<Rightarrow> word_t \<Rightarrow> word_t \<Rightarrow> word_t \<Rightarrow> addr \<Rightarrow> addr \<Rightarrow> object_heap" where
  "write_frame oh framePointer beforeCallStackPointer resultStackPointer closure context =
     (let oh = set_stack_at oh (framePointer - FRAME_OFFSET_BEFORE_CALL_STACK_POINTER) (smallint_to_object beforeCallStackPointer);
          oh = set_stack_at oh (framePointer - FRAME_OFFSET_RESULT_STACK_POINTER) (smallint_to_object resultStackPointer);
          oh = set_stack_at oh (framePointer - FRAME_OFFSET_CODE_POINTER) (smallint_to_object (i_codePointer oh));
          oh = set_stack_at oh (framePointer - FRAME_OFFSET_METHOD) closure;
          oh = set_stack_at oh (framePointer - FRAME_OFFSET_LEXICAL_CONTEXT) context
      in set_stack_at oh (framePointer - FRAME_OFFSET_PREVIOUS_FRAME_POINTER) (smallint_to_object (i_framePointer oh)))"

definition store_rest_arguments :: "object_heap \<Rightarrow> addr \<Rightarrow> oop list \<Rightarrow> int \<Rightarrow> addr \<Rightarrow> nat \<Rightarrow> addr \<Rightarrow> object_heap option" where
  "store_rest_arguments oh aMethod args inputs base vars context =
     (if int (length args) > inputs then do {
        (rest, oh) \<leftarrow> new_array oh (int (length args) - inputs);
        oh \<leftarrow> pinned_assign oh 0 rest;
        let oh = put_words oh rest 4 (drop (nat inputs) args);
        k \<leftarrow> object_array_size (mem oh) (cm_optionalKeywords (mem oh) aMethod);
        let oh = upd oh base (vars + nat (inputs + k)) rest;
        oh \<leftarrow> heap_store_into oh context rest;
        Some (pinned_end oh rest) }
      else if cm_restVariable (mem oh) aMethod = c_true_object oh then do {
        k \<leftarrow> object_array_size (mem oh) (cm_optionalKeywords (mem oh) aMethod);
        Some (upd oh base (vars + nat (inputs + k)) (get_special oh SPECIAL_OOP_ARRAY_PROTO)) }
      else Some oh)"

text \<open>
  What applying a method ends in: the method is entered, or a condition is signalled with
  arguments, with pins that are held until the handler has been entered.
\<close>

datatype applied = Applied object_heap | Signal object_heap nat "oop list" "addr list"

definition enter_method ::
  "vm_env \<Rightarrow> object_heap \<Rightarrow> addr \<Rightarrow> oop list \<Rightarrow> oop list \<Rightarrow> word_t \<Rightarrow> applied option" where
  "enter_method env oh closure args opts resultStackPointer =
     (if traitsWindow (mem oh) closure \<noteq> c_compiled_method_window oh
         \<and> traitsWindow (mem oh) closure \<noteq> c_closure_method_window oh
      then Some (Signal oh SPECIAL_OOP_TYPE_ERROR_ON [closure] [])
      else do {
        let aMethod = cm_method (mem oh) closure;
        oh \<leftarrow> pinned_assign oh 0 aMethod;
        let inputs = object_to_smallint (cm_inputVariables (mem oh) aMethod);
        let oh = upd oh aMethod 19 (smallint_to_object (object_to_smallint (cm_callCount (mem oh) aMethod) + 1));
        check (length args \<le> MAX_ARITY);
        oh \<leftarrow> optimize_callee oh aMethod;
        if int (length args) < inputs
           \<or> (int (length args) > inputs \<and> cm_restVariable (mem oh) aMethod \<noteq> c_true_object oh)
        then do {
          (argsArray, oh) \<leftarrow> new_array oh (int (length args));
          oh \<leftarrow> pinned_assign oh 0 argsArray;
          Some (Signal (put_words oh argsArray 4 args) SPECIAL_OOP_WRONG_INPUTS_TO [argsArray, aMethod] [argsArray, aMethod]) }
        else do {
          let framePointer = i_stackPointer oh + FUNCTION_FRAME_SIZE;
          let beforeCallStackPointer = i_stackPointer oh;
          (base, vars, context, oh) \<leftarrow> allocate_frame oh aMethod (take (nat inputs) args);
          let oh = put_words oh base vars (take (nat inputs) args);
          let oh = write_frame oh framePointer beforeCallStackPointer resultStackPointer closure context;
          oh \<leftarrow> heap_store_into oh (i_stack oh) closure;
          oh \<leftarrow> heap_store_into oh (i_stack oh) context;
          oh \<leftarrow> enter_profiled env oh (i_closure oh) closure True;
          let oh = set_framePointer oh framePointer;
          let oh = set_method oh aMethod;
          let oh = set_closure oh closure;
          let oh = set_lexicalContext oh context;
          oh \<leftarrow> heap_store_into oh (c_interpreter oh) context;
          oh \<leftarrow> heap_store_into oh (c_interpreter oh) aMethod;
          oh \<leftarrow> heap_store_into oh (c_interpreter oh) closure;
          codeSize \<leftarrow> object_array_size (mem oh) (cm_code (mem oh) aMethod);
          let oh = set_codePointer (set_codeSize oh codeSize) 0;
          let oh = oh\<lparr>mem := fill_words_with (mem oh) base (vars + nat inputs)
            (nat (object_to_smallint (cm_localVariables (mem oh) aMethod) - inputs)) (c_nil oh)\<rparr>;
          oh \<leftarrow> store_rest_arguments oh aMethod args inputs base vars context;
          oh \<leftarrow> interpreter_dispatch_optionals opts oh;
          Some (Applied (pinned_end (pinned_end oh aMethod) context)) } })"

text \<open>
  \<open>interpreter_apply_to_arity_with_optionals\<close>; a signal is a dispatch on the condition and
  an application of the handler (\<open>interpreter_signal\<close>), so the two are one recursion. An
  unhandled signal ends the process (\<open>None\<close>).
\<close>

partial_function (option) interpreter_apply_to_arity_with_optionals ::
  "vm_env \<Rightarrow> object_heap \<Rightarrow> addr \<Rightarrow> oop list \<Rightarrow> oop list \<Rightarrow> word_t \<Rightarrow> object_heap option" where
  "interpreter_apply_to_arity_with_optionals env oh closure args opts resultStackPointer = do {
     r \<leftarrow> enter_method env oh closure args opts resultStackPointer;
     case r of
       Applied oh \<Rightarrow> Some oh
     | Signal oh signal sargs pins \<Rightarrow> do {
         (d, sargs, oh) \<leftarrow> method_dispatch_on oh (get_special oh signal) sargs 0;
         check (d \<noteq> 0);
         oh \<leftarrow> interpreter_apply_to_arity_with_optionals env oh (def_method (mem oh) d) sargs [] resultStackPointer;
         Some (fold (\<lambda>p oh. pinned_end oh p) pins oh) } }"

declare interpreter_apply_to_arity_with_optionals.simps [code]

definition interpreter_signal :: "vm_env \<Rightarrow> object_heap \<Rightarrow> oop \<Rightarrow> oop list \<Rightarrow> oop list \<Rightarrow> word_t \<Rightarrow> object_heap option" where
  "interpreter_signal env oh signal args opts resultStackPointer = do {
     (d, args, oh) \<leftarrow> method_dispatch_on oh signal args 0;
     check (d \<noteq> 0);
     interpreter_apply_to_arity_with_optionals env oh (def_method (mem oh) d) args opts resultStackPointer }"

end
