(* ===== verification/Send.thy ===== *)
theory Send
  imports Interp
begin

text \<open>
  Sends, returns and resends (interpreter.cpp): lookup through the PIC of the caller and
  the dispatch, call of a primitive or application of a method, the two conditions that a
  failed send signals; the return of a result to the frame that waits for it, possibly
  through an ensure handler; the resend of the current message.
\<close>

section \<open>Sends\<close>

text \<open>
  The PIC of the caller: the definition found (0 when none), and whether the callee is to
  be added. \<open>def\<close> is pinned when found.
\<close>

definition pic_lookup :: "object_heap \<Rightarrow> addr \<Rightarrow> oop \<Rightarrow> oop list \<Rightarrow> (addr \<times> bool \<times> object_heap) option" where
  "pic_lookup oh callerMethod selector dispatchers =
     (if object_is_old oh callerMethod
         \<and> (pointer_above (cm_callCount (mem oh) callerMethod) CALLER_PIC_SETUP_AFTER
            \<or> object_is_smallint (cm_nextInlineAtCallCount (mem oh) callerMethod))
      then if cm_calleeCount (mem oh) callerMethod = c_nil oh then do {
          oh \<leftarrow> method_pic_setup oh callerMethod;
          Some (0, True, oh) }
        else do {
          (found, oh) \<leftarrow> method_pic_find_callee oh callerMethod selector dispatchers;
          case found of
            None \<Rightarrow> Some (0, True, oh)
          | Some d \<Rightarrow> do { oh \<leftarrow> pinned_assign oh 0 d; Some (d, False, oh) } }
      else Some (0, False, oh))"

text \<open>
  The arguments and the optionals exported into the image for a condition. Pins of the
  two arrays are held during the signal.
\<close>

definition signal_with_arguments ::
  "vm_env \<Rightarrow> object_heap \<Rightarrow> nat \<Rightarrow> oop \<Rightarrow> oop list \<Rightarrow> oop list \<Rightarrow> word_t \<Rightarrow> object_heap option" where
  "signal_with_arguments env oh signal first dispatchers opts resultStackPointer = do {
     (argsArray, oh) \<leftarrow> new_array oh (int (length dispatchers));
     oh \<leftarrow> pinned_assign oh 0 argsArray;
     let oh = put_words oh argsArray 4 dispatchers;
     (newOpts, nestedOptsArray, oh) \<leftarrow>
       if opts \<noteq> [] then do {
         (nested, oh) \<leftarrow> new_array oh (int (length opts));
         oh \<leftarrow> pinned_assign oh 0 nested;
         Some ([get_special oh SPECIAL_OOP_OPTIONALS, nested], nested, put_words oh nested 4 opts) }
       else Some ([], 0, oh);
     oh \<leftarrow> interpreter_signal env oh (get_special oh signal) [first, argsArray] newOpts resultStackPointer;
     Some (pinned_end (pinned_end oh nestedOptsArray) argsArray) }"

definition call_primitive :: "vm_env \<Rightarrow> object_heap \<Rightarrow> addr \<Rightarrow> oop list \<Rightarrow> oop list \<Rightarrow> word_t \<Rightarrow> object_heap option" where
  "call_primitive env oh aMethod args opts resultStackPointer =
     primitives env (object_to_smallint (pm_index (mem oh) aMethod)) oh args opts resultStackPointer"

text \<open>The definition is known: run its method, then apply the write barrier to the result.\<close>

definition send_found ::
  "vm_env \<Rightarrow> object_heap \<Rightarrow> addr \<Rightarrow> oop list \<Rightarrow> oop list \<Rightarrow> oop list \<Rightarrow> word_t \<Rightarrow> object_heap option" where
  "send_found env oh def args dispatchers opts resultStackPointer = do {
     let aMethod = def_method (mem oh) def;
     oh \<leftarrow> pinned_assign oh 0 aMethod;
     let window = traitsWindow (mem oh) aMethod;
     oh \<leftarrow> pinned_assign oh 0 window;
     let oldStack = i_stack oh;
     oh \<leftarrow>
       if window = c_primitive_method_window oh then do {
         oh \<leftarrow> pinned_assign oh 0 oldStack;
         oh \<leftarrow> call_primitive env oh aMethod args opts resultStackPointer;
         Some (pinned_end oh oldStack) }
       else if window = c_compiled_method_window oh \<or> window = c_closure_method_window oh
       then interpreter_apply_to_arity_with_optionals env oh aMethod args opts resultStackPointer
       else signal_with_arguments env oh SPECIAL_OOP_APPLY_TO (def_method (mem oh) def) dispatchers opts resultStackPointer;
     oh \<leftarrow> if oldStack = i_stack oh then heap_store_into_stack oh resultStackPointer else Some oh;
     Some (pinned_end (pinned_end oh window) aMethod) }"

text \<open>
  \<open>dispatchers\<close> is \<open>None\<close> when it is the same C array as \<open>args\<close>: the dispatch then changes
  the first argument for both.
  \<open>home\<close> says where the dispatchers are in the heap, if they are the elements of an array of
  the image: the dispatch writes the first one there.
\<close>

definition send_to_through_arity_with_optionals ::
  "vm_env \<Rightarrow> object_heap \<Rightarrow> oop \<Rightarrow> oop list \<Rightarrow> oop list option \<Rightarrow> (addr \<times> nat) option \<Rightarrow> oop list \<Rightarrow> word_t
   \<Rightarrow> object_heap option" where
  "send_to_through_arity_with_optionals env oh selector args dispatchers home opts resultStackPointer = do {
     let callerMethod = i_method oh;
     oh \<leftarrow> pinned_assign oh 0 callerMethod;
     let through = (case dispatchers of None \<Rightarrow> args | Some ds \<Rightarrow> ds);
     check (length through \<le> MAX_ARITY);
     (def, addToPic, oh) \<leftarrow> pic_lookup oh callerMethod selector through;
     (def, through, oh) \<leftarrow>
       if def = 0 then do {
         (def, through, oh) \<leftarrow> method_dispatch_on oh selector through 0;
         let oh = (case home of None \<Rightarrow> oh | Some (p, k) \<Rightarrow> put_words oh p k through);
         oh \<leftarrow> pinned_assign oh 0 def;
         Some (def, through, oh) }
       else Some (def, through, oh);
     let args = (case dispatchers of None \<Rightarrow> through | Some _ \<Rightarrow> args);
     oh \<leftarrow>
       if def = 0 then signal_with_arguments env oh SPECIAL_OOP_NOT_FOUND_ON selector through opts resultStackPointer
       else do {
         oh \<leftarrow> if addToPic then method_pic_add_callee oh callerMethod def through else Some oh;
         send_found env oh def args through opts resultStackPointer };
     Some (pinned_end (pinned_end oh callerMethod) def) }"

section \<open>Returns\<close>

text \<open>\<open>lexicalWindow[n]\<close> of a closure.\<close>

definition lexical_window :: "mem \<Rightarrow> addr \<Rightarrow> int \<Rightarrow> addr" where
  "lexical_window m closure n = rd m closure (nat (5 + n))"

definition context_framePointer :: "mem \<Rightarrow> addr \<Rightarrow> word_t" where
  "context_framePointer m context = object_to_smallint (rd m context 4)"

text \<open>
  An ensure handler lies above the frame: it is entered first, in a frame of its own whose
  code pointer is the one of the return instruction, which runs again afterwards.
\<close>

definition push_ensure_frame :: "object_heap \<Rightarrow> word_t \<Rightarrow> word_t \<Rightarrow> object_heap option" where
  "push_ensure_frame oh resultStackPointer prevCodePointer = do {
     oh \<leftarrow> interpreter_stack_push oh (smallint_to_object (i_stackPointer oh));
     oh \<leftarrow> interpreter_stack_push oh (smallint_to_object resultStackPointer);
     oh \<leftarrow> interpreter_stack_push oh (smallint_to_object prevCodePointer);
     oh \<leftarrow> interpreter_stack_push oh (get_special oh SPECIAL_OOP_ENSURE_MARKER);
     oh \<leftarrow> interpreter_stack_push oh (c_nil oh);
     oh \<leftarrow> interpreter_stack_push oh (smallint_to_object (i_framePointer oh));
     let oh = set_codePointer oh 0;
     Some (set_framePointer oh (i_stackPointer oh)) }"

definition run_ensure_handler :: "vm_env \<Rightarrow> object_heap \<Rightarrow> word_t \<Rightarrow> word_t \<Rightarrow> object_heap option" where
  "run_ensure_handler env oh resultStackPointer prevCodePointer = do {
     let ensureHandlers = object_to_smallint (i_ensureHandlers oh);
     let ensureHandler = stack_at oh (ensureHandlers + 1);
     oh \<leftarrow> pinned_assign oh 0 ensureHandler;
     check (object_to_smallint (stack_at oh ensureHandlers) < 0x1000000);
     let oh = set_ensureHandlers oh (stack_at oh ensureHandlers);
     oh \<leftarrow> push_ensure_frame oh resultStackPointer prevCodePointer;
     oh \<leftarrow> enter_profiled env oh (i_closure oh) (stack_at oh (i_framePointer oh - FRAME_OFFSET_METHOD)) True;
     oh \<leftarrow> interpreter_apply_to_arity_with_optionals env oh ensureHandler [] [] resultStackPointer;
     Some (pinned_end oh ensureHandler) }"

text \<open>Leaving the frame: the registers of the interpreter come from the words below its frame pointer.\<close>

definition leave_frame :: "vm_env \<Rightarrow> object_heap \<Rightarrow> word_t \<Rightarrow> (bool \<times> object_heap) option" where
  "leave_frame env oh framePointer = do {
     let oh = set_stackPointer oh (object_to_smallint (stack_at oh (framePointer - FRAME_OFFSET_BEFORE_CALL_STACK_POINTER)));
     let oh = set_framePointer oh (object_to_smallint (stack_at oh (framePointer - FRAME_OFFSET_PREVIOUS_FRAME_POINTER)));
     if i_framePointer oh < FUNCTION_FRAME_SIZE then Some (True, oh)
     else do {
       oh \<leftarrow> enter_profiled env oh (i_closure oh) (stack_at oh (i_framePointer oh - FRAME_OFFSET_METHOD)) False;
       let oh = set_codePointer oh (object_to_smallint (stack_at oh (framePointer - FRAME_OFFSET_CODE_POINTER)));
       let oh = set_lexicalContext oh (stack_at oh (i_framePointer oh - FRAME_OFFSET_LEXICAL_CONTEXT));
       let oh = set_closure oh (stack_at oh (i_framePointer oh - FRAME_OFFSET_METHOD));
       oh \<leftarrow> heap_store_into oh (c_interpreter oh) (i_lexicalContext oh);
       oh \<leftarrow> heap_store_into oh (c_interpreter oh) (i_closure oh);
       let oh = set_method oh (cm_method (mem oh) (i_closure oh));
       oh \<leftarrow> heap_store_into oh (c_interpreter oh) (cm_method (mem oh) (i_closure oh));
       codeSize \<leftarrow> object_array_size (mem oh) (cm_code (mem oh) (i_method oh));
       Some (False, set_codeSize oh codeSize) } }"

text \<open>
  \<open>interpreter_return_result\<close>; the answer says whether the process exits because the last
  frame was left. The result is \<open>None\<close> for the null pointer.
\<close>

definition interpreter_return_result ::
  "vm_env \<Rightarrow> object_heap \<Rightarrow> word_t \<Rightarrow> oop option \<Rightarrow> word_t \<Rightarrow> (bool \<times> object_heap) option" where
  "interpreter_return_result env oh context_depth result prevCodePointer =
     (let targetContext = lexical_window (mem oh) (i_closure oh) (context_depth - 1);
          framePointer = (if context_depth = 0 then i_framePointer oh else context_framePointer (mem oh) targetContext);
          resultStackPointer = object_to_smallint (stack_at oh (framePointer - FRAME_OFFSET_RESULT_STACK_POINTER)) in
      if context_depth \<noteq> 0 \<and>
         (framePointer > i_stackPointer oh \<or>
          targetContext \<noteq> stack_at oh (framePointer - FRAME_OFFSET_LEXICAL_CONTEXT))
      then do {
        oh \<leftarrow> interpreter_signal env oh (get_special oh SPECIAL_OOP_MAY_NOT_RETURN_TO)
          [i_closure oh, targetContext] [] resultStackPointer;
        Some (False, oh) }
      else do {
        oh \<leftarrow> (case result of
            None \<Rightarrow> Some oh
          | Some r \<Rightarrow> let oh = set_stack_at oh resultStackPointer r in heap_store_into oh (i_stack oh) r);
        if framePointer \<le> object_to_smallint (i_ensureHandlers oh) then do {
          oh \<leftarrow> run_ensure_handler env oh resultStackPointer prevCodePointer;
          Some (False, oh) }
        else leave_frame env oh framePointer })"

section \<open>Resends\<close>

text \<open>The words of an object from an offset on, read anew at each use.\<close>

definition words_at :: "mem \<Rightarrow> addr \<Rightarrow> nat \<Rightarrow> nat \<Rightarrow> word_t list" where
  "words_at m base off n = map (\<lambda>j. rd m base (off + j)) [0..<n]"

definition pass_optionals :: "oop \<Rightarrow> addr \<Rightarrow> addr \<Rightarrow> nat \<Rightarrow> object_heap \<Rightarrow> object_heap option" where
  "pass_optionals aMethod optKeys base off oh =
     (if i_closure oh = aMethod then do {
        k \<leftarrow> object_array_size (mem oh) optKeys;
        fold_opt (\<lambda>oh optKey.
            let optVal = rd (mem oh) base (off + nat optKey) in
            if optVal \<noteq> c_nil oh
            then interpreter_dispatch_optional_keyword oh (elements (mem oh) optKeys optKey) optVal
            else Some oh) [0..k - 1] oh }
      else Some oh)"

text \<open>The method found by the resend, with the arguments at \<open>base\<close>, \<open>off\<close>.\<close>

definition resend_found ::
  "vm_env \<Rightarrow> object_heap \<Rightarrow> addr \<Rightarrow> addr \<Rightarrow> addr \<Rightarrow> nat \<Rightarrow> nat \<Rightarrow> word_t \<Rightarrow> object_heap option" where
  "resend_found env oh def resender base off n resultStackPointer = do {
     let aMethod = def_method (mem oh) def;
     oh \<leftarrow> pinned_assign oh 0 aMethod;
     let window = traitsWindow (mem oh) aMethod;
     oh \<leftarrow> pinned_assign oh 0 window;
     oh \<leftarrow>
       if window = c_primitive_method_window oh then do {
         oh \<leftarrow> call_primitive env oh aMethod (words_at (mem oh) base off n) [] resultStackPointer;
         heap_store_into_stack oh resultStackPointer }
       else if window = c_compiled_method_window oh \<or> window = c_closure_method_window oh then do {
         let optKeys = cm_optionalKeywords (mem oh) resender;
         oh \<leftarrow> pinned_assign oh 0 optKeys;
         oh \<leftarrow> interpreter_apply_to_arity_with_optionals env oh aMethod (words_at (mem oh) base off n) [] resultStackPointer;
         oh \<leftarrow> pass_optionals aMethod optKeys base (off + n) oh;
         Some (pinned_end oh optKeys) }
       else do {
         (argsArray, oh) \<leftarrow> new_array oh (int n);
         oh \<leftarrow> pinned_assign oh 0 argsArray;
         let oh = put_words oh argsArray 4 (words_at (mem oh) base off n);
         k \<leftarrow> object_array_size (mem oh) (cm_optionalKeywords (mem oh) resender);
         oh \<leftarrow> interpreter_signal env oh (get_special oh SPECIAL_OOP_APPLY_TO) [def_method (mem oh) def, argsArray]
           (words_at (mem oh) base (off + n) (nat k)) resultStackPointer;
         Some (pinned_end oh argsArray) };
     Some (pinned_end (pinned_end oh window) aMethod) }"

definition interpreter_signal_with_with_with ::
  "vm_env \<Rightarrow> object_heap \<Rightarrow> nat \<Rightarrow> oop \<Rightarrow> oop \<Rightarrow> oop \<Rightarrow> word_t \<Rightarrow> object_heap option" where
  "interpreter_signal_with_with_with env oh signal x y z resultStackPointer =
     interpreter_signal env oh (get_special oh signal) [x, y, z] [] resultStackPointer"

definition resend_not_found ::
  "vm_env \<Rightarrow> object_heap \<Rightarrow> oop \<Rightarrow> addr \<Rightarrow> addr \<Rightarrow> nat \<Rightarrow> nat \<Rightarrow> word_t \<Rightarrow> object_heap option" where
  "resend_not_found env oh selector resender base off n resultStackPointer = do {
     (argsArray, oh) \<leftarrow> new_array oh (int n);
     oh \<leftarrow> pinned_assign oh 0 argsArray;
     let oh = put_words oh argsArray 4 (words_at (mem oh) base off n);
     oh \<leftarrow> interpreter_signal_with_with_with env oh SPECIAL_OOP_NOT_FOUND_ON selector argsArray resender resultStackPointer;
     Some (pinned_end oh argsArray) }"

text \<open>
  The frame that resends is the current one or the one of an enclosing closure. The
  arguments are the variables of that frame: the dispatch may change the first one there.
\<close>

definition interpreter_resend_message :: "vm_env \<Rightarrow> object_heap \<Rightarrow> word_t \<Rightarrow> word_t \<Rightarrow> object_heap option" where
  "interpreter_resend_message env oh depth resultStackPointer = do {
     let context = (if depth = 0 then i_lexicalContext oh else lexical_window (mem oh) (i_closure oh) (depth - 1));
     oh \<leftarrow> pinned_assign oh 0 context;
     let framePointer = (if depth = 0 then i_framePointer oh else context_framePointer (mem oh) context);
     check (depth = 0 \<or> context = stack_at oh (framePointer - FRAME_OFFSET_LEXICAL_CONTEXT));
     let barrier = stack_at oh (framePointer - FRAME_OFFSET_METHOD);
     oh \<leftarrow> pinned_assign oh 0 barrier;
     let resender = cm_method (mem oh) barrier;
     oh \<leftarrow> pinned_assign oh 0 resender;
     let inContext = cm_heapAllocate (mem oh) resender = c_true_object oh;
     let base = (if inContext then context else i_stack oh);
     let off = (if inContext then 5 else nat (4 + framePointer));
     let selector = cm_selector (mem oh) resender;
     oh \<leftarrow> pinned_assign oh 0 selector;
     let n = nat (object_to_smallint (cm_inputVariables (mem oh) resender));
     check (n \<le> MAX_ARITY \<and> n > 0);
     let args = words_at (mem oh) base off n;
     oh \<leftarrow> fold_opt (\<lambda>oh a. pinned_assign oh 0 a) args oh;
     (def, args', oh) \<leftarrow> method_dispatch_on oh selector args barrier;
     let oh = put_words oh base off args';
     oh \<leftarrow> pinned_assign oh 0 def;
     oh \<leftarrow> pinned_assign oh (hd args) (hd args');
     oh \<leftarrow> if def = 0 then resend_not_found env oh selector resender base off n resultStackPointer
       else resend_found env oh def resender base off n resultStackPointer;
     Some (fold (\<lambda>p oh. pinned_end oh p) ([def] @ (hd args' # tl args) @ [resender, selector, barrier, context]) oh) }"

end
