(* ===== verification/Interpret.thy ===== *)
theory Interpret
  imports Send
begin

text \<open>
  The instructions (the cases of \<open>interpret\<close> in interpreter.cpp) and the loop that runs
  them. An instruction fetches its operands from the code of the current method; its
  definition returns the heap after it, and for the returning instructions whether the
  process exits. A \<open>Pinned\<close> local is assigned with \<open>pinned_assign\<close> and ends with
  \<open>pinned_end\<close>.
\<close>

section \<open>Operands and registers\<close>

text \<open>\<open>SSA_NEXT_PARAM_OBJECT\<close>, \<open>SSA_NEXT_PARAM_SMALLINT\<close>: fetch and step the code pointer.\<close>

definition next_object :: "object_heap \<Rightarrow> oop \<times> object_heap" where
  "next_object oh =
     (elements (mem oh) (cm_code (mem oh) (i_method oh)) (i_codePointer oh), set_codePointer oh (i_codePointer oh + 1))"

definition next_small :: "object_heap \<Rightarrow> word_t \<times> object_heap" where
  "next_small oh = (case next_object oh of (w, oh) \<Rightarrow> (object_to_smallint w, oh))"

text \<open>\<open>SSA_REGISTER\<close>, and \<open>ASSERT_VALID_REGISTER\<close> before an assignment to it.\<close>

definition reg :: "object_heap \<Rightarrow> word_t \<Rightarrow> oop" where
  "reg oh x = stack_at oh (i_framePointer oh + x)"

definition assign_reg :: "object_heap \<Rightarrow> word_t \<Rightarrow> oop \<Rightarrow> object_heap option" where
  "assign_reg oh x v = do {
     check (x < object_to_smallint (cm_registerCount (mem oh) (i_method oh)));
     Some (set_stack_at oh (i_framePointer oh + x) v) }"

text \<open>\<open>HEAP_READ_AND_PIN_ARGS\<close>, \<open>HEAP_UNPIN_ARGS\<close>.\<close>

fun read_and_pin_args :: "nat \<Rightarrow> object_heap \<Rightarrow> (oop list \<times> object_heap) option" where
  "read_and_pin_args 0 oh = Some ([], oh)"
| "read_and_pin_args (Suc n) oh = do {
     let (argReg, oh) = next_small oh;
     let a = reg oh argReg;
     oh \<leftarrow> heap_pin_object oh a;
     (as, oh) \<leftarrow> read_and_pin_args n oh;
     Some (a # as, oh) }"

definition unpin_args :: "oop list \<Rightarrow> object_heap \<Rightarrow> object_heap" where
  "unpin_args args oh = fold (\<lambda>a oh. heap_unpin_object oh a) (rev args) oh"

section \<open>Sends\<close>

definition op_send :: "vm_env \<Rightarrow> object_heap \<Rightarrow> object_heap option" where
  "op_send env oh = do {
     let (result, oh) = next_small oh;
     let (selector, oh) = next_object oh;
     oh \<leftarrow> pinned_assign oh 0 selector;
     let (arity, oh) = next_small oh;
     check (arity \<le> int MAX_ARITY);
     (args, oh) \<leftarrow> read_and_pin_args (nat arity) oh;
     oh \<leftarrow> send_to_through_arity_with_optionals env oh selector args None None [] (i_framePointer oh + result);
     Some (pinned_end (unpin_args args oh) selector) }"

definition op_send_message_with_opts :: "vm_env \<Rightarrow> object_heap \<Rightarrow> object_heap option" where
  "op_send_message_with_opts env oh = do {
     let (result, oh) = next_small oh;
     let (selector, oh) = next_object oh;
     oh \<leftarrow> pinned_assign oh 0 selector;
     let (arity, oh) = next_small oh;
     let (optsArrayReg, oh) = next_small oh;
     let optsArray = reg oh optsArrayReg;
     oh \<leftarrow> pinned_assign oh 0 optsArray;
     optCount \<leftarrow> object_array_size (mem oh) optsArray;
     check (arity \<le> int MAX_ARITY \<and> optCount \<le> int MAX_OPTS);
     (args, oh) \<leftarrow> read_and_pin_args (nat arity) oh;
     let opts = map (elements (mem oh) optsArray) [0..optCount - 1];
     oh \<leftarrow> fold_opt heap_pin_object opts oh;
     oh \<leftarrow> send_to_through_arity_with_optionals env oh selector args None None opts (i_framePointer oh + result);
     let oh = fold (\<lambda>a oh. heap_unpin_object oh a) opts oh;
     Some (pinned_end (pinned_end (unpin_args args oh) optsArray) selector) }"

definition op_send_with_optionals_inline :: "vm_env \<Rightarrow> object_heap \<Rightarrow> object_heap option" where
  "op_send_with_optionals_inline env oh = do {
     let (result, oh) = next_small oh;
     let (selector, oh) = next_object oh;
     oh \<leftarrow> pinned_assign oh 0 selector;
     let (arity, oh) = next_small oh;
     let (optCount, oh) = next_small oh;
     check (arity \<le> int MAX_ARITY \<and> optCount \<le> int MAX_OPTS);
     (args, oh) \<leftarrow> read_and_pin_args (nat arity) oh;
     (opts, oh) \<leftarrow> read_and_pin_args (nat optCount) oh;
     oh \<leftarrow> send_to_through_arity_with_optionals env oh selector args None None opts (i_framePointer oh + result);
     Some (pinned_end (unpin_args opts (unpin_args args oh)) selector) }"

definition op_resend_message :: "vm_env \<Rightarrow> object_heap \<Rightarrow> object_heap option" where
  "op_resend_message env oh = do {
     let (resultRegister, oh) = next_small oh;
     let (lexicalOffset, oh) = next_small oh;
     interpreter_resend_message env oh lexicalOffset (i_framePointer oh + resultRegister) }"

definition op_apply_to :: "vm_env \<Rightarrow> object_heap \<Rightarrow> object_heap option" where
  "op_apply_to env oh = do {
     let (methodReg, oh) = next_small oh;
     let aMethod = reg oh methodReg;
     oh \<leftarrow> pinned_assign oh 0 aMethod;
     let (arity, oh) = next_small oh;
     let (resultReg, oh) = next_small oh;
     check (arity \<le> int MAX_ARITY);
     (args, oh) \<leftarrow> read_and_pin_args (nat arity) oh;
     oh \<leftarrow> interpreter_apply_to_arity_with_optionals env oh aMethod args [] (i_framePointer oh + resultReg);
     Some (pinned_end (unpin_args args oh) aMethod) }"

section \<open>Allocation\<close>

text \<open>The registers named by the next operands go into the new array.\<close>

fun fill_array :: "addr \<Rightarrow> nat \<Rightarrow> nat \<Rightarrow> object_heap \<Rightarrow> object_heap" where
  "fill_array array k 0 oh = oh"
| "fill_array array k (Suc n) oh =
     (case next_small oh of (r, oh) \<Rightarrow> fill_array array (Suc k) n (upd oh array (4 + k) (reg oh r)))"

definition op_new_array_with :: "object_heap \<Rightarrow> object_heap option" where
  "op_new_array_with oh = do {
     let (result, oh) = next_small oh;
     let (n, oh) = next_small oh;
     (array, oh) \<leftarrow> new_array oh n;
     oh \<leftarrow> pinned_assign oh 0 array;
     let oh = fill_array array 0 (nat n) oh;
     oh \<leftarrow> heap_store_into oh (i_stack oh) array;
     oh \<leftarrow> assign_reg oh result array;
     Some (pinned_end oh array) }"

text \<open>The lexical window of a new closure: the current context, then the window of the current closure.\<close>

definition op_new_closure :: "object_heap \<Rightarrow> object_heap option" where
  "op_new_closure oh = do {
     let (result, oh) = next_small oh;
     let (block, oh) = next_object oh;
     oh \<leftarrow> pinned_assign oh 0 block;
     (newClosure, oh) \<leftarrow>
       if i_closure oh = i_method oh then do {
         (c, oh) \<leftarrow> heap_clone_oop_array_sized oh (get_special oh SPECIAL_OOP_CLOSURE_PROTO) 1;
         oh \<leftarrow> pinned_assign oh 0 c;
         Some (c, oh) }
       else do {
         inheritedSize \<leftarrow> object_array_size (mem oh) (i_closure oh);
         (c, oh) \<leftarrow> heap_clone_oop_array_sized oh (get_special oh SPECIAL_OOP_CLOSURE_PROTO) (inheritedSize + 1);
         oh \<leftarrow> pinned_assign oh 0 c;
         Some (c, oh\<lparr>mem := copy_words_into (mem oh) (i_closure oh) 5 (nat inheritedSize) c 6\<rparr>) };
     let oh = upd oh newClosure 5 (i_lexicalContext oh);
     let oh = upd oh newClosure 4 block;
     oh \<leftarrow> heap_store_into oh newClosure (i_lexicalContext oh);
     oh \<leftarrow> heap_store_into oh newClosure block;
     oh \<leftarrow> heap_store_into oh (i_stack oh) newClosure;
     oh \<leftarrow> assign_reg oh result newClosure;
     Some (pinned_end (pinned_end oh newClosure) block) }"

section \<open>Loads, stores and moves\<close>

definition op_load_literal :: "object_heap \<Rightarrow> object_heap option" where
  "op_load_literal oh = do {
     let (destReg, oh) = next_small oh;
     let (literal, oh) = next_object oh;
     oh \<leftarrow> pinned_assign oh 0 literal;
     oh \<leftarrow> heap_store_into oh (i_stack oh) literal;
     oh \<leftarrow> assign_reg oh destReg literal;
     Some (pinned_end oh literal) }"

definition op_load_variable :: "object_heap \<Rightarrow> object_heap option" where
  "op_load_variable oh = do {
     let (var, oh) = next_small oh;
     if cm_heapAllocate (mem oh) (i_method oh) = c_true_object oh then do {
       oh \<leftarrow> heap_store_into oh (i_stack oh) (i_lexicalContext oh);
       assign_reg oh var (rd (mem oh) (i_lexicalContext oh) (nat (5 + var))) }
     else Some oh }"

text \<open>The write barrier of the two stores is given the stack, not the value stored.\<close>

definition op_store_variable :: "object_heap \<Rightarrow> object_heap option" where
  "op_store_variable oh = do {
     let (var, oh) = next_small oh;
     if cm_heapAllocate (mem oh) (i_method oh) = c_true_object oh then do {
       oh \<leftarrow> heap_store_into oh (i_lexicalContext oh) (i_stack oh);
       Some (upd oh (i_lexicalContext oh) (nat (5 + var)) (reg oh var)) }
     else Some oh }"

definition op_load_free_variable :: "object_heap \<Rightarrow> object_heap option" where
  "op_load_free_variable oh = do {
     let (destReg, oh) = next_small oh;
     let (lexOffset, oh) = next_small oh;
     let (varIndex, oh) = next_small oh;
     let context = lexical_window (mem oh) (i_closure oh) (lexOffset - 1);
     oh \<leftarrow> heap_store_into oh (i_stack oh) context;
     assign_reg oh destReg (rd (mem oh) context (nat (5 + varIndex))) }"

definition op_store_free_variable :: "object_heap \<Rightarrow> object_heap option" where
  "op_store_free_variable oh = do {
     let (lexOffset, oh) = next_small oh;
     let (varIndex, oh) = next_small oh;
     let (srcReg, oh) = next_small oh;
     let context = lexical_window (mem oh) (i_closure oh) (lexOffset - 1);
     oh \<leftarrow> heap_store_into oh context (i_stack oh);
     Some (upd oh context (nat (5 + varIndex)) (reg oh srcReg)) }"

definition op_move_register :: "object_heap \<Rightarrow> object_heap option" where
  "op_move_register oh = do {
     let (destReg, oh) = next_small oh;
     let (srcReg, oh) = next_small oh;
     oh \<leftarrow> heap_store_into oh (i_stack oh) (reg oh srcReg);
     assign_reg oh destReg (reg oh srcReg) }"

definition op_load_environment :: "object_heap \<Rightarrow> object_heap option" where
  "op_load_environment oh = do {
     let (next_param, oh) = next_small oh;
     oh \<leftarrow> heap_store_into oh (i_stack oh) (cm_environment (mem oh) (i_method oh));
     assign_reg oh next_param (cm_environment (mem oh) (i_method oh)) }"

definition op_is_nil :: "object_heap \<Rightarrow> object_heap option" where
  "op_is_nil oh = do {
     let (resultReg, oh) = next_small oh;
     let (srcReg, oh) = next_small oh;
     assign_reg oh resultReg (if reg oh srcReg = c_nil oh then c_true_object oh else c_false_object oh) }"

definition op_is_identical_to :: "object_heap \<Rightarrow> object_heap option" where
  "op_is_identical_to oh = do {
     let (resultReg, oh) = next_small oh;
     let (destReg, oh) = next_small oh;
     let (srcReg, oh) = next_small oh;
     assign_reg oh resultReg (if reg oh destReg = reg oh srcReg then c_true_object oh else c_false_object oh) }"

section \<open>Branches\<close>

text \<open>
  The keyed branch: keys at the even words of the table, distances after them, from the
  hash of the key on and then from the start; nil ends the search. A read outside the
  table is \<open>None\<close>.
\<close>

fun branch_keyed_scan :: "object_heap \<Rightarrow> addr \<Rightarrow> oop \<Rightarrow> int \<Rightarrow> int list \<Rightarrow> object_heap option" where
  "branch_keyed_scan oh table key tableSize [] = Some oh"
| "branch_keyed_scan oh table key tableSize (i # is) = do {
     check (i + 1 < tableSize);
     let offset = elements (mem oh) table (i + 1);
     if offset = c_nil oh then Some oh
     else if key = elements (mem oh) table i
     then Some (set_codePointer oh (i_codePointer oh + object_to_smallint offset))
     else branch_keyed_scan oh table key tableSize is }"

definition branch_keyed_order :: "int \<Rightarrow> int \<Rightarrow> int list" where
  "branch_keyed_order hash tableSize =
     map (\<lambda>k. hash + 2 * k) [0..(tableSize - hash + 1) div 2 - 1] @ map (\<lambda>k. 2 * k) [0..(hash + 1) div 2 - 1]"

definition interpreter_branch_keyed :: "object_heap \<Rightarrow> addr \<Rightarrow> oop \<Rightarrow> object_heap option" where
  "interpreter_branch_keyed oh table key = do {
     tableSize \<leftarrow> object_array_size (mem oh) table;
     let hash = (if oop_is_object key then object_hash (mem oh) key else object_to_smallint key) AND (tableSize - 2);
     branch_keyed_scan oh table key tableSize (branch_keyed_order hash tableSize) }"

definition op_branch_keyed :: "object_heap \<Rightarrow> object_heap option" where
  "op_branch_keyed oh = do {
     let (keyReg, oh) = next_small oh;
     let (tableReg, oh) = next_small oh;
     let table = reg oh tableReg;
     oh \<leftarrow> pinned_assign oh 0 table;
     let key = reg oh keyReg;
     oh \<leftarrow> pinned_assign oh 0 key;
     oh \<leftarrow> interpreter_branch_keyed oh table key;
     Some (pinned_end (pinned_end oh key) table) }"

text \<open>
  The conditional branches: on a value that is no Boolean the instruction is signalled
  and will run again. The result of the handler goes to the stack position of the register
  number itself.
\<close>

definition branch_on :: "vm_env \<Rightarrow> oop \<Rightarrow> oop \<Rightarrow> object_heap \<Rightarrow> object_heap option" where
  "branch_on env taken other oh = do {
     let (condReg, oh) = next_small oh;
     let (d, oh) = next_small oh;
     let offset = d - 1;
     let val = reg oh condReg;
     oh \<leftarrow> pinned_assign oh 0 val;
     oh \<leftarrow>
       if val = taken then Some (set_codePointer oh (i_codePointer oh + offset))
       else if val \<noteq> other then
         let oh = set_codePointer oh (i_codePointer oh - 3) in
         interpreter_signal env oh (get_special oh SPECIAL_OOP_NOT_A_BOOLEAN) [val] [] condReg
       else Some oh;
     Some (pinned_end oh val) }"

definition op_branch_if_true :: "vm_env \<Rightarrow> object_heap \<Rightarrow> object_heap option" where
  "op_branch_if_true env oh = branch_on env (c_true_object oh) (c_false_object oh) oh"

definition op_branch_if_false :: "vm_env \<Rightarrow> object_heap \<Rightarrow> object_heap option" where
  "op_branch_if_false env oh = branch_on env (c_false_object oh) (c_true_object oh) oh"

definition op_jump_to :: "object_heap \<Rightarrow> object_heap option" where
  "op_jump_to oh = do {
     let (d, oh) = next_small oh;
     let offset = d - 1;
     check (offset < 20000 \<and> offset > -20000);
     Some (set_codePointer oh (i_codePointer oh + offset)) }"

section \<open>Returns\<close>

definition op_return_register :: "vm_env \<Rightarrow> word_t \<Rightarrow> object_heap \<Rightarrow> (bool \<times> object_heap) option" where
  "op_return_register env prevPointer oh = do {
     let (r, oh) = next_small oh;
     check (r < object_to_smallint (cm_registerCount (mem oh) (i_method oh)));
     let result = reg oh r;
     oh \<leftarrow> pinned_assign oh 0 result;
     (exits, oh) \<leftarrow> interpreter_return_result env oh 0 (Some result) prevPointer;
     Some (exits, if exits then oh else pinned_end oh result) }"

definition op_resume :: "vm_env \<Rightarrow> word_t \<Rightarrow> object_heap \<Rightarrow> (bool \<times> object_heap) option" where
  "op_resume env prevPointer oh = interpreter_return_result env oh 0 None prevPointer"

definition op_return_from :: "vm_env \<Rightarrow> word_t \<Rightarrow> object_heap \<Rightarrow> (bool \<times> object_heap) option" where
  "op_return_from env prevPointer oh = do {
     let (r, oh) = next_small oh;
     let (offset, oh) = next_small oh;
     check (r < object_to_smallint (cm_registerCount (mem oh) (i_method oh)));
     let result = reg oh r;
     oh \<leftarrow> pinned_assign oh 0 result;
     (exits, oh) \<leftarrow> interpreter_return_result env oh offset (Some result) prevPointer;
     Some (exits, if exits then oh else pinned_end oh result) }"

definition op_return_value :: "vm_env \<Rightarrow> word_t \<Rightarrow> object_heap \<Rightarrow> (bool \<times> object_heap) option" where
  "op_return_value env prevPointer oh = do {
     let (obj, oh) = next_object oh;
     oh \<leftarrow> pinned_assign oh 0 obj;
     (exits, oh) \<leftarrow> interpreter_return_result env oh 0 (Some obj) prevPointer;
     Some (exits, if exits then oh else pinned_end oh obj) }"

section \<open>Primitives and inline checks\<close>

definition op_primitive_do :: "vm_env \<Rightarrow> object_heap \<Rightarrow> object_heap option" where
  "op_primitive_do env oh = do {
     let (primReg, oh) = next_small oh;
     let primNum = object_to_smallint (reg oh primReg);
     let (arity, oh) = next_small oh;
     let (resultReg, oh) = next_small oh;
     check (arity \<le> int MAX_ARITY);
     (args, oh) \<leftarrow> read_and_pin_args (nat arity) oh;
     oh \<leftarrow> primitives env primNum oh args [] (i_framePointer oh + resultReg);
     oh \<leftarrow> heap_store_into_stack oh (i_framePointer oh + resultReg);
     Some (unpin_args args oh) }"

text \<open>The maps of the arguments are those recorded by the inliner.\<close>

definition maps_match :: "object_heap \<Rightarrow> addr \<Rightarrow> oop list \<Rightarrow> bool option" where
  "maps_match oh mapArray args = do {
     n \<leftarrow> object_array_size (mem oh) mapArray;
     Some (int (length args) = n \<and>
       (\<forall>k\<in>set [0..<length args]. elements (mem oh) mapArray (int k) = object_get_map oh (args ! k))) }"

definition op_inline_primitive_check :: "vm_env \<Rightarrow> object_heap \<Rightarrow> object_heap option" where
  "op_inline_primitive_check env oh = do {
     let (resultReg, oh) = next_small oh;
     let (mapArray, oh) = next_object oh;
     let (primNum, oh) = next_small oh;
     let (arity, oh) = next_small oh;
     let (jumpOffset, oh) = next_small oh;
     check (arity \<le> int MAX_ARITY);
     (args, oh) \<leftarrow> read_and_pin_args (nat arity) oh;
     success \<leftarrow> maps_match oh mapArray args;
     oh \<leftarrow>
       if success then do {
         let oh = set_codePointer oh (i_codePointer oh + jumpOffset);
         oh \<leftarrow> primitives env primNum oh args [] (i_framePointer oh + resultReg);
         heap_store_into_stack oh (i_framePointer oh + resultReg) }
       else Some oh;
     Some (unpin_args args oh) }"

definition op_inline_method_check :: "object_heap \<Rightarrow> object_heap option" where
  "op_inline_method_check oh = do {
     let (mapArray, oh) = next_object oh;
     let (arity, oh) = next_small oh;
     let (jumpOffset, oh) = next_small oh;
     check (arity \<le> int MAX_ARITY);
     (args, oh) \<leftarrow> read_and_pin_args (nat arity) oh;
     success \<leftarrow> maps_match oh mapArray args;
     let oh = (if success then oh else set_codePointer oh (i_codePointer oh + jumpOffset));
     Some (unpin_args args oh) }"

section \<open>The loop\<close>

definition goes_on :: "object_heap option \<Rightarrow> (bool \<times> object_heap) option" where
  "goes_on r = map_option (Pair False) r"

text \<open>The \<open>switch\<close>; an unknown opcode fails the assertion of its default.\<close>

fun execute :: "vm_env \<Rightarrow> word_t \<Rightarrow> opcode \<Rightarrow> object_heap \<Rightarrow> (bool \<times> object_heap) option" where
  "execute env prevPointer OP_SEND oh = goes_on (op_send env oh)"
| "execute env prevPointer OP_SEND_MESSAGE_WITH_OPTS oh = goes_on (op_send_message_with_opts env oh)"
| "execute env prevPointer OP_SEND_WITH_OPTIONALS_INLINE oh = goes_on (op_send_with_optionals_inline env oh)"
| "execute env prevPointer OP_NEW_ARRAY_WITH oh = goes_on (op_new_array_with oh)"
| "execute env prevPointer OP_NEW_CLOSURE oh = goes_on (op_new_closure oh)"
| "execute env prevPointer OP_LOAD_LITERAL oh = goes_on (op_load_literal oh)"
| "execute env prevPointer OP_RESEND_MESSAGE oh = goes_on (op_resend_message env oh)"
| "execute env prevPointer OP_LOAD_VARIABLE oh = goes_on (op_load_variable oh)"
| "execute env prevPointer OP_STORE_VARIABLE oh = goes_on (op_store_variable oh)"
| "execute env prevPointer OP_LOAD_FREE_VARIABLE oh = goes_on (op_load_free_variable oh)"
| "execute env prevPointer OP_STORE_FREE_VARIABLE oh = goes_on (op_store_free_variable oh)"
| "execute env prevPointer OP_MOVE_REGISTER oh = goes_on (op_move_register oh)"
| "execute env prevPointer OP_IS_NIL oh = goes_on (op_is_nil oh)"
| "execute env prevPointer OP_IS_IDENTICAL_TO oh = goes_on (op_is_identical_to oh)"
| "execute env prevPointer OP_BRANCH_KEYED oh = goes_on (op_branch_keyed oh)"
| "execute env prevPointer OP_BRANCH_IF_TRUE oh = goes_on (op_branch_if_true env oh)"
| "execute env prevPointer OP_BRANCH_IF_FALSE oh = goes_on (op_branch_if_false env oh)"
| "execute env prevPointer OP_JUMP_TO oh = goes_on (op_jump_to oh)"
| "execute env prevPointer OP_LOAD_ENVIRONMENT oh = goes_on (op_load_environment oh)"
| "execute env prevPointer OP_RETURN_REGISTER oh = op_return_register env prevPointer oh"
| "execute env prevPointer OP_RESUME oh = op_resume env prevPointer oh"
| "execute env prevPointer OP_RETURN_FROM oh = op_return_from env prevPointer oh"
| "execute env prevPointer OP_RETURN_VALUE oh = op_return_value env prevPointer oh"
| "execute env prevPointer OP_PRIMITIVE_DO oh = goes_on (op_primitive_do env oh)"
| "execute env prevPointer OP_INLINE_PRIMITIVE_CHECK oh = goes_on (op_inline_primitive_check env oh)"
| "execute env prevPointer OP_INLINE_METHOD_CHECK oh = goes_on (op_inline_method_check oh)"
| "execute env prevPointer OP_APPLY_TO oh = goes_on (op_apply_to env oh)"
| "execute env prevPointer OP_INTERNAL_SEND oh = None"

definition cache_specials :: "object_heap \<Rightarrow> object_heap" where
  "cache_specials oh = oh\<lparr>
     c_interpreter := get_special oh SPECIAL_OOP_INTERPRETER,
     c_true_object := get_special oh SPECIAL_OOP_TRUE,
     c_false_object := get_special oh SPECIAL_OOP_FALSE,
     c_nil := get_special oh SPECIAL_OOP_NIL,
     c_primitive_method_window := get_special oh SPECIAL_OOP_PRIMITIVE_METHOD_WINDOW,
     c_compiled_method_window := get_special oh SPECIAL_OOP_COMPILED_METHOD_WINDOW,
     c_closure_method_window := get_special oh SPECIAL_OOP_CLOSURE_WINDOW\<rparr>"

text \<open>
  The prelude of \<open>interpret\<close>: the six pinned objects, and room for the registers of the
  first method of a bootstrap image. \<open>pinnedObjects[0]\<close> is the interpreter.
\<close>

definition interpret_start :: "object_heap \<Rightarrow> object_heap option" where
  "interpret_start oh = do {
     let oh = cache_specials oh;
     oh \<leftarrow> fold_opt (\<lambda>oh p. pinned_assign oh 0 p)
       [c_interpreter oh, c_true_object oh, c_false_object oh, c_primitive_method_window oh,
        c_compiled_method_window oh, c_closure_method_window oh] oh;
     oh \<leftarrow> if i_framePointer oh = FUNCTION_FRAME_SIZE \<and> i_stackPointer oh = FUNCTION_FRAME_SIZE
            \<and> i_stackSize oh = int MAX_ARITY
       then interpreter_stack_allocate oh (object_to_smallint (cm_registerCount (mem oh) (i_method oh)))
       else Some oh;
     Some (cache_specials oh) }"

text \<open>
  One turn of the inner loop. \<open>globalInterrupt\<close> is the flag of the signal handler as this
  turn finds it; a set \<open>interrupt_flag\<close> leaves the inner loop, after which the outer one
  caches the special objects again and pins the interpreter.
\<close>

definition interrupt :: "vm_env \<Rightarrow> bool \<Rightarrow> object_heap \<Rightarrow> (bool \<times> object_heap) option" where
  "interrupt env globalInterrupt oh =
     (if \<not> globalInterrupt then Some (False, oh)
      else if die_on_break env then Some (True, oh)
      else do {
        oh \<leftarrow> interpreter_signal env oh (get_special oh SPECIAL_OOP_TYPE_ERROR_ON) [c_nil oh] []
          (object_to_smallint (stack_at oh (i_framePointer oh - FRAME_OFFSET_RESULT_STACK_POINTER)));
        Some (False, oh) })"

definition interpret_turn :: "vm_env \<Rightarrow> bool \<Rightarrow> object_heap \<Rightarrow> (bool \<times> object_heap) option" where
  "interpret_turn env globalInterrupt oh =
     (if interrupt_flag oh then do {
        let pinned = c_interpreter oh;
        let oh = cache_specials (oh\<lparr>interrupt_flag := False\<rparr>);
        oh \<leftarrow> pinned_assign oh pinned (c_interpreter oh);
        Some (False, oh) }
      else do {
        (exits, oh) \<leftarrow> interrupt env globalInterrupt oh;
        if exits then Some (True, oh)
        else do {
          let prevPointer = i_codePointer oh;
          let (w, oh) = next_object oh;
          op \<leftarrow> decode_op w;
          execute env prevPointer op oh } })"

text \<open>The loop has no end but the exit of the process: it is run for a number of turns.\<close>

fun interpret_turns :: "vm_env \<Rightarrow> bool list \<Rightarrow> object_heap \<Rightarrow> (bool \<times> object_heap) option" where
  "interpret_turns env [] oh = Some (False, oh)"
| "interpret_turns env (globalInterrupt # rest) oh = do {
     (exits, oh) \<leftarrow> interpret_turn env globalInterrupt oh;
     if exits then Some (True, oh) else interpret_turns env rest oh }"

end
