(* ===== verification/Primitives.thy ===== *)
theory Primitives
  imports Interpret
begin

text \<open>
  The primitives (primitives.cpp). A primitive gets the heap, its arguments, the optional
  arguments and the stack slot of the result. It stores its result in that slot of the
  interpreter's stack, signals a condition (which enters the handler) or enters a method, and
  answers the heap; \<open>None\<close> is a failed assertion, an access outside of an object or an endless run. The
  table at the end ties the knot: primitives that send messages run primitives again.
\<close>

type_synonym primitive = "vm_env \<Rightarrow> object_heap \<Rightarrow> oop list \<Rightarrow> oop list \<Rightarrow> word_t \<Rightarrow> object_heap option"

section \<open>Arguments, results, conditions\<close>

definition arg :: "oop list \<Rightarrow> nat \<Rightarrow> oop option" where
  "arg args k = (if k < length args then Some (args ! k) else None)"

text \<open>An argument that is used as the address of an object.\<close>

definition obj_arg :: "oop list \<Rightarrow> nat \<Rightarrow> oop option" where
  "obj_arg args k = do { x \<leftarrow> arg args k; check (\<not> object_is_smallint x); Some x }"

definition bool_object :: "object_heap \<Rightarrow> bool \<Rightarrow> oop" where
  "bool_object oh b = (if b then c_true_object oh else c_false_object oh)"

definition interpreter_signal_with :: "vm_env \<Rightarrow> object_heap \<Rightarrow> nat \<Rightarrow> oop \<Rightarrow> word_t \<Rightarrow> object_heap option" where
  "interpreter_signal_with env oh signal x resultStackPointer =
     interpreter_signal env oh (get_special oh signal) [x] [] resultStackPointer"

definition interpreter_signal_with_with :: "vm_env \<Rightarrow> object_heap \<Rightarrow> nat \<Rightarrow> oop \<Rightarrow> oop \<Rightarrow> word_t \<Rightarrow> object_heap option" where
  "interpreter_signal_with_with env oh signal x y resultStackPointer =
     interpreter_signal env oh (get_special oh signal) [x, y] [] resultStackPointer"

text \<open>\<open>ASSURE_SMALLINT_ARG\<close>: the argument that is not a small integer, if there is one.\<close>

fun first_bad :: "oop list \<Rightarrow> oop option" where
  "first_bad [] = None"
| "first_bad (x # xs) = (if object_is_smallint x then first_bad xs else Some x)"

definition type_error :: "vm_env \<Rightarrow> object_heap \<Rightarrow> oop \<Rightarrow> word_t \<Rightarrow> object_heap option" where
  "type_error env oh x resultStackPointer = interpreter_signal_with env oh SPECIAL_OOP_TYPE_ERROR_ON x resultStackPointer"

text \<open>The outcome of a SmallInteger primitive.\<close>

definition finish :: "vm_env \<Rightarrow> object_heap \<Rightarrow> word_t \<Rightarrow> prim_outcome \<Rightarrow> object_heap option" where
  "finish env oh resultStackPointer r =
     (case r of
        Put v \<Rightarrow> Some (set_stack_at oh resultStackPointer v)
      | Sig s xs \<Rightarrow> interpreter_signal env oh (get_special oh s) xs [] resultStackPointer)"

section \<open>Bytes of objects\<close>

text \<open>The byte at an offset from the start of an object; before its start there is no object.\<close>

definition get_byte :: "mem \<Rightarrow> addr \<Rightarrow> int \<Rightarrow> int" where
  "get_byte m p i = take_bit 8 (drop_bit (8 * nat (i mod 8)) (rd m p (nat (i div 8))))"

definition set_byte :: "object_heap \<Rightarrow> addr \<Rightarrow> int \<Rightarrow> int \<Rightarrow> object_heap" where
  "set_byte oh p i b =
     (let s = 8 * nat (i mod 8); w = rd (mem oh) p (nat (i div 8))
      in upd oh p (nat (i div 8)) (wrap64 ((w AND NOT (push_bit s 255)) OR push_bit s (take_bit 8 b))))"

definition get_bytes :: "mem \<Rightarrow> addr \<Rightarrow> int \<Rightarrow> nat \<Rightarrow> int list" where
  "get_bytes m p off n = map (\<lambda>j. get_byte m p (off + int j)) [0..<n]"

fun put_bytes :: "addr \<Rightarrow> int \<Rightarrow> int list \<Rightarrow> object_heap \<Rightarrow> object_heap" where
  "put_bytes p off [] oh = oh"
| "put_bytes p off (b # bs) oh = put_bytes p (off + 1) bs (set_byte oh p off b)"

text \<open>\<open>((struct ByteArray* )x)->elements\<close>: the bytes after the C header.\<close>

definition ELEMENTS :: int where "ELEMENTS = 32"

definition new_byte_array :: "object_heap \<Rightarrow> int list \<Rightarrow> (addr \<times> object_heap) option" where
  "new_byte_array oh bytes = do {
     (arr, oh) \<leftarrow> heap_clone_byte_array_sized oh (get_special oh SPECIAL_OOP_BYTE_ARRAY_PROTO) (int (length bytes));
     Some (arr, put_bytes arr ELEMENTS bytes oh) }"

text \<open>A new object as the result, with the write barrier of the stack.\<close>

definition put_new :: "(addr \<times> object_heap) option \<Rightarrow> word_t \<Rightarrow> object_heap option" where
  "put_new r rsp = do {
     (new, oh) \<leftarrow> r;
     let oh = set_stack_at oh rsp new;
     heap_store_into oh (i_stack oh) new }"

section \<open>Root\<close>

definition prim_fixme :: primitive where
  "prim_fixme env oh args opts rsp = do {
     x \<leftarrow> arg args 0;
     interpreter_signal_with env oh SPECIAL_OOP_TYPE_ERROR_ON x rsp }"

definition prim_isIdenticalTo :: primitive where
  "prim_isIdenticalTo env oh args opts rsp = do {
     x \<leftarrow> arg args 0; y \<leftarrow> arg args 1;
     Some (set_stack_at oh rsp (bool_object oh (x = y))) }"

definition prim_identity_hash :: primitive where
  "prim_identity_hash env oh args opts rsp = do {
     x \<leftarrow> obj_arg args 0;
     Some (set_stack_at oh rsp (smallint_to_object (object_hash (mem oh) x))) }"

definition prim_identity_hash_univ :: primitive where
  "prim_identity_hash_univ env oh args opts rsp = do {
     x \<leftarrow> arg args 0;
     Some (set_stack_at oh rsp (if object_is_smallint x then x else smallint_to_object (object_hash (mem oh) x))) }"

definition prim_forward_to :: primitive where
  "prim_forward_to env oh args opts rsp = do {
     x \<leftarrow> arg args 0; y \<leftarrow> arg args 1;
     let oh = set_stack_at oh rsp y;
     if x = get_special oh SPECIAL_OOP_NIL \<or> x = get_special oh SPECIAL_OOP_TRUE \<or> x = get_special oh SPECIAL_OOP_FALSE
     then interpreter_signal_with env oh SPECIAL_OOP_TYPE_ERROR_ON x rsp
     else if \<not> object_is_smallint x \<and> \<not> object_is_smallint y \<and> x \<noteq> y then heap_forward (heap_unpin_object oh x) x y
     else Some oh }"

definition prim_at_slot_named :: primitive where
  "prim_at_slot_named env oh args opts rsp = do {
     obj \<leftarrow> arg args 0; name \<leftarrow> arg args 1;
     if object_is_smallint obj then interpreter_signal_with_with env oh SPECIAL_OOP_SLOT_NOT_FOUND_NAMED obj name rsp
     else do {
       let slotTable = map_slotTable (mem oh) (object_map (mem oh) obj);
       se \<leftarrow> slot_table_entry_for_name oh slotTable name;
       case se of
         None \<Rightarrow> interpreter_signal_with_with env oh SPECIAL_OOP_SLOT_NOT_FOUND_NAMED obj name rsp
       | Some k \<Rightarrow> Some (set_stack_at oh rsp
           (object_slot_value_at_offset (mem oh) obj (object_to_smallint (slot_offset (mem oh) slotTable k)))) } }"

definition prim_at_slot_named_put :: primitive where
  "prim_at_slot_named_put env oh args opts rsp = do {
     obj \<leftarrow> arg args 0; name \<leftarrow> arg args 1; val \<leftarrow> arg args 2;
     if object_is_smallint obj then interpreter_signal_with_with env oh SPECIAL_OOP_SLOT_NOT_FOUND_NAMED obj name rsp
     else if object_is_immutable (mem oh) obj then interpreter_signal_with env oh SPECIAL_OOP_IMMUTABLE obj rsp
     else do {
       let slotTable = map_slotTable (mem oh) (object_map (mem oh) obj);
       se \<leftarrow> slot_table_entry_for_name oh slotTable name;
       case se of
         None \<Rightarrow> interpreter_signal_with_with env oh SPECIAL_OOP_SLOT_NOT_FOUND_NAMED obj name rsp
       | Some k \<Rightarrow> do {
           oh \<leftarrow> object_slot_value_at_offset_put oh obj (object_to_smallint (slot_offset (mem oh) slotTable k)) val;
           Some (set_stack_at oh rsp val) } } }"

definition prim_smallint_at_slot_named :: primitive where
  "prim_smallint_at_slot_named env oh args opts rsp = do {
     obj \<leftarrow> arg args 0; name \<leftarrow> arg args 1;
     let proto = get_special oh SPECIAL_OOP_SMALL_INT_PROTO;
     let slotTable = map_slotTable (mem oh) (object_map (mem oh) proto);
     se \<leftarrow> slot_table_entry_for_name oh slotTable name;
     case se of
       None \<Rightarrow> interpreter_signal_with_with env oh SPECIAL_OOP_SLOT_NOT_FOUND_NAMED obj name rsp
     | Some k \<Rightarrow> Some (set_stack_at oh rsp
         (object_slot_value_at_offset (mem oh) proto (object_to_smallint (slot_offset (mem oh) slotTable k)))) }"

definition prim_clone :: primitive where
  "prim_clone env oh args opts rsp = do {
     x \<leftarrow> arg args 0;
     if object_is_smallint x then Some (set_stack_at oh rsp x)
     else do { (new, oh) \<leftarrow> heap_clone oh x; Some (set_stack_at oh rsp new) } }"

text \<open>One slot of \<open>prim_clone_setting_slots\<close>; a slot that is not found is signalled and the loop goes on.\<close>

definition clone_set_slot :: "vm_env \<Rightarrow> oop \<Rightarrow> oop \<Rightarrow> oop \<Rightarrow> oop \<Rightarrow> word_t \<Rightarrow> object_heap \<Rightarrow> int \<Rightarrow> object_heap option" where
  "clone_set_slot env obj slotArray valueArray new rsp oh i = do {
     let name = object_array_get_element (mem oh) slotArray i;
     let slotTable = map_slotTable (mem oh) (object_map (mem oh) obj);
     se \<leftarrow> slot_table_entry_for_name oh slotTable name;
     case se of
       None \<Rightarrow> interpreter_signal_with_with env oh SPECIAL_OOP_SLOT_NOT_FOUND_NAMED obj name rsp
     | Some k \<Rightarrow> object_slot_value_at_offset_put oh new (object_to_smallint (slot_offset (mem oh) slotTable k))
         (object_array_get_element (mem oh) valueArray i) }"

definition prim_clone_setting_slots :: primitive where
  "prim_clone_setting_slots env oh args opts rsp = do {
     obj \<leftarrow> arg args 0; slotArray \<leftarrow> arg args 1; valueArray \<leftarrow> arg args 2;
     oh \<leftarrow> pinned_assign oh 0 obj;
     oh \<leftarrow> pinned_assign oh 0 slotArray;
     oh \<leftarrow> pinned_assign oh 0 valueArray;
     if object_is_smallint obj
     then Some (pinned_end (pinned_end (pinned_end (set_stack_at oh rsp obj) valueArray) slotArray) obj)
     else do {
       (new, oh) \<leftarrow> heap_clone oh obj;
       oh \<leftarrow> pinned_assign oh 0 new;
       n \<leftarrow> object_array_size (mem oh) slotArray;
       oh \<leftarrow> fold_opt (clone_set_slot env obj slotArray valueArray new rsp) [0..n - 1] oh;
       let oh = set_stack_at oh rsp new;
       Some (pinned_end (pinned_end (pinned_end (pinned_end oh new) valueArray) slotArray) obj) } }"

definition prim_clone_with_slot_valued :: primitive where
  "prim_clone_with_slot_valued env oh args opts rsp = do {
     obj \<leftarrow> arg args 0; name \<leftarrow> arg args 1; val \<leftarrow> arg args 2;
     oh \<leftarrow> pinned_assign oh 0 obj;
     oh \<leftarrow> pinned_assign oh 0 val;
     oh \<leftarrow> pinned_assign oh 0 name;
     oh \<leftarrow>
       if object_is_smallint obj then interpreter_signal_with_with env oh SPECIAL_OOP_SLOT_NOT_FOUND_NAMED obj name rsp
       else do { (new, oh) \<leftarrow> object_add_slot_named oh obj name val; Some (set_stack_at oh rsp new) };
     Some (pinned_end (pinned_end (pinned_end oh name) val) obj) }"

definition prim_clone_without_slot :: primitive where
  "prim_clone_without_slot env oh args opts rsp = do {
     obj \<leftarrow> arg args 0; name \<leftarrow> arg args 1;
     oh \<leftarrow> pinned_assign oh 0 obj;
     oh \<leftarrow> pinned_assign oh 0 name;
     oh \<leftarrow>
       if object_is_smallint obj then interpreter_signal_with_with env oh SPECIAL_OOP_SLOT_NOT_FOUND_NAMED obj name rsp
       else do { (new, oh) \<leftarrow> object_remove_slot oh obj name; Some (set_stack_at oh rsp new) };
     Some (pinned_end (pinned_end oh name) obj) }"

section \<open>Map\<close>

definition prim_map :: primitive where
  "prim_map env oh args opts rsp = do {
     obj \<leftarrow> arg args 0;
     Some (set_stack_at oh rsp (if object_is_smallint obj then c_nil oh else object_map (mem oh) obj)) }"

definition prim_set_map :: primitive where
  "prim_set_map env oh args opts rsp = do {
     obj \<leftarrow> arg args 0; m \<leftarrow> arg args 1;
     oh \<leftarrow> pinned_assign oh 0 obj;
     oh \<leftarrow> pinned_assign oh 0 m;
     oh \<leftarrow>
       if object_is_smallint obj \<or> object_is_immutable (mem oh) obj then Some (set_stack_at oh rsp (c_nil oh))
       else do {
         oh \<leftarrow> object_change_map oh obj m;
         oh \<leftarrow> heap_store_into oh obj m;
         Some (set_stack_at oh rsp m) };
     Some (pinned_end (pinned_end oh m) obj) }"

section \<open>Methods and messages\<close>

text \<open>The optional arguments passed as an array after their keyword, pinned.\<close>

definition read_and_pin_opts :: "object_heap \<Rightarrow> oop list \<Rightarrow> (oop list \<times> object_heap) option" where
  "read_and_pin_opts oh opts =
     (if length opts = 2 \<and> opts ! 1 \<noteq> c_nil oh then do {
        n \<leftarrow> object_array_size (mem oh) (opts ! 1);
        check (n \<le> int MAX_OPTS);
        let os = map (elements (mem oh) (opts ! 1)) [0..n - 1];
        oh \<leftarrow> fold_opt heap_pin_object os oh;
        Some (os, oh) }
      else Some ([], oh))"

definition array_values :: "mem \<Rightarrow> addr \<Rightarrow> oop list option" where
  "array_values m arr = do {
     n \<leftarrow> object_array_size m arr;
     Some (map (object_array_get_element m arr) [0..n - 1]) }"

definition prim_applyto :: primitive where
  "prim_applyto env oh args opts rsp = do {
     closure \<leftarrow> arg args 0; argArray \<leftarrow> arg args 1;
     oh \<leftarrow> pinned_assign oh 0 closure;
     oh \<leftarrow> pinned_assign oh 0 argArray;
     (os, oh) \<leftarrow> read_and_pin_opts oh opts;
     n \<leftarrow> object_array_size (mem oh) argArray;
     oh \<leftarrow> interpreter_apply_to_arity_with_optionals env oh closure (map (elements (mem oh) argArray) [0..n - 1]) os rsp;
     Some (pinned_end (pinned_end (unpin_args os oh) argArray) closure) }"

definition prim_interrupt :: primitive where
  "prim_interrupt env oh args opts rsp = Some (oh\<lparr>interrupt_flag := True\<rparr>)"

definition prim_findon :: primitive where
  "prim_findon env oh args opts rsp = do {
     selector \<leftarrow> arg args 0; arguments \<leftarrow> arg args 1;
     oh \<leftarrow> pinned_assign oh 0 selector;
     oh \<leftarrow> pinned_assign oh 0 arguments;
     n \<leftarrow> object_array_size (mem oh) arguments;
     (def, as, oh) \<leftarrow> method_dispatch_on oh selector (map (elements (mem oh) arguments) [0..n - 1]) 0;
     let oh = put_words oh arguments 4 as;
     let oh = set_stack_at oh rsp (if def = 0 then c_nil oh else def_method (mem oh) def);
     Some (pinned_end (pinned_end oh arguments) selector) }"

definition prim_ensure :: primitive where
  "prim_ensure env oh args opts rsp = do {
     body \<leftarrow> arg args 0; ensureHandler \<leftarrow> arg args 1;
     oh \<leftarrow> pinned_assign oh 0 body;
     oh \<leftarrow> pinned_assign oh 0 ensureHandler;
     oh \<leftarrow> interpreter_apply_to_arity_with_optionals env oh body [] [] rsp;
     oh \<leftarrow> interpreter_stack_push oh (i_ensureHandlers oh);
     oh \<leftarrow> interpreter_stack_push oh ensureHandler;
     let oh = set_ensureHandlers oh (smallint_to_object (i_stackPointer oh - 2));
     Some (pinned_end (pinned_end oh ensureHandler) body) }"

definition prim_send_to :: primitive where
  "prim_send_to env oh args opts rsp = do {
     selector \<leftarrow> arg args 0; arguments \<leftarrow> arg args 1;
     oh \<leftarrow> pinned_assign oh 0 selector;
     oh \<leftarrow> pinned_assign oh 0 arguments;
     (os, oh) \<leftarrow> read_and_pin_opts oh opts;
     as \<leftarrow> array_values (mem oh) arguments;
     oh \<leftarrow> send_to_through_arity_with_optionals env oh selector as None
       (Some (arguments, nat (object_size (mem oh) arguments))) os rsp;
     Some (pinned_end (pinned_end (unpin_args os oh) arguments) selector) }"

text \<open>The arity is that of the arguments; as many dispatchers are read.\<close>

definition prim_send_to_through :: primitive where
  "prim_send_to_through env oh args opts rsp = do {
     selector \<leftarrow> arg args 0; arguments \<leftarrow> arg args 1; dispatchers \<leftarrow> arg args 2;
     oh \<leftarrow> pinned_assign oh 0 selector;
     oh \<leftarrow> pinned_assign oh 0 arguments;
     oh \<leftarrow> pinned_assign oh 0 dispatchers;
     (os, oh) \<leftarrow> read_and_pin_opts oh opts;
     as \<leftarrow> array_values (mem oh) arguments;
     oh \<leftarrow> send_to_through_arity_with_optionals env oh selector as
       (if dispatchers = arguments then None
        else Some (map (object_array_get_element (mem oh) dispatchers) [0..int (length as) - 1]))
       (Some (dispatchers, nat (object_size (mem oh) dispatchers))) os rsp;
     Some (pinned_end (pinned_end (pinned_end (unpin_args os oh) dispatchers) arguments) selector) }"

text \<open>
  The copy of the method that is defined: a closure with a copy of its compiled method, or a
  copy of the compiled method, with the selector. \<open>None\<close> for the second component when the method
  is of neither kind. The new value is pinned in the variable \<open>closure\<close>.
\<close>

definition copy_closure :: "object_heap \<Rightarrow> addr \<Rightarrow> oop \<Rightarrow> (addr \<times> object_heap) option" where
  "copy_closure oh aMethod selector = do {
     (closure, oh) \<leftarrow> heap_clone oh aMethod;
     oh \<leftarrow> pinned_assign oh 0 closure;
     (m, oh) \<leftarrow> heap_clone oh (cm_method (mem oh) closure);
     let oh = upd oh closure 4 m;
     oh \<leftarrow> heap_store_into oh closure m;
     let oh = upd oh m 4 m;
     Some (closure, upd oh m 5 selector) }"

definition copy_compiled :: "object_heap \<Rightarrow> addr \<Rightarrow> oop \<Rightarrow> (addr \<times> object_heap) option" where
  "copy_compiled oh aMethod selector = do {
     (closure, oh) \<leftarrow> heap_clone oh aMethod;
     oh \<leftarrow> pinned_assign oh 0 closure;
     let oh = upd oh closure 4 closure;
     Some (closure, upd oh closure 5 selector) }"

definition unpin_all :: "oop list \<Rightarrow> object_heap \<Rightarrow> object_heap" where
  "unpin_all ps oh = fold (\<lambda>p oh. pinned_end oh p) ps oh"

definition pin_all :: "oop list \<Rightarrow> object_heap \<Rightarrow> object_heap option" where
  "pin_all ps oh = fold_opt (\<lambda>oh p. pinned_assign oh 0 p) ps oh"

definition prim_as_method_on :: primitive where
  "prim_as_method_on env oh args opts rsp = do {
     aMethod \<leftarrow> arg args 0; selector \<leftarrow> arg args 1; roles \<leftarrow> arg args 2;
     let window = traitsWindow (mem oh) aMethod;
     oh \<leftarrow> pin_all [aMethod, roles, selector, window] oh;
     n \<leftarrow> object_array_size (mem oh) roles;
     let rs = map (elements (mem oh) roles) [0..n - 1];
     oh \<leftarrow> pin_all rs oh;
     (closure, oh) \<leftarrow>
       if window = get_special oh SPECIAL_OOP_CLOSURE_WINDOW then copy_closure oh aMethod selector
       else copy_compiled oh aMethod selector;
     oh \<leftarrow> pinned_assign oh aMethod closure;
     (def, oh) \<leftarrow> method_define oh closure selector (map (elements (mem oh) roles) [0..n - 1]);
     oh \<leftarrow> pinned_assign oh 0 def;
     let oh = upd oh def 5 (c_nil oh);
     let oh = method_flush_cache oh selector;
     let oh = set_stack_at oh rsp closure;
     Some (unpin_all (rs @ [closure, window, selector, roles, closure, def]) oh) }"

definition prim_as_accessor :: primitive where
  "prim_as_accessor env oh args opts rsp = do {
     aMethod \<leftarrow> arg args 0; selector \<leftarrow> arg args 1; slot \<leftarrow> arg args 2; roles \<leftarrow> arg args 3;
     let window = traitsWindow (mem oh) aMethod;
     oh \<leftarrow> pin_all [aMethod, slot, roles, selector, window] oh;
     n \<leftarrow> object_array_size (mem oh) roles;
     let rs = map (elements (mem oh) roles) [0..n - 1];
     oh \<leftarrow> pin_all rs oh;
     (closure, aMethod, oh) \<leftarrow>
       if window = c_closure_method_window oh then do {
         (closure, oh) \<leftarrow> copy_closure oh aMethod selector;
         oh \<leftarrow> pinned_assign oh aMethod closure;
         Some (closure, closure, oh) }
       else if window = c_compiled_method_window oh then do {
         (closure, oh) \<leftarrow> copy_compiled oh aMethod selector;
         oh \<leftarrow> pinned_assign oh aMethod closure;
         Some (closure, closure, oh) }
       else Some (0, aMethod, oh);
     (def, oh) \<leftarrow> method_define oh aMethod selector (map (elements (mem oh) roles) [0..n - 1]);
     let oh = upd oh def 5 slot;
     let oh = method_flush_cache oh selector;
     let oh = set_stack_at oh rsp aMethod;
     Some (unpin_all (rs @ [closure, window, selector, roles, slot, aMethod]) oh) }"

text \<open>Any other kind of method ends the process.\<close>

definition prim_removefrom :: primitive where
  "prim_removefrom env oh args opts rsp = do {
     aMethod \<leftarrow> arg args 0; roles \<leftarrow> arg args 1;
     let window = traitsWindow (mem oh) aMethod;
     check (window = c_closure_method_window oh \<or> window = c_compiled_method_window oh);
     let selector = cm_selector (mem oh) (cm_method (mem oh) aMethod);
     oh \<leftarrow> pin_all [aMethod, roles, window, selector] oh;
     rs \<leftarrow> array_values (mem oh) roles;
     found \<leftarrow> method_is_on_arity (mem oh) aMethod selector rs;
     case found of
       None \<Rightarrow> Some (unpin_all [selector, roles, window, aMethod] (set_stack_at oh rsp aMethod))
     | Some def \<Rightarrow> do {
         oh \<leftarrow> pinned_assign oh 0 def;
         oh \<leftarrow> fold_opt (\<lambda>oh i. let role = object_array_get_element (mem oh) roles i in
             if object_is_smallint role then Some oh
             else map_option snd (object_remove_role oh role selector def)) [0..int (length rs) - 1] oh;
         let oh = method_flush_cache oh selector;
         Some (unpin_all [def, selector, roles, window, aMethod] (set_stack_at oh rsp aMethod)) } }"

text \<open>The frame of the innermost method with that selector.\<close>

partial_function (option) frame_loop :: "object_heap \<Rightarrow> addr \<Rightarrow> oop \<Rightarrow> word_t \<Rightarrow> word_t option option" where
  "frame_loop oh i selector frame =
     (if frame > FUNCTION_FRAME_SIZE then
        if cm_selector (mem oh) (cm_method (mem oh) (elements (mem oh) (rd (mem oh) i 4) (frame - FRAME_OFFSET_METHOD))) = selector
        then Some (Some frame)
        else frame_loop oh i selector
          (object_to_smallint (elements (mem oh) (rd (mem oh) i 4) (frame - FRAME_OFFSET_PREVIOUS_FRAME_POINTER)))
      else Some None)"

declare frame_loop.simps [code]

definition prim_frame_pointer_of :: primitive where
  "prim_frame_pointer_of env oh args opts rsp = do {
     i \<leftarrow> obj_arg args 0; selector \<leftarrow> arg args 1;
     frame \<leftarrow> frame_loop oh i selector (rd (mem oh) i 9);
     Some (set_stack_at oh rsp (case frame of None \<Rightarrow> c_nil oh | Some f \<Rightarrow> smallint_to_object f)) }"

end
