(* ===== verification/Arrays.thy ===== *)
theory Arrays
  imports Primitives
begin

text \<open>
  The primitives on arrays, byte arrays and memory areas, on the lookups of addresses and on
  the process (primitives.cpp). Indexes are checked where the source checks them: an access
  below an array reaches the words of its header, one below its start is \<open>None\<close>.
\<close>

section \<open>Arrays\<close>

definition prim_at :: primitive where
  "prim_at env oh args opts rsp = do {
     array \<leftarrow> arg args 0; x \<leftarrow> arg args 1;
     if \<not> object_is_smallint x then type_error env oh x rsp
     else do {
       check (\<not> object_is_smallint array);
       let i = object_to_smallint x;
       n \<leftarrow> object_array_size (mem oh) array;
       if i < n \<and> i \<ge> 0 then Some (set_stack_at oh rsp (elements (mem oh) array i))
       else interpreter_signal_with_with env oh SPECIAL_OOP_KEY_NOT_FOUND_ON x array rsp } }"

text \<open>The word of an element; a negative index down to -4 is a word of the header.\<close>

definition put_element :: "object_heap \<Rightarrow> addr \<Rightarrow> word_t \<Rightarrow> oop \<Rightarrow> object_heap option" where
  "put_element oh array i val = do {
     check (0 \<le> 4 + i);
     Some (upd oh array (nat (4 + i)) val) }"

definition prim_at_put :: primitive where
  "prim_at_put env oh args opts rsp = do {
     array \<leftarrow> arg args 0; i \<leftarrow> arg args 1; val \<leftarrow> arg args 2;
     let index = object_to_smallint i;
     if \<not> object_is_smallint i then type_error env oh i rsp
     else if object_is_immutable (mem oh) array then interpreter_signal_with env oh SPECIAL_OOP_IMMUTABLE array rsp
     else do {
       check (\<not> object_is_smallint array);
       n \<leftarrow> object_array_size (mem oh) array;
       if index < n then do {
         oh \<leftarrow> heap_store_into oh array val;
         oh \<leftarrow> put_element oh array index val;
         Some (set_stack_at oh rsp val) }
       else interpreter_signal_with_with env oh SPECIAL_OOP_KEY_NOT_FOUND_ON i array rsp } }"

definition prim_ooparray_newsize :: primitive where
  "prim_ooparray_newsize env oh args opts rsp = do {
     i \<leftarrow> arg args 1;
     if object_is_smallint i then do {
       (new, oh) \<leftarrow> new_array oh (object_to_smallint i);
       Some (set_stack_at oh rsp new) }
     else Some (set_stack_at oh rsp (c_nil oh)) }"

definition prim_size :: primitive where
  "prim_size env oh args opts rsp = do {
     x \<leftarrow> obj_arg args 0;
     n \<leftarrow> object_array_size (mem oh) x;
     Some (set_stack_at oh rsp (smallint_to_object n)) }"

text \<open>One word of the copy, with its write barrier.\<close>

definition copy_element :: "addr \<Rightarrow> addr \<Rightarrow> word_t \<Rightarrow> object_heap \<Rightarrow> int \<Rightarrow> object_heap option" where
  "copy_element dest src repOff oh i = do {
     let d = object_size (mem oh) dest + i;
     let s = object_size (mem oh) src + (i + repOff);
     check (0 \<le> d \<and> 0 \<le> s);
     let oh = upd oh dest (nat d) (rd (mem oh) src (nat s));
     heap_store_into oh dest (rd (mem oh) dest (nat d)) }"

text \<open>The order of the copy: downwards when an array is shifted up in itself.\<close>

definition copy_order :: "addr \<Rightarrow> addr \<Rightarrow> word_t \<Rightarrow> word_t \<Rightarrow> word_t \<Rightarrow> int list" where
  "copy_order dest src start end repStart = (if dest = src \<and> start > repStart then rev [start..end] else [start..end])"

definition array_replace :: "vm_env \<Rightarrow> object_heap \<Rightarrow> addr \<Rightarrow> oop \<Rightarrow> oop \<Rightarrow> addr \<Rightarrow> oop \<Rightarrow> word_t \<Rightarrow> object_heap option" where
  "array_replace env oh dest a1 a2 src a4 rsp =
     (let start = object_to_smallint a1; end = object_to_smallint a2; repStart = object_to_smallint a4 in
      if object_type (mem oh) dest \<noteq> TYPE_OOP_ARRAY then type_error env oh dest rsp
      else if \<not> object_is_smallint a1 then type_error env oh a1 rsp
      else if \<not> object_is_smallint a2 then type_error env oh a2 rsp
      else if object_type (mem oh) src \<noteq> TYPE_OOP_ARRAY then type_error env oh src rsp
      else if \<not> object_is_smallint a4 then type_error env oh a4 rsp
      else let repOff = repStart - start in
        if end < start then Some oh
        else do {
          sn \<leftarrow> object_array_size (mem oh) src;
          dn \<leftarrow> object_array_size (mem oh) dest;
          if repOff + end \<ge> sn then do {
            oh \<leftarrow> interpreter_signal_with_with env oh SPECIAL_OOP_KEY_NOT_FOUND_ON (smallint_to_object (repOff + end)) src rsp;
            Some (set_stack_at oh rsp src) }
          else if end \<ge> dn then do {
            oh \<leftarrow> interpreter_signal_with_with env oh SPECIAL_OOP_KEY_NOT_FOUND_ON (smallint_to_object end) dest rsp;
            Some (set_stack_at oh rsp dest) }
          else do {
            oh \<leftarrow> fold_opt (copy_element dest src repOff) (copy_order dest src start end repStart) oh;
            Some (set_stack_at oh rsp dest) } })"

text \<open>
  The copy of \<open>amt\<close> bytes is a \<open>memcpy\<close>: undefined when the two regions overlap.
\<close>

definition copy_bytes_between :: "addr \<Rightarrow> int \<Rightarrow> addr \<Rightarrow> int \<Rightarrow> int \<Rightarrow> object_heap \<Rightarrow> object_heap option" where
  "copy_bytes_between dest d src s amt oh = do {
     check (0 \<le> d \<and> 0 \<le> s \<and> (dest \<noteq> src \<or> d + amt \<le> s \<or> s + amt \<le> d));
     Some (put_bytes dest d (get_bytes (mem oh) src s (nat amt)) oh) }"

definition bytearray_replace :: "vm_env \<Rightarrow> object_heap \<Rightarrow> addr \<Rightarrow> oop \<Rightarrow> oop \<Rightarrow> addr \<Rightarrow> oop \<Rightarrow> word_t \<Rightarrow> object_heap option" where
  "bytearray_replace env oh dest a1 a2 src a4 rsp =
     (let start = object_to_smallint a1; end = object_to_smallint a2; repStart = object_to_smallint a4 in
      if object_type (mem oh) dest \<noteq> TYPE_BYTE_ARRAY then type_error env oh dest rsp
      else if \<not> object_is_smallint a1 then type_error env oh a1 rsp
      else if \<not> object_is_smallint a2 then type_error env oh a2 rsp
      else if object_type (mem oh) src \<noteq> TYPE_BYTE_ARRAY then type_error env oh src rsp
      else if \<not> object_is_smallint a4 then type_error env oh a4 rsp
      else let amt = end - start + 1 in
        if repStart + amt > payload_size (mem oh) src then do {
          oh \<leftarrow> interpreter_signal_with_with env oh SPECIAL_OOP_KEY_NOT_FOUND_ON (smallint_to_object (repStart + amt)) src rsp;
          Some (set_stack_at oh rsp src) }
        else if start + amt > payload_size (mem oh) dest then do {
          oh \<leftarrow> interpreter_signal_with_with env oh SPECIAL_OOP_KEY_NOT_FOUND_ON (smallint_to_object (start + amt)) dest rsp;
          Some (set_stack_at oh rsp dest) }
        else do {
          oh \<leftarrow> if amt > 0 then copy_bytes_between dest (object_array_offset (mem oh) dest + start)
                src (object_array_offset (mem oh) src + repStart) amt oh
              else Some oh;
          Some (set_stack_at oh rsp dest) })"

text \<open>Each of the two primitives hands the arrays of the other kind to the other one.\<close>

definition prim_array_replaceFromToWithStartingAt :: primitive where
  "prim_array_replaceFromToWithStartingAt env oh args opts rsp = do {
     dest \<leftarrow> obj_arg args 0; a1 \<leftarrow> arg args 1; a2 \<leftarrow> arg args 2; src \<leftarrow> obj_arg args 3; a4 \<leftarrow> arg args 4;
     if object_type (mem oh) dest = TYPE_BYTE_ARRAY then bytearray_replace env oh dest a1 a2 src a4 rsp
     else array_replace env oh dest a1 a2 src a4 rsp }"

definition prim_bytearray_replaceFromToWithStartingAt :: primitive where
  "prim_bytearray_replaceFromToWithStartingAt env oh args opts rsp = do {
     dest \<leftarrow> obj_arg args 0; a1 \<leftarrow> arg args 1; a2 \<leftarrow> arg args 2; src \<leftarrow> obj_arg args 3; a4 \<leftarrow> arg args 4;
     if object_type (mem oh) dest = TYPE_OOP_ARRAY then array_replace env oh dest a1 a2 src a4 rsp
     else bytearray_replace env oh dest a1 a2 src a4 rsp }"

section \<open>Byte arrays\<close>

definition prim_bytearray_newsize :: primitive where
  "prim_bytearray_newsize env oh args opts rsp = do {
     obj \<leftarrow> arg args 0; i \<leftarrow> arg args 1;
     if \<not> object_is_smallint i then Some (set_stack_at oh rsp (c_nil oh))
     else do {
       (new, oh) \<leftarrow> heap_clone_byte_array_sized oh obj (if object_to_smallint i < 0 then 0 else object_to_smallint i);
       Some (set_stack_at oh rsp new) } }"

definition prim_bytesize :: primitive where
  "prim_bytesize env oh args opts rsp = do {
     x \<leftarrow> obj_arg args 0;
     Some (set_stack_at oh rsp (smallint_to_object (payload_size (mem oh) x))) }"

definition prim_byteat_put :: primitive where
  "prim_byteat_put env oh args opts rsp = do {
     obj \<leftarrow> arg args 0; i \<leftarrow> arg args 1; val \<leftarrow> arg args 2;
     let index = object_to_smallint i;
     if \<not> object_is_smallint i then type_error env oh i rsp
     else if \<not> object_is_smallint val then type_error env oh val rsp
     else if object_is_immutable (mem oh) obj then interpreter_signal_with env oh SPECIAL_OOP_IMMUTABLE obj rsp
     else if index < payload_size (mem oh) obj then do {
       let off = object_array_offset (mem oh) obj + index;
       check (\<not> object_is_smallint obj \<and> 0 \<le> off);
       let oh = set_byte oh obj off (object_to_smallint val);
       Some (set_stack_at oh rsp (smallint_to_object (take_bit 8 (object_to_smallint val)))) }
     else interpreter_signal_with_with env oh SPECIAL_OOP_KEY_NOT_FOUND_ON i obj rsp }"

definition prim_byteat :: primitive where
  "prim_byteat env oh args opts rsp = do {
     obj \<leftarrow> arg args 0; i \<leftarrow> arg args 1;
     let index = object_to_smallint i;
     if \<not> object_is_smallint i then type_error env oh i rsp
     else if index < payload_size (mem oh) obj then do {
       let off = object_array_offset (mem oh) obj + index;
       check (\<not> object_is_smallint obj \<and> 0 \<le> off);
       Some (set_stack_at oh rsp (smallint_to_object (get_byte (mem oh) obj off))) }
     else interpreter_signal_with_with env oh SPECIAL_OOP_KEY_NOT_FOUND_ON i obj rsp }"

section \<open>Memory areas\<close>

text \<open>The conversion of the handles and sizes to \<open>int\<close> is in the calls, as in the source.\<close>

definition prim_memory_new :: primitive where
  "prim_memory_new env oh args opts rsp = do {
     n \<leftarrow> arg args 1;
     if \<not> object_is_smallint n then Some (set_stack_at oh rsp (c_nil oh))
     else do {
       (handle, ms) \<leftarrow> memarea_open (c_library env) (memareas oh) (wrap32 (object_to_smallint n));
       let oh = oh\<lparr>memareas := ms\<rparr>;
       Some (set_stack_at oh rsp (if handle \<ge> 0 then smallint_to_object handle else c_nil oh)) } }"

definition prim_memory_close :: primitive where
  "prim_memory_close env oh args opts rsp = do {
     handle \<leftarrow> arg args 1;
     oh \<leftarrow> if object_is_smallint handle
       then map_option (\<lambda>ms. oh\<lparr>memareas := ms\<rparr>) (memarea_close (memareas oh) (wrap32 (object_to_smallint handle)))
       else Some oh;
     Some (set_stack_at oh rsp (c_nil oh)) }"

definition prim_memory_size :: primitive where
  "prim_memory_size env oh args opts rsp = do {
     handle \<leftarrow> arg args 1;
     if object_is_smallint handle then do {
       n \<leftarrow> memarea_sizeof (memareas oh) (wrap32 (object_to_smallint handle));
       Some (set_stack_at oh rsp (smallint_to_object n)) }
     else Some (set_stack_at oh rsp (c_nil oh)) }"

definition prim_memory_addRef :: primitive where
  "prim_memory_addRef env oh args opts rsp = do {
     handle \<leftarrow> arg args 1;
     oh \<leftarrow> if object_is_smallint handle
       then map_option (\<lambda>ms. oh\<lparr>memareas := ms\<rparr>) (memarea_addref (memareas oh) (wrap32 (object_to_smallint handle)))
       else Some oh;
     Some (set_stack_at oh rsp (c_nil oh)) }"

text \<open>
  The guard of the two transfers: valid handle, buffer large enough, and an amount that ends before
  the last byte of the area (the comparison is \<open>>=\<close>). The size is looked up with the handle
  that has not been converted to \<open>int\<close>.
\<close>

definition transfer_refused :: "object_heap \<Rightarrow> addr \<Rightarrow> word_t \<Rightarrow> word_t \<Rightarrow> word_t \<Rightarrow> bool option" where
  "transfer_refused oh buf amount handle startingAt = do {
     valid \<leftarrow> memarea_handle_isvalid (memareas oh) (wrap32 handle);
     if \<not> valid then Some True
     else if payload_size (mem oh) buf < amount then Some True
     else do {
       check (0 \<le> handle \<and> handle < SLATE_MEMS_MAXIMUM);
       Some (startingAt + amount \<ge> memory_sizes (memareas oh) handle) } }"

definition prim_memory_read :: primitive where
  "prim_memory_read env oh args opts rsp = do {
     buf \<leftarrow> obj_arg args 0; a1 \<leftarrow> arg args 1; a2 \<leftarrow> arg args 2; a3 \<leftarrow> arg args 3;
     let amount = object_to_smallint a1;
     let handle = object_to_smallint a2;
     let startingAt = object_to_smallint a3;
     case first_bad [a1, a2, a3] of
       Some x \<Rightarrow> type_error env oh x rsp
     | None \<Rightarrow> do {
         refused \<leftarrow> transfer_refused oh buf amount handle startingAt;
         if refused then Some (set_stack_at oh rsp (smallint_to_object (-1)))
         else do {
           let off = object_array_offset (mem oh) buf;
           (n, bytes) \<leftarrow> memarea_write (memareas oh) (wrap32 handle) (wrap32 startingAt) (wrap32 amount)
             (get_bytes (mem oh) buf off (nat (payload_size (mem oh) buf)));
           Some (set_stack_at (put_bytes buf off bytes oh) rsp (smallint_to_object n)) } } }"

definition prim_memory_write :: primitive where
  "prim_memory_write env oh args opts rsp = do {
     buf \<leftarrow> obj_arg args 0; a1 \<leftarrow> arg args 1; a2 \<leftarrow> arg args 2; a3 \<leftarrow> arg args 3;
     let amount = object_to_smallint a1;
     let handle = object_to_smallint a2;
     let startingAt = object_to_smallint a3;
     case first_bad [a1, a2, a3] of
       Some x \<Rightarrow> type_error env oh x rsp
     | None \<Rightarrow> do {
         refused \<leftarrow> transfer_refused oh buf amount handle startingAt;
         if refused then Some (set_stack_at oh rsp (smallint_to_object (-1)))
         else do {
           (n, ms) \<leftarrow> memarea_read (memareas oh) (wrap32 handle) (wrap32 startingAt) (wrap32 amount)
             (get_bytes (mem oh) buf (object_array_offset (mem oh) buf) (nat (payload_size (mem oh) buf)));
           Some (set_stack_at (oh\<lparr>memareas := ms\<rparr>) rsp (smallint_to_object n)) } } }"

definition prim_memory_resizeTo :: primitive where
  "prim_memory_resizeTo env oh args opts rsp = do {
     handle \<leftarrow> arg args 1; n \<leftarrow> arg args 2;
     if object_is_smallint handle \<and> object_is_smallint n then do {
       (r, ms) \<leftarrow> memarea_resize (c_library env) (memareas oh) (wrap32 (object_to_smallint handle)) (wrap32 (object_to_smallint n));
       Some (set_stack_at (oh\<lparr>memareas := ms\<rparr>) rsp (smallint_to_object r)) }
     else Some (set_stack_at oh rsp (c_nil oh)) }"

text \<open>The pointer goes into the first eight bytes of the buffer.\<close>

definition prim_addressOf :: primitive where
  "prim_addressOf env oh args opts rsp = do {
     handle \<leftarrow> arg args 1; offset \<leftarrow> arg args 2; buf \<leftarrow> obj_arg args 3;
     case first_bad [handle, offset] of
       Some x \<Rightarrow> type_error env oh x rsp
     | None \<Rightarrow>
         if payload_size (mem oh) buf mod 2 ^ 32 \<ge> 8 then do {
           (p, n) \<leftarrow> memarea_addressof (memareas oh) (wrap32 (object_to_smallint handle)) (wrap32 (object_to_smallint offset));
           let oh = put_bytes buf (object_array_offset (mem oh) buf) (map (\<lambda>k. take_bit 8 (drop_bit (8 * k) p)) [0..<8]) oh;
           Some (set_stack_at oh rsp (smallint_to_object n)) }
         else Some (set_stack_at oh rsp (c_nil oh)) }"

section \<open>Lookups of addresses\<close>

text \<open>The name in a byte array, \<open>None\<close> for nil.\<close>

definition name_arg :: "object_heap \<Rightarrow> addr \<Rightarrow> int list option" where
  "name_arg oh x = (if x = c_nil oh then None else Some (get_bytes (mem oh) x ELEMENTS (nat (payload_size (mem oh) x))))"

definition prim_getAddrInfo :: primitive where
  "prim_getAddrInfo env oh args opts rsp = do {
     host \<leftarrow> obj_arg args 1; serv \<leftarrow> obj_arg args 2;
     a3 \<leftarrow> arg args 3; a4 \<leftarrow> arg args 4; a5 \<leftarrow> arg args 5; a6 \<leftarrow> arg args 6;
     if object_type (mem oh) host \<noteq> TYPE_BYTE_ARRAY then type_error env oh host rsp
     else case first_bad [a3, a4, a5, a6] of
       Some x \<Rightarrow> type_error env oh x rsp
     | None \<Rightarrow>
         if serv \<noteq> c_nil oh \<and> object_type (mem oh) serv \<noteq> TYPE_BYTE_ARRAY then type_error env oh serv rsp
         else do {
           (ret, ss) \<leftarrow> start_lookup (sockets oh) (name_arg oh host) (name_arg oh serv) (object_to_smallint a3)
             (object_to_smallint a4) (object_to_smallint a5) (object_to_smallint a6) (thread_created env oh);
           let oh = oh\<lparr>sockets := ss\<rparr>;
           Some (set_stack_at oh rsp (smallint_to_object (socket_return (if ret < 0 then - errno env oh else ret)))) } }"

text \<open>The array of one address, put into the array of the results.\<close>

definition put_address :: "addr \<Rightarrow> object_heap \<Rightarrow> int \<times> addrinfo \<Rightarrow> object_heap option" where
  "put_address retval oh r = do {
     let (i, a) = r;
     let (fl, dom, ty, prot, address, name) = address_fields a;
     (aResult, oh) \<leftarrow> new_array oh 6;
     oh \<leftarrow> pinned_assign oh 0 aResult;
     let oh = upd oh retval (nat (4 + i)) aResult;
     oh \<leftarrow> heap_store_into oh retval aResult;
     let oh = put_words oh aResult 4 (map smallint_to_object [fl, dom, ty, prot]);
     (addressArray, oh) \<leftarrow> new_byte_array oh address;
     oh \<leftarrow> heap_store_into (upd oh aResult 8 addressArray) aResult addressArray;
     oh \<leftarrow> (case name of
         None \<Rightarrow> Some (upd oh aResult 9 (c_nil oh))
       | Some bytes \<Rightarrow> do {
           (nameArray, oh) \<leftarrow> new_byte_array oh bytes;
           heap_store_into (upd oh aResult 9 nameArray) aResult nameArray });
     Some (pinned_end oh aResult) }"

definition prim_getAddrInfoResult :: primitive where
  "prim_getAddrInfoResult env oh args opts rsp = do {
     t \<leftarrow> arg args 0;
     let ticket = object_to_smallint t;
     case getAddrInfoResult (sockets oh) ticket of
       Pending \<Rightarrow> Some (set_stack_at oh rsp (c_nil oh))
     | Failed e \<Rightarrow> Some (set_stack_at oh rsp (smallint_to_object e))
     | Addresses _ \<Rightarrow> do {
         let as = rq_addrResult (socketTickets (sockets oh) ticket);
         (retval, oh) \<leftarrow> new_array oh (int (length as));
         oh \<leftarrow> pinned_assign oh 0 retval;
         let oh = set_stack_at oh rsp retval;
         oh \<leftarrow> heap_store_into oh (i_stack oh) retval;
         oh \<leftarrow> fold_opt (put_address retval) (zip [0..int (length as) - 1] as) oh;
         Some (pinned_end oh retval) } }"

definition prim_freeAddrInfoResult :: primitive where
  "prim_freeAddrInfoResult env oh args opts rsp = do {
     t \<leftarrow> arg args 0;
     let (freed, ss) = freeAddrInfoResult (sockets oh) (object_to_smallint t);
     let oh = oh\<lparr>sockets := ss\<rparr>;
     Some (set_stack_at oh rsp (bool_object oh freed)) }"

section \<open>The process\<close>

definition prim_bytesPerWord :: primitive where
  "prim_bytesPerWord env oh args opts rsp = Some (set_stack_at oh rsp (smallint_to_object 8))"

definition prim_isLittleEndian :: primitive where
  "prim_isLittleEndian env oh args opts rsp = Some (set_stack_at oh rsp (c_true_object oh))"

definition prim_timeSinceEpoch :: primitive where
  "prim_timeSinceEpoch env oh args opts rsp =
     put_new (new_byte_array oh (map (\<lambda>k. take_bit 8 (drop_bit (8 * k) (getTickCount env oh))) [0..<8])) rsp"

definition prim_vmArgCount :: primitive where
  "prim_vmArgCount env oh args opts rsp = Some (set_stack_at oh rsp (smallint_to_object (int (length (argvSaved env)))))"

definition prim_vmArg :: primitive where
  "prim_vmArg env oh args opts rsp = do {
     x \<leftarrow> arg args 1;
     if \<not> object_is_smallint x then type_error env oh x rsp
     else let i = object_to_smallint x in
       if i \<ge> 0 \<and> i < int (length (argvSaved env)) then put_new (new_byte_array oh (argvSaved env ! nat i)) rsp
       else Some (set_stack_at oh rsp (c_nil oh)) }"

definition prim_environmentVariables :: primitive where
  "prim_environmentVariables env oh args opts rsp = do {
     (array, oh) \<leftarrow> new_array oh (int (length (envp env)));
     oh \<leftarrow> pinned_assign oh 0 array;
     oh \<leftarrow> fold_opt (\<lambda>oh (i, bytes). do {
         (new, oh) \<leftarrow> new_byte_array oh bytes;
         heap_store_into (upd oh array (nat (4 + i)) new) array new })
       (zip [0..int (length (envp env)) - 1] (envp env)) oh;
     oh \<leftarrow> put_new (Some (array, oh)) rsp;
     Some (pinned_end oh array) }"

text \<open>\<open>write_args_into\<close>: as many whole arguments with their zero bytes as fit below the limit.\<close>

fun write_args_into :: "int list list \<Rightarrow> int \<Rightarrow> int list \<Rightarrow> int list" where
  "write_args_into [] limit written = written"
| "write_args_into (a # as) limit written =
     (if int (length written) + (int (length a) + 1) \<ge> limit then written
      else write_args_into as limit (written @ a @ [0]))"

definition prim_run_args_into :: primitive where
  "prim_run_args_into env oh args opts rsp = do {
     buf \<leftarrow> obj_arg args 1;
     let bytes = write_args_into (argvSaved env) (payload_size (mem oh) buf) [];
     let oh = put_bytes buf (object_array_offset (mem oh) buf) bytes oh;
     Some (set_stack_at oh rsp (smallint_to_object (int (length bytes)))) }"

definition prim_startProfiling :: primitive where
  "prim_startProfiling env oh args opts rsp =
     (if currentlyProfiling (profiler oh) then Some (set_stack_at oh rsp (c_false_object oh))
      else let oh = oh\<lparr>profiler := profiler_start (profiler oh) (getTickCount env oh)\<rparr>
        in Some (set_stack_at oh rsp (c_true_object oh)))"

text \<open>
  The report of \<open>prim_stopProfiling\<close>: five elements for each profiled method, in the order of the addresses. \<open>m[k]\<close> of a
  \<open>std::map\<close> inserts a missing key (\<open>inserted\<close>). The vectors of \<open>Pinned\<close> hold one pin for each entry; a variable that is pushed
  has its own pin until the end of its scope. The pins that the growth of a vector takes and gives back at once are left out.
\<close>

definition inserted :: "'v \<Rightarrow> ('k, 'v) mapping \<Rightarrow> 'k \<Rightarrow> ('k, 'v) mapping" where
  "inserted v m k = Mapping.update k (Mapping.lookup_default v m k) m"

definition child_words :: "(oop, word_t) mapping \<Rightarrow> word_t list" where
  "child_words inner = concat (map (\<lambda>k. [k, smallint_to_object (at_key inner k)]) (Mapping.ordered_keys inner))"

lemma child_words_fit:
  assumes "finite (Mapping.keys m)"
  shows "int (length (child_words m)) = int (Mapping.size m) * 2"
proof -
  have "length (concat (map (\<lambda>k. [k, f k]) ks)) = 2 * length ks" for f :: "oop \<Rightarrow> word_t" and ks
    by (induction ks) simp_all
  moreover have "length (Mapping.ordered_keys m) = Mapping.size m"
    using assms by (simp add: Mapping.ordered_keys_def Mapping.size_def)
  ultimately show ?thesis by (simp add: child_words_def)
qed

definition report_method ::
  "addr \<Rightarrow> nat \<times> addr list \<times> object_heap \<Rightarrow> oop \<Rightarrow> (nat \<times> addr list \<times> object_heap) option" where
  "report_method array = (\<lambda>(k, pinnedArrays, oh) method. do {
     let p = profiler oh;
     let p = p\<lparr>profilerChildCallCount := inserted Mapping.empty (profilerChildCallCount p) method\<rparr>;
     (childCounts, oh) \<leftarrow> new_array (oh\<lparr>profiler := p\<rparr>) (int (Mapping.size (at_inner (profilerChildCallCount p) method)) * 2);
     oh \<leftarrow> heap_pin_object oh childCounts;
     let p = profiler oh;
     let p = p\<lparr>profilerChildCallTime := inserted Mapping.empty (profilerChildCallTime p) method\<rparr>;
     (childTimes, oh) \<leftarrow> new_array (oh\<lparr>profiler := p\<rparr>) (int (Mapping.size (at_inner (profilerChildCallTime p) method)) * 2);
     oh \<leftarrow> heap_pin_object oh childTimes;
     let oh = put_words oh childCounts 4 (child_words (at_inner (profilerChildCallCount (profiler oh)) method));
     let oh = put_words oh childTimes 4 (child_words (at_inner (profilerChildCallTime (profiler oh)) method));
     oh \<leftarrow> heap_pin_object oh childCounts;
     oh \<leftarrow> heap_pin_object oh childTimes;
     let p = profiler oh;
     let p = p\<lparr>profilerCallCounts := inserted 0 (profilerCallCounts p) method,
               profilerSelfTime := inserted 0 (profilerSelfTime p) method\<rparr>;
     let oh = put_words (oh\<lparr>profiler := p\<rparr>) array (4 + k)
       [method, smallint_to_object (at_key (profilerCallCounts p) method),
        smallint_to_object (at_key (profilerSelfTime p) method), childCounts, childTimes];
     let oh = heap_unpin_object (heap_unpin_object oh childTimes) childCounts;
     Some (k + 5, pinnedArrays @ [childCounts, childTimes], oh) })"

definition pin_method :: "object_heap \<Rightarrow> oop \<Rightarrow> object_heap option" where
  "pin_method oh m = do {
     oh \<leftarrow> heap_pin_object oh m;
     oh \<leftarrow> heap_pin_object oh m;
     Some (heap_unpin_object oh m) }"

definition prim_stopProfiling :: primitive where
  "prim_stopProfiling env oh args opts rsp =
     (if \<not> currentlyProfiling (profiler oh) then Some (set_stack_at oh rsp (c_false_object oh))
      else do {
        oh \<leftarrow> heap_full_gc oh;
        (array, oh) \<leftarrow> new_array oh (int (card (profiledMethods (profiler oh))) * 5);
        oh \<leftarrow> pinned_assign oh 0 array;
        let methods = sorted_list_of_set (profiledMethods (profiler oh));
        oh \<leftarrow> fold_opt pin_method methods oh;
        let oh = oh\<lparr>profiler := profiler_stop (profiler oh)\<rparr>;
        (_, pinnedArrays, oh) \<leftarrow> fold_opt (report_method array) methods (0, [], oh);
        let oh = oh\<lparr>profiler := (profiler oh)\<lparr>profiledMethods := {}\<rparr>\<rparr>;
        let oh = fold (\<lambda>x oh. heap_unpin_object oh x) pinnedArrays oh;
        let oh = fold (\<lambda>x oh. heap_unpin_object oh x) methods oh;
        oh \<leftarrow> put_new (Some (array, oh)) rsp;
        oh \<leftarrow> heap_full_gc oh;
        Some (pinned_end oh array) })"

definition prim_profilerStatistics :: primitive where
  "prim_profilerStatistics env oh args opts rsp = Some (set_stack_at oh rsp (c_nil oh))"

definition prim_heap_gc :: primitive where
  "prim_heap_gc env oh args opts rsp = heap_full_gc oh"

definition prim_objectPointerAddress :: primitive where
  "prim_objectPointerAddress env oh args opts rsp = do {
     x \<leftarrow> arg args 1;
     Some (set_stack_at oh rsp (smallint_to_object x)) }"

end
