(* ===== verification/Image.thy ===== *)
theory Image
  imports ObjectOps
begin

text \<open>
  Images: writing the live objects of both spaces into one contiguous piece of memory
  with the help of a hash table of their new addresses, and relocating pointers by a
  distance when an image is written or loaded (object.cpp, prim_save_image, vm.cpp).
\<close>

section \<open>The table of forward pointers\<close>

text \<open>An entry is \<open>fromObj\<close> and \<open>toObj\<close>; the table comes from \<open>calloc\<close>, so 0 is an empty entry.\<close>

type_synonym forward_table = "int \<Rightarrow> addr \<times> addr"

definition forward_pointer_hash_get :: "forward_table \<Rightarrow> int \<Rightarrow> addr \<Rightarrow> int option" where
  "forward_pointer_hash_get table entryCount fromObj =
     (let hash = fromObj mod entryCount in
      List.find (\<lambda>i. fst (table i) = fromObj \<or> fst (table i) = 0) (cyclic hash entryCount))"

definition forward_pointer_hash_add :: "forward_table \<Rightarrow> int \<Rightarrow> addr \<Rightarrow> addr \<Rightarrow> forward_table option" where
  "forward_pointer_hash_add table entryCount fromObj toObj =
     (case forward_pointer_hash_get table entryCount fromObj of
        None \<Rightarrow> None
      | Some i \<Rightarrow> Some (table(i := (fromObj, toObj))))"

text \<open>The new address of an object that is in the table.\<close>

definition forward_map :: "forward_table \<Rightarrow> int \<Rightarrow> addr \<rightharpoonup> addr" where
  "forward_map table entryCount fromObj =
     (case forward_pointer_hash_get table entryCount fromObj of
        Some i \<Rightarrow> if fst (table i) = fromObj then Some (snd (table i)) else None
      | None \<Rightarrow> None)"

definition forward_table_size :: "word_t \<Rightarrow> int" where
  "forward_table_size totalSize = (totalSize div 4 + 16 - 1) div 16"

section \<open>Copying the used objects\<close>

text \<open>\<open>copy_used_objects\<close>: the assertion on the table is the only error.\<close>

partial_function (option) copy_used_loop ::
  "addr \<Rightarrow> word_t \<Rightarrow> int \<Rightarrow> addr \<Rightarrow> mem \<Rightarrow> addr \<Rightarrow> forward_table \<Rightarrow> (mem \<times> addr \<times> forward_table) option" where
  "copy_used_loop memoryStart memorySize entryCount readObject m writeObject table =
     (if object_in_memory readObject memoryStart memorySize
      then if \<not> object_is_free m readObject
        then do {
          table \<leftarrow> forward_pointer_hash_add table entryCount readObject writeObject;
          let m = copy_words_into m readObject 0 (nat (object_word_size m readObject)) writeObject 0;
          writeObject \<leftarrow> object_after m writeObject;
          next \<leftarrow> object_after m readObject;
          copy_used_loop memoryStart memorySize entryCount next m writeObject table }
        else do {
          next \<leftarrow> object_after m readObject;
          copy_used_loop memoryStart memorySize entryCount next m writeObject table }
      else Some (m, writeObject, table))"

declare copy_used_loop.simps [code]

definition copy_used_objects where
  "copy_used_objects m writeObject memoryStart memorySize table entryCount =
     copy_used_loop memoryStart memorySize entryCount memoryStart m writeObject table"

section \<open>Adjusting pointers\<close>

text \<open>A pointer that is not in the table is a null pointer or garbage (\<open>None\<close>).\<close>

definition forwarded_pointer :: "forward_table \<Rightarrow> int \<Rightarrow> addr \<Rightarrow> addr option" where
  "forwarded_pointer table entryCount p = map_option (\<lambda>i. snd (table i)) (forward_pointer_hash_get table entryCount p)"

definition adjust_object_with_table :: "forward_table \<Rightarrow> int \<Rightarrow> object_heap \<Rightarrow> addr \<Rightarrow> object_heap option" where
  "adjust_object_with_table table entryCount oh x = do {
     newMap \<leftarrow> forwarded_pointer table entryCount (object_map (mem oh) x);
     let oh = upd oh x MAP newMap;
     slots \<leftarrow> oop_slots (mem oh) x;
     fold_opt (\<lambda>oh k.
       let val = rd (mem oh) x k in
       if \<not> object_is_smallint val then do {
         val \<leftarrow> forwarded_pointer table entryCount val;
         object_slot_value_at_offset_put oh x (8 * int k) val }
       else Some oh) slots oh }"

partial_function (option) adjust_with_table_loop ::
  "forward_table \<Rightarrow> int \<Rightarrow> addr \<Rightarrow> word_t \<Rightarrow> addr \<Rightarrow> object_heap \<Rightarrow> object_heap option" where
  "adjust_with_table_loop table entryCount memory memorySize x oh =
     (if object_in_memory x memory memorySize
      then do {
        oh \<leftarrow> adjust_object_with_table table entryCount oh x;
        x \<leftarrow> object_after (mem oh) x;
        adjust_with_table_loop table entryCount memory memorySize x oh }
      else Some oh)"

declare adjust_with_table_loop.simps [code]

definition adjust_object_fields_with_table where
  "adjust_object_fields_with_table oh memory memorySize table entryCount =
     adjust_with_table_loop table entryCount memory memorySize memory oh"

definition adjust_fields_by :: "object_heap \<Rightarrow> addr \<Rightarrow> word_t \<Rightarrow> object_heap option" where
  "adjust_fields_by oh x shift_amount = do {
     let oh = upd oh x MAP (wrap64 (object_map (mem oh) x + shift_amount));
     slots \<leftarrow> oop_slots (mem oh) x;
     Some (fold (\<lambda>k oh.
       let val = rd (mem oh) x k in
       if \<not> object_is_smallint val then upd oh x k (wrap64 (val + shift_amount)) else oh) slots oh) }"

partial_function (option) adjust_oop_pointers_loop :: "word_t \<Rightarrow> addr \<Rightarrow> word_t \<Rightarrow> addr \<Rightarrow> object_heap \<Rightarrow> object_heap option" where
  "adjust_oop_pointers_loop shift_amount memory memorySize x oh =
     (if object_in_memory x memory memorySize
      then do {
        oh \<leftarrow> if \<not> object_is_free (mem oh) x then adjust_fields_by oh x shift_amount else Some oh;
        x \<leftarrow> object_after (mem oh) x;
        adjust_oop_pointers_loop shift_amount memory memorySize x oh }
      else Some oh)"

declare adjust_oop_pointers_loop.simps [code]

definition adjust_oop_pointers_from :: "object_heap \<Rightarrow> word_t \<Rightarrow> addr \<Rightarrow> word_t \<Rightarrow> object_heap option" where
  "adjust_oop_pointers_from oh shift_amount memory memorySize =
     adjust_oop_pointers_loop shift_amount memory memorySize memory oh"

partial_function (option) zero_pin_counts_loop :: "addr \<Rightarrow> word_t \<Rightarrow> addr \<Rightarrow> object_heap \<Rightarrow> object_heap option" where
  "zero_pin_counts_loop memory memorySize x oh =
     (if object_in_memory x memory memorySize
      then let oh = (if \<not> object_is_free (mem oh) x then object_zero_pin_count oh x else oh) in do {
        x \<leftarrow> object_after (mem oh) x;
        zero_pin_counts_loop memory memorySize x oh }
      else Some oh)"

declare zero_pin_counts_loop.simps [code]

definition heap_zero_pin_counts_from :: "object_heap \<Rightarrow> addr \<Rightarrow> word_t \<Rightarrow> object_heap option" where
  "heap_zero_pin_counts_from oh memory memorySize = zero_pin_counts_loop memory memorySize memory oh"

text \<open>
  The memory part of \<open>prim_save_image\<close> after the collection: the image in memory from
  \<open>memoryStart\<close>, and the header of the file.
\<close>

record slate_image_header =
  sih_magic :: word_t
  sih_size :: word_t
  sih_next_hash :: word_t
  sih_special_objects_oop :: word_t
  sih_current_dispatch_id :: word_t

definition SLATE_IMAGE_MAGIC :: word_t where "SLATE_IMAGE_MAGIC = 0xABCDEF43"

definition build_image :: "object_heap \<Rightarrow> addr \<Rightarrow> (object_heap \<times> slate_image_header) option" where
  "build_image oh memoryStart = do {
     let totalSize = memoryOldSize oh + memoryYoungSize oh;
     let entryCount = forward_table_size totalSize;
     (m, writeObject, table) \<leftarrow> copy_used_objects (mem oh) memoryStart (memoryOld oh) (memoryOldSize oh) (\<lambda>_. (0, 0)) entryCount;
     (m, writeObject, table) \<leftarrow> copy_used_objects m writeObject (memoryYoung oh) (memoryYoungSize oh) table entryCount;
     let totalSize = writeObject - memoryStart;
     oh \<leftarrow> adjust_object_fields_with_table (oh\<lparr>mem := m\<rparr>) memoryStart totalSize table entryCount;
     oh \<leftarrow> adjust_oop_pointers_from oh (- memoryStart) memoryStart totalSize;
     (next_hash, oh) \<leftarrow> heap_new_hash oh;
     specials \<leftarrow> forwarded_pointer table entryCount (special_objects_oop oh);
     Some (oh, \<lparr>sih_magic = SLATE_IMAGE_MAGIC, sih_size = totalSize, sih_next_hash = next_hash,
       sih_special_objects_oop = specials - memoryStart, sih_current_dispatch_id = current_dispatch_id oh\<rparr>) }"

section \<open>The table keeps what is put in\<close>

definition forward_placed :: "forward_table \<Rightarrow> int \<Rightarrow> bool" where
  "forward_placed t n \<longleftrightarrow> 0 < n \<and> (\<forall>i\<in>{0..<n}. fst (t i) \<noteq> 0 \<longrightarrow> forward_map t n (fst (t i)) \<noteq> None)"

lemma probe_find: "probe f e k is = (case List.find (\<lambda>i. f i = k \<or> f i = e) is of
    Some i \<Rightarrow> if f i = k then Some i else None | None \<Rightarrow> None)"
  by (induction "is") auto

lemma find_first_empty:
  "List.find (\<lambda>i. f i = k \<or> f i = e) is = Some i \<Longrightarrow> f i \<noteq> k \<Longrightarrow> first_empty f e is = Some i"
  by (induction "is") (auto split: if_splits)

definition order :: "addr \<Rightarrow> int \<Rightarrow> int list" where
  "order k n = cyclic (k mod n) n"

lemma set_order: "0 < n \<Longrightarrow> set (order k n) = {0..<n}"
  unfolding order_def by (rule set_cyclic) (simp_all add: less_imp_le)

lemma forward_map_probe:
  "forward_map t n k = map_option (\<lambda>i. snd (t i)) (probe (\<lambda>i. fst (t i)) 0 k (order k n))"
  by (auto simp: forward_map_def forward_pointer_hash_get_def probe_find order_def split: option.splits)

lemma forward_map_dom:
  "0 < n \<Longrightarrow> forward_map t n k = Some v \<Longrightarrow> \<exists>i\<in>{0..<n}. t i = (k, v)"
  using probe_SomeD [of "\<lambda>i. fst (t i)" 0 k "order k n"] set_order [of n k]
  by (force simp: forward_map_probe)

lemma forward_add:
  assumes wp: "forward_placed t n" and a: "forward_pointer_hash_add t n k v = Some t'" and k: "k \<noteq> 0"
  shows "forward_map t' n k = Some v"
    and "k' \<noteq> k \<Longrightarrow> k' \<noteq> 0 \<Longrightarrow> forward_map t' n k' = forward_map t n k'"
    and "forward_placed t' n"
proof -
  have n: "0 < n" using wp by (simp add: forward_placed_def)
  let ?f = "\<lambda>i. fst (t i)"
  obtain i where f: "List.find (\<lambda>i. ?f i = k \<or> ?f i = 0) (order k n) = Some i" and t': "t' = t(i := (k, v))"
    using a by (auto simp: forward_pointer_hash_add_def forward_pointer_hash_get_def order_def split: option.splits)
  from f have i: "i \<in> {0..<n}" "?f i = k \<or> ?f i = 0" using set_order [OF n, of k]
    by (auto simp: find_Some_iff)
  have f': "(\<lambda>j. fst (t' j)) = ?f(i := k)" by (auto simp: t')
  have here: "probe (?f(i := k)) 0 k (order k n) = Some i"
  proof (cases "?f i = k")
    case True
    then have "?f(i := k) = ?f" by auto
    with True f show ?thesis by (simp add: probe_find)
  next
    case False
    with f k show ?thesis by (intro probe_fill_new find_first_empty) (auto simp: probe_find)
  qed
  show 1: "forward_map t' n k = Some v" unfolding forward_map_probe f' here by (simp add: t')
  show 2: "forward_map t' n k' = forward_map t n k'" if "k' \<noteq> k" "k' \<noteq> 0" for k'
  proof (cases "probe ?f 0 k' (order k' n)")
    case (Some j)
    then have "?f j = k'" using probe_SomeD by fastforce
    then have "j \<noteq> i" using i(2) that by auto
    have "probe (?f(i := k)) 0 k' (order k' n) = Some j"
    proof (cases "?f i = k")
      case True
      then have "?f(i := k) = ?f" by auto
      with Some show ?thesis by simp
    next
      case False
      with i(2) Some that k show ?thesis by (intro probe_fill_other) auto
    qed
    with Some \<open>j \<noteq> i\<close> show ?thesis unfolding forward_map_probe f' by (simp add: t')
  next
    case None
    have "?f j \<noteq> k'" if "j \<in> {0..<n}" for j
      using wp that None \<open>k' \<noteq> 0\<close> unfolding forward_placed_def forward_map_probe by (metis option.simps(8))
    then have "probe (?f(i := k)) 0 k' (order k' n) = None"
      using that n by (intro probe_absent) (auto simp: set_order)
    with None show ?thesis unfolding forward_map_probe f' by simp
  qed
  show "forward_placed t' n"
    unfolding forward_placed_def
  proof (intro conjI ballI impI n)
    fix j assume j: "j \<in> {0..<n}" "fst (t' j) \<noteq> 0"
    show "forward_map t' n (fst (t' j)) \<noteq> None"
    proof (cases "fst (t' j) = k")
      case True with 1 show ?thesis by simp
    next
      case False
      then have "fst (t' j) = ?f j" by (auto simp: t' split: if_splits)
      with 2 [OF False] j wp show ?thesis by (auto simp: forward_placed_def)
    qed
  qed
qed

text \<open>
  C16. The forwarding table with which an image is written is a map: after an insertion the key
  is found with its value, every other key as before, and the probing invariant holds
  again.
\<close>

theorem forwarding_table_is_a_map:
  assumes "forward_placed t n" and "forward_pointer_hash_add t n k v = Some t'" and "k \<noteq> 0"
  shows "forward_map t' n k = Some v \<and>
    (\<forall>k'. k' \<noteq> k \<and> k' \<noteq> 0 \<longrightarrow> forward_map t' n k' = forward_map t n k') \<and> forward_placed t' n"
  using forward_add [OF assms] by blast

theorem forwarding_table_is_a_map_witness:
  "forward_map ((\<lambda>_. (0, 0))(0 := (8, 64), 1 := (16, 72))) 4 16 = Some 72"
proof -
  have "{0..<4} = {0, 1, 2, 3 :: int}" by auto
  then have p: "forward_placed ((\<lambda>_. (0, 0))(0 := (8, 64))) 4"
    by (simp add: forward_placed_def forward_map_def forward_pointer_hash_get_def cyclic_def upto.simps)
  have "forward_pointer_hash_get ((\<lambda>_. (0, 0))(0 := (8, 64))) 4 16 = Some 1"
    by (simp add: forward_pointer_hash_get_def cyclic_def upto.simps)
  then have a: "forward_pointer_hash_add ((\<lambda>_. (0, 0))(0 := (8, 64))) 4 16 72 =
      Some ((\<lambda>_. (0, 0))(0 := (8, 64), 1 := (16, 72)))"
    by (simp add: forward_pointer_hash_add_def)
  from forwarding_table_is_a_map [OF p a] show ?thesis by simp
qed

section \<open>Relocation\<close>

definition relocated :: "word_t \<Rightarrow> oop \<Rightarrow> oop" where
  "relocated d v = (if object_is_smallint v then v else wrap64 (v + d))"

lemma fold_adjust:
  assumes "distinct ks"
  shows "let oh' = fold (\<lambda>k oh. let val = rd (mem oh) x k in
       if \<not> object_is_smallint val then upd oh x k (wrap64 (val + d)) else oh) ks oh in
    (\<forall>q k. rd (mem oh') q k = (if q = x \<and> k \<in> set ks then relocated d (rd (mem oh) q k) else rd (mem oh) q k))"
  using assms
proof (induction ks arbitrary: oh)
  case (Cons k ks)
  let ?oh = "if \<not> object_is_smallint (rd (mem oh) x k) then upd oh x k (wrap64 (rd (mem oh) x k + d)) else oh"
  from Cons.IH [of ?oh] Cons.prems show ?case
    by (auto simp: Let_def relocated_def split: if_splits)
qed simp

lemma adjust_fields_by_spec:
  assumes "oop_slots (mem oh) x = Some ks"
  shows "\<exists>oh'. adjust_fields_by oh x d = Some oh' \<and> same_heads (mem oh) (mem oh') \<and>
    (\<forall>q k. rd (mem oh') q k =
      (if q = x \<and> k = 3 then wrap64 (rd (mem oh) q k + d)
       else if q = x \<and> k \<in> set ks then relocated d (rd (mem oh) q k) else rd (mem oh) q k))"
proof -
  let ?o = "upd oh x 3 (wrap64 (object_map (mem oh) x + d))"
  have h: "same_heads (mem oh) (mem ?o)" by (simp add: same_heads_wr)
  have ks: "oop_slots (mem ?o) x = Some ks" using assms same_heads_reads(5) [OF h] by simp
  have "distinct ks" using assms by (auto simp: oop_slots_def Let_def)
  note F = fold_adjust [OF this, of x d ?o, unfolded Let_def]
  define oh' where "oh' = fold (\<lambda>k oh. let val = rd (mem oh) x k in
       if \<not> object_is_smallint val then upd oh x k (wrap64 (val + d)) else oh) ks ?o"
  have r: "rd (mem oh') q k = (if q = x \<and> k \<in> set ks then relocated d (rd (mem ?o) q k) else rd (mem ?o) q k)" for q k
    using F by (simp add: oh'_def Let_def)
  have ge: "\<forall>k\<in>set ks. 4 \<le> k" using oop_slots_ge [OF assms] by blast
  have "adjust_fields_by oh x d = Some oh'" using ks by (simp add: adjust_fields_by_def oh'_def Let_def)
  moreover have "same_heads (mem oh) (mem oh')" using r ge by (auto simp: same_heads_def)
  moreover have "\<forall>q k. rd (mem oh') q k =
      (if q = x \<and> k = 3 then wrap64 (rd (mem oh) q k + d)
       else if q = x \<and> k \<in> set ks then relocated d (rd (mem oh) q k) else rd (mem oh) q k)"
    using r ge by (auto simp: object_map_def)
  ultimately show ?thesis by blast
qed

text \<open>Relocating by a multiple of a word distance and back is the identity on words.\<close>

lemma relocated_back:
  assumes "is_word v" "even d"
  shows "relocated (- d) (relocated d v) = v"
proof (cases "object_is_smallint v")
  case False
  have "even (wrap64 (v + d))"
  proof -
    have "(2::int) dvd 2 ^ 64" by simp
    then have "2 dvd wrap64 (v + d) - (v + d)" using wrap64_diff_dvd dvd_trans by blast
    moreover have "even (v + d)" using False assms(2) by (simp add: is_smallint_odd)
    ultimately show ?thesis by simp
  qed
  moreover have "wrap64 (wrap64 (v + d) + - d) = v"
    using assms(1) wrap64_diff_dvd [of "v + d"]
    by (intro wrap64_unique) (auto simp: algebra_simps dvd_diff_commute)
  ultimately show ?thesis using False by (simp add: relocated_def is_smallint_odd)
qed (simp add: relocated_def)

text \<open>
  Relocating the pointers of an object by an even distance and back is the identity on the
  memory: small integers are skipped both times, pointers and the map wrap around and back.
\<close>

theorem relocation_roundtrip:
  assumes slots: "oop_slots (mem oh) x = Some ks" and even: "even d"
    and words: "\<forall>k\<in>insert 3 (set ks). is_word (rd (mem oh) x k)"
  shows "\<exists>oh1 oh2. adjust_fields_by oh x d = Some oh1 \<and> adjust_fields_by oh1 x (- d) = Some oh2 \<and>
    (\<forall>q k. rd (mem oh2) q k = rd (mem oh) q k)"
proof -
  obtain oh1 where 1: "adjust_fields_by oh x d = Some oh1" "same_heads (mem oh) (mem oh1)"
    "\<forall>q k. rd (mem oh1) q k = (if q = x \<and> k = 3 then wrap64 (rd (mem oh) q k + d)
       else if q = x \<and> k \<in> set ks then relocated d (rd (mem oh) q k) else rd (mem oh) q k)"
    using adjust_fields_by_spec [OF slots] by blast
  have "oop_slots (mem oh1) x = Some ks" using slots by (simp add: same_heads_reads [OF 1(2)])
  then obtain oh2 where 2: "adjust_fields_by oh1 x (- d) = Some oh2"
    "\<forall>q k. rd (mem oh2) q k = (if q = x \<and> k = 3 then wrap64 (rd (mem oh1) q k + - d)
       else if q = x \<and> k \<in> set ks then relocated (- d) (rd (mem oh1) q k) else rd (mem oh1) q k)"
    using adjust_fields_by_spec by blast
  have "wrap64 (wrap64 (v + d) + - d) = v" if "is_word v" for v
    using that wrap64_diff_dvd [of "v + d"]
    by (intro wrap64_unique) (auto simp: algebra_simps dvd_diff_commute)
  then have "rd (mem oh2) q k = rd (mem oh) q k" for q k
    using 1(3) 2(2) words relocated_back [OF _ even] oop_slots_ge [OF slots, of k] by auto
  with 1(1) 2(1) show ?thesis by blast
qed

end
