(* ===== verification/Sample.thy ===== *)
theory Sample
  imports Interpret Image
begin

text \<open>
  A small concrete heap on which the hypotheses of the properties hold: an object that is
  its own map, the array of special objects, the interpreter and its stack, an empty table that
  nothing refers to, free space in both generations, a young object on the stack. The words
  of the stack also make a slot table of one entry.
\<close>

definition header_word :: "int \<Rightarrow> int \<Rightarrow> word_t" where
  "header_word type hash = push_bit 30 type OR push_bit 1 hash"

definition sample_block :: "word_t list \<Rightarrow> nat \<Rightarrow> word_t" where
  "sample_block ws k = (if k < length ws then ws ! k else 0)"

definition sample_blocks :: "(addr \<times> word_t list) list" where
  "sample_blocks =
    [(1024, [header_word 0 5, 5, 0, 1024, 11]),
     (1064, [header_word 1 6, 4, 16, 1024, 1112, 1024]),
     (1112, [header_word 2 7, 9, 40, 1024, 1224, 1024, 1024, 1024, 1, 6, 0, 0, 2, 4]),
     (1224, [header_word 1 8, 4, 32, 1024, 4096, 3, 1024, 1024]),
     (1288, [header_word 1 9, 4, 32, 1024, 1024, 1024, 1024, 1024]),
     (1352, [header_word 0 ID_HASH_FREE, 4, 0, 0]),
     (4096, [header_word 0 10, 5, 0, 1024, 1024]),
     (4136, [header_word 0 ID_HASH_FREE, 20, 0, 0])]"

definition sample_olds :: "addr list" where "sample_olds = [1024, 1064, 1112, 1224, 1288, 1352]"
definition sample_youngs :: "addr list" where "sample_youngs = [4096, 4136]"

definition sample_mem :: mem where
  "sample_mem p = (case map_of sample_blocks p of None \<Rightarrow> (\<lambda>k. 0) | Some ws \<Rightarrow> sample_block ws)"

definition sample_profiler :: profiler_state where
  "sample_profiler = \<lparr>currentlyProfiling = False, profilerTimeStart = 0, profilerTime = 0, profilerLastTime = 0,
    profiledMethods = {}, profilerCallCounts = Mapping.empty, profilerSelfTime = Mapping.empty,
    profilerChildCallCount = Mapping.empty, profilerChildCallTime = Mapping.empty,
    profilerCallStack = [], profilerCallStackTimes = []\<rparr>"

definition sample_heap :: object_heap where
  "sample_heap = \<lparr>mem = sample_mem, mark_color = 1, memoryOld = 1024, memoryYoung = 4096,
    memoryOldSize = 360, memoryYoungSize = 200, memoryOldLimit = 2048, memoryYoungLimit = 200,
    special_objects_oop = 1064, current_dispatch_id = 0, interrupt_flag = False, automaticallyInline = False,
    lastHash = 11, method_cache_hit = 0, method_cache_access = 0, nextFree = 4096, nextOldFree = 1024,
    methodCache = (\<lambda>_. empty_cache_entry), optimizedMethods = {#}, tenuredObjects = [], markStack = [],
    rememberedOldObjects = {}, doFullGCNext = False, profiler = sample_profiler,
    memareas = memarea_module_init, sockets = socket_module_init, process = sample_process, c_interpreter = 1112,
    c_true_object = 0, c_false_object = 0, c_nil = 1024, c_primitive_method_window = 0,
    c_compiled_method_window = 0, c_closure_method_window = 0\<rparr>"

lemma sample_spaces:
  "chunks (mem sample_heap) (memoryOld sample_heap) (memoryOld sample_heap + memoryOldSize sample_heap) sample_olds"
  "chunks (mem sample_heap) (memoryYoung sample_heap) (memoryYoung sample_heap + memoryYoungSize sample_heap) sample_youngs"
  by code_simp+

lemma sample_heap_ok: "heap_ok sample_heap 2 sample_olds sample_youngs"
  by code_simp

section \<open>Witnesses\<close>

theorem pin_unpin_witness: "map_option (\<lambda>oh'. heap_unpin_object oh' 4096) (heap_pin_object sample_heap 4096) = Some sample_heap"
proof -
  have "heap_pin_object sample_heap 4096 \<noteq> None" by code_simp
  then obtain oh' where "heap_pin_object sample_heap 4096 = Some oh'" by blast
  with pin_unpin [OF this] show ?thesis by simp
qed

theorem full_mark_exact_witness:
  "\<exists>oh'. heap_full_mark sample_heap = Some oh' \<and> object_is_marked oh' 4096"
proof -
  have "4096 \<in> live_objects sample_heap sample_olds sample_youngs" by code_simp
  moreover have "4096 \<in> gc_roots sample_heap 2 sample_olds sample_youngs" by code_simp
  ultimately show ?thesis using full_mark_exact [OF sample_heap_ok] by (auto intro: reach.root)
qed

theorem heap_mark_sweep_spec_witness:
  "\<exists>oh1 oh2 olds'. heap_full_mark sample_heap = Some oh1 \<and>
    heap_free_and_coalesce_unmarked oh1 (memoryOld oh1) (memoryOldSize oh1) = Some oh2 \<and>
    chunks (mem oh2) 1024 1384 olds' \<and> 1112 \<in> live (mem oh2) olds' \<and> rd (mem oh2) 1112 12 = 2"
proof -
  have l: "1112 \<in> live (mem sample_heap) sample_olds" by code_simp
  have "1112 \<in> gc_roots sample_heap 2 sample_olds sample_youngs" by code_simp
  then have r: "1112 \<in> reach (mem sample_heap) (gc_roots sample_heap 2 sample_olds sample_youngs)" by (rule reach.root)
  have w: "rd (mem sample_heap) 1112 12 = 2" "memoryOld sample_heap = 1024"
    "memoryOld sample_heap + memoryOldSize sample_heap = 1384" by code_simp+
  from heap_mark_sweep_spec [OF sample_heap_ok] obtain oh1 oh2 olds' where
    "heap_full_mark sample_heap = Some oh1"
    "heap_free_and_coalesce_unmarked oh1 (memoryOld oh1) (memoryOldSize oh1) = Some oh2"
    "chunks (mem oh2) (memoryOld sample_heap) (memoryOld sample_heap + memoryOldSize sample_heap) olds'"
    "live (mem oh2) olds' = live (mem sample_heap) sample_olds
       \<inter> reach (mem sample_heap) (gc_roots sample_heap 2 sample_olds sample_youngs)"
    "\<forall>x\<in>live (mem sample_heap) sample_olds \<inter> reach (mem sample_heap) (gc_roots sample_heap 2 sample_olds sample_youngs).
       \<forall>k. k \<noteq> 0 \<longrightarrow> rd (mem oh2) x k = rd (mem sample_heap) x k" by blast
  with l r w show ?thesis by auto
qed


theorem heap_forward_spec_witness:
  "\<exists>oh'. heap_forward sample_heap 4096 1024 = Some oh' \<and> object_is_free (mem oh') 4096 \<and> rd (mem oh') 1224 4 = 1024"
proof -
  have x: "4096 \<in> live (mem sample_heap) sample_olds \<union> live (mem sample_heap) sample_youngs" by code_simp
  have ok: "\<forall>p\<in>live (mem sample_heap) sample_olds \<union> live (mem sample_heap) sample_youngs.
      oop_slots (mem sample_heap) p \<noteq> None \<and> storable (mem sample_heap) 1024 p" by code_simp
  have w: "1224 \<in> live (mem sample_heap) sample_olds" "4 \<in> oop_positions (mem sample_heap) 1224"
    "rd (mem sample_heap) 1224 4 = 4096" by code_simp+
  from heap_forward_spec [OF sample_spaces x ok] obtain oh' where
    1: "heap_forward sample_heap 4096 1024 = Some oh'" "object_is_free (mem oh') 4096"
    "\<forall>p k. p \<noteq> 4096 \<longrightarrow> rd (mem oh') p k = (if p \<in> live (mem sample_heap) sample_olds \<union> live (mem sample_heap) sample_youngs
        \<and> k \<in> oop_positions (mem sample_heap) p \<and> rd (mem sample_heap) p k = 4096 then 1024 else rd (mem sample_heap) p k)"
    by blast
  from 1(3) [rule_format, of 1224 4] w have "rd (mem oh') 1224 4 = 1024" by simp
  with 1(1,2) show ?thesis by blast
qed

lemma sample_table: "slots.well_placed sample_heap 1224 2"
proof -
  have "{0..<2} = {0, 1 :: int}" by auto
  moreover have "slot_table_capacity (mem sample_heap) 1224 = Some 2"
    "slot_table_entry_for_name sample_heap 1224 (slot_name (mem sample_heap) 1224 0) = Some (Some 0)"
    "slot_name (mem sample_heap) 1224 1 = c_nil sample_heap" by code_simp+
  ultimately show ?thesis by (auto simp: slots.well_placed_def)
qed

theorem slot_table_insert_witness: "slot_map (slot_put sample_heap 1224 1 1288 7) 1224 4096 = Some 3"
proof -
  have "slot_table_entry_for_name sample_heap 1224 1288 = Some None"
    "slot_table_entry_for_inserting_name sample_heap 1224 1288 = Some (Some 1)" "1288 \<noteq> c_nil sample_heap"
    "4096 \<noteq> c_nil sample_heap" "slot_map sample_heap 1224 4096 = Some 3" by code_simp+
  with slot_table_insert [OF sample_table, of 1288 1 7] show ?thesis by auto
qed

theorem slot_table_copy_spec_witness:
  "\<exists>oh'. slot_table_copy 1224 1288 1024 [0, 1] sample_heap = Some oh' \<and> slot_map oh' 1288 4096 = Some 3"
proof -
  have new: "slots.well_placed sample_heap 1288 2"
  proof -
    have "{0..<2} = {0, 1 :: int}" by auto
    moreover have "slot_table_capacity (mem sample_heap) 1288 = Some 2" "slot_name (mem sample_heap) 1288 0 = c_nil sample_heap"
      "slot_name (mem sample_heap) 1288 1 = c_nil sample_heap" by code_simp+
    ultimately show ?thesis by (auto simp: slots.well_placed_def)
  qed
  have inj: "inj_on (slot_name (mem sample_heap) 1224) {i \<in> set [0, 1]. kept (mem sample_heap) 1224 (c_nil sample_heap) 1024 i}"
    by code_simp
  have fresh: "\<forall>i\<in>set [0, 1]. kept (mem sample_heap) 1224 (c_nil sample_heap) 1024 i \<longrightarrow>
      slot_map sample_heap 1288 (slot_name (mem sample_heap) 1224 i) = None" by code_simp
  have room: "card {j \<in> {0..<2}. slot_name (mem sample_heap) 1288 j \<noteq> c_nil sample_heap}
       + length (filter (kept (mem sample_heap) 1224 (c_nil sample_heap) 1024) [0, 1]) \<le> nat 2" by code_simp
  have k: "kept (mem sample_heap) 1224 (c_nil sample_heap) 1024 0" "slot_name (mem sample_heap) 1224 0 = 4096"
    "slot_offset (mem sample_heap) 1224 0 = 3" by code_simp+
  from slot_table_copy_spec [OF new _ _ _ inj fresh room] obtain oh' where
    1: "slot_table_copy 1224 1288 1024 [0, 1] sample_heap = Some oh'"
    "copied sample_heap 1224 1288 2 1024 (set [0, 1]) oh'" by auto
  with k show ?thesis by (auto simp: copied_def)
qed

theorem accommodate_spec_witness: "\<exists>r. accommodate 4 3 = Some r \<and> 7 \<le> r \<and> r \<le> 13 \<and> (\<exists>k. r = 2 ^ k)"
proof -
  have "(4::int) = 2 ^ 2" by simp
  then have "\<exists>k. (4::int) = 2 ^ k" by blast
  with accommodate_spec [of 4 3] show ?thesis by auto
qed

theorem relocation_roundtrip_witness:
  "\<exists>oh1 oh2. adjust_fields_by sample_heap 4096 64 = Some oh1 \<and> adjust_fields_by oh1 4096 (- 64) = Some oh2 \<and>
    (\<forall>q k. rd (mem oh2) q k = rd (mem sample_heap) q k)"
proof -
  have "oop_slots (mem sample_heap) 4096 = Some [4]" "\<forall>k\<in>insert 3 (set [4]). is_word (rd (mem sample_heap) 4096 k)"
    by code_simp+
  from relocation_roundtrip [OF this(1) _ this(2), of 64] show ?thesis by simp
qed


text \<open>A selector with a cache mask, and a method cache with one entry everywhere.\<close>

definition sample_masked :: "int \<Rightarrow> object_heap" where
  "sample_masked cmask = upd sample_heap 1288 4 (2 * cmask + 1)"

definition sample_cache :: "addr \<Rightarrow> int \<Rightarrow> object_heap" where
  "sample_cache m cmask = (sample_masked cmask)\<lparr>methodCache :=
     (\<lambda>_. \<lparr>ce_method = 1112, ce_selector = 1288, ce_maps = (\<lambda>_. m)\<rparr>)\<rparr>"

theorem cache_hit_after_save_witness:
  "\<exists>oh1 oh2. method_save_cache (sample_masked 3) 1112 1288 [4096, 1024] = Some oh1 \<and>
    method_check_cache oh1 1288 [4096, 1024] = Some (Some 1112, oh2)"
proof -
  have "length [4096, 1024 :: oop] \<le> METHOD_CACHE_ARITY" by code_simp
  then obtain oh1 where 1: "method_save_cache (sample_masked 3) 1112 1288 [4096, 1024] = Some oh1"
    by (auto simp: method_save_cache_def check_def Let_def)
  have "0 \<le> object_to_smallint (symbol_cacheMask (mem (sample_masked 3)) 1288)"
    "object_to_smallint (symbol_cacheMask (mem (sample_masked 3)) 1288) < 2 ^ length [4096, 1024 :: oop]" by code_simp+
  with cache_hit_after_save [OF 1] 1 show ?thesis by auto
qed

theorem cache_hit_sound_witness:
  "\<exists>oh'. method_check_cache (sample_cache 1024 2) 1288 [4096, 4096] = Some (Some 1112, oh') \<and>
    ce_maps (methodCache (sample_cache 1024 2) (cache_index (sample_cache 1024 2) 1288 [4096, 4096])) 1 =
      object_get_map (sample_cache 1024 2) 4096"
proof -
  have "method_check_cache (sample_cache 1024 2) 1288 [4096, 4096] =
      Some (Some 1112, (sample_cache 1024 2)\<lparr>method_cache_access := 1, method_cache_hit := 1\<rparr>)"
  proof -
    have "object_get_map (sample_cache 1024 2) 4096 = 1024" "symbol_cacheMask (mem (sample_cache 1024 2)) 1288 = 5"
      "object_to_smallint 5 = 2" "2 \<le> METHOD_CACHE_ARITY" "method_cache_access (sample_cache 1024 2) = 0"
      "method_cache_hit (sample_cache 1024 2) = 0" by code_simp+
    moreover have "object_get_map ((sample_cache 1024 2)\<lparr>method_cache_access := 1\<rparr>) 4096 = 1024" by code_simp
    ultimately show ?thesis
      by (simp add: method_check_cache_def check_def) (simp add: sample_cache_def)
  qed
  moreover have "bit (object_to_smallint (symbol_cacheMask (mem (sample_cache 1024 2)) 1288)) 1"
    "0 \<le> object_to_smallint (symbol_cacheMask (mem (sample_cache 1024 2)) 1288)"
    "object_to_smallint (symbol_cacheMask (mem (sample_cache 1024 2)) 1288) < 8" by code_simp+
  ultimately show ?thesis using cache_hit_sound [of "sample_cache 1024 2" 1288 "[4096, 4096]" 1112 _ 1] by auto
qed

theorem cache_hit_unchecked_witness:
  "\<exists>oh'. method_check_cache (sample_cache 7 8) 1288 [4096, 4096, 4096, 4096] = Some (Some 1112, oh') \<and>
    object_get_map (sample_cache 7 8) 4096 \<noteq> 7"
proof -
  have "length [4096, 4096, 4096, 4096 :: oop] \<le> METHOD_CACHE_ARITY"
    "8 \<le> object_to_smallint (symbol_cacheMask (mem (sample_cache 7 8)) 1288)"
    "object_to_smallint (symbol_cacheMask (mem (sample_cache 7 8)) 1288) \<le> 2 ^ length [4096, 4096, 4096, 4096 :: oop]"
    "object_get_map (sample_cache 7 8) 4096 \<noteq> 7" by code_simp+
  with cache_hit_unchecked [of "[4096, 4096, 4096, 4096]" "sample_cache 7 8" 1288 1112] show ?thesis
    by (simp add: sample_cache_def)
qed

theorem rank_lexicographic_witness:
  "\<exists>oh1 oh2. mark_all sample_heap 4096 0 [3, 1, 9] = Some oh1 \<and> mark_all sample_heap 1288 0 [3, 2, 0] = Some oh2 \<and>
    def_dispatchRank (mem oh2) 1288 < def_dispatchRank (mem oh1) 4096"
proof -
  have "def_dispatchRank (mem sample_heap) 4096 = 0" "def_dispatchRank (mem sample_heap) 1288 = 0" by code_simp+
  with rank_lexicographic [of "[3]" "[9]" "[0]" 1 2 sample_heap 4096 1288] show ?thesis
    by (auto simp: depth_ok_def)
qed

end
