(* ===== verification/ArrayProps.thy ===== *)
theory ArrayProps
  imports Arrays Sample
begin

text \<open>Properties of the primitives on arrays and bytes.\<close>

section \<open>Bytes\<close>

lemma bit_wrap64: "n < 64 \<Longrightarrow> bit (wrap64 x) n = bit x n"
  by (cases "n = 63") (auto simp: wrap64_def bit_signed_take_bit_iff min_def)

lemma byte_of_word:
  assumes "s \<in> {0, 8, 16, 24, 32, 40, 48, 56}" "t \<in> {0, 8, 16, 24, 32, 40, 48, 56 :: nat}"
  shows "take_bit 8 (drop_bit t (wrap64 ((w AND NOT (push_bit s 255)) OR push_bit s (take_bit 8 b)))) =
    (if s = t then take_bit 8 b else take_bit 8 (drop_bit t (w :: int)))"
proof (rule bit_eqI)
  fix n
  have m: "bit (255::int) k \<longleftrightarrow> k < 8" for k
    using bit_mask_iff [of 8 k, where 'a = int] by (simp add: mask_eq_exp_minus_1)
  show "bit (take_bit 8 (drop_bit t (wrap64 ((w AND NOT (push_bit s 255)) OR push_bit s (take_bit 8 b))))) n =
    bit (if s = t then take_bit 8 b else take_bit 8 (drop_bit t w)) n"
  proof (cases "n < 8")
    case True
    then have "t + n < 64" using assms(2) by auto
    moreover have "s \<le> t + n \<and> t + n - s < 8 \<longleftrightarrow> s = t" using True assms by auto
    ultimately show ?thesis using True
      by (auto simp: bit_take_bit_iff bit_drop_bit_eq bit_wrap64 bit_or_iff bit_and_iff bit_not_iff bit_push_bit_iff m)
  qed (auto simp: bit_take_bit_iff)
qed

lemma byte_shift: "8 * nat (i mod 8) \<in> {0, 8, 16, 24, 32, 40, 48, 56}"
proof -
  have "i mod 8 \<in> {0, 1, 2, 3, 4, 5, 6, 7 :: int}" using pos_mod_bound [of 8 i] pos_mod_sign [of 8 i] by auto
  then show ?thesis by auto
qed

lemma same_shift: "8 * nat (i mod 8) = 8 * nat (j mod 8) \<longleftrightarrow> i mod 8 = j mod (8 :: int)"
  by (simp add: eq_nat_nat_iff)

lemma get_set_byte_same:
  assumes "i div 8 = j div 8"
  shows "get_byte (mem (set_byte oh p i b)) p j = (if i mod 8 = j mod 8 then take_bit 8 b else get_byte (mem oh) p j)"
  unfolding get_byte_def set_byte_def Let_def mem_upd rd_wr simp_thms if_True assms
  by (subst byte_of_word [OF byte_shift byte_shift]) (simp only: same_shift)

lemma get_set_byte:
  assumes "0 \<le> i" "0 \<le> j"
  shows "get_byte (mem (set_byte oh p i b)) q j = (if q = p \<and> j = i then take_bit 8 b else get_byte (mem oh) q j)"
proof (cases "q = p \<and> i div 8 = j div 8")
  case True
  then have "i mod 8 = j mod 8 \<longleftrightarrow> j = i" by (metis div_mult_mod_eq)
  with True get_set_byte_same [of i j oh p b] show ?thesis by presburger
next
  case False
  then have "q \<noteq> p \<or> nat (i div 8) \<noteq> nat (j div 8)"
    using assms by (auto simp: eq_nat_nat_iff pos_imp_zdiv_nonneg_iff)
  then have r: "rd (mem (set_byte oh p i b)) q (nat (j div 8)) = rd (mem oh) q (nat (j div 8))"
    by (auto simp: set_byte_def Let_def)
  have "get_byte (mem (set_byte oh p i b)) q j = get_byte (mem oh) q j" unfolding get_byte_def r ..
  moreover have "\<not> (q = p \<and> j = i)" using False by auto
  ultimately show ?thesis by presburger
qed

lemma set_byte_fields [simp]:
  "c_interpreter (set_byte oh p i b) = c_interpreter oh" "c_nil (set_byte oh p i b) = c_nil oh"
  by (simp_all add: set_byte_def Let_def)

lemma rd_set_byte_below: "k < nat (i div 8) \<or> q \<noteq> p \<Longrightarrow> rd (mem (set_byte oh p i b)) q k = rd (mem oh) q k"
  by (auto simp: set_byte_def Let_def)

lemma get_put_bytes:
  assumes "0 \<le> off" "0 \<le> j"
  shows "get_byte (mem (put_bytes p off bs oh)) q j =
    (if q = p \<and> off \<le> j \<and> j < off + int (length bs) then take_bit 8 (bs ! nat (j - off)) else get_byte (mem oh) q j)"
  using assms(1)
proof (induction bs arbitrary: off oh)
  case (Cons b bs)
  have "nat (j - off) = Suc (nat (j - (off + 1)))" if "off + 1 \<le> j" using that by linarith
  with Cons assms(2) show ?case by (auto simp: get_set_byte nth_Cons')
qed simp

lemma put_bytes_fields [simp]:
  "c_interpreter (put_bytes p off bs oh) = c_interpreter oh" "c_nil (put_bytes p off bs oh) = c_nil oh"
  by (induction bs arbitrary: off oh) simp_all

section \<open>Copying elements\<close>

text \<open>An order in which no element is overwritten before it has been read, for a copy within one array.\<close>

fun safe_order :: "int \<Rightarrow> int list \<Rightarrow> bool" where
  "safe_order off [] = True"
| "safe_order off (i # is) = (i \<notin> set is \<and> (\<forall>j\<in>set is. j + off \<noteq> i) \<and> safe_order off is)"

lemma safe_order_up: "0 \<le> off \<Longrightarrow> sorted_wrt (<) is \<Longrightarrow> safe_order off is"
  by (induction "is") fastforce+

lemma safe_order_down: "off < 0 \<Longrightarrow> sorted_wrt (>) is \<Longrightarrow> safe_order off is"
  by (induction "is") fastforce+

lemma safe_order_distinct: "safe_order off is \<Longrightarrow> distinct is"
  by (induction "is") auto

lemma copy_order_safe:
  "(dest = src \<longrightarrow> safe_order (repStart - start) (copy_order dest src start end repStart)) \<and>
   set (copy_order dest src start end repStart) = {start..end} \<and> distinct (copy_order dest src start end repStart)"
  using safe_order_up [OF _ sorted_wrt_upto, of "repStart - start" start "end"]
    safe_order_down [of "repStart - start" "rev [start..end]"] sorted_wrt_upto [of start "end"]
  by (auto simp: copy_order_def sorted_wrt_rev)

lemma copy_element_eq:
  assumes "4 \<le> object_size (mem oh) dest + i" "0 \<le> object_size (mem oh) src + (i + off)"
    and "storable (mem oh) (rd (mem oh) src (nat (object_size (mem oh) src + (i + off)))) dest"
  shows "\<exists>oh'. copy_element dest src off oh i = Some oh' \<and> same_heads (mem oh) (mem oh') \<and> c_interpreter oh' = c_interpreter oh \<and>
    (\<forall>p k. rd (mem oh') p k = (if p = dest \<and> k = nat (object_size (mem oh) dest + i)
       then rd (mem oh) src (nat (object_size (mem oh) src + (i + off))) else rd (mem oh) p k))"
proof -
  let ?d = "nat (object_size (mem oh) dest + i)"
  let ?v = "rd (mem oh) src (nat (object_size (mem oh) src + (i + off)))"
  let ?oh = "upd oh dest ?d ?v"
  have "3 \<le> ?d" using assms(1) by linarith
  then have sh: "same_heads (mem oh) (mem ?oh)" by (simp add: same_heads_wr)
  then have "storable (mem ?oh) ?v dest" using assms(3) by (simp add: storable_def same_heads_reads)
  then obtain oh' where s: "heap_store_into ?oh dest ?v = Some oh'"
    using heap_store_into_Some [of ?v ?oh dest] by (auto simp: storable_def)
  have "copy_element dest src off oh i = Some oh'"
    using assms(1,2) s by (simp add: copy_element_def Let_def check_def)
  moreover have "c_interpreter oh' = c_interpreter oh"
    using s by (auto simp: heap_store_into_def heap_remember_old_object_def split: if_splits)
  ultimately show ?thesis using sh heap_store_into_fields(1) [OF s] by auto
qed

lemma copy_elements:
  assumes "dest = src \<longrightarrow> safe_order off is" "distinct is"
    and "\<forall>i\<in>set is. 4 \<le> object_size (mem oh) dest + i \<and> 0 \<le> object_size (mem oh) src + (i + off) \<and>
      storable (mem oh) (rd (mem oh) src (nat (object_size (mem oh) src + (i + off)))) dest"
  shows "\<exists>oh'. fold_opt (copy_element dest src off) is oh = Some oh' \<and> c_interpreter oh' = c_interpreter oh \<and>
    (\<forall>p k. rd (mem oh') p k = (if p = dest \<and> 4 \<le> int k \<and> int k - object_size (mem oh) dest \<in> set is
       then rd (mem oh) src (nat (object_size (mem oh) src + (int k - object_size (mem oh) dest + off))) else rd (mem oh) p k))"
  using assms
proof (induction "is" arbitrary: oh)
  case (Cons i "is")
  from Cons.prems(3) copy_element_eq [of oh dest i src off] obtain oh1 where
    1: "copy_element dest src off oh i = Some oh1" "same_heads (mem oh) (mem oh1)" "c_interpreter oh1 = c_interpreter oh"
      "\<And>p k. rd (mem oh1) p k = (if p = dest \<and> k = nat (object_size (mem oh) dest + i)
       then rd (mem oh) src (nat (object_size (mem oh) src + (i + off))) else rd (mem oh) p k)"
    by auto
  have sz: "object_size (mem oh1) x = object_size (mem oh) x" for x
    using 1(2) by (simp add: same_heads_def object_size_def)
  have rds: "rd (mem oh1) src (nat (object_size (mem oh) src + (j + off))) = rd (mem oh) src (nat (object_size (mem oh) src + (j + off)))"
    if "j \<in> set is" for j
  proof -
    have "dest = src \<Longrightarrow> j + off \<noteq> i" using Cons.prems(1) that by auto
    then have "\<not> (src = dest \<and> nat (object_size (mem oh) src + (j + off)) = nat (object_size (mem oh) dest + i))"
      using Cons.prems(3) that by (auto simp: eq_nat_nat_iff)
    then show ?thesis by (auto simp: 1(4))
  qed
  have "\<forall>j\<in>set is. 4 \<le> object_size (mem oh1) dest + j \<and> 0 \<le> object_size (mem oh1) src + (j + off) \<and>
      storable (mem oh1) (rd (mem oh1) src (nat (object_size (mem oh1) src + (j + off)))) dest"
    using Cons.prems(3) 1(2) by (auto simp: sz rds storable_def same_heads_reads)
  with Cons.IH [of oh1] Cons.prems(1,2) obtain oh2 where
    2: "fold_opt (copy_element dest src off) is oh1 = Some oh2" "c_interpreter oh2 = c_interpreter oh1"
      "\<And>p k. rd (mem oh2) p k = (if p = dest \<and> 4 \<le> int k \<and> int k - object_size (mem oh) dest \<in> set is
       then rd (mem oh1) src (nat (object_size (mem oh) src + (int k - object_size (mem oh) dest + off))) else rd (mem oh1) p k)"
    by (auto simp: sz)
  have i: "4 \<le> object_size (mem oh) dest + i" "i \<notin> set is" using Cons.prems(2,3) by auto
  have "rd (mem oh2) p k = (if p = dest \<and> 4 \<le> int k \<and> int k - object_size (mem oh) dest \<in> set (i # is)
       then rd (mem oh) src (nat (object_size (mem oh) src + (int k - object_size (mem oh) dest + off))) else rd (mem oh) p k)" for p k
  proof -
    have "k = nat (object_size (mem oh) dest + i) \<longleftrightarrow> 4 \<le> int k \<and> int k - object_size (mem oh) dest = i"
      using i(1) by auto
    then show ?thesis using i(2) rds [of "int k - object_size (mem oh) dest"] by (auto simp: 2(3) 1(4))
  qed
  with 1(1,3) 2(1,2) show ?case by auto
qed auto

section \<open>Properties\<close>

text \<open>
  C23. Copying a range of an array to another or to the same array moves all elements at once:
  every element of the range gets the value its source had before the copy, overlaps included, and
  no other word changes but the result on the stack.
\<close>

theorem array_replace_moves:
  assumes "object_type (mem oh) dest = TYPE_OOP_ARRAY" "object_type (mem oh) src = TYPE_OOP_ARRAY"
    and "object_is_smallint a1" "object_is_smallint a2" "object_is_smallint a4"
    and "0 \<le> object_to_smallint a1" "object_to_smallint a1 \<le> object_to_smallint a2" "0 \<le> object_to_smallint a4"
    and "object_to_smallint a2 < payload_words (mem oh) dest"
    and "object_to_smallint a4 + (object_to_smallint a2 - object_to_smallint a1) < payload_words (mem oh) src"
    and "4 \<le> object_size (mem oh) dest" "4 \<le> object_size (mem oh) src"
    and "\<forall>j\<in>{0..object_to_smallint a2 - object_to_smallint a1}.
      storable (mem oh) (rd (mem oh) src (nat (object_size (mem oh) src + object_to_smallint a4 + j))) dest"
  defines "d \<equiv> object_size (mem oh) dest + object_to_smallint a1" and "s \<equiv> object_size (mem oh) src + object_to_smallint a4"
  shows "\<exists>oh1. array_replace env oh dest a1 a2 src a4 rsp = Some (set_stack_at oh1 rsp dest) \<and>
    (\<forall>p k. rd (mem oh1) p k =
      (if p = dest \<and> d \<le> int k \<and> int k \<le> d + (object_to_smallint a2 - object_to_smallint a1)
       then rd (mem oh) src (nat (s + (int k - d))) else rd (mem oh) p k))"
proof -
  let ?start = "object_to_smallint a1" and ?stop = "object_to_smallint a2" and ?rep = "object_to_smallint a4"
  note order = copy_order_safe [of dest src ?rep ?start ?stop]
  have "\<forall>i\<in>set (copy_order dest src ?start ?stop ?rep). 4 \<le> object_size (mem oh) dest + i \<and>
      0 \<le> object_size (mem oh) src + (i + (?rep - ?start)) \<and>
      storable (mem oh) (rd (mem oh) src (nat (object_size (mem oh) src + (i + (?rep - ?start))))) dest"
  proof
    fix i assume "i \<in> set (copy_order dest src ?start ?stop ?rep)"
    then have i: "?start \<le> i" "i \<le> ?stop" using order by auto
    have e: "object_size (mem oh) src + (i + (?rep - ?start)) = object_size (mem oh) src + ?rep + (i - ?start)" by simp
    from i assms(6,8,11,12) bspec [OF assms(13), of "i - ?start"]
    show "4 \<le> object_size (mem oh) dest + i \<and> 0 \<le> object_size (mem oh) src + (i + (?rep - ?start)) \<and>
      storable (mem oh) (rd (mem oh) src (nat (object_size (mem oh) src + (i + (?rep - ?start))))) dest"
      unfolding e by simp
  qed
  with copy_elements [of dest src "?rep - ?start" "copy_order dest src ?start ?stop ?rep" oh] order obtain oh1 where
    1: "fold_opt (copy_element dest src (?rep - ?start)) (copy_order dest src ?start ?stop ?rep) oh = Some oh1"
    "\<And>p k. rd (mem oh1) p k = (if p = dest \<and> 4 \<le> int k \<and> int k - object_size (mem oh) dest \<in> {?start..?stop}
       then rd (mem oh) src (nat (object_size (mem oh) src + (int k - object_size (mem oh) dest + (?rep - ?start)))) else rd (mem oh) p k)"
    by auto
  have t: "TYPE_OOP_ARRAY \<noteq> TYPE_OBJECT" by (simp add: TYPE_OOP_ARRAY_def TYPE_OBJECT_def)
  have "\<not> ?rep - ?start + ?stop \<ge> payload_words (mem oh) src" "\<not> ?stop \<ge> payload_words (mem oh) dest" "\<not> ?stop < ?start"
    using assms(7,9,10) by linarith+
  then have "array_replace env oh dest a1 a2 src a4 rsp = Some (set_stack_at oh1 rsp dest)"
    using assms(1-5) 1(1) t by (simp add: array_replace_def Let_def object_array_size_def check_def)
  moreover have "rd (mem oh1) p k = (if p = dest \<and> d \<le> int k \<and> int k \<le> d + (?stop - ?start)
      then rd (mem oh) src (nat (s + (int k - d))) else rd (mem oh) p k)" for p k
  proof -
    have "p = dest \<and> 4 \<le> int k \<and> int k - object_size (mem oh) dest \<in> {?start..?stop} \<longleftrightarrow>
        p = dest \<and> d \<le> int k \<and> int k \<le> d + (?stop - ?start)"
      using assms(6,11) by (auto simp: d_def)
    moreover have "object_size (mem oh) src + (int k - object_size (mem oh) dest + (?rep - ?start)) = s + (int k - d)"
      by (simp add: d_def s_def)
    ultimately show ?thesis unfolding 1(2) by presburger
  qed
  ultimately show ?thesis by blast
qed

text \<open>
  A byte that is stored in a byte array is read back modulo 256, and every other byte keeps its
  value: the round trip of \<open>prim_byteat_put\<close> and \<open>prim_byteat\<close> for indexes in range.
\<close>

theorem byteat_after_put:
  assumes "object_is_smallint i" "object_is_smallint val" "\<not> object_is_smallint obj" "\<not> object_is_immutable (mem oh) obj"
    and "0 \<le> object_to_smallint i" "object_to_smallint i < payload_size (mem oh) obj" "3 \<le> object_size (mem oh) obj"
    and "obj \<noteq> i_stack oh" "obj \<noteq> c_interpreter oh"
  shows "\<exists>oh1. prim_byteat_put env oh [obj, i, val] opts rsp = Some oh1 \<and>
    (\<forall>j rsp'. object_is_smallint j \<and> 0 \<le> object_to_smallint j \<and> object_to_smallint j < payload_size (mem oh) obj \<longrightarrow>
      prim_byteat env oh1 [obj, j] opts rsp' = Some (set_stack_at oh1 rsp' (smallint_to_object
        (if object_to_smallint j = object_to_smallint i then take_bit 8 (object_to_smallint val)
         else get_byte (mem oh) obj (object_array_offset (mem oh) obj + object_to_smallint j)))))"
proof -
  let ?off = "object_array_offset (mem oh) obj + object_to_smallint i"
  let ?oh = "set_byte oh obj ?off (object_to_smallint val)"
  let ?r = "smallint_to_object (take_bit 8 (object_to_smallint val))"
  have o: "24 \<le> ?off" using assms(5,7) by (simp add: object_array_offset_def)
  have st: "i_stack ?oh = i_stack oh" using assms(9) by (simp add: i_stack_def rd_set_byte_below)
  have w: "rd (mem (set_stack_at ?oh rsp ?r)) obj k = rd (mem ?oh) obj k" for k
    using assms(8) by (simp add: set_stack_at_def st)
  have "k < 3 \<Longrightarrow> k < nat (?off div 8)" for k using o by linarith
  then have h: "k < 3 \<Longrightarrow> rd (mem (set_stack_at ?oh rsp ?r)) obj k = rd (mem oh) obj k" for k
    unfolding w by (simp add: rd_set_byte_below)
  have sz: "payload_size (mem (set_stack_at ?oh rsp ?r)) obj = payload_size (mem oh) obj"
    "object_array_offset (mem (set_stack_at ?oh rsp ?r)) obj = object_array_offset (mem oh) obj"
    using h [of 1] h [of 2] by (simp_all add: payload_size_def object_array_offset_def object_size_def)
  have "prim_byteat_put env oh [obj, i, val] opts rsp = Some (set_stack_at ?oh rsp ?r)"
    using assms(1-4,6) o by (simp add: prim_byteat_put_def arg_def check_def Let_def)
  moreover have "prim_byteat env (set_stack_at ?oh rsp ?r) [obj, j] opts rsp' = Some (set_stack_at (set_stack_at ?oh rsp ?r) rsp'
      (smallint_to_object (if object_to_smallint j = object_to_smallint i then take_bit 8 (object_to_smallint val)
         else get_byte (mem oh) obj (object_array_offset (mem oh) obj + object_to_smallint j))))"
    if j: "object_is_smallint j" "0 \<le> object_to_smallint j" "object_to_smallint j < payload_size (mem oh) obj" for j rsp'
  proof -
    let ?j = "object_array_offset (mem oh) obj + object_to_smallint j"
    have oj: "0 \<le> ?j" using j(2) assms(7) by (simp add: object_array_offset_def)
    have "get_byte (mem (set_stack_at ?oh rsp ?r)) obj ?j = get_byte (mem ?oh) obj ?j" by (simp only: get_byte_def w)
    also have "\<dots> = (if object_to_smallint j = object_to_smallint i then take_bit 8 (object_to_smallint val)
        else get_byte (mem oh) obj ?j)"
      using o oj by (simp add: get_set_byte)
    finally show ?thesis
      unfolding prim_byteat_def using j(1,3) assms(3) oj by (simp add: arg_def check_def Let_def sz)
  qed
  ultimately show ?thesis by blast
qed

text \<open>
  C38. \<open>prim_at_put\<close> checks the upper bound of its index only: for every index from -4 on it stores
  the value in the word at that distance from the elements and changes no other word but the result on
  the stack, so index -1 replaces the map of the array.
\<close>

theorem at_put_below_zero:
  assumes "object_is_smallint i" "\<not> object_is_smallint array" "\<not> object_is_immutable (mem oh) array"
    and "object_type (mem oh) array \<noteq> TYPE_OBJECT" "storable (mem oh) val array"
    and "-4 \<le> object_to_smallint i" "object_to_smallint i < payload_words (mem oh) array"
  shows "\<exists>oh1. prim_at_put env oh [array, i, val] opts rsp = Some (set_stack_at oh1 rsp val) \<and>
    (\<forall>p k. rd (mem oh1) p k = (if p = array \<and> int k = 4 + object_to_smallint i then val else rd (mem oh) p k)) \<and>
    (object_to_smallint i = -1 \<longrightarrow> object_map (mem oh1) array = val)"
proof -
  obtain oh1 where s: "heap_store_into oh array val = Some oh1"
    using assms(5) heap_store_into_Some [of val oh array] by (auto simp: storable_def)
  let ?oh = "upd oh1 array (nat (4 + object_to_smallint i)) val"
  have "prim_at_put env oh [array, i, val] opts rsp = Some (set_stack_at ?oh rsp val)"
    using assms s by (simp add: prim_at_put_def put_element_def arg_def check_def object_array_size_def Let_def)
  moreover have "rd (mem ?oh) p k = (if p = array \<and> int k = 4 + object_to_smallint i then val else rd (mem oh) p k)" for p k
    using heap_store_into_fields(1) [OF s] assms(6) by auto
  ultimately show ?thesis by (fastforce simp: object_map_def)
qed

section \<open>Witnesses\<close>

theorem array_replace_moves_witness:
  "\<forall>env. \<exists>oh1. array_replace env sample_heap 1224 3 7 1224 1 1 = Some (set_stack_at oh1 1 1224) \<and>
    rd (mem oh1) 1224 5 = 4096 \<and> rd (mem oh1) 1224 6 = 3 \<and> rd (mem oh1) 1224 7 = 1024"
proof
  fix env
  have h: "object_type (mem sample_heap) 1224 = TYPE_OOP_ARRAY" "object_is_smallint 3" "object_is_smallint 7" "object_is_smallint 1"
    "0 \<le> object_to_smallint 3" "object_to_smallint 3 \<le> object_to_smallint 7" "0 \<le> object_to_smallint 1"
    "object_to_smallint 7 < payload_words (mem sample_heap) 1224"
    "object_to_smallint 1 + (object_to_smallint 7 - object_to_smallint 3) < payload_words (mem sample_heap) 1224"
    "4 \<le> object_size (mem sample_heap) 1224"
    by code_simp+
  have "\<forall>j\<in>set [0..object_to_smallint 7 - object_to_smallint 3]. storable (mem sample_heap)
      (rd (mem sample_heap) 1224 (nat (object_size (mem sample_heap) 1224 + object_to_smallint 1 + j))) 1224"
    by code_simp
  then have "\<forall>j\<in>{0..object_to_smallint 7 - object_to_smallint 3}. storable (mem sample_heap)
      (rd (mem sample_heap) 1224 (nat (object_size (mem sample_heap) 1224 + object_to_smallint 1 + j))) 1224"
    by (simp only: set_upto)
  from array_replace_moves [OF h(1,1-9,10,10) this, of env 1]
  obtain oh1 where 1: "array_replace env sample_heap 1224 3 7 1224 1 1 = Some (set_stack_at oh1 1 1224)"
    "\<forall>p k. rd (mem oh1) p k = (if p = 1224 \<and> object_size (mem sample_heap) 1224 + object_to_smallint 3 \<le> int k \<and>
       int k \<le> object_size (mem sample_heap) 1224 + object_to_smallint 3 + (object_to_smallint 7 - object_to_smallint 3)
       then rd (mem sample_heap) 1224 (nat (object_size (mem sample_heap) 1224 + object_to_smallint 1 +
         (int k - (object_size (mem sample_heap) 1224 + object_to_smallint 3)))) else rd (mem sample_heap) p k)" by blast
  have "object_size (mem sample_heap) 1224 = 4" "object_to_smallint 3 = 1" "object_to_smallint 7 = 3" "object_to_smallint 1 = 0"
    "rd (mem sample_heap) 1224 4 = 4096" "rd (mem sample_heap) 1224 5 = 3" "rd (mem sample_heap) 1224 6 = 1024"
    by code_simp+
  with 1 show "\<exists>oh1. array_replace env sample_heap 1224 3 7 1224 1 1 = Some (set_stack_at oh1 1 1224) \<and>
    rd (mem oh1) 1224 5 = 4096 \<and> rd (mem oh1) 1224 6 = 3 \<and> rd (mem oh1) 1224 7 = 1024"
    by (intro exI [of _ oh1]) simp
qed

theorem byteat_after_put_witness:
  "\<forall>env. \<exists>oh1. prim_byteat_put env sample_heap [1288, 7, 913] [] 1 = Some oh1 \<and>
    prim_byteat env oh1 [1288, 7] [] 2 = Some (set_stack_at oh1 2 401)"
proof
  fix env
  have h: "object_is_smallint 7" "object_is_smallint 913" "\<not> object_is_smallint 1288" "\<not> object_is_immutable (mem sample_heap) 1288"
    "0 \<le> object_to_smallint 7" "object_to_smallint 7 < payload_size (mem sample_heap) 1288" "3 \<le> object_size (mem sample_heap) 1288"
    "1288 \<noteq> i_stack sample_heap" "1288 \<noteq> c_interpreter sample_heap"
    by code_simp+
  have r: "smallint_to_object (take_bit 8 (object_to_smallint 913)) = 401" by code_simp
  from byteat_after_put [OF h, of env "[]" 1] obtain oh1 where
    1: "prim_byteat_put env sample_heap [1288, 7, 913] [] 1 = Some oh1"
    "\<forall>j rsp'. object_is_smallint j \<and> 0 \<le> object_to_smallint j \<and> object_to_smallint j < payload_size (mem sample_heap) 1288 \<longrightarrow>
      prim_byteat env oh1 [1288, j] [] rsp' = Some (set_stack_at oh1 rsp' (smallint_to_object
        (if object_to_smallint j = object_to_smallint 7 then take_bit 8 (object_to_smallint 913)
         else get_byte (mem sample_heap) 1288 (object_array_offset (mem sample_heap) 1288 + object_to_smallint j))))" by blast
  from 1(2) [rule_format, of 7 2] h have "prim_byteat env oh1 [1288, 7] [] 2 = Some (set_stack_at oh1 2 401)"
    by (simp only: r if_True simp_thms)
  with 1(1) show "\<exists>oh1. prim_byteat_put env sample_heap [1288, 7, 913] [] 1 = Some oh1 \<and>
    prim_byteat env oh1 [1288, 7] [] 2 = Some (set_stack_at oh1 2 401)" by blast
qed

theorem at_put_below_zero_witness:
  "\<forall>env. \<exists>oh1. prim_at_put env sample_heap [1288, -1, 1224] [] 1 = Some (set_stack_at oh1 1 1224) \<and>
    object_map (mem oh1) 1288 = 1224 \<and> object_map (mem sample_heap) 1288 = 1024"
proof
  fix env
  have h: "object_is_smallint (-1)" "\<not> object_is_smallint 1288" "\<not> object_is_immutable (mem sample_heap) 1288"
    "object_type (mem sample_heap) 1288 \<noteq> TYPE_OBJECT" "storable (mem sample_heap) 1224 1288"
    "-4 \<le> object_to_smallint (-1)" "object_to_smallint (-1) < payload_words (mem sample_heap) 1288"
    by code_simp+
  have "object_to_smallint (-1) = -1" "object_map (mem sample_heap) 1288 = 1024" by code_simp+
  with at_put_below_zero [OF h, of env "[]" 1]
  show "\<exists>oh1. prim_at_put env sample_heap [1288, -1, 1224] [] 1 = Some (set_stack_at oh1 1 1224) \<and>
    object_map (mem oh1) 1288 = 1224 \<and> object_map (mem sample_heap) 1288 = 1024" by blast
qed

end
