(* ===== verification/Streams.thy ===== *)
theory Streams
  imports Primitives
begin

text \<open>
  The primitives on files, directories, pipes, sockets and the system (primitives.cpp, socket.cpp). A
  transfer between a byte array and the system whose range is not inside of the array is \<open>None\<close>: most of
  these primitives do not check the range that the image gives.
\<close>

section \<open>Calls from a primitive\<close>

definition with_process :: "object_heap \<Rightarrow> 'a \<times> process \<Rightarrow> 'a \<times> object_heap" where
  "with_process oh r = (fst r, oh\<lparr>process := snd r\<rparr>)"

definition os_do :: "vm_env \<Rightarrow> object_heap \<Rightarrow> os_call \<Rightarrow> os_answer \<times> object_heap" where
  "os_do env oh c = with_process oh (sys (operating_system env) (process oh) c)"

definition put_int :: "object_heap \<Rightarrow> word_t \<Rightarrow> word_t \<Rightarrow> object_heap" where
  "put_int oh rsp n = set_stack_at oh rsp (smallint_to_object n)"

text \<open>\<open>SOCKET_RETURN\<close>, with the \<open>errno\<close> of the call.\<close>

definition put_socket_return :: "object_heap \<Rightarrow> word_t \<Rightarrow> os_answer \<Rightarrow> object_heap" where
  "put_socket_return oh rsp a =
     put_int oh rsp (socket_return (if ans_value a < 0 then - ans_errno a else ans_value a))"

text \<open>
  The bytes of the memory from the first element of a byte array on, as many as a name buffer
  takes, and a name of the file system; a name that does not fit leaves its buffer uninitialised.
\<close>

definition name_bytes :: "mem \<Rightarrow> addr \<Rightarrow> int list" where
  "name_bytes m x = get_bytes m x ELEMENTS (nat (SLATE_FILE_NAME_LENGTH - 1))"

definition path_arg :: "object_heap \<Rightarrow> oop list \<Rightarrow> nat \<Rightarrow> int list option" where
  "path_arg oh args k = do {
     x \<leftarrow> obj_arg args k;
     (n, s) \<leftarrow> file_name (name_bytes (mem oh) x) (payload_size (mem oh) x);
     check (0 \<le> n);
     Some s }"

text \<open>The bytes of a byte array from an index on, and the offset of the first of them.\<close>

definition bytes_from :: "mem \<Rightarrow> addr \<Rightarrow> word_t \<Rightarrow> (int \<times> int list) option" where
  "bytes_from m x start = do {
     check (0 \<le> start \<and> start \<le> payload_size m x);
     let off = object_array_offset m x + start;
     Some (off, get_bytes m x off (nat (payload_size m x - start))) }"

section \<open>Files\<close>

definition prim_atEndOf :: primitive where
  "prim_atEndOf env oh args opts rsp = do {
     h \<leftarrow> arg args 1;
     if \<not> object_is_smallint h then type_error env oh h rsp
     else do {
       let (b, oh) = with_process oh (file_isatend (operating_system env) (process oh) (object_to_smallint h));
       Some (set_stack_at oh rsp (bool_object oh b)) } }"

text \<open>The next two and \<open>prim_reposition_to\<close> call before they test the argument.\<close>

definition prim_sizeOf :: primitive where
  "prim_sizeOf env oh args opts rsp = do {
     h \<leftarrow> arg args 1;
     let (n, oh) = with_process oh (file_sizeof (operating_system env) (process oh) (object_to_smallint h));
     if \<not> object_is_smallint h then type_error env oh h rsp
     else Some (put_int oh rsp n) }"

definition prim_positionOf :: primitive where
  "prim_positionOf env oh args opts rsp = do {
     h \<leftarrow> arg args 1;
     let (n, oh) = with_process oh (file_tell (operating_system env) (process oh) (object_to_smallint h));
     if \<not> object_is_smallint h then type_error env oh h rsp
     else Some (put_int oh rsp n) }"

definition prim_reposition_to :: primitive where
  "prim_reposition_to env oh args opts rsp = do {
     h \<leftarrow> arg args 1; n \<leftarrow> arg args 2;
     let (r, oh) = with_process oh (file_seek (operating_system env) (process oh) (object_to_smallint h) (object_to_smallint n));
     case first_bad [h, n] of
       Some x \<Rightarrow> type_error env oh x rsp
     | None \<Rightarrow> Some (put_int oh rsp r) }"

definition prim_flush_output :: primitive where
  "prim_flush_output env oh args opts rsp =
     (let (_, oh) = os_do env oh FlushStd in Some (set_stack_at oh rsp (c_nil oh)))"

definition open_file :: "vm_env \<Rightarrow> object_heap \<Rightarrow> oop list \<Rightarrow> word_t \<Rightarrow> word_t \<Rightarrow> object_heap option" where
  "open_file env oh args flags rsp = do {
     fname \<leftarrow> obj_arg args 1;
     (handle, p) \<leftarrow> file_open (operating_system env) (process oh) (name_bytes (mem oh) fname) (payload_size (mem oh) fname) flags;
     let oh = oh\<lparr>process := p\<rparr>;
     Some (set_stack_at oh rsp (if handle \<ge> 0 then smallint_to_object handle else c_nil oh)) }"

definition prim_handle_for :: primitive where
  "prim_handle_for env oh args opts rsp = open_file env oh args (SF_READ OR SF_WRITE) rsp"

definition prim_handleForNew :: primitive where
  "prim_handleForNew env oh args opts rsp = open_file env oh args (SF_READ OR SF_WRITE OR SF_CLEAR OR SF_CREATE) rsp"

definition prim_handle_for_input :: primitive where
  "prim_handle_for_input env oh args opts rsp = open_file env oh args SF_READ rsp"

definition prim_close :: primitive where
  "prim_close env oh args opts rsp = do {
     h \<leftarrow> arg args 1;
     if \<not> object_is_smallint h then type_error env oh h rsp
     else do {
       let oh = oh\<lparr>process := file_close (operating_system env) (process oh) (object_to_smallint h)\<rparr>;
       Some (set_stack_at oh rsp (c_nil oh)) } }"

definition prim_write_to_starting_at :: primitive where
  "prim_write_to_starting_at env oh args opts rsp = do {
     n \<leftarrow> arg args 1; handle \<leftarrow> arg args 2; sq \<leftarrow> obj_arg args 3; start \<leftarrow> arg args 4;
     case first_bad [handle, start] of
       Some x \<Rightarrow> type_error env oh x rsp
     | None \<Rightarrow> do {
         check (length args = 5);
         let i = object_to_smallint start;
         let size = object_to_smallint n;
         check (0 \<le> i \<and> 0 \<le> size \<and> i + size \<le> payload_size (mem oh) sq);
         let (a, oh) = os_do env oh (WriteStd (object_to_smallint handle = 0)
           (get_bytes (mem oh) sq (ELEMENTS + i) (nat size)));
         Some (put_int oh rsp (ans_value a)) } }"

definition prim_readConsole_from_into_starting_at :: primitive where
  "prim_readConsole_from_into_starting_at env oh args opts rsp = do {
     n \<leftarrow> arg args 1; bytes \<leftarrow> obj_arg args 3; start \<leftarrow> arg args 4;
     case first_bad [n, start] of
       Some x \<Rightarrow> type_error env oh x rsp
     | None \<Rightarrow> do {
         (off, bs) \<leftarrow> bytes_from (mem oh) bytes (object_to_smallint start);
         check (0 \<le> object_to_smallint n \<and> nat (object_to_smallint n) \<le> length bs);
         let (a, oh) = os_do env oh (ReadStd (object_to_smallint n));
         let got = take (nat (object_to_smallint n)) (ans_words a);
         Some (put_int (put_bytes bytes off got oh) rsp (int (length got))) } }"

definition prim_read_from_into_starting_at :: primitive where
  "prim_read_from_into_starting_at env oh args opts rsp = do {
     n \<leftarrow> arg args 1; handle \<leftarrow> arg args 2; bytes \<leftarrow> obj_arg args 3; start \<leftarrow> arg args 4;
     case first_bad [n, start] of
       Some x \<Rightarrow> type_error env oh x rsp
     | None \<Rightarrow> do {
         (off, bs) \<leftarrow> bytes_from (mem oh) bytes (object_to_smallint start);
         (r, bs, p) \<leftarrow> file_read (operating_system env) (process oh) (object_to_smallint handle) (object_to_smallint n) bs;
         Some (put_int (put_bytes bytes off bs (oh\<lparr>process := p\<rparr>)) rsp r) } }"

definition prim_write_to_from_starting_at :: primitive where
  "prim_write_to_from_starting_at env oh args opts rsp = do {
     n \<leftarrow> arg args 1; handle \<leftarrow> arg args 2; bytes \<leftarrow> obj_arg args 3; start \<leftarrow> arg args 4;
     case first_bad [n, start] of
       Some x \<Rightarrow> type_error env oh x rsp
     | None \<Rightarrow> do {
         (off, bs) \<leftarrow> bytes_from (mem oh) bytes (object_to_smallint start);
         (r, p) \<leftarrow> file_write (operating_system env) (process oh) (object_to_smallint handle) (object_to_smallint n) bs;
         Some (put_int (oh\<lparr>process := p\<rparr>) rsp r) } }"

section \<open>Names of the file system\<close>

definition on_path :: "(os \<Rightarrow> process \<Rightarrow> int list \<Rightarrow> bool \<times> process) \<Rightarrow> primitive" where
  "on_path f env oh args opts rsp = do {
     path \<leftarrow> path_arg oh args 1;
     let (b, oh) = with_process oh (f (operating_system env) (process oh) path);
     Some (set_stack_at oh rsp (bool_object oh b)) }"

definition on_paths :: "(os \<Rightarrow> process \<Rightarrow> int list \<Rightarrow> int list \<Rightarrow> bool \<times> process) \<Rightarrow> primitive" where
  "on_paths f env oh args opts rsp = do {
     src \<leftarrow> path_arg oh args 1;
     dest \<leftarrow> path_arg oh args 2;
     let (b, oh) = with_process oh (f (operating_system env) (process oh) src dest);
     Some (set_stack_at oh rsp (bool_object oh b)) }"

definition prim_file_delete :: primitive where "prim_file_delete = on_path file_delete"
definition prim_file_rename_to :: primitive where "prim_file_rename_to = on_paths file_rename_to"
definition prim_dir_make :: primitive where "prim_dir_make = on_path dir_make"
definition prim_dir_delete :: primitive where "prim_dir_delete = on_path dir_delete"
definition prim_dir_rename_to :: primitive where "prim_dir_rename_to = on_paths dir_rename_to"

definition prim_file_touch :: primitive where
  "prim_file_touch env oh args opts rsp = Some (set_stack_at oh rsp (c_false_object oh))"

definition prim_file_information :: primitive where
  "prim_file_information env oh args opts rsp = do {
     path \<leftarrow> path_arg oh args 1;
     let (info, oh) = with_process oh (file_information (operating_system env) (process oh) path);
     (x, oh) \<leftarrow> (case info of
         None \<Rightarrow> Some (c_nil oh, oh)
       | Some ns \<Rightarrow> do {
           (array, oh) \<leftarrow> new_array oh 5;
           Some (array, put_words oh array 4 (map smallint_to_object ns)) });
     let oh = set_stack_at oh rsp x;
     heap_store_into oh (i_stack oh) x }"

section \<open>Directories\<close>

definition prim_dir_open :: primitive where
  "prim_dir_open env oh args opts rsp = do {
     buf \<leftarrow> obj_arg args 1;
     let (r, oh) = with_process oh (dir_open (operating_system env) (process oh)
       (get_bytes (mem oh) buf ELEMENTS (nat (payload_size (mem oh) buf))));
     Some (put_int oh rsp r) }"

definition prim_dir_close :: primitive where
  "prim_dir_close env oh args opts rsp = do {
     h \<leftarrow> arg args 1;
     if \<not> object_is_smallint h then type_error env oh h rsp
     else do {
       (_, p) \<leftarrow> dir_close (operating_system env) (process oh) (wrap32 (object_to_smallint h));
       Some (set_stack_at (oh\<lparr>process := p\<rparr>) rsp (c_nil oh)) } }"

definition prim_dir_read :: primitive where
  "prim_dir_read env oh args opts rsp = do {
     h \<leftarrow> arg args 1; buf \<leftarrow> obj_arg args 2;
     if \<not> object_is_smallint h then type_error env oh h rsp
     else do {
       (r, bs, p) \<leftarrow> dir_read (operating_system env) (process oh) (wrap32 (object_to_smallint h))
         (get_bytes (mem oh) buf ELEMENTS (nat (payload_size (mem oh) buf)));
       Some (put_int (put_bytes buf ELEMENTS bs (oh\<lparr>process := p\<rparr>)) rsp r) } }"

definition prim_dir_getcwd :: primitive where
  "prim_dir_getcwd env oh args opts rsp = do {
     buf \<leftarrow> obj_arg args 1;
     (r, bs, p) \<leftarrow> dir_getcwd (operating_system env) (process oh) (get_bytes (mem oh) buf ELEMENTS (nat (payload_size (mem oh) buf)));
     Some (put_int (put_bytes buf ELEMENTS bs (oh\<lparr>process := p\<rparr>)) rsp r) }"

definition prim_dir_setcwd :: primitive where
  "prim_dir_setcwd env oh args opts rsp = do {
     buf \<leftarrow> obj_arg args 1;
     let (r, oh) = with_process oh (dir_setcwd (operating_system env) (process oh)
       (get_bytes (mem oh) buf ELEMENTS (nat (payload_size (mem oh) buf))));
     Some (put_int oh rsp r) }"

end
