(* ===== verification/Network.thy ===== *)
theory Network
  imports Streams
begin

text \<open>
  The primitives on pipes, sockets and the system (primitives.cpp, socket.cpp). An argument of a
  program that is not a byte array is a null pointer for it; a small integer there cannot be
  read, which a negative size stands for.
\<close>

section \<open>Programs at the end of pipes\<close>

definition exec_arg :: "mem \<Rightarrow> oop \<Rightarrow> (int list \<times> word_t) option" where
  "exec_arg m x =
     (if object_is_smallint x then Some ([], -1)
      else if object_type m x \<noteq> TYPE_BYTE_ARRAY then None
      else Some (name_bytes m x, payload_size m x))"

definition prim_openProcessPipe :: primitive where
  "prim_openProcessPipe env oh args opts rsp = do {
     fname \<leftarrow> obj_arg args 1; exeArgs \<leftarrow> obj_arg args 2;
     n \<leftarrow> object_array_size (mem oh) exeArgs;
     (handle, pipes, p) \<leftarrow> pipe_open (operating_system env) (process oh) (name_bytes (mem oh) fname) (payload_size (mem oh) fname)
       (map (exec_arg (mem oh) \<circ> object_array_get_element (mem oh) exeArgs) [0..n - 1]);
     let oh = oh\<lparr>process := p\<rparr>;
     if handle \<ge> 0 then do {
       (slatePipes, oh) \<leftarrow> new_array oh 2;
       oh \<leftarrow> object_array_set_element oh slatePipes 0 (smallint_to_object (pipes ! 0));
       oh \<leftarrow> object_array_set_element oh slatePipes 1 (smallint_to_object (pipes ! 1));
       Some (set_stack_at oh rsp slatePipes) }
     else Some (set_stack_at oh rsp (c_nil oh)) }"

definition prim_closeProcessPipe :: primitive where
  "prim_closeProcessPipe env oh args opts rsp = do {
     fd \<leftarrow> arg args 1;
     let oh = oh\<lparr>process := pipe_close (operating_system env) (process oh) (wrap32 (object_to_smallint fd))\<rparr>;
     Some (set_stack_at oh rsp (c_nil oh)) }"

text \<open>The guards that the two transfers share, up to the range; then the first byte and the bytes after it.\<close>

definition pipe_args :: "vm_env \<Rightarrow> object_heap \<Rightarrow> oop list \<Rightarrow> word_t
    \<Rightarrow> (addr \<Rightarrow> int \<Rightarrow> int list \<Rightarrow> object_heap option) \<Rightarrow> object_heap option" where
  "pipe_args env oh args rsp transfer = do {
     a1 \<leftarrow> arg args 1; a2 \<leftarrow> arg args 2; bytes \<leftarrow> obj_arg args 3; a4 \<leftarrow> arg args 4;
     case first_bad [a1, a2] of
       Some x \<Rightarrow> type_error env oh x rsp
     | None \<Rightarrow>
         if object_type (mem oh) bytes \<noteq> TYPE_BYTE_ARRAY then type_error env oh bytes rsp
         else if \<not> object_is_smallint a4 then type_error env oh a4 rsp
         else if object_to_smallint a2 + object_to_smallint a4 > payload_size (mem oh) bytes
         then interpreter_signal_with_with env oh SPECIAL_OOP_KEY_NOT_FOUND_ON a2 bytes rsp
         else do {
           (off, bs) \<leftarrow> bytes_from (mem oh) bytes (object_to_smallint a4);
           transfer bytes off bs } }"

definition prim_readProcessPipe :: primitive where
  "prim_readProcessPipe env oh args opts rsp =
     pipe_args env oh args rsp (\<lambda>bytes off bs. do {
       h \<leftarrow> arg args 1; n \<leftarrow> arg args 2;
       (r, bs, p) \<leftarrow> pipe_read (operating_system env) (process oh) (object_to_smallint h) (object_to_smallint n) bs;
       Some (put_int (put_bytes bytes off bs (oh\<lparr>process := p\<rparr>)) rsp r) })"

definition prim_writeProcessPipe :: primitive where
  "prim_writeProcessPipe env oh args opts rsp =
     pipe_args env oh args rsp (\<lambda>bytes off bs. do {
       h \<leftarrow> arg args 1; n \<leftarrow> arg args 2;
       (r, p) \<leftarrow> pipe_write (operating_system env) (process oh) (object_to_smallint h) (object_to_smallint n) bs;
       Some (put_int (oh\<lparr>process := p\<rparr>) rsp r) })"

section \<open>Sockets\<close>

definition prim_closePipe :: primitive where
  "prim_closePipe env oh args opts rsp = do {
     h \<leftarrow> arg args 0;
     if \<not> object_is_smallint h then type_error env oh h rsp
     else do {
       let (a, oh) = os_do env oh (CloseFd (wrap32 (object_to_smallint h)));
       Some (put_socket_return oh rsp a) } }"

text \<open>The range of a transfer on a socket, which these two check.\<close>

definition socket_range :: "vm_env \<Rightarrow> object_heap \<Rightarrow> oop list \<Rightarrow> word_t
    \<Rightarrow> (addr \<Rightarrow> int \<Rightarrow> int list \<Rightarrow> object_heap option) \<Rightarrow> object_heap option" where
  "socket_range env oh args rsp transfer = do {
     array \<leftarrow> obj_arg args 0; h \<leftarrow> arg args 1; a2 \<leftarrow> arg args 2; a3 \<leftarrow> arg args 3;
     let start = object_to_smallint a2;
     let end = object_to_smallint a3;
     if object_type (mem oh) array \<noteq> TYPE_BYTE_ARRAY then type_error env oh array rsp
     else case first_bad [h, a2, a3] of
       Some x \<Rightarrow> type_error env oh x rsp
     | None \<Rightarrow>
         if start < 0 \<or> start \<ge> payload_size (mem oh) array
         then interpreter_signal_with_with env oh SPECIAL_OOP_KEY_NOT_FOUND_ON a2 array rsp
         else if end < start \<or> end > payload_size (mem oh) array
         then interpreter_signal_with_with env oh SPECIAL_OOP_KEY_NOT_FOUND_ON a3 array rsp
         else let off = object_array_offset (mem oh) array + start
           in transfer array off (get_bytes (mem oh) array off (nat (end - start))) }"

definition prim_readFromPipe :: primitive where
  "prim_readFromPipe env oh args opts rsp =
     socket_range env oh args rsp (\<lambda>array off bs. do {
       h \<leftarrow> arg args 1;
       let (a, oh) = os_do env oh (Recv (wrap32 (object_to_smallint h)) (int (length bs)));
       let got = (if ans_value a < 0 then [] else take (length bs) (ans_words a));
       Some (put_socket_return (put_bytes array off got oh) rsp
         (if ans_value a < 0 then a else a\<lparr>ans_value := int (length got)\<rparr>)) })"

definition prim_writeToPipe :: primitive where
  "prim_writeToPipe env oh args opts rsp =
     socket_range env oh args rsp (\<lambda>array off bs. do {
       h \<leftarrow> arg args 1;
       let (a, oh) = os_do env oh (SendTo (wrap32 (object_to_smallint h)) bs);
       Some (put_socket_return oh rsp a) })"

definition FD_SETSIZE :: int where "FD_SETSIZE = 1024"

text \<open>
  The set of descriptors and the greatest one, \<open>Inl\<close> when the array holds anything but
  descriptors that fit; \<open>FD_SET\<close> of a negative number is undefined.
\<close>

fun select_fds :: "oop list \<Rightarrow> int list \<Rightarrow> int \<Rightarrow> (unit + int list \<times> int) option" where
  "select_fds [] fds maxFD = Some (Inr (fds, maxFD))"
| "select_fds (x # xs) fds maxFD =
     (let fd = object_to_smallint x in
      if \<not> object_is_smallint x \<or> fd \<ge> FD_SETSIZE then Some (Inl ())
      else do { check (0 \<le> fd); select_fds xs (fds @ [fd]) (max maxFD fd) })"

definition socket_select_setup :: "mem \<Rightarrow> addr \<Rightarrow> (unit + int list \<times> int) option" where
  "socket_select_setup m selectOn = do {
     xs \<leftarrow> array_values m selectOn;
     select_fds xs [] 0 }"

text \<open>At most \<open>readyCount\<close> of the descriptors that are still in the set.\<close>

definition socket_select_find_available :: "mem \<Rightarrow> addr \<Rightarrow> int list \<Rightarrow> word_t \<Rightarrow> oop list option" where
  "socket_select_find_available m selectOn ready readyCount = do {
     xs \<leftarrow> array_values m selectOn;
     Some (take (nat readyCount) (filter (\<lambda>x. object_to_smallint x \<in> set ready) xs)) }"

definition prim_selectOnReadPipesFor :: primitive where
  "prim_selectOnReadPipesFor env oh args opts rsp = do {
     selectOn \<leftarrow> obj_arg args 0; w \<leftarrow> arg args 1;
     if \<not> object_is_smallint w then type_error env oh w rsp
     else do {
       r \<leftarrow> socket_select_setup (mem oh) selectOn;
       case r of
         Inl _ \<Rightarrow> Some (set_stack_at oh rsp (c_nil oh))
       | Inr (fds, maxFD) \<Rightarrow> do {
           let (a, oh) = os_do env oh (Select fds [] (maxFD + 1) (object_to_smallint w));
           if ans_value a < 0 then Some (set_stack_at oh rsp (c_nil oh))
           else do {
             (readyPipes, oh) \<leftarrow> new_array oh (ans_value a);
             xs \<leftarrow> socket_select_find_available (mem oh) selectOn (filter (\<lambda>fd. fd \<in> set (ans_words a)) fds) (ans_value a);
             Some (set_stack_at (put_words oh readyPipes 4 xs) rsp readyPipes) } } } }"

text \<open>The same with the other set, and with both arrays pinned.\<close>

definition prim_selectOnWritePipesFor :: primitive where
  "prim_selectOnWritePipesFor env oh args opts rsp = do {
     selectOn \<leftarrow> obj_arg args 0; w \<leftarrow> arg args 1;
     oh \<leftarrow> pinned_assign oh 0 selectOn;
     if \<not> object_is_smallint w then map_option (\<lambda>oh. pinned_end oh selectOn) (type_error env oh w rsp)
     else do {
       r \<leftarrow> socket_select_setup (mem oh) selectOn;
       case r of
         Inl _ \<Rightarrow> Some (pinned_end (set_stack_at oh rsp (c_nil oh)) selectOn)
       | Inr (fds, maxFD) \<Rightarrow> do {
           let (a, oh) = os_do env oh (Select [] fds (maxFD + 1) (object_to_smallint w));
           if ans_value a < 0 then Some (pinned_end (set_stack_at oh rsp (c_nil oh)) selectOn)
           else do {
             (readyPipes, oh) \<leftarrow> new_array oh (ans_value a);
             oh \<leftarrow> pinned_assign oh 0 readyPipes;
             xs \<leftarrow> socket_select_find_available (mem oh) selectOn (filter (\<lambda>fd. fd \<in> set (ans_words a)) fds) (ans_value a);
             let oh = set_stack_at (put_words oh readyPipes 4 xs) rsp readyPipes;
             Some (pinned_end (pinned_end oh readyPipes) selectOn) } } } }"

end
