(* ===== verification/Host.thy ===== *)
theory Host
  imports Network
begin

text \<open>
  The primitives that create and name sockets and those on the host: its names, its environment,
  its programs, copies of the process (primitives.cpp).
\<close>

section \<open>Creating and naming sockets\<close>

definition F_GETFL :: int where "F_GETFL = 3"
definition F_SETFL :: int where "F_SETFL = 4"
definition O_NONBLOCK :: int where "O_NONBLOCK = 2048"

definition socket_set_nonblocking :: "vm_env \<Rightarrow> object_heap \<Rightarrow> int \<Rightarrow> os_answer \<times> object_heap" where
  "socket_set_nonblocking env oh fd =
     (let (a, oh) = os_do env oh (Fcntl fd F_GETFL 0);
          flags = (if ans_value a = -1 then 0 else ans_value a)
      in os_do env oh (Fcntl fd F_SETFL (flags OR O_NONBLOCK)))"

text \<open>The socket is created before the arguments are tested.\<close>

definition prim_socketCreate :: primitive where
  "prim_socketCreate env oh args opts rsp = do {
     d \<leftarrow> arg args 0; t \<leftarrow> arg args 1; pr \<leftarrow> arg args 2;
     let (a, oh) = os_do env oh (NewSocket (socket_lookup_domain (object_to_smallint d))
       (socket_lookup_type (object_to_smallint t)) (socket_lookup_protocol (object_to_smallint pr)));
     case first_bad [d, t, pr] of
       Some x \<Rightarrow> type_error env oh x rsp
     | None \<Rightarrow>
         if ans_value a \<ge> 0 then
           let (b, oh) = socket_set_nonblocking env oh (wrap32 (ans_value a)) in
           Some (put_socket_return oh rsp (if ans_value b < 0 then b\<lparr>ans_value := -1\<rparr> else a))
         else Some (put_socket_return oh rsp a) }"

definition prim_socketListen :: primitive where
  "prim_socketListen env oh args opts rsp = do {
     h \<leftarrow> arg args 0; n \<leftarrow> arg args 1;
     case first_bad [h, n] of
       Some x \<Rightarrow> type_error env oh x rsp
     | None \<Rightarrow> do {
         let (a, oh) = os_do env oh (Listen (wrap32 (object_to_smallint h)) (wrap32 (object_to_smallint n)));
         Some (put_socket_return oh rsp a) } }"

definition SIZEOF_SOCKADDR_IN :: int where "SIZEOF_SOCKADDR_IN = 16"
definition SIZEOF_SOCKADDR_IN6 :: int where "SIZEOF_SOCKADDR_IN6 = 28"
definition SIZEOF_SOCKADDR_UN :: int where "SIZEOF_SOCKADDR_UN = 110"

text \<open>The address of the peer, which \<open>accept\<close> stores on the C stack, is not copied into the array.\<close>

definition prim_socketAccept :: primitive where
  "prim_socketAccept env oh args opts rsp = do {
     h \<leftarrow> arg args 0;
     if \<not> object_is_smallint h then type_error env oh h rsp
     else do {
       let (a, oh) = os_do env oh (Accept (wrap32 (object_to_smallint h)));
       if ans_value a < 0 then Some (put_socket_return oh rsp a)
       else do {
         (addrArray, oh) \<leftarrow> heap_clone_byte_array_sized oh (get_special oh SPECIAL_OOP_BYTE_ARRAY_PROTO) SIZEOF_SOCKADDR_IN;
         oh \<leftarrow> pinned_assign oh 0 addrArray;
         (res, oh) \<leftarrow> new_array oh 2;
         oh \<leftarrow> pinned_assign oh 0 res;
         oh \<leftarrow> object_array_set_element oh res 0 (smallint_to_object (ans_value a));
         oh \<leftarrow> object_array_set_element oh res 1 addrArray;
         Some (pinned_end (pinned_end (set_stack_at oh rsp res) res) addrArray) } } }"

definition byte_elements :: "mem \<Rightarrow> addr \<Rightarrow> int list" where
  "byte_elements m x = get_bytes m x (object_array_offset m x) (nat (payload_size m x))"

definition on_address :: "(int \<Rightarrow> int list \<Rightarrow> os_call) \<Rightarrow> primitive" where
  "on_address c env oh args opts rsp = do {
     h \<leftarrow> arg args 0; address \<leftarrow> obj_arg args 1;
     if \<not> object_is_smallint h then type_error env oh h rsp
     else do {
       let (a, oh) = os_do env oh (c (wrap32 (object_to_smallint h)) (byte_elements (mem oh) address));
       Some (put_socket_return oh rsp a) } }"

definition prim_socketBind :: primitive where "prim_socketBind = on_address Bind"
definition prim_socketConnect :: primitive where "prim_socketConnect = on_address Connect"

definition prim_socketGetError :: primitive where
  "prim_socketGetError env oh args opts rsp = do {
     h \<leftarrow> arg args 0;
     if \<not> object_is_smallint h then type_error env oh h rsp
     else do {
       let (a, oh) = os_do env oh (Getsockopt (wrap32 (object_to_smallint h)));
       if ans_value a = 0 then do {
         check (ans_words a \<noteq> []);
         Some (put_socket_return oh rsp (a\<lparr>ans_value := hd (ans_words a)\<rparr>)) }
       else Some (put_socket_return oh rsp a) } }"

text \<open>Numbers as bytes in the order of the machine and of the network.\<close>

definition low_bytes :: "nat \<Rightarrow> int \<Rightarrow> int list" where
  "low_bytes n x = map (\<lambda>k. take_bit 8 (drop_bit (8 * k) x)) [0..<n]"

definition net_bytes :: "nat \<Rightarrow> int \<Rightarrow> int list" where
  "net_bytes n x = rev (low_bytes n x)"

definition address_bytes :: "mem \<Rightarrow> addr \<Rightarrow> int \<Rightarrow> int list" where
  "address_bytes m x n = map (\<lambda>i. object_to_smallint (object_array_get_element m x i) AND 255) [0..n - 1]"

text \<open>
  \<open>prim_socketCreateIP\<close>: the contents of the array with a \<open>sockaddr\<close>, \<open>None\<close> for nil. The array is allocated before
  the type of the address is tested; a condition that is signalled then leaves the method without
  a result, \<open>Inl\<close> with the culprit.
\<close>

definition sockaddr_bytes :: "mem \<Rightarrow> word_t \<Rightarrow> addr \<Rightarrow> oop \<Rightarrow> (oop + (bool \<times> int list) option) option" where
  "sockaddr_bytes m domain address port =
     (let family = low_bytes 2 (socket_lookup_domain domain);
          portBytes = net_bytes 2 (take_bit 16 (object_to_smallint port))
      in if domain = 1 then do {
        check (\<not> object_is_smallint address);
        if payload_size m address > 100 then Some (Inr None)
        else if object_type m address \<noteq> TYPE_BYTE_ARRAY then Some (Inr (Some (False, replicate (nat SIZEOF_SOCKADDR_UN) 0)))
        else let path = c_string (get_bytes m address (object_array_offset m address) 100) in
          Some (Inr (Some (True, family @ (path @ replicate (108 - length path) 0)[nat (payload_size m address) := 0]))) }
      else if domain = 2 then
        if \<not> object_is_smallint port then Some (Inl port)
        else do {
          check (\<not> object_is_smallint address);
          n \<leftarrow> object_array_size m address;
          if n < 4 then Some (Inr None)
          else if object_type m address \<noteq> TYPE_OOP_ARRAY then Some (Inr (Some (False, replicate (nat SIZEOF_SOCKADDR_IN) 0)))
          else Some (Inr (Some (True, family @ portBytes @ address_bytes m address 4 @ replicate 8 0))) }
      else if domain = 3 then
        if \<not> object_is_smallint port then Some (Inl port)
        else do {
          check (\<not> object_is_smallint address);
          n \<leftarrow> object_array_size m address;
          if n < 16 then Some (Inr None)
          else if object_type m address \<noteq> TYPE_OOP_ARRAY then Some (Inr (Some (False, replicate (nat SIZEOF_SOCKADDR_IN6) 0)))
          else Some (Inr (Some (True, family @ portBytes @ replicate 4 0 @ address_bytes m address 16 @ replicate 4 0))) }
      else Some (Inr None))"

definition prim_socketCreateIP :: primitive where
  "prim_socketCreateIP env oh args opts rsp = do {
     d \<leftarrow> arg args 0; address \<leftarrow> arg args 1; port \<leftarrow> arg args 2;
     if \<not> object_is_smallint d then type_error env oh d rsp
     else do {
       r \<leftarrow> sockaddr_bytes (mem oh) (object_to_smallint d) address port;
       case r of
         Inl x \<Rightarrow> type_error env oh x rsp
       | Inr None \<Rightarrow> Some (set_stack_at oh rsp (c_nil oh))
       | Inr (Some (good, bytes)) \<Rightarrow> do {
           (ret, oh) \<leftarrow> heap_clone_byte_array_sized oh (get_special oh SPECIAL_OOP_BYTE_ARRAY_PROTO) (int (length bytes));
           oh \<leftarrow> pinned_assign oh 0 ret;
           if good then do {
             let oh = put_bytes ret (object_array_offset (mem oh) ret) bytes oh;
             Some (pinned_end (set_stack_at oh rsp ret) ret) }
           else map_option (\<lambda>oh. pinned_end oh ret) (type_error env oh address rsp) } } }"

section \<open>The host\<close>

text \<open>One of the names that \<open>uname\<close> stores: system, node, release, version, machine.\<close>

definition system_info :: "nat \<Rightarrow> primitive" where
  "system_info k env oh args opts rsp = do {
     let (a, oh) = os_do env oh Uname;
     if ans_value a = 0 then do {
       check (k < length (ans_strings a));
       put_new (new_byte_array oh (c_string (ans_strings a ! k))) rsp }
     else put_new (Some (c_nil oh, oh)) rsp }"

definition prim_system_platform :: primitive where "prim_system_platform = system_info 0"
definition prim_system_name :: primitive where "prim_system_name = system_info 1"
definition prim_system_release :: primitive where "prim_system_release = system_info 2"
definition prim_system_version :: primitive where "prim_system_version = system_info 3"
definition prim_system_machine :: primitive where "prim_system_machine = system_info 4"

text \<open>A byte array copied into a buffer of \<open>SLATE_FILE_NAME_LENGTH\<close> bytes without a test of its size.\<close>

definition stack_string :: "object_heap \<Rightarrow> oop list \<Rightarrow> nat \<Rightarrow> int list option" where
  "stack_string oh args k = do {
     x \<leftarrow> obj_arg args k;
     check (payload_size (mem oh) x < SLATE_FILE_NAME_LENGTH);
     Some (counted_name (byte_elements (mem oh) x)) }"

definition prim_environment_removekey :: primitive where
  "prim_environment_removekey env oh args opts rsp = do {
     key \<leftarrow> stack_string oh args 1;
     let (_, oh) = os_do env oh (Unsetenv key);
     Some (set_stack_at oh rsp (c_true_object oh)) }"

definition prim_environment_atput :: primitive where
  "prim_environment_atput env oh args opts rsp = do {
     key \<leftarrow> stack_string oh args 1;
     val \<leftarrow> stack_string oh args 2;
     let (a, oh) = os_do env oh (Setenv key val);
     Some (set_stack_at oh rsp (bool_object oh (ans_value a = 0))) }"

definition prim_system_execute :: primitive where
  "prim_system_execute env oh args opts rsp = do {
     command \<leftarrow> stack_string oh args 1;
     let (a, oh) = os_do env oh (System command);
     Some (set_stack_at oh rsp (bool_object oh (ans_value a = 0))) }"

text \<open>The copy of the process is in the child when \<open>fork2\<close> answers 0; each has one end of the socket pair.\<close>

definition prim_cloneSystem :: primitive where
  "prim_cloneSystem env oh args opts rsp = do {
     let (a, oh) = os_do env oh SocketPair;
     if ans_value a = -1 then Some (set_stack_at oh rsp (c_nil oh))
     else do {
       check (length (ans_words a) = 2);
       (pid, p) \<leftarrow> fork2 (operating_system env) (process oh);
       let oh = oh\<lparr>process := p\<rparr>;
       if pid = -1 then Some (set_stack_at oh rsp (c_nil oh))
       else do {
         (array, oh) \<leftarrow> new_array oh 2;
         let oh = set_stack_at oh rsp array;
         Some (put_words oh array 4
           (if pid = 0 then [c_false_object oh, smallint_to_object (ans_words a ! 0)]
            else [c_true_object oh, smallint_to_object (ans_words a ! 1)])) } } }"

text \<open>The process ends.\<close>

definition prim_exit :: primitive where
  "prim_exit env oh args opts rsp = do {
     x \<leftarrow> arg args 1;
     if \<not> object_is_smallint x then type_error env oh x rsp else None }"

section \<open>The parts of a float\<close>

text \<open>A float is four bytes; these primitives read and write the eight bytes at its start as a word.\<close>

definition FLOAT_SIGNIFICAND :: int where "FLOAT_SIGNIFICAND = 8388607"
definition FLOAT_EXPONENT_OFFSET :: nat where "FLOAT_EXPONENT_OFFSET = 23"

definition float_part :: "mem \<Rightarrow> addr \<Rightarrow> word_t" where
  "float_part m x = rd m x (nat (object_size m x))"

definition prim_exponent :: primitive where
  "prim_exponent env oh args opts rsp = do {
     x \<leftarrow> obj_arg args 0;
     Some (put_int oh rsp (drop_bit FLOAT_EXPONENT_OFFSET (float_part (mem oh) x) AND 255)) }"

definition prim_significand :: primitive where
  "prim_significand env oh args opts rsp = do {
     x \<leftarrow> obj_arg args 0;
     Some (put_int oh rsp (float_part (mem oh) x AND FLOAT_SIGNIFICAND)) }"

definition heap_new_float :: "object_heap \<Rightarrow> (addr \<times> object_heap) option" where
  "heap_new_float oh = heap_clone_special oh SPECIAL_OOP_FLOAT_PROTO"

definition prim_withSignificand_exponent :: primitive where
  "prim_withSignificand_exponent env oh args opts rsp = do {
     s \<leftarrow> arg args 1; e \<leftarrow> arg args 2;
     (f, oh) \<leftarrow> heap_new_float oh;
     let oh = upd oh f (nat (object_size (mem oh) f))
       (object_to_smallint s OR wrap64 (push_bit FLOAT_EXPONENT_OFFSET (object_to_smallint e)));
     Some (set_stack_at oh rsp f) }"

end
