(* ===== verification/Floats.thy ===== *)
theory Floats
  imports Host
begin

text \<open>
  Floats of the C side (\<open>float_type\<close> is \<open>float\<close>) as the machine computes with them: the 32 bits of
  the format, arithmetic on the exact values, one rounding to nearest, ties to even. The same definitions, with other widths,
  serve the conversion to \<open>double\<close> in external-library.cpp. The numbers a NaN is made of and
  the functions of the mathematical library are parameters.
\<close>

section \<open>Formats\<close>

text \<open>
  A finite value without its sign is a number of units, the least positive value of the
  format: \<open>f\<close> bits of fraction, \<open>w\<close> bits of exponent.
\<close>

definition units :: "nat \<Rightarrow> nat \<Rightarrow> nat" where
  "units f b = (let e = b div 2 ^ f; m = b mod 2 ^ f in if e = 0 then m else (2 ^ f + m) * 2 ^ (e - 1))"

fun bit_length :: "nat \<Rightarrow> nat" where
  "bit_length n = (if n = 0 then 0 else Suc (bit_length (n div 2)))"

declare bit_length.simps [simp del]

lemma bit_length_0 [simp]: "bit_length 0 = 0"
  by (subst bit_length.simps) simp

definition round_half_even :: "nat \<Rightarrow> nat \<Rightarrow> nat" where
  "round_half_even n d = (let k = n div d; r = n mod d in if 2 * r > d \<or> (2 * r = d \<and> odd k) then k + 1 else k)"

definition infinity :: "nat \<Rightarrow> nat \<Rightarrow> nat" where
  "infinity f w = (2 ^ w - 1) * 2 ^ f"

text \<open>The bits of the value next to \<open>n / d\<close> units; what is too large is infinite.\<close>

definition round_units :: "nat \<Rightarrow> nat \<Rightarrow> nat \<Rightarrow> nat \<Rightarrow> nat" where
  "round_units f w n d =
     (let s = bit_length (n div d) - (f + 1); k = round_half_even n (d * 2 ^ s) in min (s * 2 ^ f + k) (infinity f w))"

section \<open>Rounding\<close>

lemma bit_length_bounds: "0 < n \<Longrightarrow> 2 ^ (bit_length n - 1) \<le> n \<and> n < 2 ^ bit_length n \<and> 0 < bit_length n"
proof (induction n rule: bit_length.induct)
  case (1 n)
  show ?case
  proof (cases "n = 1")
    case True
    then show ?thesis by (simp add: bit_length.simps)
  next
    case False
    with 1 have h: "2 ^ (bit_length (n div 2) - 1) \<le> n div 2 \<and> n div 2 < 2 ^ bit_length (n div 2) \<and> 0 < bit_length (n div 2)" by auto
    have two: "2 * (2::nat) ^ (bit_length (n div 2) - 1) = 2 ^ bit_length (n div 2)" using h by (simp flip: power_Suc)
    have "bit_length n = Suc (bit_length (n div 2))" using 1 by (subst bit_length.simps) simp
    with h two 1 show ?thesis by simp linarith
  qed
qed

lemma bit_length_le: "n < 2 ^ k \<Longrightarrow> bit_length n \<le> k"
proof (rule ccontr)
  assume n: "n < 2 ^ k" and "\<not> bit_length n \<le> k"
  then have "k < bit_length n" by simp
  then have "k \<le> bit_length n - 1" "0 < n" by (cases "n = 0"; simp)+
  then have "(2::nat) ^ k \<le> 2 ^ (bit_length n - 1)" by (simp add: power_increasing)
  with n bit_length_bounds [OF \<open>0 < n\<close>] show False by linarith
qed

lemma bit_length_gt:
  assumes "2 ^ k \<le> n"
  shows "k < bit_length n"
proof (rule ccontr)
  have n: "0 < n" using assms by (rule less_le_trans [rotated]) simp
  assume "\<not> k < bit_length n"
  then have "(2::nat) ^ bit_length n \<le> 2 ^ k" by (simp add: power_increasing)
  with bit_length_bounds [OF n] assms show False by linarith
qed

text \<open>Rounding to an integer: no integer is nearer.\<close>

lemma round_half_even_nearest:
  assumes "0 < d"
  shows "\<bar>int (round_half_even n d) * int d - int n\<bar> \<le> \<bar>j * int d - int n\<bar>"
proof -
  let ?k = "int (n div d)" and ?r = "int (n mod d)"
  have n: "int n = ?k * int d + ?r" by (metis div_mult_mod_eq of_nat_add of_nat_mult)
  have r: "0 \<le> ?r" "?r < int d" using assms by simp_all
  have j: "?r \<le> \<bar>j * int d - int n\<bar>" if "j \<le> ?k"
  proof -
    have "j * int d \<le> ?k * int d" using that by (simp add: mult_right_mono)
    with n r show ?thesis by linarith
  qed
  have j': "int d - ?r \<le> \<bar>j * int d - int n\<bar>" if "?k + 1 \<le> j"
  proof -
    have "(?k + 1) * int d \<le> j * int d" using that by (rule mult_right_mono) simp
    then have "?k * int d + int d \<le> j * int d" by (simp add: algebra_simps)
    with n r show ?thesis by linarith
  qed
  have "round_half_even n d = n div d \<and> 2 * ?r \<le> int d \<or> round_half_even n d = n div d + 1 \<and> int d \<le> 2 * ?r"
    by (auto simp: round_half_even_def Let_def)
  then show ?thesis
  proof
    assume h: "round_half_even n d = n div d \<and> 2 * ?r \<le> int d"
    then have "\<bar>int (round_half_even n d) * int d - int n\<bar> = ?r" using n r by simp
    with h j j' show ?thesis by (cases "j \<le> ?k") auto
  next
    assume h: "round_half_even n d = n div d + 1 \<and> int d \<le> 2 * ?r"
    then have "int (round_half_even n d) * int d - int n = int d - ?r" using n by (simp add: algebra_simps)
    with h j j' r show ?thesis by (cases "j \<le> ?k") auto
  qed
qed

lemma round_half_even_bounds:
  assumes "0 < d"
  shows "n div d \<le> round_half_even n d" "round_half_even n d \<le> n div d + 1"
  by (simp_all add: round_half_even_def Let_def)

lemma round_half_even_exact: "0 < d \<Longrightarrow> round_half_even (k * d) d = k"
  by (simp add: round_half_even_def)

lemma split_bits: "m < 2 ^ f \<Longrightarrow> (m + e * 2 ^ f) div 2 ^ f = e" "m < 2 ^ f \<Longrightarrow> (m + e * 2 ^ f) mod 2 ^ f = (m :: nat)"
  by simp_all

lemma units_normal: "m < 2 ^ f \<Longrightarrow> units f (m + Suc e * 2 ^ f) = (2 ^ f + m) * 2 ^ e"
  unfolding units_def Let_def split_bits by simp

lemma units_small: "m < 2 ^ f \<Longrightarrow> units f m = m"
  by (simp add: units_def)

text \<open>What the bits of a sum of shift and rounded number stand for.\<close>

lemma units_shifted:
  assumes "k \<le> 2 ^ (f + 1)" "s = 0 \<or> 2 ^ f \<le> k"
  shows "units f (s * 2 ^ f + k) = k * 2 ^ s"
proof -
  consider "k < 2 ^ f" | "2 ^ f \<le> k" "k < 2 ^ (f + 1)" | "k = 2 ^ (f + 1)" using assms(1) by linarith
  then show ?thesis
  proof cases
    case 1
    with assms(2) show ?thesis by (simp add: units_def)
  next
    case 2
    define m where "m = k - 2 ^ f"
    have k: "k = 2 ^ f + m" "m < 2 ^ f" using 2 by (simp_all add: m_def)
    have "s * 2 ^ f + k = m + Suc s * 2 ^ f" using k by simp
    with units_normal [OF k(2), of s] k(1) show ?thesis by metis
  next
    case 3
    then have "s * 2 ^ f + k = 0 + Suc (Suc s) * 2 ^ f" by simp
    then have "units f (s * 2 ^ f + k) = (2 ^ f + 0) * 2 ^ Suc s" using units_normal [of 0 f "Suc s"] by (metis zero_less_numeral zero_less_power)
    with 3 show ?thesis by simp
  qed
qed

lemma round_units_parts:
  fixes f n d :: nat
  assumes "0 < d"
  defines "s \<equiv> bit_length (n div d) - (f + 1)"
  defines "k \<equiv> round_half_even n (d * 2 ^ s)"
  shows "k \<le> 2 ^ (f + 1)" "s = 0 \<or> 2 ^ f \<le> n div (d * 2 ^ s)" "s = 0 \<or> 2 ^ f \<le> k"
proof -
  have D: "0 < d * 2 ^ s" using assms(1) by simp
  have q: "n div (d * 2 ^ s) = n div d div 2 ^ s" by (simp add: div_mult2_eq)
  have "n div d < 2 ^ (f + 1 + s)"
  proof (cases "n div d = 0")
    case False
    then have "n div d < 2 ^ bit_length (n div d)" using bit_length_bounds [of "n div d"] by simp
    also have "\<dots> \<le> 2 ^ (f + 1 + s)" by (rule power_increasing) (simp_all add: s_def)
    finally show ?thesis .
  qed simp
  then have "n div d div 2 ^ s < 2 ^ (f + 1)" by (simp add: less_mult_imp_div_less power_add)
  with round_half_even_bounds [OF D, of n] q show "k \<le> 2 ^ (f + 1)" by (simp add: k_def)
  show low: "s = 0 \<or> 2 ^ f \<le> n div (d * 2 ^ s)"
  proof (cases "s = 0")
    case False
    then have "f + 1 < bit_length (n div d)" by (simp add: s_def)
    then have "bit_length (n div d) - 1 = f + s" "0 < n div d" by (cases "n div d = 0"; simp add: s_def)+
    then have "2 ^ f * 2 ^ s \<le> n div d" using bit_length_bounds [of "n div d"] by (simp add: power_add)
    then show ?thesis by (simp add: q less_eq_div_iff_mult_less_eq)
  qed simp
  with round_half_even_bounds [OF D, of n] show "s = 0 \<or> 2 ^ f \<le> k" unfolding k_def by linarith
qed

lemma units_bounds:
  assumes "b div 2 ^ f = Suc e"
  shows "2 ^ (f + e) \<le> units f b" "units f b < 2 ^ (f + e + 1)"
proof -
  have "b mod 2 ^ f < 2 ^ f" by simp
  then have "(2 ^ f + b mod 2 ^ f) * 2 ^ e < (2 ^ f + 2 ^ f) * (2::nat) ^ e" by (intro mult_strict_right_mono) simp_all
  then show "2 ^ (f + e) \<le> units f b" "units f b < 2 ^ (f + e + 1)"
    using assms by (simp_all add: units_def Let_def power_add algebra_simps)
qed

text \<open>Correct rounding: no finite value is nearer to the exact one.\<close>

lemma round_units_nearest:
  assumes "0 < d" "round_units f w n d < infinity f w"
  shows "\<bar>int (units f (round_units f w n d)) * int d - int n\<bar> \<le> \<bar>int (units f b) * int d - int n\<bar>"
proof -
  define s where "s = bit_length (n div d) - (f + 1)"
  define D where "D = d * 2 ^ s"
  define k where "k = round_half_even n D"
  note p = round_units_parts [OF assms(1), of n f, folded s_def, folded D_def, folded k_def]
  have r: "round_units f w n d = s * 2 ^ f + k" using assms(2) by (simp add: round_units_def Let_def s_def k_def D_def)
  have u: "int (units f (round_units f w n d)) * int d = int k * int D" using units_shifted [OF p(1,3)] by (simp add: r D_def)
  have "0 < D" using assms(1) by (simp add: D_def)
  note near = round_half_even_nearest [OF this, of n, folded k_def]
  have "\<bar>int k * int D - int n\<bar> \<le> \<bar>int (units f b) * int d - int n\<bar>"
  proof (cases "\<exists>j. units f b = j * 2 ^ s")
    case True
    then obtain j where "units f b = j * 2 ^ s" by blast
    with near [of "int j"] show ?thesis by (simp add: D_def algebra_simps)
  next
    case False
    let ?e = "b div 2 ^ f"
    have "s \<noteq> 0" using False by (intro notI) simp
    have "?e \<le> s"
    proof (rule ccontr)
      assume "\<not> ?e \<le> s"
      then obtain j where "?e = Suc (s + j)" by (metis less_imp_Suc_add not_le)
      then have "units f b = (2 ^ f + b mod 2 ^ f) * 2 ^ j * 2 ^ s" by (simp add: units_def Let_def power_add)
      with False show False by blast
    qed
    have "units f b \<le> 2 ^ f * 2 ^ s"
    proof (cases "?e = 0")
      case True
      then have "units f b = b mod 2 ^ f" by (simp add: units_def)
      also have "\<dots> \<le> 2 ^ f" by (simp add: less_imp_le)
      also have "2 ^ f \<le> 2 ^ f * (2::nat) ^ s" by simp
      finally show ?thesis .
    next
      case False
      then obtain e where e: "?e = Suc e" by (cases ?e) auto
      have "units f b < 2 ^ (f + e + 1)" using units_bounds [OF e] by simp
      also have "\<dots> \<le> 2 ^ (f + s)" using e \<open>?e \<le> s\<close> by (intro power_increasing) simp_all
      finally show ?thesis by (simp add: power_add)
    qed
    then have "int (units f b) \<le> int (2 ^ f * 2 ^ s)" by (simp only: of_nat_le_iff)
    then have "int (units f b) \<le> 2 ^ f * 2 ^ s" by simp
    then have "int (units f b) * int d \<le> 2 ^ f * 2 ^ s * int d" by (rule mult_right_mono) simp
    also have "\<dots> = 2 ^ f * int D" by (simp add: D_def)
    finally have 1: "int (units f b) * int d \<le> 2 ^ f * int D" .
    have "2 ^ f * D \<le> n" using p(2) \<open>s \<noteq> 0\<close> \<open>0 < D\<close> by (simp add: less_eq_div_iff_mult_less_eq)
    then have "int (2 ^ f * D) \<le> int n" by (simp only: of_nat_le_iff)
    then have "2 ^ f * int D \<le> int n" by simp
    with 1 near [of "2 ^ f"] show ?thesis by linarith
  qed
  with u show ?thesis by simp
qed

text \<open>What is a value of the format rounds to itself.\<close>

lemma round_units_exact:
  assumes "0 < d" "b \<le> infinity f w"
  shows "round_units f w (units f b * d) d = b"
proof -
  let ?u = "units f b" and ?e = "b div 2 ^ f" and ?m = "b mod 2 ^ f"
  have n: "?u * d div d = ?u" using assms(1) by simp
  have m: "?m < 2 ^ f" by simp
  have b: "b = ?e * 2 ^ f + ?m" by (simp add: div_mult_mod_eq)
  have r: "round_units f w (?u * d) d = min (s * 2 ^ f + k) (infinity f w)"
    if "bit_length ?u - (f + 1) = s" "?u = k * 2 ^ s" for s k
  proof -
    have u: "?u * d = k * (d * 2 ^ s)" using that(2) by (simp add: ac_simps)
    have "round_half_even (?u * d) (d * 2 ^ s) = k" unfolding u using round_half_even_exact [of "d * 2 ^ s" k] assms(1) by simp
    then show ?thesis unfolding round_units_def Let_def n that(1) by simp
  qed
  show ?thesis
  proof (cases ?e)
    case 0
    then have u: "?u = ?m" by (simp add: units_def)
    have "bit_length ?u \<le> f" using u m by (intro bit_length_le) simp
    with r [of 0 ?m] u b 0 assms(2) show ?thesis by simp
  next
    case (Suc e)
    have "f + e < bit_length ?u" "bit_length ?u \<le> f + e + 1"
      using units_bounds [OF Suc] by (auto intro: bit_length_gt bit_length_le)
    then have "bit_length ?u - (f + 1) = e" by simp
    moreover have "?u = (2 ^ f + ?m) * 2 ^ e" using Suc by (simp add: units_def)
    ultimately have "round_units f w (?u * d) d = min (e * 2 ^ f + (2 ^ f + ?m)) (infinity f w)" by (rule r)
    also have "e * 2 ^ f + (2 ^ f + ?m) = b" using b Suc by simp
    finally show ?thesis using assms(2) by simp
  qed
qed

section \<open>Single precision\<close>

definition SIGN :: nat where "SIGN = 2 ^ 31"
definition float_infinity :: nat where "float_infinity = infinity 23 8"

definition float_negative :: "nat \<Rightarrow> bool" where "float_negative x \<longleftrightarrow> SIGN \<le> x"
definition float_magnitude :: "nat \<Rightarrow> nat" where "float_magnitude x = x mod SIGN"
definition float_nan :: "nat \<Rightarrow> bool" where "float_nan x \<longleftrightarrow> float_infinity < float_magnitude x"
definition float_infinite :: "nat \<Rightarrow> bool" where "float_infinite x \<longleftrightarrow> float_magnitude x = float_infinity"
definition float_finite :: "nat \<Rightarrow> bool" where "float_finite x \<longleftrightarrow> float_magnitude x < float_infinity"

definition signed :: "bool \<Rightarrow> nat \<Rightarrow> nat" where "signed negative b = (if negative then SIGN else 0) + b"
definition float_negate :: "nat \<Rightarrow> nat" where "float_negate x = signed (\<not> float_negative x) (float_magnitude x)"

definition float_units :: "nat \<Rightarrow> int" where
  "float_units x = (if float_negative x then - int (units 23 (float_magnitude x)) else int (units 23 (float_magnitude x)))"

text \<open>One is \<open>2 ^ 149\<close> units.\<close>

definition ONE :: nat where "ONE = 2 ^ 149"

definition float_round :: "int \<Rightarrow> nat \<Rightarrow> nat" where
  "float_round n d = signed (n < 0) (round_units 23 8 (nat \<bar>n\<bar>) d)"

section \<open>Arithmetic\<close>

text \<open>
  The operators of the language on \<open>float\<close> operands. The function \<open>nan\<close> says which NaN the
  machine answers for two operands.
\<close>

type_synonym nan_choice = "nat \<Rightarrow> nat \<Rightarrow> nat"

text \<open>A sum that is exactly zero is negative only when both operands are.\<close>

definition float_plus :: "nan_choice \<Rightarrow> nat \<Rightarrow> nat \<Rightarrow> nat" where
  "float_plus nan x y =
     (if float_nan x \<or> float_nan y then nan x y
      else if float_infinite x then (if float_infinite y \<and> float_negative x \<noteq> float_negative y then nan x y else x)
      else if float_infinite y then y
      else let t = float_units x + float_units y in
        if t = 0 then signed (float_negative x \<and> float_negative y) 0 else float_round t 1)"

definition float_minus :: "nan_choice \<Rightarrow> nat \<Rightarrow> nat \<Rightarrow> nat" where
  "float_minus nan x y = (if float_nan x \<or> float_nan y then nan x y else float_plus (\<lambda>_ _. nan x y) x (float_negate y))"

definition float_times :: "nan_choice \<Rightarrow> nat \<Rightarrow> nat \<Rightarrow> nat" where
  "float_times nan x y =
     (let negative = (float_negative x \<noteq> float_negative y) in
      if float_nan x \<or> float_nan y then nan x y
      else if float_infinite x \<or> float_infinite y
      then (if float_magnitude x = 0 \<or> float_magnitude y = 0 then nan x y else signed negative float_infinity)
      else signed negative (round_units 23 8 (nat \<bar>float_units x * float_units y\<bar>) ONE))"

definition float_divide :: "nan_choice \<Rightarrow> nat \<Rightarrow> nat \<Rightarrow> nat" where
  "float_divide nan x y =
     (let negative = (float_negative x \<noteq> float_negative y) in
      if float_nan x \<or> float_nan y then nan x y
      else if float_infinite x then (if float_infinite y then nan x y else signed negative float_infinity)
      else if float_infinite y then signed negative 0
      else if float_magnitude y = 0 then (if float_magnitude x = 0 then nan x y else signed negative float_infinity)
      else signed negative (round_units 23 8 (nat \<bar>float_units x\<bar> * ONE) (nat \<bar>float_units y\<bar>)))"

text \<open>Comparisons: a NaN is neither equal to nor less than anything; the two zeros are equal.\<close>

definition float_key :: "nat \<Rightarrow> int" where
  "float_key x = (if float_negative x then - int (float_magnitude x) else int (float_magnitude x))"

definition float_equal :: "nat \<Rightarrow> nat \<Rightarrow> bool" where
  "float_equal x y \<longleftrightarrow> \<not> float_nan x \<and> \<not> float_nan y \<and> float_key x = float_key y"

definition float_less :: "nat \<Rightarrow> nat \<Rightarrow> bool" where
  "float_less x y \<longleftrightarrow> \<not> float_nan x \<and> \<not> float_nan y \<and> float_key x < float_key y"

text \<open>Conversions: of integers, and to \<open>double\<close>, whose units are \<open>2 ^ 925\<close> times as small.\<close>

definition float_of_int :: "int \<Rightarrow> nat" where
  "float_of_int n = float_round (n * int ONE) 1"

definition DOUBLE_SIGN :: nat where "DOUBLE_SIGN = 2 ^ 63"

definition double_signed :: "bool \<Rightarrow> nat \<Rightarrow> nat" where "double_signed negative b = (if negative then DOUBLE_SIGN else 0) + b"

definition double_of_int :: "int \<Rightarrow> nat" where
  "double_of_int n = double_signed (n < 0) (round_units 52 11 (nat \<bar>n\<bar> * 2 ^ 1074) 1)"

text \<open>A NaN keeps its fraction and becomes quiet.\<close>

definition double_of_float :: "nat \<Rightarrow> nat" where
  "double_of_float x = double_signed (float_negative x)
     (if float_nan x then
        let fraction = (float_magnitude x - float_infinity) * 2 ^ 29
        in infinity 52 11 + (if fraction < 2 ^ 51 then 2 ^ 51 + fraction else fraction)
      else if float_infinite x then infinity 52 11
      else round_units 52 11 (units 23 (float_magnitude x) * 2 ^ 925) 1)"

lemmas format_defs = units_def round_units_def round_half_even_def infinity_def bit_length.simps Let_def

lemmas float_defs = SIGN_def ONE_def float_infinity_def float_negative_def float_magnitude_def float_nan_def float_infinite_def
  float_finite_def signed_def float_negate_def float_units_def float_round_def float_key_def DOUBLE_SIGN_def double_signed_def

section \<open>The primitives\<close>

text \<open>\<open>*float_part(x)\<close>: the four low bytes of the first word of the contents.\<close>

definition get_float :: "mem \<Rightarrow> addr \<Rightarrow> nat" where
  "get_float m x = nat (take_bit 32 (float_part m x))"

definition set_float :: "object_heap \<Rightarrow> addr \<Rightarrow> nat \<Rightarrow> object_heap" where
  "set_float oh x b = (let w = float_part (mem oh) x in upd oh x (nat (object_size (mem oh) x)) (w - take_bit 32 w + int b))"

definition float_test :: "(nat \<Rightarrow> nat \<Rightarrow> bool) \<Rightarrow> primitive" where
  "float_test r env oh args opts rsp = do {
     x \<leftarrow> obj_arg args 0; y \<leftarrow> obj_arg args 1;
     Some (set_stack_at oh rsp (bool_object oh (r (get_float (mem oh) x) (get_float (mem oh) y)))) }"

definition prim_float_equals :: primitive where "prim_float_equals = float_test float_equal"
definition prim_float_less_than :: primitive where "prim_float_less_than = float_test float_less"

text \<open>The new float is allocated before the operands are read; it gets no write barrier.\<close>

definition float_binary :: "(vm_env \<Rightarrow> nat \<Rightarrow> nat \<Rightarrow> nat) \<Rightarrow> primitive" where
  "float_binary f env oh args opts rsp = do {
     x \<leftarrow> obj_arg args 0; y \<leftarrow> obj_arg args 1;
     (z, oh) \<leftarrow> heap_new_float oh;
     let oh = set_float oh z (f env (get_float (mem oh) x) (get_float (mem oh) y));
     Some (set_stack_at oh rsp z) }"

definition float_unary :: "(vm_env \<Rightarrow> nat \<Rightarrow> nat) \<Rightarrow> primitive" where
  "float_unary f env oh args opts rsp = do {
     x \<leftarrow> obj_arg args 0;
     (z, oh) \<leftarrow> heap_new_float oh;
     let oh = set_float oh z (f env (get_float (mem oh) x));
     Some (set_stack_at oh rsp z) }"

definition prim_float_plus :: primitive where "prim_float_plus = float_binary (\<lambda>env. float_plus (nan_bits env))"
definition prim_float_minus :: primitive where "prim_float_minus = float_binary (\<lambda>env. float_minus (nan_bits env))"
definition prim_float_times :: primitive where "prim_float_times = float_binary (\<lambda>env. float_times (nan_bits env))"
definition prim_float_divide :: primitive where "prim_float_divide = float_binary (\<lambda>env. float_divide (nan_bits env))"
definition prim_float_raisedTo :: primitive where "prim_float_raisedTo = float_binary (\<lambda>env x y. libm env ''pow'' [x, y])"
definition prim_float_ln :: primitive where "prim_float_ln = float_unary (\<lambda>env x. libm env ''log'' [x])"
definition prim_float_exp :: primitive where "prim_float_exp = float_unary (\<lambda>env x. libm env ''exp'' [x])"
definition prim_float_sin :: primitive where "prim_float_sin = float_unary (\<lambda>env x. libm env ''sin'' [x])"

section \<open>Correct rounding of the operators\<close>

lemma magnitude_signed: "b < SIGN \<Longrightarrow> float_magnitude (signed negative b) = b \<and> float_negative (signed negative b) = negative"
  by (auto simp: float_magnitude_def signed_def float_negative_def)

lemma round_units_le: "round_units f w n d \<le> infinity f w"
  by (simp add: round_units_def Let_def)

lemma infinity_below_sign: "infinity 23 8 < SIGN"
  by (simp add: infinity_def SIGN_def)

lemma units_zero [simp]: "units f 0 = 0"
  by (simp add: units_def)

text \<open>A result with the sign of the exact value \<open>t / d\<close> is as near to it as any finite float.\<close>

lemma signed_nearest:
  fixes t :: int
  assumes "0 < d" "negative \<Longrightarrow> t \<le> 0" "\<not> negative \<Longrightarrow> 0 \<le> t"
  defines "r \<equiv> signed negative (round_units 23 8 (nat \<bar>t\<bar>) d)"
  assumes "float_finite r"
  shows "\<bar>float_units r * int d - t\<bar> \<le> \<bar>float_units c * int d - t\<bar>"
proof -
  let ?b = "round_units 23 8 (nat \<bar>t\<bar>) d"
  have "?b < SIGN" using round_units_le [of 23 8] infinity_below_sign by (rule le_less_trans)
  note m = magnitude_signed [OF this, of negative]
  have "?b < infinity 23 8" using assms(5) m by (simp add: r_def float_finite_def float_infinity_def)
  note near = round_units_nearest [OF assms(1) this]
  have r: "float_units r = (if negative then - int (units 23 ?b) else int (units 23 ?b))"
    unfolding r_def float_units_def conjunct1 [OF m] conjunct2 [OF m] ..
  then have l: "\<bar>float_units r * int d - t\<bar> = \<bar>int (units 23 ?b) * int d - int (nat \<bar>t\<bar>)\<bar>" using assms(2,3) by (cases negative) auto
  define U where "U = int (units 23 (float_magnitude c)) * int d"
  have "0 \<le> U" "float_units c * int d = (if float_negative c then - U else U)" by (simp_all add: U_def float_units_def)
  then have "\<bar>U - int (nat \<bar>t\<bar>)\<bar> \<le> \<bar>float_units c * int d - t\<bar> \<or> int (nat \<bar>t\<bar>) \<le> \<bar>float_units c * int d - t\<bar>"
    using assms(2,3) by (cases negative; cases "float_negative c"; simp; arith)
  note this [unfolded U_def]
  with l near [of "float_magnitude c"] near [of 0] show ?thesis by auto
qed

lemma plus_nearest:
  assumes "float_finite x" "float_finite y" "float_finite (float_plus nan x y)"
  shows "\<bar>float_units (float_plus nan x y) - (float_units x + float_units y)\<bar> \<le> \<bar>float_units c - (float_units x + float_units y)\<bar>"
proof (cases "float_units x + float_units y = 0")
  case True
  then have "float_plus nan x y = signed (float_negative x \<and> float_negative y) 0"
    using assms(1,2) by (simp add: float_plus_def float_finite_def float_nan_def float_infinite_def)
  then have "float_units (float_plus nan x y) = 0"
    using magnitude_signed [of 0] by (simp add: float_units_def SIGN_def)
  with True show ?thesis by simp
next
  case False
  let ?t = "float_units x + float_units y"
  have r: "float_plus nan x y = signed (?t < 0) (round_units 23 8 (nat \<bar>?t\<bar>) 1)"
    using assms(1,2) False by (simp add: float_plus_def Let_def float_finite_def float_nan_def float_infinite_def float_round_def)
  then show ?thesis using signed_nearest [of 1 "?t < 0" ?t c] assms(3) by simp
qed

lemma negate_finite:
  assumes "float_finite y"
  shows "float_finite (float_negate y)" "float_units (float_negate y) = - float_units y"
proof -
  have "float_magnitude y < SIGN" by (simp add: float_magnitude_def SIGN_def)
  note m = magnitude_signed [OF this, of "\<not> float_negative y"]
  show "float_finite (float_negate y)" "float_units (float_negate y) = - float_units y"
    using assms unfolding float_finite_def float_units_def float_negate_def conjunct1 [OF m] conjunct2 [OF m] by simp_all
qed

lemma minus_nearest:
  assumes "float_finite x" "float_finite y" "float_finite (float_minus nan x y)"
  shows "\<bar>float_units (float_minus nan x y) - (float_units x - float_units y)\<bar> \<le> \<bar>float_units c - (float_units x - float_units y)\<bar>"
proof -
  have "float_minus nan x y = float_plus (\<lambda>_ _. nan x y) x (float_negate y)"
    using assms(1,2) by (simp add: float_minus_def float_finite_def float_nan_def)
  then show ?thesis using plus_nearest [of x "float_negate y"] negate_finite [OF assms(2)] assms(1,3) by simp
qed

lemma units_sign: "float_negative x \<Longrightarrow> float_units x \<le> 0" "\<not> float_negative x \<Longrightarrow> 0 \<le> float_units x"
  by (simp_all add: float_units_def)

lemma times_nearest:
  assumes "float_finite x" "float_finite y" "float_finite (float_times nan x y)"
  shows "\<bar>float_units (float_times nan x y) * int ONE - float_units x * float_units y\<bar> \<le> \<bar>float_units c * int ONE - float_units x * float_units y\<bar>"
proof -
  let ?negative = "float_negative x \<noteq> float_negative y" and ?t = "float_units x * float_units y"
  have r: "float_times nan x y = signed ?negative (round_units 23 8 (nat \<bar>?t\<bar>) ONE)"
    using assms(1,2) by (simp add: float_times_def Let_def float_finite_def float_nan_def float_infinite_def)
  have "0 < ONE" by (simp add: ONE_def)
  moreover have "?negative \<Longrightarrow> ?t \<le> 0" "\<not> ?negative \<Longrightarrow> 0 \<le> ?t"
    using units_sign [of x] units_sign [of y] by (auto simp: mult_le_0_iff zero_le_mult_iff)
  ultimately show ?thesis using assms(3) unfolding r by (rule signed_nearest)
qed

lemma units_pos: "0 < b \<Longrightarrow> 0 < units f b"
  by (auto simp: units_def Let_def intro!: gr0I)

lemma divide_nearest:
  assumes "float_finite x" "float_finite y" "float_magnitude y \<noteq> 0" "float_finite (float_divide nan x y)"
  shows "\<bar>float_units (float_divide nan x y) * float_units y - float_units x * int ONE\<bar>
    \<le> \<bar>float_units c * float_units y - float_units x * int ONE\<bar>"
proof -
  let ?negative = "float_negative x \<noteq> float_negative y" and ?d = "nat \<bar>float_units y\<bar>"
  define t where "t = sgn (float_units y) * float_units x * int ONE"
  have y: "float_units y \<noteq> 0" using assms(3) units_pos [of "float_magnitude y" 23] by (simp add: float_units_def)
  have n: "nat \<bar>float_units x\<bar> * ONE = nat \<bar>t\<bar>" using y by (simp add: t_def abs_mult nat_mult_distrib)
  have r: "float_divide nan x y = signed ?negative (round_units 23 8 (nat \<bar>t\<bar>) ?d)"
    using assms(1-3) by (simp add: float_divide_def Let_def float_finite_def float_nan_def float_infinite_def n)
  have "0 < ?d" using y by simp
  moreover have "?negative \<Longrightarrow> t \<le> 0" "\<not> ?negative \<Longrightarrow> 0 \<le> t"
    using units_sign [of x] units_sign [of y] y by (auto simp: t_def sgn_if mult_le_0_iff zero_le_mult_iff)
  ultimately have near: "\<bar>float_units (float_divide nan x y) * int ?d - t\<bar> \<le> \<bar>float_units c * int ?d - t\<bar>"
    using assms(4) unfolding r by (rule signed_nearest)
  have "\<bar>u * int ?d - t\<bar> = \<bar>u * float_units y - float_units x * int ONE\<bar>" for u
    using y by (auto simp: t_def sgn_if)
  with near show ?thesis by simp
qed



end
