(* ===== verification/Libraries.thy ===== *)
theory Libraries
  imports Floats
begin

text \<open>
  Foreign functions (external-library.cpp): shared libraries, the words that a function is called
  with, the object made from its result. What the functions do is a parameter: their results are answers of
  the system, and \<open>foreign_stores\<close> says what they leave in the memory that they were
  given pointers to. A pointer into an object is its address plus the offset of its contents.
\<close>

section \<open>Libraries\<close>

text \<open>\<open>safe_string\<close>: the string in a block of its own, \<open>None\<close> for the null pointer.\<close>

definition safe_string :: "vm_env \<Rightarrow> object_heap \<Rightarrow> addr \<Rightarrow> int list \<Rightarrow> int list option \<times> object_heap" where
  "safe_string env oh s suffix =
     (let len = payload_size (mem oh) s;
          (a, oh) = os_do env oh (Allocate (int (length suffix) + len + 1))
      in (if ans_value a = 0 then None else Some (c_string (get_bytes (mem oh) s ELEMENTS (nat len) @ suffix @ [0])), oh))"

text \<open>A handle or pointer in the first eight bytes of a byte array, which has to have room for it.\<close>

definition has_room :: "mem \<Rightarrow> addr \<Rightarrow> bool" where
  "has_room m x \<longleftrightarrow> 8 \<le> take_bit 32 (payload_size m x)"

definition get_pointer :: "mem \<Rightarrow> addr \<Rightarrow> word_t" where
  "get_pointer m x = rd m x 4"

definition set_pointer :: "object_heap \<Rightarrow> addr \<Rightarrow> word_t \<Rightarrow> object_heap" where
  "set_pointer oh x p = upd oh x 4 p"

definition DLL_FILE_NAME_EXTENSION :: "int list" where "DLL_FILE_NAME_EXTENSION = [46, 115, 111]"

definition openExternalLibrary :: "vm_env \<Rightarrow> object_heap \<Rightarrow> addr \<Rightarrow> addr \<Rightarrow> (bool \<times> object_heap) option" where
  "openExternalLibrary env oh libname handle = do {
     check (has_room (mem oh) handle);
     let (fullname, oh) = safe_string env oh libname DLL_FILE_NAME_EXTENSION;
     case fullname of
       None \<Rightarrow> Some (False, oh)
     | Some fullname \<Rightarrow> do {
         let (a, oh) = os_do env oh (Dlopen fullname);
         let (_, oh) = os_do env oh Dlerror;
         if ans_value a = 0 then Some (False, oh)
         else Some (True, set_pointer oh handle (ans_value a)) } }"

definition closeExternalLibrary :: "vm_env \<Rightarrow> object_heap \<Rightarrow> addr \<Rightarrow> (bool \<times> object_heap) option" where
  "closeExternalLibrary env oh handle = do {
     check (has_room (mem oh) handle);
     let (a, oh) = os_do env oh (Dlclose (get_pointer (mem oh) handle));
     Some (ans_value a = 0, oh) }"

definition lookupExternalLibraryPrimitive ::
  "vm_env \<Rightarrow> object_heap \<Rightarrow> addr \<Rightarrow> addr \<Rightarrow> addr \<Rightarrow> (bool \<times> object_heap) option" where
  "lookupExternalLibraryPrimitive env oh handle symname ptr = do {
     check (has_room (mem oh) handle);
     check (has_room (mem oh) ptr);
     let (symbol, oh) = safe_string env oh symname [];
     case symbol of
       None \<Rightarrow> Some (False, oh)
     | Some symbol \<Rightarrow> do {
         let (a, oh) = os_do env oh (Dlsym (get_pointer (mem oh) handle) symbol);
         if ans_value a = 0 then Some (False, oh)
         else Some (True, set_pointer oh ptr (ans_value a)) } }"

text \<open>The message goes into the byte array without a zero byte; the answer is its length.\<close>

definition readExternalLibraryError :: "vm_env \<Rightarrow> object_heap \<Rightarrow> addr \<Rightarrow> (int \<times> object_heap) option" where
  "readExternalLibraryError env oh messageBuffer = do {
     let (a, oh) = os_do env oh Dlerror;
     if ans_value a = 0 then Some (0, oh)
     else do {
       check (ans_strings a \<noteq> []);
       let message = c_string (hd (ans_strings a));
       check (int (length message) \<le> payload_size (mem oh) messageBuffer);
       Some (int (length message), put_bytes messageBuffer ELEMENTS message oh) } }"

section \<open>Arguments\<close>

text \<open>The formats, as the tagged integers that the image uses.\<close>

definition ARG_FORMAT_INT :: int where "ARG_FORMAT_INT = 3"
definition ARG_FORMAT_FLOAT :: int where "ARG_FORMAT_FLOAT = 5"
definition ARG_FORMAT_POINTER :: int where "ARG_FORMAT_POINTER = 7"
definition ARG_FORMAT_BYTES :: int where "ARG_FORMAT_BYTES = 9"
definition ARG_FORMAT_BOOLEAN :: int where "ARG_FORMAT_BOOLEAN = 11"
definition ARG_FORMAT_CSTRING :: int where "ARG_FORMAT_CSTRING = 13"
definition ARG_FORMAT_C_STRUCT_VALUE :: int where "ARG_FORMAT_C_STRUCT_VALUE = 15"
definition ARG_FORMAT_DOUBLE :: int where "ARG_FORMAT_DOUBLE = 17"

lemmas arg_formats = ARG_FORMAT_INT_def ARG_FORMAT_FLOAT_def ARG_FORMAT_POINTER_def ARG_FORMAT_BYTES_def
  ARG_FORMAT_BOOLEAN_def ARG_FORMAT_CSTRING_def ARG_FORMAT_C_STRUCT_VALUE_def ARG_FORMAT_DOUBLE_def

definition CALL_FORMAT_C :: int where "CALL_FORMAT_C = 1"
definition CALL_FORMAT_STD :: int where "CALL_FORMAT_STD = 3"

definition MAX_ARG_COUNT :: nat where "MAX_ARG_COUNT = 16"

definition word_from_bytes :: "int list \<Rightarrow> word_t" where
  "word_from_bytes bytes = wrap64 (bytes ! 0 OR push_bit 8 (bytes ! 1) OR push_bit 16 (bytes ! 2) OR push_bit 24 (bytes ! 3)
     OR push_bit 32 (bytes ! 4) OR push_bit 40 (bytes ! 5) OR push_bit 48 (bytes ! 6) OR push_bit 56 (bytes ! 7))"

definition extractBigInteger :: "mem \<Rightarrow> oop \<Rightarrow> word_t option" where
  "extractBigInteger m bigInt = do {
     check (\<not> object_is_smallint bigInt \<and> 8 \<le> payload_size m bigInt);
     Some (word_from_bytes (get_bytes m bigInt (object_array_offset m bigInt) 8)) }"

definition word_to_bytes :: "word_t \<Rightarrow> int list" where
  "word_to_bytes value = [value AND 255, drop_bit 8 value AND 255, drop_bit 16 value AND 255, drop_bit 24 value AND 255,
     drop_bit 32 value AND 255, drop_bit 40 value AND 255, drop_bit 48 value AND 255, drop_bit 56 value AND 255]"

definition injectBigInteger :: "object_heap \<Rightarrow> word_t \<Rightarrow> (addr \<times> object_heap) option" where
  "injectBigInteger oh value = heap_new_byte_array_with oh (word_to_bytes value)"

definition heap_new_cstring :: "object_heap \<Rightarrow> word_t \<Rightarrow> int list \<Rightarrow> (oop \<times> object_heap) option" where
  "heap_new_cstring oh input contents =
     (if input \<noteq> 0 then heap_new_string_with oh (c_string contents) else Some (c_nil oh, oh))"

text \<open>\<open>args[outArgIndex++] = w\<close>: the array on the C stack has \<open>MAX_ARG_COUNT\<close> elements.\<close>

definition push_args :: "word_t list \<Rightarrow> word_t list \<Rightarrow> word_t list option" where
  "push_args ws args = do { check (length args + length ws \<le> MAX_ARG_COUNT); Some (args @ ws) }"

text \<open>
  One argument: the words appended, the number by which \<open>outArgCount\<close> grows. The inner \<open>None\<close> is
  an argument that makes the call answer nil.
\<close>

definition float_word :: "vm_env \<Rightarrow> object_heap \<Rightarrow> oop \<Rightarrow> nat" where
  "float_word env oh element =
     (if object_is_smallint element then float_of_int (object_to_smallint element) else get_float (mem oh) element)"

definition cstring_buffer :: "object_heap \<Rightarrow> addr \<Rightarrow> (word_t \<times> object_heap) option" where
  "cstring_buffer oh element = do {
     let len = payload_size (mem oh) element + 1;
     (bufferObject, oh) \<leftarrow> heap_clone_byte_array_sized oh (get_special oh SPECIAL_OOP_BYTE_ARRAY_PROTO) len;
     let off = object_array_offset (mem oh) bufferObject;
     let bytes = get_bytes (mem oh) element (object_array_offset (mem oh) element) (nat (len - 1));
     Some (bufferObject + off, put_bytes bufferObject off (bytes @ [0]) oh) }"

definition marshal_arg ::
  "vm_env \<Rightarrow> object_heap \<Rightarrow> word_t \<Rightarrow> oop \<Rightarrow> word_t \<Rightarrow> (((word_t list \<times> word_t) option) \<times> object_heap) option" where
  "marshal_arg env oh format element argsLeft =
     (let words = (\<lambda>ws. Some (Some (ws, 0), oh)) in
      if format = ARG_FORMAT_INT then
        if object_is_smallint element then words [object_to_smallint element]
        else do { w \<leftarrow> extractBigInteger (mem oh) element; words [w] }
      else if format = ARG_FORMAT_BOOLEAN then
        words [if element = c_true_object oh then 1 else if element = c_false_object oh then 0 else -1]
      else if format = ARG_FORMAT_FLOAT then
        let stale = stale_word env oh 0 in words [stale - take_bit 32 stale + int (float_word env oh element)]
      else if format = ARG_FORMAT_DOUBLE then
        let d = (if object_is_smallint element then double_of_int (object_to_smallint element)
                 else double_of_float (get_float (mem oh) element)) in
        Some (Some ([wrap64 (int d), 0], 1), oh)
      else if format = ARG_FORMAT_POINTER then
        if element = c_nil oh then words [0]
        else do { check (\<not> object_is_smallint element); words [rd (mem oh) element (nat (object_size (mem oh) element))] }
      else if format = ARG_FORMAT_CSTRING then
        if element = c_nil oh then words [0]
        else do {
          check (\<not> object_is_smallint element);
          (w, oh) \<leftarrow> cstring_buffer oh element;
          Some (Some ([w], 0), oh) }
      else if format = ARG_FORMAT_BYTES then
        if element = c_nil oh then words [0]
        else do { check (\<not> object_is_smallint element); words [element + object_array_offset (mem oh) element] }
      else if format = ARG_FORMAT_C_STRUCT_VALUE then do {
        check (\<not> object_is_smallint element);
        let n = payload_size (mem oh) element div 8;
        if argsLeft + n > int MAX_ARG_COUNT then Some (None, oh)
        else Some (Some (words_at (mem oh) element (nat (object_size (mem oh) element)) (nat n), n - 1), oh) }
      else Some (None, oh))"

text \<open>The loop over the arguments.\<close>

fun marshal :: "vm_env \<Rightarrow> addr \<Rightarrow> addr \<Rightarrow> word_t \<Rightarrow> nat list \<Rightarrow> word_t list \<Rightarrow> word_t \<Rightarrow> object_heap \<Rightarrow>
    (((word_t list \<times> word_t) option) \<times> object_heap) option" where
  "marshal env argsFormat argsArr argCount [] args outArgCount oh = Some (Some (args, outArgCount), oh)"
| "marshal env argsFormat argsArr argCount (i # is) args outArgCount oh = do {
     (r, oh) \<leftarrow> marshal_arg env oh (rd (mem oh) argsFormat (4 + i)) (rd (mem oh) argsArr (4 + i)) (argCount - int i);
     case r of
       None \<Rightarrow> Some (None, oh)
     | Some (ws, extra) \<Rightarrow> do {
         args \<leftarrow> push_args ws args;
         marshal env argsFormat argsArr argCount is args (outArgCount + extra) oh } }"

section \<open>The call\<close>

definition call_foreign :: "vm_env \<Rightarrow> object_heap \<Rightarrow> bool \<Rightarrow> word_t \<Rightarrow> word_t list \<Rightarrow> os_answer \<times> object_heap" where
  "call_foreign env oh std fn args =
     (let (a, oh) = os_do env oh (CallForeign std fn args)
      in (a, oh\<lparr>mem := foreign_stores env (os_trace (process oh)) (mem oh)\<rparr>))"

text \<open>The first \<open>n\<close> words of the array \<open>args\<close>, of which the loop has set some.\<close>

definition first_args :: "vm_env \<Rightarrow> object_heap \<Rightarrow> word_t list \<Rightarrow> nat \<Rightarrow> word_t list" where
  "first_args env oh args n = map (\<lambda>i. if i < length args then args ! i else stale_word env oh i) [0..<n]"

text \<open>
  The two switches on the number of words. In the second one the cases 13, 14 and 15 have
  no \<open>break\<close>: they run on into the next ones.
\<close>

definition switch_c :: "vm_env \<Rightarrow> object_heap \<Rightarrow> word_t \<Rightarrow> word_t list \<Rightarrow> word_t \<Rightarrow> (os_answer \<times> object_heap) option" where
  "switch_c env oh fn args n =
     (if 0 \<le> n \<and> n \<le> int MAX_ARG_COUNT then Some (call_foreign env oh False fn (first_args env oh args (nat n))) else None)"

definition switch_std :: "vm_env \<Rightarrow> object_heap \<Rightarrow> word_t \<Rightarrow> word_t list \<Rightarrow> word_t \<Rightarrow> (os_answer \<times> object_heap) option" where
  "switch_std env oh fn args n =
     (if 0 \<le> n \<and> n \<le> int MAX_ARG_COUNT
      then Some (fold (\<lambda>k (_, oh). call_foreign env oh True fn (first_args env oh args k)) (if 13 \<le> n then [Suc (nat n)..<17] else [])
        (call_foreign env oh True fn (first_args env oh args (nat n))))
      else None)"

text \<open>The object made from the result.\<close>

definition external_result :: "object_heap \<Rightarrow> oop \<Rightarrow> os_answer \<Rightarrow> (oop \<times> object_heap) option" where
  "external_result oh resultFormat a =
     (let r = ans_value a in
      if resultFormat = ARG_FORMAT_INT then
        if smallint_fits_object r then Some (smallint_to_object r, oh) else injectBigInteger oh r
      else if resultFormat = ARG_FORMAT_BOOLEAN then Some (bool_object oh (r \<noteq> 0), oh)
      else if resultFormat = ARG_FORMAT_POINTER then
        if r = 0 then Some (c_nil oh, oh) else heap_new_byte_array_with oh (word_to_bytes r)
      else if resultFormat = ARG_FORMAT_CSTRING then do {
        check (r = 0 \<or> ans_strings a \<noteq> []);
        heap_new_cstring oh r (concat (take 1 (ans_strings a))) }
      else Some (c_nil oh, oh))"

definition applyExternalLibraryPrimitive ::
  "vm_env \<Rightarrow> object_heap \<Rightarrow> addr \<Rightarrow> addr \<Rightarrow> oop \<Rightarrow> oop \<Rightarrow> addr \<Rightarrow> (oop \<times> object_heap) option" where
  "applyExternalLibraryPrimitive env oh fnHandle argsFormat callFormat resultFormat argsArr = do {
     check (has_room (mem oh) fnHandle);
     let fn = get_pointer (mem oh) fnHandle;
     argCount \<leftarrow> object_array_size (mem oh) argsArr;
     formats \<leftarrow> object_array_size (mem oh) argsFormat;
     if argCount > int MAX_ARG_COUNT \<or> argCount \<noteq> formats then Some (c_nil oh, oh)
     else do {
       (r, oh) \<leftarrow> marshal env argsFormat argsArr argCount [0..<nat argCount] [] argCount oh;
       case r of
         None \<Rightarrow> Some (c_nil oh, oh)
       | Some (args, n) \<Rightarrow>
           case (if callFormat = CALL_FORMAT_C then switch_c env oh fn args n
                 else if callFormat = CALL_FORMAT_STD then switch_std env oh fn args n
                 else None) of
             None \<Rightarrow> Some (c_nil oh, oh)
           | Some (a, oh) \<Rightarrow> external_result oh resultFormat a } }"

section \<open>The primitives\<close>

definition put_flag :: "(bool \<times> object_heap) option \<Rightarrow> word_t \<Rightarrow> object_heap option" where
  "put_flag r rsp = do { (b, oh) \<leftarrow> r; Some (set_stack_at oh rsp (bool_object oh b)) }"

definition prim_library_open :: primitive where
  "prim_library_open env oh args opts rsp = do {
     libname \<leftarrow> obj_arg args 1; handle \<leftarrow> obj_arg args 2;
     put_flag (openExternalLibrary env oh libname handle) rsp }"

definition prim_library_close :: primitive where
  "prim_library_close env oh args opts rsp = do {
     handle \<leftarrow> obj_arg args 1;
     put_flag (closeExternalLibrary env oh handle) rsp }"

definition prim_procAddressOf :: primitive where
  "prim_procAddressOf env oh args opts rsp = do {
     symname \<leftarrow> obj_arg args 1; handle \<leftarrow> obj_arg args 2; addressBuffer \<leftarrow> obj_arg args 3;
     put_flag (lookupExternalLibraryPrimitive env oh handle symname addressBuffer) rsp }"

definition prim_extlibError :: primitive where
  "prim_extlibError env oh args opts rsp = do {
     messageBuffer \<leftarrow> obj_arg args 1;
     (n, oh) \<leftarrow> readExternalLibraryError env oh messageBuffer;
     Some (put_int oh rsp n) }"

definition prim_applyExternal :: primitive where
  "prim_applyExternal env oh args opts rsp = do {
     fnHandle \<leftarrow> obj_arg args 1; argsFormat \<leftarrow> obj_arg args 2; callFormat \<leftarrow> arg args 3; resultFormat \<leftarrow> arg args 4;
     argsArr \<leftarrow> obj_arg args 5;
     (r, oh) \<leftarrow> applyExternalLibraryPrimitive env oh fnHandle argsFormat callFormat resultFormat argsArr;
     Some (set_stack_at oh rsp r) }"

section \<open>Words and bytes\<close>

lemma push_byte: "take_bit (k + 8) v = take_bit k v OR push_bit k (drop_bit k v AND 255)" for v :: int
proof -
  have "drop_bit k v AND 255 = take_bit 8 (drop_bit k v)" by (simp add: take_bit_eq_mask mask_eq_exp_minus_1)
  then show ?thesis by (intro bit_eqI) (auto simp: bit_simps)
qed

lemma word_from_to_bytes: "is_word v \<Longrightarrow> word_from_bytes (word_to_bytes v) = v"
proof -
  assume v: "is_word v"
  have "v AND 255 = take_bit 8 v" by (simp add: take_bit_eq_mask mask_eq_exp_minus_1)
  then have "word_from_bytes (word_to_bytes v) = wrap64 (take_bit 64 v)"
    using push_byte [of 8 v] push_byte [of 16 v] push_byte [of 24 v] push_byte [of 32 v] push_byte [of 40 v]
      push_byte [of 48 v] push_byte [of 56 v]
    by (simp add: word_from_bytes_def word_to_bytes_def or.assoc)
  also have "wrap64 (take_bit 64 v) = wrap64 v" unfolding wrap64_def by (rule bit_eqI) (auto simp: bit_simps)
  finally show ?thesis using v by (simp add: wrap64_word)
qed

lemma length_word_to_bytes [simp]: "length (word_to_bytes v) = 8"
  by (simp add: word_to_bytes_def)

end
