(* ===== verification/ImageFile.thy ===== *)
theory ImageFile
  imports Libraries Image
begin

text \<open>
  Image files: what \<open>prim_save_image\<close> (primitives.cpp) writes, and the start of the machine from such
  a file (vm.cpp, \<open>heap_initialize\<close> of gc.cpp). A file is its bytes; the image in memory is
  read object by object, and back from its bytes at the place it is loaded to.
\<close>

section \<open>Writing\<close>

text \<open>The words of the objects from \<open>x\<close> on, as \<open>fwrite\<close> finds them in the memory of the image.\<close>

partial_function (option) image_words :: "mem \<Rightarrow> addr \<Rightarrow> word_t \<Rightarrow> addr \<Rightarrow> word_t list option" where
  "image_words m memory memorySize x =
     (if object_in_memory x memory memorySize
      then do {
        next \<leftarrow> object_after m x;
        rest \<leftarrow> image_words m memory memorySize next;
        Some (words_at m x 0 (nat (object_word_size m x)) @ rest) }
      else Some [])"

declare image_words.simps [code]

definition words_bytes :: "word_t list \<Rightarrow> int list" where
  "words_bytes ws = concat (map word_to_bytes ws)"

definition image_bytes :: "mem \<Rightarrow> addr \<Rightarrow> word_t \<Rightarrow> int list option" where
  "image_bytes m memoryStart totalSize = map_option words_bytes (image_words m memoryStart totalSize memoryStart)"

definition header_bytes :: "slate_image_header \<Rightarrow> int list" where
  "header_bytes sih = words_bytes [sih_magic sih, sih_size sih, sih_next_hash sih, sih_special_objects_oop sih, sih_current_dispatch_id sih]"

text \<open>\<open>"wb"\<close>\<close>

definition MODE_WB :: "int list" where "MODE_WB = [119, 98]"

definition write_image :: "vm_env \<Rightarrow> object_heap \<Rightarrow> addr \<Rightarrow> slate_image_header \<Rightarrow> int list \<Rightarrow> object_heap" where
  "write_image env oh imageFile sih bytes =
     (let (a, oh) = os_do env oh (Fwrite imageFile (header_bytes sih));
          oh = (if ans_value a = int (length (header_bytes sih)) then snd (os_do env oh (Fwrite imageFile bytes)) else oh)
      in snd (os_do env oh (Fclose imageFile)))"

definition prim_save_image :: primitive where
  "prim_save_image env oh args opts rsp = do {
     name \<leftarrow> obj_arg args 1;
     let nameLength = payload_size (mem oh) name;
     let oh = set_stack_at oh rsp (c_true_object oh);
     if nameLength \<ge> SLATE_FILE_NAME_LENGTH then Some (set_stack_at oh rsp (c_nil oh))
     else do {
       let (f, oh) = os_do env oh (Fopen (counted_name (byte_elements (mem oh) name)) MODE_WB);
       if ans_value f = 0 then Some (set_stack_at oh rsp (c_nil oh))
       else do {
         oh \<leftarrow> heap_full_gc oh;
         let totalSize = memoryOldSize oh + memoryYoungSize oh;
         let (start, oh) = os_do env oh (Allocate totalSize);
         let (table, oh) = os_do env oh (Allocate (forward_table_size totalSize * 16));
         check (ans_value start \<noteq> 0 \<and> ans_value table \<noteq> 0);
         (oh, sih) \<leftarrow> build_image oh (ans_value start);
         bytes \<leftarrow> image_bytes (mem oh) (ans_value start) (sih_size sih);
         let oh = write_image env oh (ans_value f) sih bytes;
         Some (set_stack_at oh rsp (c_false_object oh)) } } }"

section \<open>Loading\<close>

definition word_of :: "int list \<Rightarrow> nat \<Rightarrow> word_t" where
  "word_of bs i = word_from_bytes (take 8 (drop (8 * i) bs))"

text \<open>The five \<open>fread\<close>s of the header; a file that is too short fails an assertion.\<close>

definition read_header :: "int list \<Rightarrow> (slate_image_header \<times> int list) option" where
  "read_header bs = do {
     check (40 \<le> length bs);
     Some (\<lparr>sih_magic = word_of bs 0, sih_size = word_of bs 1, sih_next_hash = word_of bs 2,
       sih_special_objects_oop = word_of bs 3, sih_current_dispatch_id = word_of bs 4\<rparr>, drop 40 bs) }"

text \<open>Bytes read into the memory at \<open>base\<close>.\<close>

definition place_bytes :: "mem \<Rightarrow> addr \<Rightarrow> int list \<Rightarrow> mem" where
  "place_bytes m base bs = (\<lambda>p k. if base \<le> p \<and> p + 8 * int k + 8 \<le> base + int (length bs)
     then word_of bs (nat ((p - base) div 8) + k) else rd m p k)"

text \<open>
  \<open>heap_initialize\<close>, in the build without \<open>mmap\<close>; the answer is 0 when an allocation fails. The fields that it
  does not set are what \<open>new\<close> has left in them.
\<close>

definition heap_initialize ::
  "vm_env \<Rightarrow> object_heap \<Rightarrow> word_t \<Rightarrow> word_t \<Rightarrow> word_t \<Rightarrow> word_t \<Rightarrow> word_t \<Rightarrow> word_t \<Rightarrow> (bool \<times> object_heap) option" where
  "heap_initialize env oh imageSize limit young_limit next_hash special_oop cdid = do {
     let (old, oh) = os_do env oh (Allocate limit);
     let (young, oh) = os_do env oh (Allocate young_limit);
     let oh = oh\<lparr>memoryOldLimit := limit, memoryYoungLimit := young_limit, memoryOldSize := imageSize, memoryYoungSize := young_limit,
       memoryOld := ans_value old, memoryYoung := ans_value young, rememberedOldObjects := {}, doFullGCNext := True\<rparr>;
     if ans_value old \<in> {0, -1} \<or> ans_value young \<in> {0, -1} then Some (False, oh)
     else do {
       let oh = oh\<lparr>nextFree := memoryYoung oh, nextOldFree := memoryOld oh\<rparr>;
       oh \<leftarrow> heap_make_free_space oh (nextFree oh) (memoryYoungSize oh div 8);
       let oh = oh\<lparr>special_objects_oop := memoryOld oh + special_oop, lastHash := next_hash, current_dispatch_id := cdid,
         interrupt_flag := False, mark_color := 1, markStack := []\<rparr>;
       let (stack, oh) = os_do env oh (Allocate (4 * 1024 * 1024 * 8));
       check (ans_value stack \<noteq> 0);
       Some (True, oh) } }"

text \<open>
  The part of \<open>main\<close> from the header to the modules: the status with which the process ends, or the
  heap with the image in it. The memory that \<open>malloc\<close> hands out is in \<open>mem\<close> of the heap given.
\<close>

definition load_image :: "vm_env \<Rightarrow> object_heap \<Rightarrow> word_t \<Rightarrow> word_t \<Rightarrow> bool \<Rightarrow> int list \<Rightarrow> (int + object_heap) option" where
  "load_image env oh memory_limit young_limit inline bs = do {
     (sih, content) \<leftarrow> read_header bs;
     if sih_size sih = 0 \<or> sih_magic sih \<noteq> SLATE_IMAGE_MAGIC \<or> memory_limit < sih_size sih then Some (Inl 1)
     else do {
       let oh = oh\<lparr>methodCache := (\<lambda>_. empty_cache_entry)\<rparr>;
       (ok, oh) \<leftarrow> heap_initialize env oh (sih_size sih) memory_limit young_limit (sih_next_hash sih)
         (sih_special_objects_oop sih) (sih_current_dispatch_id sih);
       if \<not> ok then Some (Inl 1)
       else do {
         let oh = oh\<lparr>automaticallyInline := inline\<rparr>;
         if int (length content) < sih_size sih then Some (Inl 1)
         else do {
           let oh = oh\<lparr>mem := place_bytes (mem oh) (memoryOld oh) (take (nat (sih_size sih)) content)\<rparr>;
           oh \<leftarrow> adjust_oop_pointers_from oh (memoryOld oh) (memoryOld oh) (memoryOldSize oh);
           oh \<leftarrow> heap_zero_pin_counts_from oh (memoryOld oh) (memoryOldSize oh);
           Some (Inr (oh\<lparr>profiler := (profiler oh)\<lparr>currentlyProfiling := False\<rparr>,
             process := dir_module_init (file_module_init (process oh)),
             sockets := socket_module_init, memareas := memarea_module_init\<rparr>)) } } } }"

end
