(* ===== verification/Machine.thy ===== *)
theory Machine
  imports Arrays ImageFile
begin

text \<open>
  The table of primitives (primitives.cpp) and the machine that runs with it.
\<close>

section \<open>The table\<close>

text \<open>The SmallInteger primitives, from their outcomes.\<close>

definition binary :: "(oop \<Rightarrow> oop \<Rightarrow> prim_outcome) \<Rightarrow> primitive" where
  "binary f env oh args opts rsp = do { x \<leftarrow> arg args 0; y \<leftarrow> arg args 1; finish env oh rsp (f x y) }"

definition prim_table :: "(word_t \<times> primitive) list" where
  "prim_table =
    [(0, prim_as_method_on), (1, prim_as_accessor), (2, prim_map), (3, prim_set_map), (4, prim_fixme), (5, prim_removefrom),
     (6, prim_clone), (7, prim_clone_setting_slots), (8, prim_clone_with_slot_valued), (9, prim_fixme), (10, prim_fixme),
     (11, prim_fixme), (12, prim_clone_without_slot), (13, prim_at_slot_named), (14, prim_smallint_at_slot_named),
     (15, prim_at_slot_named_put), (16, prim_forward_to), (17, prim_bytearray_newsize), (18, prim_bytesize), (19, prim_byteat),
     (20, prim_byteat_put), (21, prim_ooparray_newsize), (22, prim_size), (23, prim_at), (24, prim_at_put), (25, prim_ensure),
     (26, prim_applyto), (27, prim_send_to), (28, prim_send_to_through), (29, prim_findon), (30, prim_fixme),
     (31, prim_run_args_into), (33, prim_isIdenticalTo), (34, prim_identity_hash), (35, prim_identity_hash_univ),
     (36, \<lambda>env oh. binary (prim_equals (c_true_object oh) (c_false_object oh)) env oh),
     (37, \<lambda>env oh. binary (prim_less_than (c_true_object oh) (c_false_object oh)) env oh),
     (38, binary prim_bitor), (39, binary prim_bitand), (40, binary prim_bitxor),
     (41, \<lambda>env oh args opts rsp. do { x \<leftarrow> arg args 0; finish env oh rsp (prim_bitnot x) }),
     (42, binary prim_bitshift), (43, binary prim_plus), (44, binary prim_minus), (45, binary prim_times),
     (46, binary prim_quo), (47, prim_interrupt), (49, prim_frame_pointer_of), (50, prim_fixme), (51, prim_fixme),
     (52, prim_fixme), (53, prim_heap_gc), (54, prim_bytesPerWord), (103, prim_memory_new), (104, prim_memory_close),
     (105, prim_memory_addRef), (106, prim_memory_write), (107, prim_memory_read), (108, prim_memory_size),
     (109, prim_memory_resizeTo), (110, prim_addressOf), (116, prim_timeSinceEpoch),
     (129, \<lambda>env oh args opts rsp. finish env oh rsp prim_smallIntegerMinimum),
     (130, \<lambda>env oh args opts rsp. finish env oh rsp prim_smallIntegerMaximum),
     (132, prim_getAddrInfo), (133, prim_getAddrInfoResult), (134, prim_freeAddrInfoResult), (135, prim_vmArgCount),
     (136, prim_vmArg), (137, prim_environmentVariables), (140, prim_isLittleEndian), (147, prim_startProfiling),
     (148, prim_stopProfiling), (149, prim_profilerStatistics), (151, prim_bytearray_replaceFromToWithStartingAt), (157, prim_objectPointerAddress),
     (158, prim_array_replaceFromToWithStartingAt),
     (32, prim_exit), (64, prim_readConsole_from_into_starting_at), (65, prim_write_to_starting_at), (66, prim_flush_output),
     (67, prim_handle_for), (68, prim_handle_for_input), (70, prim_handleForNew), (71, prim_close),
     (72, prim_read_from_into_starting_at), (73, prim_write_to_from_starting_at), (74, prim_reposition_to), (75, prim_positionOf),
     (76, prim_atEndOf), (77, prim_sizeOf), (79, prim_dir_open), (80, prim_dir_close), (81, prim_dir_read), (82, prim_dir_getcwd),
     (83, prim_dir_setcwd), (84, prim_significand), (85, prim_exponent), (86, prim_withSignificand_exponent),
     (117, prim_cloneSystem), (118, prim_readFromPipe), (119, prim_writeToPipe), (120, prim_selectOnReadPipesFor),
     (121, prim_selectOnWritePipesFor), (122, prim_closePipe), (123, prim_socketCreate), (124, prim_socketListen),
     (125, prim_socketAccept), (126, prim_socketBind), (127, prim_socketConnect), (128, prim_socketCreateIP),
     (131, prim_socketGetError), (138, prim_environment_atput), (139, prim_environment_removekey), (141, prim_system_name),
     (142, prim_system_release), (143, prim_system_version), (144, prim_system_platform), (145, prim_system_machine),
     (146, prim_system_execute), (150, prim_file_delete), (152, prim_file_rename_to), (153, prim_file_information),
     (154, prim_dir_make), (155, prim_dir_rename_to), (156, prim_dir_delete), (159, prim_openProcessPipe),
     (78, prim_save_image), (87, prim_float_equals), (88, prim_float_less_than), (89, prim_float_plus), (90, prim_float_minus),
     (91, prim_float_times), (92, prim_float_divide), (93, prim_float_raisedTo), (94, prim_float_ln), (95, prim_float_exp),
     (96, prim_float_sin), (111, prim_library_open), (112, prim_library_close), (113, prim_procAddressOf),
     (114, prim_extlibError), (115, prim_applyExternal),
     (160, prim_closeProcessPipe), (161, prim_readProcessPipe), (162, prim_writeProcessPipe)]
    @ map (\<lambda>i. (i, prim_fixme)) ([55..63] @ [69] @ [97..102] @ [163..179])"

text \<open>
  The machine whose primitives nest at most \<open>n\<close> deep in each other; the primitive that is not in
  the table (48, \<open>prim_initializeThreadOn\<close>: a second interpreter) is that of the environment.
\<close>

fun vm :: "vm_env \<Rightarrow> nat \<Rightarrow> vm_env" where
  "vm env 0 = env\<lparr>primitives := (\<lambda>index oh args opts rsp. None)\<rparr>"
| "vm env (Suc n) = env\<lparr>primitives := (\<lambda>index oh args opts rsp.
     case map_of prim_table index of
       Some p \<Rightarrow> p (vm env n) oh args opts rsp
     | None \<Rightarrow> primitives env index oh args opts rsp)\<rparr>"

end
