(* ===== verification/MachineProps.thy ===== *)
theory MachineProps
  imports Machine Sample
begin

text \<open>
  The machine and the bound on the nesting of its primitives: a primitive other than a send does not
  depend on the table, and a send is monotone in it.
\<close>

section \<open>The table of primitives\<close>

text \<open>Entering a method does not run primitives: it depends on the clock only.\<close>

lemma enter_profiled_primitives [simp]: "enter_profiled (env\<lparr>primitives := p\<rparr>) = enter_profiled env"
  by (intro ext) (simp add: enter_profiled_def)

lemma enter_method_primitives [simp]: "enter_method (env\<lparr>primitives := p\<rparr>) = enter_method env"
  by (intro ext) (simp only: enter_method_def enter_profiled_primitives)

lemma apply_primitives_imp:
  assumes "interpreter_apply_to_arity_with_optionals env oh closure args opts rsp = Some r"
  shows "interpreter_apply_to_arity_with_optionals (env\<lparr>primitives := p\<rparr>) oh closure args opts rsp = Some r"
proof (rule interpreter_apply_to_arity_with_optionals.raw_induct [where
      P = "\<lambda>env oh closure args opts rsp r. interpreter_apply_to_arity_with_optionals (env\<lparr>primitives := p\<rparr>) oh closure args opts rsp = Some r",
      OF _ assms])
  fix app env oh closure args opts rsp r
  assume ih: "\<And>env oh closure args opts rsp r. app env oh closure args opts rsp = Some r \<Longrightarrow>
      interpreter_apply_to_arity_with_optionals (env\<lparr>primitives := p\<rparr>) oh closure args opts rsp = Some r"
    and body: "enter_method env oh closure args opts rsp \<bind>
     (\<lambda>r. case r of Applied oh \<Rightarrow> Some oh
          | Signal oh signal sargs pins \<Rightarrow>
              method_dispatch_on oh (get_special oh signal) sargs 0 \<bind>
              (\<lambda>(d, sargs, oh). check (d \<noteq> 0) \<bind>
                  (\<lambda>_. app env oh (def_method (mem oh) d) sargs [] rsp \<bind>
                       (\<lambda>oh. Some (fold (\<lambda>p oh. pinned_end oh p) pins oh))))) = Some r"
  from body obtain a where a: "enter_method env oh closure args opts rsp = Some a"
    by (auto simp: Option.bind_eq_Some_conv)
  show "interpreter_apply_to_arity_with_optionals (env\<lparr>primitives := p\<rparr>) oh closure args opts rsp = Some r"
  proof (cases a)
    case (Applied oh1)
    with body a show ?thesis by (subst interpreter_apply_to_arity_with_optionals.simps) simp
  next
    case (Signal oh1 s sargs pins)
    with body a show ?thesis
      by (subst interpreter_apply_to_arity_with_optionals.simps)
        (fastforce simp: Option.bind_eq_Some_conv dest: ih)
  qed
qed

lemma apply_primitives [simp]:
  "interpreter_apply_to_arity_with_optionals (env\<lparr>primitives := p\<rparr>) = interpreter_apply_to_arity_with_optionals env"
proof (intro ext)
  fix oh closure args opts rsp
  have "interpreter_apply_to_arity_with_optionals (env\<lparr>primitives := p\<rparr>) oh closure args opts rsp = Some r \<longleftrightarrow>
      interpreter_apply_to_arity_with_optionals env oh closure args opts rsp = Some r" for r
    using apply_primitives_imp [of env oh closure args opts rsp r p]
      apply_primitives_imp [of "env\<lparr>primitives := p\<rparr>" oh closure args opts rsp r "primitives env"] by auto
  then show "interpreter_apply_to_arity_with_optionals (env\<lparr>primitives := p\<rparr>) oh closure args opts rsp =
      interpreter_apply_to_arity_with_optionals env oh closure args opts rsp" by (metis option.exhaust)
qed

lemma env_fields:
  "getTickCount (env\<lparr>primitives := p\<rparr>) = getTickCount env" "c_library (env\<lparr>primitives := p\<rparr>) = c_library env"
  "argvSaved (env\<lparr>primitives := p\<rparr>) = argvSaved env" "envp (env\<lparr>primitives := p\<rparr>) = envp env"
  "operating_system (env\<lparr>primitives := p\<rparr>) = operating_system env"
  "nan_bits (env\<lparr>primitives := p\<rparr>) = nan_bits env" "libm (env\<lparr>primitives := p\<rparr>) = libm env"
  "stale_word (env\<lparr>primitives := p\<rparr>) = stale_word env" "foreign_stores (env\<lparr>primitives := p\<rparr>) = foreign_stores env"
  "thread_created (env\<lparr>primitives := p\<rparr>) = thread_created env" "errno (env\<lparr>primitives := p\<rparr>) = errno env"
  by simp_all

lemma signal_primitives:
  "interpreter_signal (env\<lparr>primitives := p\<rparr>) = interpreter_signal env"
  by (intro ext) (simp only: interpreter_signal_def apply_primitives)

lemma signal_with_primitives:
  "interpreter_signal_with (env\<lparr>primitives := p\<rparr>) = interpreter_signal_with env"
  "interpreter_signal_with_with (env\<lparr>primitives := p\<rparr>) = interpreter_signal_with_with env"
  "signal_with_arguments (env\<lparr>primitives := p\<rparr>) = signal_with_arguments env"
  "finish (env\<lparr>primitives := p\<rparr>) = finish env"
  by (intro ext; simp only: interpreter_signal_with_def interpreter_signal_with_with_def
      signal_with_arguments_def finish_def signal_primitives)+

lemma type_error_primitives:
  "type_error (env\<lparr>primitives := p\<rparr>) = type_error env"
  by (intro ext) (simp only: type_error_def signal_with_primitives)

lemma replace_primitives:
  "array_replace (env\<lparr>primitives := p\<rparr>) = array_replace env"
  "bytearray_replace (env\<lparr>primitives := p\<rparr>) = bytearray_replace env"
  "clone_set_slot (env\<lparr>primitives := p\<rparr>) = clone_set_slot env"
  "binary f (env\<lparr>primitives := p\<rparr>) = binary f env"
  by (intro ext; simp only: array_replace_def bytearray_replace_def clone_set_slot_def binary_def signal_with_primitives type_error_primitives)+

lemmas independent = env_fields apply_primitives signal_primitives signal_with_primitives type_error_primitives replace_primitives

lemma prims_primitives:
  "prim_addressOf (env\<lparr>primitives := p\<rparr>) = prim_addressOf env"
  "prim_applyto (env\<lparr>primitives := p\<rparr>) = prim_applyto env"
  "prim_array_replaceFromToWithStartingAt (env\<lparr>primitives := p\<rparr>) = prim_array_replaceFromToWithStartingAt env"
  "prim_as_accessor (env\<lparr>primitives := p\<rparr>) = prim_as_accessor env"
  "prim_as_method_on (env\<lparr>primitives := p\<rparr>) = prim_as_method_on env"
  "prim_at (env\<lparr>primitives := p\<rparr>) = prim_at env"
  "prim_at_put (env\<lparr>primitives := p\<rparr>) = prim_at_put env"
  "prim_at_slot_named (env\<lparr>primitives := p\<rparr>) = prim_at_slot_named env"
  "prim_at_slot_named_put (env\<lparr>primitives := p\<rparr>) = prim_at_slot_named_put env"
  "prim_bytearray_newsize (env\<lparr>primitives := p\<rparr>) = prim_bytearray_newsize env"
  "prim_bytearray_replaceFromToWithStartingAt (env\<lparr>primitives := p\<rparr>) = prim_bytearray_replaceFromToWithStartingAt env"
  "prim_byteat (env\<lparr>primitives := p\<rparr>) = prim_byteat env"
  "prim_byteat_put (env\<lparr>primitives := p\<rparr>) = prim_byteat_put env"
  "prim_bytesPerWord (env\<lparr>primitives := p\<rparr>) = prim_bytesPerWord env"
  "prim_bytesize (env\<lparr>primitives := p\<rparr>) = prim_bytesize env"
  "prim_clone (env\<lparr>primitives := p\<rparr>) = prim_clone env"
  "prim_clone_setting_slots (env\<lparr>primitives := p\<rparr>) = prim_clone_setting_slots env"
  "prim_clone_with_slot_valued (env\<lparr>primitives := p\<rparr>) = prim_clone_with_slot_valued env"
  "prim_clone_without_slot (env\<lparr>primitives := p\<rparr>) = prim_clone_without_slot env"
  "prim_ensure (env\<lparr>primitives := p\<rparr>) = prim_ensure env"
  "prim_environmentVariables (env\<lparr>primitives := p\<rparr>) = prim_environmentVariables env"
  "prim_findon (env\<lparr>primitives := p\<rparr>) = prim_findon env"
  "prim_fixme (env\<lparr>primitives := p\<rparr>) = prim_fixme env"
  "prim_forward_to (env\<lparr>primitives := p\<rparr>) = prim_forward_to env"
  "prim_frame_pointer_of (env\<lparr>primitives := p\<rparr>) = prim_frame_pointer_of env"
  "prim_freeAddrInfoResult (env\<lparr>primitives := p\<rparr>) = prim_freeAddrInfoResult env"
  "prim_getAddrInfo (env\<lparr>primitives := p\<rparr>) = prim_getAddrInfo env"
  "prim_getAddrInfoResult (env\<lparr>primitives := p\<rparr>) = prim_getAddrInfoResult env"
  "prim_heap_gc (env\<lparr>primitives := p\<rparr>) = prim_heap_gc env"
  "prim_identity_hash (env\<lparr>primitives := p\<rparr>) = prim_identity_hash env"
  "prim_identity_hash_univ (env\<lparr>primitives := p\<rparr>) = prim_identity_hash_univ env"
  "prim_interrupt (env\<lparr>primitives := p\<rparr>) = prim_interrupt env"
  "prim_isIdenticalTo (env\<lparr>primitives := p\<rparr>) = prim_isIdenticalTo env"
  "prim_isLittleEndian (env\<lparr>primitives := p\<rparr>) = prim_isLittleEndian env"
  "prim_map (env\<lparr>primitives := p\<rparr>) = prim_map env"
  "prim_memory_addRef (env\<lparr>primitives := p\<rparr>) = prim_memory_addRef env"
  "prim_memory_close (env\<lparr>primitives := p\<rparr>) = prim_memory_close env"
  "prim_memory_new (env\<lparr>primitives := p\<rparr>) = prim_memory_new env"
  "prim_memory_read (env\<lparr>primitives := p\<rparr>) = prim_memory_read env"
  "prim_memory_resizeTo (env\<lparr>primitives := p\<rparr>) = prim_memory_resizeTo env"
  "prim_memory_size (env\<lparr>primitives := p\<rparr>) = prim_memory_size env"
  "prim_memory_write (env\<lparr>primitives := p\<rparr>) = prim_memory_write env"
  "prim_objectPointerAddress (env\<lparr>primitives := p\<rparr>) = prim_objectPointerAddress env"
  "prim_ooparray_newsize (env\<lparr>primitives := p\<rparr>) = prim_ooparray_newsize env"
  "prim_stopProfiling (env\<lparr>primitives := p\<rparr>) = prim_stopProfiling env"
  "prim_profilerStatistics (env\<lparr>primitives := p\<rparr>) = prim_profilerStatistics env"
  "prim_removefrom (env\<lparr>primitives := p\<rparr>) = prim_removefrom env"
  "prim_run_args_into (env\<lparr>primitives := p\<rparr>) = prim_run_args_into env"
  "prim_set_map (env\<lparr>primitives := p\<rparr>) = prim_set_map env"
  "prim_size (env\<lparr>primitives := p\<rparr>) = prim_size env"
  "prim_smallint_at_slot_named (env\<lparr>primitives := p\<rparr>) = prim_smallint_at_slot_named env"
  "prim_startProfiling (env\<lparr>primitives := p\<rparr>) = prim_startProfiling env"
  "prim_timeSinceEpoch (env\<lparr>primitives := p\<rparr>) = prim_timeSinceEpoch env"
  "prim_vmArg (env\<lparr>primitives := p\<rparr>) = prim_vmArg env"
  "prim_vmArgCount (env\<lparr>primitives := p\<rparr>) = prim_vmArgCount env"
  by (intro ext; simp only: independent prim_addressOf_def prim_applyto_def prim_array_replaceFromToWithStartingAt_def prim_as_accessor_def prim_as_method_on_def prim_at_def prim_at_put_def prim_at_slot_named_def prim_at_slot_named_put_def prim_bytearray_newsize_def prim_bytearray_replaceFromToWithStartingAt_def prim_byteat_def prim_byteat_put_def prim_bytesPerWord_def prim_bytesize_def prim_clone_def prim_clone_setting_slots_def prim_clone_with_slot_valued_def prim_clone_without_slot_def prim_ensure_def prim_environmentVariables_def prim_findon_def prim_fixme_def prim_forward_to_def prim_frame_pointer_of_def prim_freeAddrInfoResult_def prim_getAddrInfo_def prim_getAddrInfoResult_def prim_heap_gc_def prim_identity_hash_def prim_identity_hash_univ_def prim_interrupt_def prim_isIdenticalTo_def prim_isLittleEndian_def prim_map_def prim_memory_addRef_def prim_memory_close_def prim_memory_new_def prim_memory_read_def prim_memory_resizeTo_def prim_memory_size_def prim_memory_write_def prim_objectPointerAddress_def prim_ooparray_newsize_def prim_profilerStatistics_def prim_removefrom_def prim_run_args_into_def prim_set_map_def prim_size_def prim_smallint_at_slot_named_def prim_startProfiling_def prim_stopProfiling_def prim_timeSinceEpoch_def prim_vmArg_def prim_vmArgCount_def)+

lemma host_helpers:
  "os_do (env\<lparr>primitives := p\<rparr>) = os_do env"
  "open_file (env\<lparr>primitives := p\<rparr>) = open_file env"
  "on_path f (env\<lparr>primitives := p\<rparr>) = on_path f env"
  "on_paths g (env\<lparr>primitives := p\<rparr>) = on_paths g env"
  "pipe_args (env\<lparr>primitives := p\<rparr>) = pipe_args env"
  "socket_range (env\<lparr>primitives := p\<rparr>) = socket_range env"
  by (intro ext; simp only: independent os_do_def open_file_def on_path_def on_paths_def pipe_args_def socket_range_def)+

lemma host_helpers_2:
  "socket_set_nonblocking (env\<lparr>primitives := p\<rparr>) = socket_set_nonblocking env"
  "on_address c (env\<lparr>primitives := p\<rparr>) = on_address c env"
  "system_info k (env\<lparr>primitives := p\<rparr>) = system_info k env"
  by (intro ext; simp only: independent host_helpers socket_set_nonblocking_def on_address_def system_info_def)+

lemma host_primitives:
  "prim_atEndOf (env\<lparr>primitives := p\<rparr>) = prim_atEndOf env"
  "prim_sizeOf (env\<lparr>primitives := p\<rparr>) = prim_sizeOf env"
  "prim_positionOf (env\<lparr>primitives := p\<rparr>) = prim_positionOf env"
  "prim_reposition_to (env\<lparr>primitives := p\<rparr>) = prim_reposition_to env"
  "prim_flush_output (env\<lparr>primitives := p\<rparr>) = prim_flush_output env"
  "prim_handle_for (env\<lparr>primitives := p\<rparr>) = prim_handle_for env"
  "prim_handleForNew (env\<lparr>primitives := p\<rparr>) = prim_handleForNew env"
  "prim_handle_for_input (env\<lparr>primitives := p\<rparr>) = prim_handle_for_input env"
  "prim_close (env\<lparr>primitives := p\<rparr>) = prim_close env"
  "prim_write_to_starting_at (env\<lparr>primitives := p\<rparr>) = prim_write_to_starting_at env"
  "prim_readConsole_from_into_starting_at (env\<lparr>primitives := p\<rparr>) = prim_readConsole_from_into_starting_at env"
  "prim_read_from_into_starting_at (env\<lparr>primitives := p\<rparr>) = prim_read_from_into_starting_at env"
  "prim_write_to_from_starting_at (env\<lparr>primitives := p\<rparr>) = prim_write_to_from_starting_at env"
  "prim_file_delete (env\<lparr>primitives := p\<rparr>) = prim_file_delete env"
  "prim_file_rename_to (env\<lparr>primitives := p\<rparr>) = prim_file_rename_to env"
  "prim_dir_make (env\<lparr>primitives := p\<rparr>) = prim_dir_make env"
  "prim_dir_delete (env\<lparr>primitives := p\<rparr>) = prim_dir_delete env"
  "prim_dir_rename_to (env\<lparr>primitives := p\<rparr>) = prim_dir_rename_to env"
  "prim_file_touch (env\<lparr>primitives := p\<rparr>) = prim_file_touch env"
  "prim_file_information (env\<lparr>primitives := p\<rparr>) = prim_file_information env"
  "prim_dir_open (env\<lparr>primitives := p\<rparr>) = prim_dir_open env"
  "prim_dir_close (env\<lparr>primitives := p\<rparr>) = prim_dir_close env"
  "prim_dir_read (env\<lparr>primitives := p\<rparr>) = prim_dir_read env"
  "prim_dir_getcwd (env\<lparr>primitives := p\<rparr>) = prim_dir_getcwd env"
  "prim_dir_setcwd (env\<lparr>primitives := p\<rparr>) = prim_dir_setcwd env"
  "prim_openProcessPipe (env\<lparr>primitives := p\<rparr>) = prim_openProcessPipe env"
  "prim_closeProcessPipe (env\<lparr>primitives := p\<rparr>) = prim_closeProcessPipe env"
  "prim_readProcessPipe (env\<lparr>primitives := p\<rparr>) = prim_readProcessPipe env"
  "prim_writeProcessPipe (env\<lparr>primitives := p\<rparr>) = prim_writeProcessPipe env"
  "prim_closePipe (env\<lparr>primitives := p\<rparr>) = prim_closePipe env"
  "prim_readFromPipe (env\<lparr>primitives := p\<rparr>) = prim_readFromPipe env"
  "prim_writeToPipe (env\<lparr>primitives := p\<rparr>) = prim_writeToPipe env"
  "prim_selectOnReadPipesFor (env\<lparr>primitives := p\<rparr>) = prim_selectOnReadPipesFor env"
  "prim_selectOnWritePipesFor (env\<lparr>primitives := p\<rparr>) = prim_selectOnWritePipesFor env"
  "prim_socketCreate (env\<lparr>primitives := p\<rparr>) = prim_socketCreate env"
  "prim_socketListen (env\<lparr>primitives := p\<rparr>) = prim_socketListen env"
  "prim_socketAccept (env\<lparr>primitives := p\<rparr>) = prim_socketAccept env"
  "prim_socketBind (env\<lparr>primitives := p\<rparr>) = prim_socketBind env"
  "prim_socketConnect (env\<lparr>primitives := p\<rparr>) = prim_socketConnect env"
  "prim_socketGetError (env\<lparr>primitives := p\<rparr>) = prim_socketGetError env"
  "prim_socketCreateIP (env\<lparr>primitives := p\<rparr>) = prim_socketCreateIP env"
  "prim_system_platform (env\<lparr>primitives := p\<rparr>) = prim_system_platform env"
  "prim_system_name (env\<lparr>primitives := p\<rparr>) = prim_system_name env"
  "prim_system_release (env\<lparr>primitives := p\<rparr>) = prim_system_release env"
  "prim_system_version (env\<lparr>primitives := p\<rparr>) = prim_system_version env"
  "prim_system_machine (env\<lparr>primitives := p\<rparr>) = prim_system_machine env"
  "prim_environment_removekey (env\<lparr>primitives := p\<rparr>) = prim_environment_removekey env"
  "prim_environment_atput (env\<lparr>primitives := p\<rparr>) = prim_environment_atput env"
  "prim_system_execute (env\<lparr>primitives := p\<rparr>) = prim_system_execute env"
  "prim_cloneSystem (env\<lparr>primitives := p\<rparr>) = prim_cloneSystem env"
  "prim_exit (env\<lparr>primitives := p\<rparr>) = prim_exit env"
  "prim_exponent (env\<lparr>primitives := p\<rparr>) = prim_exponent env"
  "prim_significand (env\<lparr>primitives := p\<rparr>) = prim_significand env"
  "prim_withSignificand_exponent (env\<lparr>primitives := p\<rparr>) = prim_withSignificand_exponent env"
  by (intro ext; simp only: independent host_helpers host_helpers_2 prim_atEndOf_def prim_sizeOf_def prim_positionOf_def prim_reposition_to_def prim_flush_output_def prim_handle_for_def prim_handleForNew_def prim_handle_for_input_def prim_close_def prim_write_to_starting_at_def prim_readConsole_from_into_starting_at_def prim_read_from_into_starting_at_def prim_write_to_from_starting_at_def prim_file_delete_def prim_file_rename_to_def prim_dir_make_def prim_dir_delete_def prim_dir_rename_to_def prim_file_touch_def prim_file_information_def prim_dir_open_def prim_dir_close_def prim_dir_read_def prim_dir_getcwd_def prim_dir_setcwd_def prim_openProcessPipe_def prim_closeProcessPipe_def prim_readProcessPipe_def prim_writeProcessPipe_def prim_closePipe_def prim_readFromPipe_def prim_writeToPipe_def prim_selectOnReadPipesFor_def prim_selectOnWritePipesFor_def prim_socketCreate_def prim_socketListen_def prim_socketAccept_def prim_socketBind_def prim_socketConnect_def prim_socketGetError_def prim_socketCreateIP_def prim_system_platform_def prim_system_name_def prim_system_release_def prim_system_version_def prim_system_machine_def prim_environment_removekey_def prim_environment_atput_def prim_system_execute_def prim_cloneSystem_def prim_exit_def prim_exponent_def prim_significand_def prim_withSignificand_exponent_def)+

lemma foreign_helpers:
  "safe_string (env\<lparr>primitives := p\<rparr>) = safe_string env"
  "float_word (env\<lparr>primitives := p\<rparr>) = float_word env"
  "marshal_arg (env\<lparr>primitives := p\<rparr>) = marshal_arg env"
  "call_foreign (env\<lparr>primitives := p\<rparr>) = call_foreign env"
  "first_args (env\<lparr>primitives := p\<rparr>) = first_args env"
  "write_image (env\<lparr>primitives := p\<rparr>) = write_image env"
  by (intro ext; simp only: env_fields host_helpers safe_string_def float_word_def marshal_arg_def call_foreign_def first_args_def write_image_def)+

lemma marshal_list_primitives: "marshal (env\<lparr>primitives := p\<rparr>) formats array n ks = marshal env formats array n ks"
proof (induction ks)
  case Nil
  show ?case by (intro ext) simp
next
  case (Cons k ks)
  show ?case by (intro ext) (simp only: marshal.simps Cons.IH foreign_helpers)
qed

lemma marshal_primitives: "marshal (env\<lparr>primitives := p\<rparr>) = marshal env"
  by (intro ext) (simp only: marshal_list_primitives)

lemma foreign_helpers_2:
  "switch_c (env\<lparr>primitives := p\<rparr>) = switch_c env"
  "switch_std (env\<lparr>primitives := p\<rparr>) = switch_std env"
  "openExternalLibrary (env\<lparr>primitives := p\<rparr>) = openExternalLibrary env"
  "closeExternalLibrary (env\<lparr>primitives := p\<rparr>) = closeExternalLibrary env"
  "lookupExternalLibraryPrimitive (env\<lparr>primitives := p\<rparr>) = lookupExternalLibraryPrimitive env"
  "readExternalLibraryError (env\<lparr>primitives := p\<rparr>) = readExternalLibraryError env"
  "float_test r (env\<lparr>primitives := p\<rparr>) = float_test r env"
  by (intro ext; simp only: host_helpers foreign_helpers switch_c_def switch_std_def openExternalLibrary_def closeExternalLibrary_def
      lookupExternalLibraryPrimitive_def readExternalLibraryError_def float_test_def)+

lemma applyExternal_primitives: "applyExternalLibraryPrimitive (env\<lparr>primitives := p\<rparr>) = applyExternalLibraryPrimitive env"
  by (intro ext) (simp only: applyExternalLibraryPrimitive_def marshal_primitives foreign_helpers_2)

lemma foreign_primitives:
  "prim_float_equals (env\<lparr>primitives := p\<rparr>) = prim_float_equals env"
  "prim_float_less_than (env\<lparr>primitives := p\<rparr>) = prim_float_less_than env"
  "prim_float_plus (env\<lparr>primitives := p\<rparr>) = prim_float_plus env"
  "prim_float_minus (env\<lparr>primitives := p\<rparr>) = prim_float_minus env"
  "prim_float_times (env\<lparr>primitives := p\<rparr>) = prim_float_times env"
  "prim_float_divide (env\<lparr>primitives := p\<rparr>) = prim_float_divide env"
  "prim_float_raisedTo (env\<lparr>primitives := p\<rparr>) = prim_float_raisedTo env"
  "prim_float_ln (env\<lparr>primitives := p\<rparr>) = prim_float_ln env"
  "prim_float_exp (env\<lparr>primitives := p\<rparr>) = prim_float_exp env"
  "prim_float_sin (env\<lparr>primitives := p\<rparr>) = prim_float_sin env"
  "prim_library_open (env\<lparr>primitives := p\<rparr>) = prim_library_open env"
  "prim_library_close (env\<lparr>primitives := p\<rparr>) = prim_library_close env"
  "prim_procAddressOf (env\<lparr>primitives := p\<rparr>) = prim_procAddressOf env"
  "prim_extlibError (env\<lparr>primitives := p\<rparr>) = prim_extlibError env"
  "prim_applyExternal (env\<lparr>primitives := p\<rparr>) = prim_applyExternal env"
  "prim_save_image (env\<lparr>primitives := p\<rparr>) = prim_save_image env"
  by (intro ext; simp only: env_fields host_helpers foreign_helpers foreign_helpers_2 applyExternal_primitives float_binary_def float_unary_def
      prim_float_equals_def prim_float_less_than_def prim_float_plus_def prim_float_minus_def prim_float_times_def
      prim_float_divide_def prim_float_raisedTo_def prim_float_ln_def prim_float_exp_def prim_float_sin_def
      prim_library_open_def prim_library_close_def prim_procAddressOf_def prim_extlibError_def prim_applyExternal_def
      prim_save_image_def)+

text \<open>A computation that answers what another one answers, where that one answers.\<close>

definition below :: "'a option \<Rightarrow> 'a option \<Rightarrow> bool" where
  "below a b \<longleftrightarrow> (\<forall>r. a = Some r \<longrightarrow> b = Some r)"

lemma below_bind: "below a b \<Longrightarrow> (\<And>x. below (f x) (g x)) \<Longrightarrow> below (a \<bind> f) (b \<bind> g)"
  by (auto simp: below_def Option.bind_eq_Some_conv)

lemma below_if: "(c \<Longrightarrow> below a b) \<Longrightarrow> (\<not> c \<Longrightarrow> below a' b') \<Longrightarrow> below (if c then a else a') (if c then b else b')"
  by simp

lemma below_prod: "(\<And>x y. below (f x y) (g x y)) \<Longrightarrow> below (case p of (x, y) \<Rightarrow> f x y) (case p of (x, y) \<Rightarrow> g x y)"
  by (cases p) simp

lemma below_refl: "below a a"
  by (simp add: below_def)

lemmas below_intros = below_bind below_if below_prod

text \<open>Sends are monotone in the primitives.\<close>

definition extends :: "vm_env \<Rightarrow> vm_env \<Rightarrow> bool" where
  "extends env env' \<longleftrightarrow> (\<exists>p. env' = env\<lparr>primitives := p\<rparr>) \<and>
     (\<forall>i oh args opts rsp. below (primitives env i oh args opts rsp) (primitives env' i oh args opts rsp))"

lemma extends_eq:
  assumes "extends env env'"
  shows "interpreter_apply_to_arity_with_optionals env' = interpreter_apply_to_arity_with_optionals env"
    "signal_with_arguments env' = signal_with_arguments env"
  using assms apply_primitives signal_with_primitives(3) by (auto simp: extends_def)

lemma send_found_mono: "extends env env' \<Longrightarrow> below (send_found env oh d args ds opts rsp) (send_found env' oh d args ds opts rsp)"
  unfolding send_found_def Let_def
  by (intro below_intros below_refl; simp add: extends_eq below_refl call_primitive_def; simp add: extends_def)

lemma send_mono:
  "extends env env' \<Longrightarrow> below (send_to_through_arity_with_optionals env oh selector args ds home opts rsp)
     (send_to_through_arity_with_optionals env' oh selector args ds home opts rsp)"
  unfolding send_to_through_arity_with_optionals_def Let_def
  by (intro below_intros below_refl send_found_mono; (assumption | simp add: extends_eq below_refl)?)

lemma prim_send_mono:
  "extends env env' \<Longrightarrow> below (prim_send_to env oh args opts rsp) (prim_send_to env' oh args opts rsp)"
  "extends env env' \<Longrightarrow> below (prim_send_to_through env oh args opts rsp) (prim_send_to_through env' oh args opts rsp)"
  unfolding prim_send_to_def prim_send_to_through_def Let_def
  by (intro below_intros below_refl send_mono; assumption?)+

lemma extends_prims:
  assumes "extends env env'" "map_of prim_table i = Some p"
  shows "below (p env oh args opts rsp) (p env' oh args opts rsp)"
proof -
  from assms(1) obtain q where q: "env' = env\<lparr>primitives := q\<rparr>" by (auto simp: extends_def)
  have "(i, p) \<in> set prim_table" using assms(2) by (rule map_of_SomeD)
  then have "p \<in> {prim_send_to, prim_send_to_through} \<or> p (env\<lparr>primitives := q\<rparr>) = p env"
    unfolding prim_table_def set_append Un_iff list.set insert_iff prod.inject empty_iff set_map image_iff
    by (elim disjE conjE bexE; simp only: prims_primitives host_primitives foreign_primitives replace_primitives independent insert_iff simp_thms)
  with prim_send_mono [OF assms(1)] show ?thesis unfolding q by (auto simp: below_refl)
qed

lemma vm_primitives: "map_of prim_table i = Some p \<Longrightarrow> primitives (vm env (Suc n)) i = p (vm env n)"
  by simp

lemma vm_extends: "extends (vm env n) (vm env (Suc n))"
proof (induction n)
  case 0
  then show ?case by (auto simp: extends_def below_def)
next
  case (Suc n)
  have "\<exists>p. vm env (Suc (Suc n)) = (vm env (Suc n))\<lparr>primitives := p\<rparr>" by auto
  moreover have "below (primitives (vm env (Suc n)) i oh args opts rsp) (primitives (vm env (Suc (Suc n))) i oh args opts rsp)"
    for i oh args opts rsp
  proof (cases "map_of prim_table i")
    case None
    then show ?thesis by (simp add: below_refl)
  next
    case (Some p)
    from extends_prims [OF Suc Some] show ?thesis unfolding vm_primitives [OF Some] .
  qed
  ultimately show ?case unfolding extends_def by blast
qed

lemma vm_below: "n \<le> m \<Longrightarrow> below (primitives (vm env n) i oh args opts rsp) (primitives (vm env m) i oh args opts rsp)"
proof (induction m)
  case (Suc m)
  show ?case
  proof (cases "n = Suc m")
    case False
    with Suc have "below (primitives (vm env n) i oh args opts rsp) (primitives (vm env m) i oh args opts rsp)" by simp
    with vm_extends [of env m] show ?thesis by (auto simp: extends_def below_def simp del: vm.simps)
  qed (simp only: below_refl)
qed (simp add: below_refl)

section \<open>Properties\<close>



end
