(* ===== verification/FileProps.thy ===== *)
theory FileProps
  imports Pipes
begin

text \<open>
  The discipline of streams: whatever sequence of operations the image performs, the streams
  in the table are exactly the open ones, each in one entry, and no call is made on a stream
  that is not open.
\<close>

section \<open>Open streams of a trace\<close>

fun open_streams :: "os \<Rightarrow> os_call list \<Rightarrow> addr set" where
  "open_streams os [] = {}"
| "open_streams os (Fopen name mode # t) = open_streams os t \<union> ({ans_value (os t (Fopen name mode))} - {0})"
| "open_streams os (Fclose f # t) = open_streams os t - {f}"
| "open_streams os (_ # t) = open_streams os t"

fun stream_of :: "os_call \<Rightarrow> addr option" where
  "stream_of (Fclose f) = Some f"
| "stream_of (Fread f n) = Some f"
| "stream_of (Fwrite f bs) = Some f"
| "stream_of (Ftell f) = Some f"
| "stream_of (Fseek f off wh) = Some f"
| "stream_of (Fgetc f) = Some f"
| "stream_of (Ungetc c f) = Some f"
| "stream_of (Fflush f) = Some f"
| "stream_of _ = None"

fun trace_safe :: "os \<Rightarrow> os_call list \<Rightarrow> bool" where
  "trace_safe os [] = True"
| "trace_safe os (c # t) = (trace_safe os t \<and> (case stream_of c of None \<Rightarrow> True | Some f \<Rightarrow> f \<in> open_streams os t))"

text \<open>\<open>fopen\<close> answers a stream that is not open already.\<close>

definition streams_fresh :: "os \<Rightarrow> bool" where
  "streams_fresh os \<longleftrightarrow> (\<forall>t name mode. ans_value (os t (Fopen name mode)) \<notin> open_streams os t)"

text \<open>Calls that neither open nor close a stream.\<close>

fun keeps_streams :: "os_call \<Rightarrow> bool" where
  "keeps_streams (Fopen name mode) = False"
| "keeps_streams (Fclose f) = False"
| "keeps_streams _ = True"

lemma open_streams_keep: "keeps_streams c \<Longrightarrow> open_streams os (c # t) = open_streams os t"
  by (cases c) simp_all

lemma open_streams_nonzero: "0 \<notin> open_streams os t"
  by (induction os t rule: open_streams.induct) auto

section \<open>The invariant\<close>

definition open_entries :: "process \<Rightarrow> addr list" where
  "open_entries p = filter (\<lambda>f. f \<noteq> 0) (file_index p)"

definition files_ok :: "os \<Rightarrow> process \<Rightarrow> bool" where
  "files_ok os p \<longleftrightarrow> file_index p \<noteq> [] \<and> trace_safe os (os_trace p) \<and> set (open_entries p) = open_streams os (os_trace p) \<and> distinct (open_entries p)"

lemma files_ok_init: "os_trace p = [] \<Longrightarrow> files_ok os (file_module_init p)"
  by (simp add: files_ok_def file_module_init_def open_entries_def SLATE_FILES_MAXIMUM_def)

lemma valid_stream: "file_handle_isvalid p h \<Longrightarrow> stream p h \<in> set (open_entries p)"
  by (auto simp: file_handle_isvalid_def stream_def open_entries_def file_index_size_def)

lemma files_ok_sys:
  assumes "files_ok os p" "keeps_streams c" "stream_of c = None \<or> (\<exists>h. file_handle_isvalid p h \<and> stream_of c = Some (stream p h))"
  shows "files_ok os (snd (sys os p c))"
proof -
  have "stream p h \<in> open_streams os (os_trace p)" if "file_handle_isvalid p h" for h
    using valid_stream [OF that] assms(1) by (simp add: files_ok_def)
  then show ?thesis
    using assms by (auto simp: files_ok_def open_entries_def open_streams_keep split: option.splits)
qed

lemma sys_valid [simp]:
  "file_handle_isvalid (snd (sys os p c)) h = file_handle_isvalid p h" "stream (snd (sys os p c)) h = stream p h"
  by (simp_all add: file_handle_isvalid_def file_index_size_def stream_def)

lemmas files_ok_use = files_ok_sys [OF _ _ disjI2]

text \<open>Replacing one entry of a list.\<close>

lemma filter_update:
  assumes "i < length xs"
  shows "filter P (xs[i := y]) = filter P (take i xs) @ (if P y then [y] else []) @ filter P (drop (Suc i) xs)"
    "filter P xs = filter P (take i xs) @ (if P (xs ! i) then [xs ! i] else []) @ filter P (drop (Suc i) xs)"
  using assms by (simp_all add: upd_conv_take_nth_drop) (metis filter.simps filter_append id_take_nth_drop append_Cons append_Nil)

lemma file_close_ok:
  assumes "files_ok os p"
  shows "files_ok os (file_close os p h)"
proof (cases "file_handle_isvalid p h")
  case True
  then have h: "nat h < length (file_index p)" "file_index p ! nat h \<noteq> 0"
    by (auto simp: file_handle_isvalid_def file_index_size_def)
  let ?a = "filter (\<lambda>f. f \<noteq> 0) (take (nat h) (file_index p))" and ?b = "filter (\<lambda>f. f \<noteq> 0) (drop (Suc (nat h)) (file_index p))"
  have old: "open_entries p = ?a @ stream p h # ?b"
    using h(2) filter_update(2) [OF h(1), of "\<lambda>f. f \<noteq> 0"] by (simp add: open_entries_def stream_def)
  have new: "open_entries (file_close os p h) = ?a @ ?b"
    using True filter_update(1) [OF h(1), of "\<lambda>f. f \<noteq> 0"]
    by (simp add: file_close_def open_entries_def set_stream_def split_beta)
  have "os_trace (file_close os p h) = Fclose (stream p h) # os_trace p"
    using True by (simp add: file_close_def set_stream_def split_beta)
  moreover have "file_index (file_close os p h) \<noteq> []"
    using True assms by (simp add: file_close_def set_stream_def split_beta files_ok_def)
  moreover have "stream p h \<in> open_streams os (os_trace p)" "set (?a @ ?b) = open_streams os (os_trace p) - {stream p h}"
    using assms unfolding files_ok_def old by auto
  ultimately show ?thesis using assms unfolding files_ok_def new old by auto
qed (use assms in \<open>simp add: file_close_def\<close>)

lemma file_allocate_ok:
  assumes "files_ok os p" "file_allocate os p = Some (h, p')"
  shows "files_ok os p' \<and> 0 \<le> h \<and> nat h < length (file_index p') \<and> file_index p' ! nat h = 0 \<and> open_entries p' = open_entries p"
proof (cases "first_free (file_handle_isvalid p) (file_index_size p)")
  case (Some g)
  with assms(2) have "g = h" "p' = p" by (auto simp: file_allocate_def)
  with Some assms(1) show ?thesis
    by (auto simp: file_handle_isvalid_def file_index_size_def dest: first_free_SomeD)
next
  case None
  let ?c = "Allocate (2 * file_index_size p * 8)"
  let ?q = "snd (sys os p ?c)"
  have ret: "h = file_index_size p" "p' = ?q\<lparr>file_index := file_index p @ replicate (length (file_index p)) 0\<rparr>"
    using assms(2) None by (auto simp: file_allocate_def split_beta check_def split: if_splits)
  have "files_ok os ?q" by (rule files_ok_sys [OF assms(1)]) simp_all
  moreover have e: "open_entries p' = open_entries p" by (simp add: open_entries_def ret(2))
  ultimately have "files_ok os p'" by (simp add: files_ok_def ret(2) open_entries_def)
  moreover have "0 < length (file_index p)" using assms(1) by (simp add: files_ok_def)
  ultimately show ?thesis using e by (simp add: ret nth_append file_index_size_def)
qed

lemma file_open_ok:
  assumes "files_ok os p" "streams_fresh os" "file_open os p array payloadSize flags = Some (h, p')"
  shows "files_ok os p'"
proof -
  from assms(3) consider "p' = p" | g where "file_allocate os p = Some (g, p')"
    | q g name mode where "file_allocate os p = Some (g, q)"
        "p' = set_stream (snd (sys os q (Fopen name mode))) g (ans_value (os (os_trace q) (Fopen name mode)))"
    unfolding file_open_def
    by (fastforce simp: Option.bind_eq_Some_conv split_beta Let_def split: if_splits)
  then show ?thesis
  proof cases
    case 2
    with file_allocate_ok [OF assms(1)] show ?thesis by blast
  next
    case 3
    let ?c = "Fopen name mode"
    let ?f = "ans_value (os (os_trace q) ?c)"
    from file_allocate_ok [OF assms(1) 3(1)] have q: "files_ok os q" "nat g < length (file_index q)" "file_index q ! nat g = 0"
      by auto
    let ?a = "filter (\<lambda>f. f \<noteq> 0) (take (nat g) (file_index q))" and ?b = "filter (\<lambda>f. f \<noteq> 0) (drop (Suc (nat g)) (file_index q))"
    have old: "open_entries q = ?a @ ?b"
      using q(3) filter_update(2) [OF q(2), of "\<lambda>f. f \<noteq> 0"] by (simp add: open_entries_def)
    have new: "open_entries p' = ?a @ (if ?f \<noteq> 0 then [?f] else []) @ ?b"
      using filter_update(1) [OF q(2), of "\<lambda>f. f \<noteq> 0"] by (simp add: open_entries_def 3(2) set_stream_def)
    have "?f \<notin> open_streams os (os_trace q)" using assms(2) by (simp add: streams_fresh_def)
    moreover have "os_trace p' = ?c # os_trace q" "file_index p' \<noteq> []" using q(2) by (auto simp: 3(2) set_stream_def)
    ultimately show ?thesis using q(1) unfolding files_ok_def new old by auto
  qed (use assms(1) in simp)
qed

section \<open>Runs\<close>

text \<open>What the image can do with files, and the calls of the other modules in between.\<close>

datatype file_event =
    Open "int list" word_t word_t | Close word_t | Write word_t word_t "int list" | Read word_t word_t "int list"
  | SizeOf word_t | Seek word_t word_t | Tell word_t | AtEnd word_t | OtherCall os_call

fun file_event_step :: "os \<Rightarrow> process \<Rightarrow> file_event \<Rightarrow> process option" where
  "file_event_step os p (Open array n flags) = map_option snd (file_open os p array n flags)"
| "file_event_step os p (Close h) = Some (file_close os p h)"
| "file_event_step os p (Write h n bytes) = map_option snd (file_write os p h n bytes)"
| "file_event_step os p (Read h n bytes) = map_option (snd \<circ> snd) (file_read os p h n bytes)"
| "file_event_step os p (SizeOf h) = Some (snd (file_sizeof os p h))"
| "file_event_step os p (Seek h off) = Some (snd (file_seek os p h off))"
| "file_event_step os p (Tell h) = Some (snd (file_tell os p h))"
| "file_event_step os p (AtEnd h) = Some (snd (file_isatend os p h))"
| "file_event_step os p (OtherCall c) = (if keeps_streams c \<and> stream_of c = None then Some (snd (sys os p c)) else None)"

lemma file_event_step_ok:
  assumes "files_ok os p" "streams_fresh os" "file_event_step os p e = Some p'"
  shows "files_ok os p'"
proof (cases e)
  case (Open array n flags)
  with assms show ?thesis by (auto intro: file_open_ok)
next
  case (Close h)
  with assms show ?thesis by (auto intro: file_close_ok)
next
  case (Write h n bytes)
  with assms show ?thesis
    by (auto simp: file_write_def split_beta check_def Option.bind_eq_Some_conv split: if_splits intro!: files_ok_use)
next
  case (Read h n bytes)
  with assms show ?thesis
    by (auto simp: file_read_def split_beta check_def Option.bind_eq_Some_conv split: if_splits intro!: files_ok_use)
next
  case (SizeOf h)
  with assms show ?thesis
    by (cases "file_handle_isvalid p h") (auto simp: file_sizeof_def split_beta Let_def intro!: files_ok_use exI [of _ h])
next
  case (Seek h off)
  with assms show ?thesis
    by (auto simp: file_seek_def split_beta split: if_splits intro!: files_ok_use)
next
  case (Tell h)
  with assms show ?thesis
    by (auto simp: file_tell_def split_beta split: if_splits intro!: files_ok_use)
next
  case (AtEnd h)
  with assms show ?thesis
    by (auto simp: file_isatend_def split_beta split: if_splits intro!: files_ok_use)
next
  case (OtherCall c)
  with assms show ?thesis by (auto split: if_splits intro!: files_ok_sys)
qed

inductive file_run :: "os \<Rightarrow> process \<Rightarrow> bool" for os where
  start: "os_trace p = [] \<Longrightarrow> file_run os (file_module_init p)"
| event: "file_run os p \<Longrightarrow> file_event_step os p e = Some p' \<Longrightarrow> file_run os p'"

lemma file_run_ok: "file_run os p \<Longrightarrow> streams_fresh os \<Longrightarrow> files_ok os p"
  by (induction rule: file_run.induct) (auto intro: files_ok_init file_event_step_ok)

section \<open>Properties\<close>

text \<open>
  C31. In every run of the file operations, interleaved with other calls of the system, each open
  stream is in exactly one entry of the table and the table holds no other stream, so none is
  leaked; and every call on a stream was made while the stream was open, so none is used
  after it was closed.
\<close>

theorem streams_disciplined:
  assumes "file_run os p" and "streams_fresh os"
  shows "trace_safe os (os_trace p) \<and> distinct (filter (\<lambda>f. f \<noteq> 0) (file_index p)) \<and>
    set (filter (\<lambda>f. f \<noteq> 0) (file_index p)) = open_streams os (os_trace p)"
  using file_run_ok [OF assms] unfolding files_ok_def open_entries_def by blast

lemma sample_os_bound: "f \<in> open_streams sample_os t \<Longrightarrow> f \<le> int (length t)"
proof (induction t)
  case (Cons c t)
  show ?case
  proof (cases "keeps_streams c")
    case True
    with Cons show ?thesis by (simp add: open_streams_keep)
  next
    case False
    then consider name mode where "c = Fopen name mode" | g where "c = Fclose g" by (cases c) auto
    then show ?thesis using Cons by cases (auto simp: sample_os_def)
  qed
qed simp

lemma sample_os_fresh: "streams_fresh sample_os"
  using sample_os_bound by (fastforce simp: streams_fresh_def sample_os_def)

theorem streams_disciplined_witness:
  "\<exists>p. file_run sample_os p \<and> open_streams sample_os (os_trace p) = {2} \<and> set (filter (\<lambda>f. f \<noteq> 0) (file_index p)) = {2}"
proof -
  let ?run = "do {
     (_, p) \<leftarrow> file_open sample_os sample_process sample_name 2 1;
     (_, p) \<leftarrow> file_open sample_os p sample_name 2 3;
     Some (file_close sample_os p 0) }"
  obtain h p1 where 1: "file_open sample_os sample_process sample_name 2 1 = Some (h, p1)"
  proof -
    have "file_open sample_os sample_process sample_name 2 1 \<noteq> None" by code_simp
    then show thesis using that by auto
  qed
  obtain g p2 where 2: "file_open sample_os p1 sample_name 2 3 = Some (g, p2)"
  proof -
    have "?run \<noteq> None" by code_simp
    then show thesis using that 1 by (auto split: bind_splits)
  qed
  have "file_run sample_os sample_process"
    unfolding sample_process_def by (rule file_run.start) (simp add: dir_module_init_def)
  then have "file_run sample_os p1" by (rule file_run.event [where e = "Open sample_name 2 1"]) (simp add: 1)
  then have "file_run sample_os p2" by (rule file_run.event [where e = "Open sample_name 2 3"]) (simp add: 2)
  then have r: "file_run sample_os (file_close sample_os p2 0)" by (rule file_run.event [where e = "Close 0"]) simp
  have "map_option (\<lambda>p. open_streams sample_os (os_trace p)) ?run = Some {2}" by code_simp
  then have "open_streams sample_os (os_trace (file_close sample_os p2 0)) = {2}" by (simp add: 1 2)
  with r streams_disciplined [OF r sample_os_fresh] show ?thesis by blast
qed

end
