(* ===== verification/Calls.thy ===== *)
theory Calls
  imports Interpret Sample
begin

text \<open>
  Calls and returns on the common path: a method whose variables live on the stack, with as many
  arguments as it has inputs, entered while the profiler is off and when it is not due to be
  optimised. Pins and the remembered set change no word but headers, so the states
  in between are compared by the words after the header.
\<close>

section \<open>Steps that only change headers\<close>

definition kinds :: "object_heap \<Rightarrow> addr \<Rightarrow> word_t \<times> word_t" where
  "kinds oh p = (object_hash (mem oh) p, object_type (mem oh) p)"

definition same_words :: "object_heap \<Rightarrow> object_heap \<Rightarrow> bool" where
  "same_words oh oh' \<longleftrightarrow> (\<forall>p k. k \<noteq> 0 \<longrightarrow> rd (mem oh') p k = rd (mem oh) p k) \<and> kinds oh' = kinds oh \<and>
     c_interpreter oh' = c_interpreter oh \<and> c_nil oh' = c_nil oh \<and> c_true_object oh' = c_true_object oh \<and>
     automaticallyInline oh' = automaticallyInline oh \<and> profiler oh' = profiler oh"

lemma same_words_refl: "same_words oh oh"
  by (simp add: same_words_def)

lemma same_words_trans: "same_words a b \<Longrightarrow> same_words b c \<Longrightarrow> same_words a c"
  by (simp add: same_words_def)

lemma set_pins_same_words:
  assumes "0 \<le> v" "v \<le> PINNED_MASK"
  shows "same_words oh (upd oh x 0 (hdr_set_pins (rd (mem oh) x 0) v))"
  using hdr_get_set_pins [OF assms]
  by (auto simp: same_words_def upd_def kinds_def object_hash_def object_type_def fun_eq_iff)

lemma unpin_same_words: "same_words oh (heap_unpin_object oh x)"
  using set_pins_same_words [of "object_pin_count (mem oh) x - 1" oh x] pin_count_range [of "mem oh" x]
  by (auto simp: heap_unpin_object_def object_decrement_pin_count_def Let_def same_words_refl)

lemma pinned_end_same_words: "same_words oh (pinned_end oh x)"
  by (simp add: pinned_end_def unpin_same_words same_words_refl)

lemma pinned_assign_new:
  assumes "x \<noteq> 0 \<longrightarrow> object_is_smallint x \<or> (object_hash (mem oh) x < ID_HASH_RESERVED \<and> object_pin_count (mem oh) x + 1 < PINNED_MASK)"
  shows "\<exists>oh'. pinned_assign oh 0 x = Some oh' \<and> same_words oh oh' \<and> (\<forall>p. p \<noteq> x \<longrightarrow> rd (mem oh') p 0 = rd (mem oh) p 0)"
proof (cases "x = 0 \<or> object_is_smallint x")
  case True
  then show ?thesis by (auto simp: pinned_assign_def heap_pin_object_def same_words_refl)
next
  case False
  let ?oh = "upd oh x 0 (hdr_set_pins (rd (mem oh) x 0) (object_pin_count (mem oh) x + 1))"
  have "pinned_assign oh 0 x = Some ?oh"
    using False assms by (simp add: pinned_assign_def heap_pin_object_def object_increment_pin_count_def check_def)
  moreover have "same_words oh ?oh"
    using False assms pin_count_range [of "mem oh" x] by (intro set_pins_same_words) auto
  ultimately show ?thesis by auto
qed

text \<open>An object that may be stored anywhere, and one that stores may go to.\<close>

definition good :: "object_heap \<Rightarrow> oop \<Rightarrow> bool" where
  "good oh x \<longleftrightarrow> object_is_smallint x \<or> object_hash (mem oh) x < ID_HASH_RESERVED"

lemma store_ok:
  assumes "good oh v" "object_hash (mem oh) p < ID_HASH_RESERVED"
  shows "\<exists>oh'. heap_store_into oh p v = Some oh' \<and> same_words oh oh'"
  using assms
  by (auto simp: good_def heap_store_into_def check_def heap_remember_old_object_def same_words_def kinds_def fun_eq_iff)

lemma same_words_good:
  assumes "same_words oh oh'"
  shows "good oh' v = good oh v" "object_hash (mem oh') p = object_hash (mem oh) p" "object_type (mem oh') p = object_type (mem oh) p"
  using assms by (auto simp: same_words_def good_def kinds_def fun_eq_iff)

lemma stores_ok:
  assumes "\<forall>x\<in>set xs. good oh x" "object_hash (mem oh) (i_stack oh) < ID_HASH_RESERVED"
  shows "\<exists>oh'. fold_opt (\<lambda>oh a. heap_store_into oh (i_stack oh) a) xs oh = Some oh' \<and> same_words oh oh'"
  using assms
proof (induction xs arbitrary: oh)
  case (Cons x xs)
  from Cons.prems store_ok [of oh x "i_stack oh"] obtain oh1 where
    1: "heap_store_into oh (i_stack oh) x = Some oh1" "same_words oh oh1" by auto
  have "i_stack oh1 = i_stack oh" using 1(2) by (simp add: same_words_def i_stack_def)
  with Cons.IH [of oh1] Cons.prems same_words_good [OF 1(2)] obtain oh2 where
    "fold_opt (\<lambda>oh a. heap_store_into oh (i_stack oh) a) xs oh1 = Some oh2" "same_words oh1 oh2" by auto
  with 1 same_words_trans show ?case by auto
qed (simp add: same_words_refl)

lemma same_words_i:
  assumes "same_words oh oh'"
  shows "i_stack oh' = i_stack oh" "i_method oh' = i_method oh" "i_closure oh' = i_closure oh"
    "i_lexicalContext oh' = i_lexicalContext oh" "i_ensureHandlers oh' = i_ensureHandlers oh"
    "i_framePointer oh' = i_framePointer oh" "i_codePointer oh' = i_codePointer oh" "i_codeSize oh' = i_codeSize oh"
    "i_stackPointer oh' = i_stackPointer oh" "i_stackSize oh' = i_stackSize oh"
  using assms by (simp_all add: same_words_def i_stack_def i_method_def i_closure_def i_lexicalContext_def
      i_ensureHandlers_def i_framePointer_def i_codePointer_def i_codeSize_def i_stackPointer_def i_stackSize_def)

text \<open>Writes keep states together.\<close>

lemma kinds_upd: "k \<noteq> 0 \<Longrightarrow> kinds (upd oh p k v) = kinds oh"
  by (simp add: fun_eq_iff kinds_def object_hash_def object_type_def)

lemma same_words_upd: "same_words a b \<Longrightarrow> k \<noteq> 0 \<Longrightarrow> same_words (upd a p k v) (upd b p k v)"
  by (simp add: same_words_def kinds_upd) (simp add: upd_def)

lemma kinds_put_words: "0 < k \<Longrightarrow> kinds (put_words oh p k ws) = kinds oh"
  by (simp add: fun_eq_iff kinds_def object_hash_def object_type_def)

lemma rd_fill_words: "rd (fill_words_with m p k n v) q j = (if q = p \<and> k \<le> j \<and> j < k + n then v else rd m q j)"
  by (simp add: fill_words_with_def rd_def)

lemma kinds_fill: "0 < k \<Longrightarrow> kinds (oh\<lparr>mem := fill_words_with (mem oh) p k n v\<rparr>) = kinds oh"
  by (simp add: fun_eq_iff kinds_def object_hash_def object_type_def rd_fill_words)

lemma same_words_set_i: "same_words a b \<Longrightarrow> k \<noteq> 0 \<Longrightarrow> same_words (set_i a k v) (set_i b k v)"
  using same_words_upd [of a b k "c_interpreter a" v] by (simp add: set_i_def same_words_def)

lemma same_words_set_stack_at: "same_words a b \<Longrightarrow> 0 \<le> k \<Longrightarrow> same_words (set_stack_at a k v) (set_stack_at b k v)"
  using same_words_upd [of a b "nat (4 + k)" "i_stack a" v] same_words_i(1) [of a b] by (simp add: set_stack_at_def)

lemma same_words_put_words: "same_words a b \<Longrightarrow> 0 < k \<Longrightarrow> same_words (put_words a p k ws) (put_words b p k ws)"
  by (simp add: same_words_def kinds_put_words) (simp add: put_words_def)

lemma same_words_fill:
  "same_words a b \<Longrightarrow> 0 < k \<Longrightarrow> same_words (a\<lparr>mem := fill_words_with (mem a) p k n v\<rparr>) (b\<lparr>mem := fill_words_with (mem b) p k n v\<rparr>)"
  by (simp add: same_words_def kinds_fill rd_fill_words)

lemma same_words_write_frame:
  assumes "same_words a b" "FUNCTION_FRAME_SIZE \<le> fp"
  shows "same_words (write_frame a fp sp rsp closure context) (write_frame b fp sp rsp closure context)"
proof -
  have code: "same_words (set_stack_at x k (smallint_to_object (i_codePointer x))) (set_stack_at y k (smallint_to_object (i_codePointer y)))"
    and prev: "same_words (set_stack_at x k (smallint_to_object (i_framePointer x))) (set_stack_at y k (smallint_to_object (i_framePointer y)))"
    if "same_words x y" "0 \<le> k" for x y k
    using same_words_set_stack_at [OF that] same_words_i [OF that(1)] by simp_all
  have "0 \<le> fp - FRAME_OFFSET_BEFORE_CALL_STACK_POINTER" "0 \<le> fp - FRAME_OFFSET_RESULT_STACK_POINTER"
    "0 \<le> fp - FRAME_OFFSET_CODE_POINTER" "0 \<le> fp - FRAME_OFFSET_METHOD" "0 \<le> fp - FRAME_OFFSET_LEXICAL_CONTEXT"
    "0 \<le> fp - FRAME_OFFSET_PREVIOUS_FRAME_POINTER"
    using assms(2) by (simp_all add: frame_consts)
  then show ?thesis unfolding write_frame_def Let_def
    by (intro same_words_set_stack_at code prev assms(1))
qed

section \<open>Entering a method\<close>

text \<open>The frame with the arguments, and the state in which the method starts.\<close>

definition framed :: "object_heap \<Rightarrow> addr \<Rightarrow> oop list \<Rightarrow> word_t \<Rightarrow> object_heap" where
  "framed oh closure args resultStackPointer =
     (let m = cm_method (mem oh) closure; sp = i_stackPointer oh; framePointer = sp + FUNCTION_FRAME_SIZE;
          oh = upd oh m 19 (smallint_to_object (object_to_smallint (cm_callCount (mem oh) m) + 1));
          oh = set_stackPointer oh (sp + (FUNCTION_FRAME_SIZE + object_to_smallint (cm_localVariables (mem oh) m)
            + object_to_smallint (cm_registerCount (mem oh) m)));
          oh = put_words oh (i_stack oh) (nat (4 + framePointer)) args
      in write_frame oh framePointer sp resultStackPointer closure (c_nil oh))"

definition entered :: "object_heap \<Rightarrow> addr \<Rightarrow> oop list \<Rightarrow> word_t \<Rightarrow> object_heap" where
  "entered oh closure args resultStackPointer =
     (let m = cm_method (mem oh) closure; framePointer = i_stackPointer oh + FUNCTION_FRAME_SIZE;
          oh = framed oh closure args resultStackPointer;
          oh = set_lexicalContext (set_closure (set_method (set_framePointer oh framePointer) m) closure) (c_nil oh);
          oh = set_codePointer (set_codeSize oh (payload_words (mem oh) (cm_code (mem oh) m))) 0
      in oh\<lparr>mem := fill_words_with (mem oh) (i_stack oh) (nat (4 + framePointer) + length args)
           (nat (object_to_smallint (cm_localVariables (mem oh) m) - int (length args))) (c_nil oh)\<rparr>)"

text \<open>The common path: what has to hold of the method and of the stack.\<close>

definition plain_call :: "object_heap \<Rightarrow> addr \<Rightarrow> oop list \<Rightarrow> bool" where
  "plain_call oh closure args \<longleftrightarrow>
     (let m = cm_method (mem oh) closure in
      (traitsWindow (mem oh) closure = c_compiled_method_window oh \<or> traitsWindow (mem oh) closure = c_closure_method_window oh) \<and>
      object_to_smallint (cm_inputVariables (mem oh) m) = int (length args) \<and> length args \<le> MAX_ARITY \<and>
      cm_heapAllocate (mem oh) m \<noteq> c_true_object oh \<and> cm_restVariable (mem oh) m \<noteq> c_true_object oh \<and>
      \<not> automaticallyInline oh \<and> cm_nextInlineAtCallCount (mem oh) m = c_nil oh \<and> \<not> currentlyProfiling (profiler oh) \<and>
      0 \<le> i_stackPointer oh \<and> i_stackPointer oh + (FUNCTION_FRAME_SIZE + object_to_smallint (cm_localVariables (mem oh) m)
        + object_to_smallint (cm_registerCount (mem oh) m)) \<le> i_stackSize oh \<and>
      distinct [m, c_interpreter oh, i_stack oh] \<and> m \<noteq> c_nil oh \<and> m \<noteq> 0 \<and> c_nil oh \<noteq> 0 \<and>
      (\<forall>x\<in>{m, c_nil oh}. \<not> object_is_smallint x \<and> object_hash (mem oh) x < ID_HASH_RESERVED \<and> object_pin_count (mem oh) x + 1 < PINNED_MASK) \<and>
      (\<forall>x\<in>set (closure # args). good oh x) \<and>
      object_hash (mem oh) (i_stack oh) < ID_HASH_RESERVED \<and> object_hash (mem oh) (c_interpreter oh) < ID_HASH_RESERVED \<and>
      object_type (mem oh) (cm_code (mem oh) m) \<noteq> TYPE_OBJECT \<and>
      cm_code (mem oh) m \<noteq> m \<and> cm_code (mem oh) m \<noteq> i_stack oh \<and> cm_code (mem oh) m \<noteq> c_interpreter oh)"

lemma set_i_fields [simp]:
  "c_interpreter (set_i oh k v) = c_interpreter oh" "c_nil (set_i oh k v) = c_nil oh" "c_true_object (set_i oh k v) = c_true_object oh"
  "automaticallyInline (set_i oh k v) = automaticallyInline oh" "profiler (set_i oh k v) = profiler oh"
  "rd (mem (set_i oh k v)) p j = (if p = c_interpreter oh \<and> j = k then v else rd (mem oh) p j)"
  by (simp_all add: set_i_def upd_def)

lemma set_stack_at_fields [simp]:
  "c_interpreter (set_stack_at oh k v) = c_interpreter oh" "c_nil (set_stack_at oh k v) = c_nil oh"
  "c_true_object (set_stack_at oh k v) = c_true_object oh"
  "automaticallyInline (set_stack_at oh k v) = automaticallyInline oh" "profiler (set_stack_at oh k v) = profiler oh"
  "rd (mem (set_stack_at oh k v)) p j = (if p = i_stack oh \<and> j = nat (4 + k) then v else rd (mem oh) p j)"
  by (simp_all add: set_stack_at_def upd_def)

lemma put_words_fields [simp]:
  "c_interpreter (put_words oh p k ws) = c_interpreter oh" "c_nil (put_words oh p k ws) = c_nil oh"
  "c_true_object (put_words oh p k ws) = c_true_object oh"
  "automaticallyInline (put_words oh p k ws) = automaticallyInline oh" "profiler (put_words oh p k ws) = profiler oh"
  by (simp_all add: put_words_def)

lemma optimize_callee_idle:
  assumes "\<not> automaticallyInline oh" "cm_nextInlineAtCallCount (mem oh) m = c_nil oh"
  shows "optimize_callee oh m = Some oh"
  using assms by (simp add: optimize_callee_def)

lemma stack_allocate_room:
  assumes "i_stackPointer oh + n \<le> i_stackSize oh"
  shows "interpreter_stack_allocate oh n = Some (set_stackPointer oh (i_stackPointer oh + n))"
  using assms by (simp add: interpreter_stack_allocate_def)

lemma allocate_frame_plain:
  assumes "cm_heapAllocate (mem oh) m \<noteq> c_true_object oh" "c_interpreter oh \<noteq> i_stack oh"
    and "i_stackPointer oh + (FUNCTION_FRAME_SIZE + object_to_smallint (cm_localVariables (mem oh) m)
      + object_to_smallint (cm_registerCount (mem oh) m)) \<le> i_stackSize oh"
    and "object_hash (mem oh) (c_nil oh) < ID_HASH_RESERVED" "object_pin_count (mem oh) (c_nil oh) + 1 < PINNED_MASK"
    and "\<forall>x\<in>set args. good oh x" "object_hash (mem oh) (i_stack oh) < ID_HASH_RESERVED"
    and "m \<noteq> c_interpreter oh"
  shows "\<exists>oh'. allocate_frame oh m args = Some (i_stack oh, nat (4 + (i_stackPointer oh + FUNCTION_FRAME_SIZE)), c_nil oh, oh') \<and>
    same_words (set_stackPointer oh (i_stackPointer oh + (FUNCTION_FRAME_SIZE + object_to_smallint (cm_localVariables (mem oh) m)
      + object_to_smallint (cm_registerCount (mem oh) m)))) oh'"
proof -
  let ?n = "FUNCTION_FRAME_SIZE + object_to_smallint (cm_localVariables (mem oh) m) + object_to_smallint (cm_registerCount (mem oh) m)"
  from pinned_assign_new [of "c_nil oh" oh] assms(4,5) obtain s where s: "pinned_assign oh 0 (c_nil oh) = Some s" "same_words oh s"
    by blast
  note i = same_words_i [OF s(2)]
  let ?s = "set_stackPointer s (i_stackPointer oh + ?n)"
  have m: "cm_localVariables (mem s) m = cm_localVariables (mem oh) m" "cm_registerCount (mem s) m = cm_registerCount (mem oh) m"
    using s(2) by (simp_all add: same_words_def cm_localVariables_def cm_registerCount_def)
  have alloc: "interpreter_stack_allocate s ?n = Some ?s" using stack_allocate_room [of s ?n] assms(3) i by simp
  have w: "same_words (set_stackPointer oh (i_stackPointer oh + ?n)) ?s" by (intro same_words_set_i s(2)) simp
  have st: "i_stack ?s = i_stack oh" using i(1) by (simp add: i_stack_def)
  have "good ?s x = good oh x" "object_hash (mem ?s) p = object_hash (mem oh) p" for x p
    using same_words_good [OF w] by (auto simp: good_def object_hash_def)
  with stores_ok [of args ?s] assms(6,7) st obtain t where
    t: "fold_opt (\<lambda>oh a. heap_store_into oh (i_stack oh) a) args ?s = Some t" "same_words ?s t" by auto
  have "i_stack t = i_stack oh" using same_words_i(1) [OF t(2)] st by simp
  with assms(1) s(1) m alloc t(1)
  have "allocate_frame oh m args = Some (i_stack oh, nat (4 + (i_stackPointer oh + FUNCTION_FRAME_SIZE)), c_nil oh, t)"
    by (simp add: allocate_frame_def Let_def)
  with same_words_trans [OF w t(2)] show ?thesis by blast
qed

lemma upd_consts [simp]:
  "c_true_object (upd oh p k v) = c_true_object oh" "automaticallyInline (upd oh p k v) = automaticallyInline oh"
  by (simp_all add: upd_def)

lemma write_frame_fields [simp]:
  "c_interpreter (write_frame oh fp sp rsp closure context) = c_interpreter oh"
  "c_nil (write_frame oh fp sp rsp closure context) = c_nil oh"
  "profiler (write_frame oh fp sp rsp closure context) = profiler oh"
  "c_true_object (write_frame oh fp sp rsp closure context) = c_true_object oh"
  by (simp_all add: write_frame_def Let_def)

text \<open>A frame is written on the stack only.\<close>

lemma rd_write_frame_other:
  "c_interpreter oh \<noteq> i_stack oh \<Longrightarrow> p \<noteq> i_stack oh \<Longrightarrow> rd (mem (write_frame oh fp sp rsp closure context)) p k = rd (mem oh) p k"
  by (simp add: write_frame_def Let_def i_defs)

lemma kinds_write_frame:
  "FUNCTION_FRAME_SIZE \<le> fp \<Longrightarrow> kinds (write_frame oh fp sp rsp closure context) = kinds oh"
  unfolding write_frame_def Let_def set_stack_at_def frame_consts by (simp add: kinds_upd)

text \<open>The three stores into the interpreter, as one step.\<close>

lemma interpreter_stores:
  assumes "\<forall>x\<in>{a, b, c}. good oh x" "object_hash (mem oh) (c_interpreter oh) < ID_HASH_RESERVED"
  shows "\<exists>x y z. heap_store_into oh (c_interpreter oh) a = Some x \<and> heap_store_into x (c_interpreter x) b = Some y \<and>
    heap_store_into y (c_interpreter y) c = Some z \<and> same_words oh x \<and> same_words oh y \<and> same_words oh z"
proof -
  from store_ok [of oh a "c_interpreter oh"] assms obtain x where x: "heap_store_into oh (c_interpreter oh) a = Some x" "same_words oh x" by blast
  note gx = same_words_good [OF x(2)]
  have cx: "c_interpreter x = c_interpreter oh" using x(2) by (simp add: same_words_def)
  from store_ok [of x b "c_interpreter x"] assms gx cx obtain y where y: "heap_store_into x (c_interpreter x) b = Some y" "same_words x y" by auto
  note gy = same_words_good [OF y(2)]
  have cy: "c_interpreter y = c_interpreter oh" using y(2) cx by (simp add: same_words_def)
  from store_ok [of y c "c_interpreter y"] assms gx gy cy obtain z where "heap_store_into y (c_interpreter y) c = Some z" "same_words y z" by auto
  with x y same_words_trans show ?thesis by blast
qed

text \<open>The two halves of entering a method.\<close>

lemma same_words_rd: "same_words oh oh' \<Longrightarrow> k \<noteq> 0 \<Longrightarrow> rd (mem oh') p k = rd (mem oh) p k"
  by (simp add: same_words_def)

lemma same_words_consts:
  assumes "same_words oh oh'"
  shows "c_interpreter oh' = c_interpreter oh" "c_nil oh' = c_nil oh" "c_true_object oh' = c_true_object oh"
    "automaticallyInline oh' = automaticallyInline oh" "profiler oh' = profiler oh"
  using assms by (simp_all add: same_words_def)

lemma same_words_cm:
  assumes "same_words oh oh'"
  shows "cm_method (mem oh') m = cm_method (mem oh) m" "cm_inputVariables (mem oh') m = cm_inputVariables (mem oh) m"
    "cm_localVariables (mem oh') m = cm_localVariables (mem oh) m" "cm_registerCount (mem oh') m = cm_registerCount (mem oh) m"
    "cm_heapAllocate (mem oh') m = cm_heapAllocate (mem oh) m" "cm_restVariable (mem oh') m = cm_restVariable (mem oh) m"
    "cm_code (mem oh') m = cm_code (mem oh) m" "cm_callCount (mem oh') m = cm_callCount (mem oh) m"
    "cm_nextInlineAtCallCount (mem oh') m = cm_nextInlineAtCallCount (mem oh) m"
  using assms by (simp_all add: same_words_def cm_method_def cm_inputVariables_def cm_localVariables_def cm_registerCount_def
      cm_heapAllocate_def cm_restVariable_def cm_code_def cm_callCount_def cm_nextInlineAtCallCount_def)

lemma plain_prefix:
  assumes "plain_call oh closure args" and "m = cm_method (mem oh) closure"
  obtains s t where "pinned_assign oh 0 m = Some s" "same_words oh s"
    and "optimize_callee (upd s m 19 v) m = Some (upd s m 19 v)"
    and "allocate_frame (upd s m 19 v) m args = Some (i_stack oh, nat (4 + (i_stackPointer oh + FUNCTION_FRAME_SIZE)), c_nil oh, t)"
    and "same_words (set_stackPointer (upd oh m 19 v) (i_stackPointer oh + (FUNCTION_FRAME_SIZE
      + object_to_smallint (cm_localVariables (mem oh) m) + object_to_smallint (cm_registerCount (mem oh) m)))) t"
proof -
  note p = assms(1) [unfolded plain_call_def Let_def, folded assms(2)]
  from p pinned_assign_new [of m oh] obtain s where s: "pinned_assign oh 0 m = Some s" "same_words oh s"
    and h: "\<forall>p. p \<noteq> m \<longrightarrow> rd (mem s) p 0 = rd (mem oh) p 0" by auto
  let ?s = "upd s m 19 v" and ?o = "upd oh m 19 v"
  have w: "same_words ?o ?s" using s(2) by (rule same_words_upd) simp
  note c = same_words_consts [OF s(2)] same_words_cm [OF s(2)] same_words_i [OF s(2)] same_words_good [OF s(2)]
  have i: "i_stack ?s = i_stack oh" "i_stackPointer ?s = i_stackPointer oh" "i_stackSize ?s = i_stackSize oh"
    using p c by (simp_all add: i_defs)
  have opt: "optimize_callee ?s m = Some ?s"
    using p c by (intro optimize_callee_idle) (simp_all add: cm_nextInlineAtCallCount_def)
  have "\<exists>t. allocate_frame ?s m args = Some (i_stack ?s, nat (4 + (i_stackPointer ?s + FUNCTION_FRAME_SIZE)), c_nil ?s, t) \<and>
    same_words (set_stackPointer ?s (i_stackPointer ?s + (FUNCTION_FRAME_SIZE + object_to_smallint (cm_localVariables (mem ?s) m)
      + object_to_smallint (cm_registerCount (mem ?s) m)))) t"
    using p c i h
    by (intro allocate_frame_plain)
      (auto simp: good_def object_hash_def object_pin_count_def cm_localVariables_def cm_registerCount_def cm_heapAllocate_def)
  then obtain t where t: "allocate_frame ?s m args = Some (i_stack ?s, nat (4 + (i_stackPointer ?s + FUNCTION_FRAME_SIZE)), c_nil ?s, t)"
    "same_words (set_stackPointer ?s (i_stackPointer ?s + (FUNCTION_FRAME_SIZE + object_to_smallint (cm_localVariables (mem ?s) m)
      + object_to_smallint (cm_registerCount (mem ?s) m)))) t" by blast
  from same_words_trans [OF same_words_set_i [OF w, of 12] t(2)] have
    "same_words (set_stackPointer ?o (i_stackPointer oh + (FUNCTION_FRAME_SIZE + object_to_smallint (cm_localVariables (mem oh) m)
      + object_to_smallint (cm_registerCount (mem oh) m)))) t"
    using i c by (simp add: cm_localVariables_def cm_registerCount_def)
  with that [OF s opt] t(1) i c show thesis by simp
qed

lemma kinds_set_i: "k \<noteq> 0 \<Longrightarrow> kinds (set_i oh k v) = kinds oh"
  by (simp add: set_i_def kinds_upd)

lemma kinds_framed: "0 \<le> i_stackPointer oh \<Longrightarrow> kinds (framed oh closure args rsp) = kinds oh"
  by (simp add: framed_def Let_def kinds_write_frame kinds_put_words kinds_set_i kinds_upd FUNCTION_FRAME_SIZE_def)

lemma framed_consts [simp]:
  "c_interpreter (framed oh closure args rsp) = c_interpreter oh" "c_nil (framed oh closure args rsp) = c_nil oh"
  "profiler (framed oh closure args rsp) = profiler oh" "c_true_object (framed oh closure args rsp) = c_true_object oh"
  by (simp_all add: framed_def Let_def)

lemma kinds_eqs:
  assumes "kinds oh' = kinds oh"
  shows "good oh' v = good oh v" "object_hash (mem oh') p = object_hash (mem oh) p" "object_type (mem oh') p = object_type (mem oh) p"
  using assms by (auto simp: good_def kinds_def fun_eq_iff)

text \<open>The registers of the interpreter and the words of the method in the frame.\<close>

lemma rd_framed:
  assumes "distinct [m, c_interpreter oh, i_stack oh]" "m = cm_method (mem oh) closure" "p \<noteq> i_stack oh" "p = m \<Longrightarrow> k \<noteq> 19"
    "p = c_interpreter oh \<Longrightarrow> k \<noteq> 12"
  shows "rd (mem (framed oh closure args rsp)) p k = rd (mem oh) p k"
proof -
  let ?o = "\<lambda>v sp. set_stackPointer (upd oh m 19 v) sp"
  have "i_stack (?o v sp) = i_stack oh" "i_stack (put_words (?o v sp) (i_stack (?o v sp)) k ws) = i_stack oh" for v sp k ws
    using assms(1) by (auto simp: i_stack_def)
  then show ?thesis using assms unfolding framed_def Let_def
    by (subst rd_write_frame_other) (auto simp: upd_def)
qed

lemma plain_stores:
  assumes "plain_call oh closure args" "m = cm_method (mem oh) closure" "same_words (framed oh closure args rsp) t"
  obtains a b where "heap_store_into t (i_stack t) closure = Some a" "heap_store_into a (i_stack a) (c_nil oh) = Some b"
    "same_words (framed oh closure args rsp) b" "enter_profiled env b (i_closure b) closure True = Some b"
proof -
  note p = assms(1) [unfolded plain_call_def Let_def, folded assms(2)]
  have k: "kinds (framed oh closure args rsp) = kinds oh" using p by (simp add: kinds_framed)
  note kt = kinds_eqs [OF k] same_words_good [OF assms(3)]
  have st: "i_stack (framed oh closure args rsp) = i_stack oh" using p assms(2)
    by (simp add: i_stack_def rd_framed [of m])
  have good: "good oh closure" "good oh (c_nil oh)" "object_hash (mem oh) (i_stack oh) < ID_HASH_RESERVED"
    using p by (auto simp: good_def)
  note it = same_words_i(1) [OF assms(3)]
  from store_ok [of t closure "i_stack t"] good kt st it obtain a where
    a: "heap_store_into t (i_stack t) closure = Some a" "same_words t a" by auto
  note ka = same_words_good [OF a(2)] and ia = same_words_i(1) [OF a(2)]
  from store_ok [of a "c_nil oh" "i_stack a"] good kt ka st it ia obtain b where
    b: "heap_store_into a (i_stack a) (c_nil oh) = Some b" "same_words a b" by auto
  from same_words_trans [OF same_words_trans [OF assms(3) a(2)] b(2)] have w: "same_words (framed oh closure args rsp) b" .
  have "enter_profiled env b (i_closure b) closure True = Some b"
    using p same_words_consts(5) [OF w] by (simp add: enter_profiled_def)
  with that [OF a(1) b(1) w] show thesis .
qed

lemma framed_alt:
  assumes "distinct [m, c_interpreter oh, i_stack oh]" "m = cm_method (mem oh) closure"
  shows "framed oh closure args rsp = write_frame (put_words (set_stackPointer
      (upd oh m 19 (smallint_to_object (object_to_smallint (cm_callCount (mem oh) m) + 1)))
      (i_stackPointer oh + (FUNCTION_FRAME_SIZE + object_to_smallint (cm_localVariables (mem oh) m)
        + object_to_smallint (cm_registerCount (mem oh) m)))) (i_stack oh) (nat (4 + (i_stackPointer oh + FUNCTION_FRAME_SIZE))) args)
      (i_stackPointer oh + FUNCTION_FRAME_SIZE) (i_stackPointer oh) rsp closure (c_nil oh)"
  using assms by (auto simp: framed_def Let_def i_stack_def cm_localVariables_def cm_registerCount_def)

definition registers_set :: "object_heap \<Rightarrow> addr \<Rightarrow> addr \<Rightarrow> word_t \<Rightarrow> addr \<Rightarrow> object_heap" where
  "registers_set oh m closure framePointer context =
     set_lexicalContext (set_closure (set_method (set_framePointer oh framePointer) m) closure) context"

lemma same_words_registers_set: "same_words a b \<Longrightarrow> same_words (registers_set a m closure fp c) (registers_set b m closure fp c)"
  unfolding registers_set_def by (intro same_words_set_i) simp_all

lemma kinds_registers_set: "kinds (registers_set oh m closure fp c) = kinds oh"
  by (simp add: registers_set_def kinds_set_i)

lemma same_words_payload: "same_words a b \<Longrightarrow> payload_words (mem b) x = payload_words (mem a) x"
  by (simp add: same_words_def payload_words_def payload_size_def)

lemma rd_registers_set: "p \<noteq> c_interpreter oh \<Longrightarrow> rd (mem (registers_set oh m closure fp c)) p k = rd (mem oh) p k"
  by (simp add: registers_set_def)

lemma registers_set_consts [simp]:
  "c_interpreter (registers_set oh m closure fp c) = c_interpreter oh" "c_nil (registers_set oh m closure fp c) = c_nil oh"
  "i_stack (registers_set oh m closure fp c) = i_stack oh" "c_true_object (registers_set oh m closure fp c) = c_true_object oh"
  by (simp_all add: registers_set_def i_stack_def)

text \<open>The end of entering a method: the size of the code, the other variables, no rest arguments.\<close>

definition code_started :: "object_heap \<Rightarrow> addr \<Rightarrow> addr \<Rightarrow> nat \<Rightarrow> nat \<Rightarrow> object_heap" where
  "code_started oh m base vars n =
     (let oh = set_codePointer (set_codeSize oh (payload_words (mem oh) (cm_code (mem oh) m))) 0
      in oh\<lparr>mem := fill_words_with (mem oh) base (vars + n) (nat (object_to_smallint (cm_localVariables (mem oh) m) - int n)) (c_nil oh)\<rparr>)"

lemma same_words_code_started:
  assumes "same_words a b" "m \<noteq> c_interpreter a" "0 < vars"
  shows "same_words (code_started a m base vars n) (code_started b m base vars n)"
proof -
  note c = same_words_consts [OF assms(1)] same_words_cm [OF assms(1)] same_words_payload [OF assms(1)]
  let ?f = "\<lambda>x. set_codePointer (set_codeSize x (payload_words (mem a) (cm_code (mem a) m))) 0"
  have "same_words (?f a) (?f b)" by (intro same_words_set_i assms(1)) simp_all
  from same_words_fill [OF this, of "vars + n"] assms c show ?thesis
    by (simp add: code_started_def Let_def cm_localVariables_def)
qed

lemma rest_and_optionals_none:
  assumes "cm_restVariable (mem oh) m \<noteq> c_true_object oh" "int (length args) = inputs"
  shows "store_rest_arguments oh m args inputs base vars context = Some oh" "interpreter_dispatch_optionals [] oh = Some oh"
  using assms by (simp_all add: store_rest_arguments_def)

lemma entered_alt:
  assumes "distinct [m, c_interpreter oh, i_stack oh]" "m = cm_method (mem oh) closure"
  shows "entered oh closure args rsp = code_started (registers_set (framed oh closure args rsp) m closure
    (i_stackPointer oh + FUNCTION_FRAME_SIZE) (c_nil oh)) m (i_stack oh) (nat (4 + (i_stackPointer oh + FUNCTION_FRAME_SIZE))) (length args)"
  using assms by (simp add: entered_def code_started_def registers_set_def Let_def i_stack_def rd_framed [of m])

text \<open>Entering a method on the common path returns, in the state \<open>entered\<close> up to pins and the remembered set.\<close>

lemma enter_plain:
  assumes "plain_call oh closure args"
  shows "\<exists>oh'. enter_method env oh closure args [] rsp = Some (Applied oh') \<and> same_words (entered oh closure args rsp) oh'"
proof -
  define m where m: "m = cm_method (mem oh) closure"
  note p = assms [unfolded plain_call_def Let_def, folded m]
  let ?v = "smallint_to_object (object_to_smallint (cm_callCount (mem oh) m) + 1)"
  let ?fp = "i_stackPointer oh + FUNCTION_FRAME_SIZE" and ?T = "framed oh closure args rsp"
  from plain_prefix [OF assms m, of ?v] obtain s t where s: "pinned_assign oh 0 m = Some s" "same_words oh s"
    and opt: "optimize_callee (upd s m 19 ?v) m = Some (upd s m 19 ?v)"
    and fr: "allocate_frame (upd s m 19 ?v) m args = Some (i_stack oh, nat (4 + ?fp), c_nil oh, t)"
    and t: "same_words (set_stackPointer (upd oh m 19 ?v) (i_stackPointer oh + (FUNCTION_FRAME_SIZE
      + object_to_smallint (cm_localVariables (mem oh) m) + object_to_smallint (cm_registerCount (mem oh) m)))) t" .
  note cs = same_words_consts [OF s(2)] same_words_cm [OF s(2)] same_words_i [OF s(2)]
  let ?t = "write_frame (put_words t (i_stack oh) (nat (4 + ?fp)) args) ?fp (i_stackPointer oh) rsp closure (c_nil oh)"
  have d: "distinct [m, c_interpreter oh, i_stack oh]" and sp: "0 \<le> i_stackPointer oh" using p by simp_all
  have "same_words ?T ?t"
    unfolding framed_alt [OF d m] using sp by (intro same_words_write_frame same_words_put_words t) (simp_all add: FUNCTION_FRAME_SIZE_def)
  from plain_stores [OF assms m this] obtain a b where
    a: "heap_store_into ?t (i_stack ?t) closure = Some a" and b: "heap_store_into a (i_stack a) (c_nil oh) = Some b"
    and w: "same_words ?T b" and prof: "enter_profiled env b (i_closure b) closure True = Some b" .
  let ?R = "registers_set ?T m closure ?fp (c_nil oh)" and ?b = "registers_set b m closure ?fp (c_nil oh)"
  have wb: "same_words ?R ?b" using w by (rule same_words_registers_set)
  have k: "kinds ?R = kinds oh" using p by (simp add: kinds_registers_set kinds_framed)
  note kb = kinds_eqs [OF k] same_words_good [OF wb] same_words_consts [OF wb]
  have gd: "\<forall>x\<in>{c_nil oh, m, closure}. good ?b x" "object_hash (mem ?b) (c_interpreter ?b) < ID_HASH_RESERVED"
    using p kb by (auto simp: good_def)
  from interpreter_stores [OF gd] obtain x y z where x: "heap_store_into ?b (c_interpreter ?b) (c_nil oh) = Some x"
    "heap_store_into x (c_interpreter x) m = Some y" "heap_store_into y (c_interpreter y) closure = Some z" and z: "same_words ?b z" by blast
  have wz: "same_words ?R z" using wb z by (rule same_words_trans)
  let ?F = "code_started z m (i_stack oh) (nat (4 + ?fp)) (length args)"
  have F: "same_words (entered oh closure args rsp) ?F"
    unfolding entered_alt [OF d m] using d sp by (intro same_words_code_started wz) (simp_all add: FUNCTION_FRAME_SIZE_def)
  have R: "rd (mem ?R) m k = rd (mem oh) m k" if "k \<noteq> 19" for k
    using d that rd_framed [OF d m, of m k] by (simp add: rd_registers_set)
  have mz: "cm_code (mem z) m = cm_code (mem oh) m" "cm_restVariable (mem z) m = cm_restVariable (mem oh) m" "c_interpreter z = c_interpreter oh" "c_true_object z = c_true_object oh"
    using same_words_rd [OF wz] same_words_consts [OF wz] by (simp_all add: cm_code_def cm_restVariable_def R)
  have size: "object_array_size (mem z) (cm_code (mem z) m) = Some (payload_words (mem z) (cm_code (mem z) m))"
    using p same_words_good(3) [OF wz] kinds_eqs(3) [OF k] mz by (simp add: object_array_size_def)
  have window: "(traitsWindow (mem oh) closure \<noteq> c_compiled_method_window oh \<and> traitsWindow (mem oh) closure \<noteq> c_closure_method_window oh) = False"
    and inputs: "object_to_smallint (cm_inputVariables (mem oh) m) = int (length args)" and arity: "(length args \<le> MAX_ARITY) = True"
    using p by auto
  have fp: "i_stackPointer (upd s m 19 ?v) = i_stackPointer oh" using d cs by (simp add: i_stackPointer_def)
  have rest: "store_rest_arguments ?F m args (int (length args)) (i_stack oh) (nat (4 + ?fp)) (c_nil oh) = Some ?F"
    using p d mz by (intro rest_and_optionals_none) (simp_all add: code_started_def Let_def cm_restVariable_def rd_fill_words)
  have "enter_method env oh closure args [] rsp = Some (Applied (pinned_end (pinned_end ?F m) (c_nil oh)))"
    unfolding enter_method_def Let_def m [symmetric]
    by (simp only: window if_False s(1) bind.bind_lunit cs inputs arity check_simps opt fp fr prod.case a b prof
        registers_set_def [symmetric] x size less_irrefl simp_thms take_all nat_int order_refl)
      (simp only: code_started_def Let_def rest [unfolded code_started_def Let_def] rest_and_optionals_none(2) bind.bind_lunit
        interpreter_dispatch_optionals.simps)
  with F pinned_end_same_words same_words_trans show ?thesis by blast
qed

section \<open>The frame of a call\<close>

lemma stack_at_set:
  assumes "c_interpreter oh \<noteq> i_stack oh" "0 \<le> k" "0 \<le> j"
  shows "stack_at (set_stack_at oh k v) j = (if j = k then v else stack_at oh j)"
  using assms by (simp add: stack_at_def elements_def i_stack_def) (simp add: eq_nat_nat_iff)

lemma i_set_stack_at:
  assumes "c_interpreter oh \<noteq> i_stack oh"
  shows "i_stack (set_stack_at oh k v) = i_stack oh" "i_codePointer (set_stack_at oh k v) = i_codePointer oh"
    "i_framePointer (set_stack_at oh k v) = i_framePointer oh"
  using assms by (simp_all add: i_defs)

lemma stack_at_write_frame:
  assumes "c_interpreter oh \<noteq> i_stack oh" "FUNCTION_FRAME_SIZE \<le> fp" "0 \<le> j"
  shows "stack_at (write_frame oh fp sp rsp closure context) j =
    (if j = fp - 1 then smallint_to_object (i_framePointer oh) else if j = fp - 2 then context else if j = fp - 3 then closure
     else if j = fp - 4 then smallint_to_object (i_codePointer oh) else if j = fp - 5 then smallint_to_object rsp
     else if j = fp - 6 then smallint_to_object sp else stack_at oh j)"
  using assms by (simp add: write_frame_def Let_def frame_consts stack_at_set i_set_stack_at)

text \<open>What the callee finds: its registers, its frame above the words of the caller, its arguments.\<close>

definition frame_of_call :: "object_heap \<Rightarrow> addr \<Rightarrow> word_t \<Rightarrow> object_heap \<Rightarrow> bool" where
  "frame_of_call oh closure rsp oh' \<longleftrightarrow> (let sp = i_stackPointer oh in
     c_interpreter oh' = c_interpreter oh \<and> i_stack oh' = i_stack oh \<and> i_framePointer oh' = sp + FUNCTION_FRAME_SIZE \<and>
     (\<forall>k\<in>{0..<sp}. stack_at oh' k = stack_at oh k) \<and>
     stack_at oh' sp = smallint_to_object sp \<and> stack_at oh' (sp + 1) = smallint_to_object rsp \<and>
     stack_at oh' (sp + 2) = smallint_to_object (i_codePointer oh) \<and> stack_at oh' (sp + 3) = closure \<and>
     stack_at oh' (sp + 5) = smallint_to_object (i_framePointer oh))"

definition callee_started :: "object_heap \<Rightarrow> addr \<Rightarrow> oop list \<Rightarrow> object_heap \<Rightarrow> bool" where
  "callee_started oh closure args oh' \<longleftrightarrow>
     i_method oh' = cm_method (mem oh) closure \<and> i_closure oh' = closure \<and> i_lexicalContext oh' = c_nil oh \<and> i_codePointer oh' = 0 \<and>
     (\<forall>i<length args. stack_at oh' (i_stackPointer oh + FUNCTION_FRAME_SIZE + int i) = args ! i)"

lemma frame_of_call_cong: "same_words a b \<Longrightarrow> frame_of_call oh closure rsp b = frame_of_call oh closure rsp a"
  if "0 \<le> i_stackPointer oh"
  using that by (auto simp: frame_of_call_def Let_def same_words_consts same_words_i stack_at_def elements_def same_words_rd)

lemma callee_started_cong: "same_words a b \<Longrightarrow> callee_started oh closure args b = callee_started oh closure args a"
  if "0 \<le> i_stackPointer oh"
  using that by (auto simp: callee_started_def same_words_i stack_at_def elements_def same_words_rd FUNCTION_FRAME_SIZE_def)

lemma stack_at_framed:
  assumes "distinct [m, c_interpreter oh, i_stack oh]" "m = cm_method (mem oh) closure" "0 \<le> i_stackPointer oh" "0 \<le> j"
  shows "stack_at (framed oh closure args rsp) j = (let sp = i_stackPointer oh in
    if j = sp + 5 then smallint_to_object (i_framePointer oh) else if j = sp + 4 then c_nil oh else if j = sp + 3 then closure
     else if j = sp + 2 then smallint_to_object (i_codePointer oh) else if j = sp + 1 then smallint_to_object rsp
     else if j = sp then smallint_to_object sp
     else if sp + 6 \<le> j \<and> j < sp + 6 + int (length args) then args ! nat (j - sp - 6) else stack_at oh j)"
proof -
  have i: "i_stack (put_words (set_stackPointer (upd oh m 19 v) sp) (i_stack oh) k ws) = i_stack oh"
    "i_framePointer (put_words (set_stackPointer (upd oh m 19 v) sp) (i_stack oh) k ws) = i_framePointer oh"
    "i_codePointer (put_words (set_stackPointer (upd oh m 19 v) sp) (i_stack oh) k ws) = i_codePointer oh" for v sp k ws
    using assms(1) by (auto simp: i_defs)
  have "nat (4 + j) - nat (4 + (i_stackPointer oh + 6)) = nat (j - i_stackPointer oh - 6)" using assms(3,4) by arith
  then have w: "stack_at (put_words (set_stackPointer (upd oh m 19 v) sp) (i_stack oh) (nat (4 + (i_stackPointer oh + 6))) args) j =
      (if i_stackPointer oh + 6 \<le> j \<and> j < i_stackPointer oh + 6 + int (length args) then args ! nat (j - i_stackPointer oh - 6) else stack_at oh j)"
    for v sp using assms i by (auto simp: stack_at_def elements_def)
  show ?thesis unfolding framed_alt [OF assms(1,2)] Let_def
    using assms(1,3,4) by (simp add: stack_at_write_frame i w [simplified] FUNCTION_FRAME_SIZE_def)
qed

lemma i_framed:
  assumes "distinct [m, c_interpreter oh, i_stack oh]" "m = cm_method (mem oh) closure"
  shows "i_stack (framed oh closure args rsp) = i_stack oh" "i_ensureHandlers (framed oh closure args rsp) = i_ensureHandlers oh"
  using assms by (simp_all add: i_defs rd_framed [of m])

lemma i_code_started:
  assumes "c_interpreter oh \<noteq> base"
  shows "i_stack (code_started oh m base k n) = i_stack oh" "i_method (code_started oh m base k n) = i_method oh"
    "i_closure (code_started oh m base k n) = i_closure oh" "i_lexicalContext (code_started oh m base k n) = i_lexicalContext oh"
    "i_framePointer (code_started oh m base k n) = i_framePointer oh" "i_codePointer (code_started oh m base k n) = 0"
    "c_interpreter (code_started oh m base k n) = c_interpreter oh"
  using assms by (simp_all add: code_started_def Let_def i_defs rd_fill_words)

lemma stack_at_code_started:
  assumes "c_interpreter oh \<noteq> i_stack oh" "0 \<le> j" "4 + j < int (k + n)"
  shows "stack_at (code_started oh m (i_stack oh) k n) j = stack_at oh j"
proof -
  have "nat (4 + j) < k + n" using assms(2,3) by arith
  then show ?thesis using i_code_started(1) [OF assms(1)] assms(1)
    by (simp add: stack_at_def elements_def) (simp add: code_started_def Let_def rd_fill_words)
qed

lemma i_registers_set:
  "i_method (registers_set oh m closure fp c) = m" "i_closure (registers_set oh m closure fp c) = closure"
  "i_lexicalContext (registers_set oh m closure fp c) = c" "i_framePointer (registers_set oh m closure fp c) = fp"
  by (simp_all add: registers_set_def i_defs)

lemma stack_at_registers_set:
  "c_interpreter oh \<noteq> i_stack oh \<Longrightarrow> stack_at (registers_set oh m closure fp c) j = stack_at oh j"
  by (simp add: stack_at_def elements_def rd_registers_set)

lemma entered_frame:
  assumes "plain_call oh closure args"
  shows "frame_of_call oh closure rsp (entered oh closure args rsp)" "callee_started oh closure args (entered oh closure args rsp)"
proof -
  define m where m: "m = cm_method (mem oh) closure"
  note p = assms [unfolded plain_call_def Let_def, folded m]
  have d: "distinct [m, c_interpreter oh, i_stack oh]" and sp: "0 \<le> i_stackPointer oh" using p by simp_all
  let ?R = "registers_set (framed oh closure args rsp) m closure (i_stackPointer oh + FUNCTION_FRAME_SIZE) (c_nil oh)"
  have ci: "c_interpreter ?R \<noteq> i_stack ?R" "i_stack ?R = i_stack oh" using d by (simp_all add: i_framed [OF d m])
  have st: "stack_at (entered oh closure args rsp) j = stack_at (framed oh closure args rsp) j"
    if "0 \<le> j" "j < i_stackPointer oh + 6 + int (length args)" for j
    using stack_at_code_started [OF ci(1) that(1)] that sp d ci
    unfolding entered_alt [OF d m] by (simp add: FUNCTION_FRAME_SIZE_def stack_at_registers_set i_framed [OF d m])
  note e = stack_at_framed [OF d m sp] Let_def
  show "frame_of_call oh closure rsp (entered oh closure args rsp)"
    using sp ci d by (simp add: frame_of_call_def e st) (simp add: entered_alt [OF d m] i_code_started i_registers_set i_framed [OF d m])
  show "callee_started oh closure args (entered oh closure args rsp)"
    using sp ci d by (simp add: callee_started_def e st FUNCTION_FRAME_SIZE_def)
      (simp add: entered_alt [OF d m] i_code_started i_registers_set i_framed [OF d m] m)
qed

section \<open>Returning\<close>

text \<open>The caller: its registers agree with its frame, the result goes to one of its own words.\<close>

definition caller_ok :: "object_heap \<Rightarrow> word_t \<Rightarrow> bool" where
  "caller_ok oh rsp \<longleftrightarrow> (let fp = i_framePointer oh; sp = i_stackPointer oh in
     FUNCTION_FRAME_SIZE \<le> fp \<and> fp \<le> rsp \<and> rsp < sp \<and>
     small_range sp \<and> small_range rsp \<and> small_range (i_codePointer oh) \<and> small_range fp \<and>
     stack_at oh (fp - FRAME_OFFSET_LEXICAL_CONTEXT) = i_lexicalContext oh \<and> stack_at oh (fp - FRAME_OFFSET_METHOD) = i_closure oh)"

text \<open>
  The end of the callee: its frame and the words of the caller are as they were at the
  start, no ensure handler is left above the frame, the method of the caller has not been moved or edited.
\<close>

definition ready_to_return :: "object_heap \<Rightarrow> addr \<Rightarrow> word_t \<Rightarrow> object_heap \<Rightarrow> oop \<Rightarrow> bool" where
  "ready_to_return oh closure rsp oh2 r \<longleftrightarrow>
     frame_of_call oh closure rsp oh2 \<and> object_to_smallint (i_ensureHandlers oh2) < i_framePointer oh2 \<and>
     \<not> currentlyProfiling (profiler oh2) \<and> c_interpreter oh2 \<noteq> i_stack oh2 \<and>
     i_closure oh \<notin> {c_interpreter oh2, i_stack oh2} \<and> i_method oh \<notin> {c_interpreter oh2, i_stack oh2} \<and>
     cm_method (mem oh2) (i_closure oh) = i_method oh \<and>
     (let code = cm_code (mem oh2) (i_method oh) in code \<notin> {c_interpreter oh2, i_stack oh2} \<and>
        object_type (mem oh2) code \<noteq> TYPE_OBJECT \<and> payload_words (mem oh2) code = i_codeSize oh) \<and>
     (\<forall>x\<in>{i_lexicalContext oh, i_closure oh, i_method oh, r}. good oh2 x) \<and>
     object_hash (mem oh2) (i_stack oh2) < ID_HASH_RESERVED \<and> object_hash (mem oh2) (c_interpreter oh2) < ID_HASH_RESERVED"

definition caller_resumed :: "object_heap \<Rightarrow> object_heap \<Rightarrow> word_t \<Rightarrow> oop \<Rightarrow> object_heap \<Rightarrow> bool" where
  "caller_resumed oh oh2 rsp r oh3 \<longleftrightarrow>
     i_stackPointer oh3 = i_stackPointer oh \<and> i_framePointer oh3 = i_framePointer oh \<and> i_codePointer oh3 = i_codePointer oh \<and>
     i_lexicalContext oh3 = i_lexicalContext oh \<and> i_closure oh3 = i_closure oh \<and> i_method oh3 = i_method oh \<and>
     i_codeSize oh3 = i_codeSize oh \<and> i_stack oh3 = i_stack oh \<and>
     stack_at oh3 rsp = r \<and> (\<forall>k\<ge>0. k \<noteq> rsp \<longrightarrow> stack_at oh3 k = stack_at oh2 k)"

text \<open>The state of the caller, written out.\<close>

definition resumed :: "object_heap \<Rightarrow> object_heap \<Rightarrow> word_t \<Rightarrow> oop \<Rightarrow> object_heap" where
  "resumed oh oh2 rsp r = set_closure (set_lexicalContext (set_codePointer (set_framePointer (set_stackPointer
     (set_stack_at oh2 rsp r) (i_stackPointer oh)) (i_framePointer oh)) (i_codePointer oh)) (i_lexicalContext oh)) (i_closure oh)"

lemma kinds_set_stack_at: "0 \<le> k \<Longrightarrow> kinds (set_stack_at oh k v) = kinds oh"
  by (simp add: set_stack_at_def kinds_upd)

lemma kinds_resumed: "0 \<le> rsp \<Longrightarrow> kinds (resumed oh oh2 rsp r) = kinds oh2"
  by (simp add: resumed_def kinds_set_i kinds_set_stack_at)

lemma rd_resumed:
  "c_interpreter oh2 \<noteq> i_stack oh2 \<Longrightarrow> p \<notin> {c_interpreter oh2, i_stack oh2} \<Longrightarrow> rd (mem (resumed oh oh2 rsp r)) p k = rd (mem oh2) p k"
  by (simp add: resumed_def)

lemma resumed_consts [simp]: "c_interpreter (resumed oh oh2 rsp r) = c_interpreter oh2"
  by (simp add: resumed_def)

lemma stack_at_same_words: "same_words a b \<Longrightarrow> 0 \<le> k \<Longrightarrow> stack_at b k = stack_at a k"
  by (simp add: stack_at_def elements_def same_words_i same_words_rd)

lemma stack_at_set_i: "c_interpreter oh \<noteq> i_stack oh \<Longrightarrow> j \<noteq> 4 \<Longrightarrow> stack_at (set_i oh j v) k = stack_at oh k"
  by (simp add: stack_at_def elements_def i_stack_def)

lemma i_stack_set_i: "j \<noteq> 4 \<Longrightarrow> i_stack (set_i oh j v) = i_stack oh"
  by (simp add: i_stack_def)

lemma resumed_final:
  assumes "same_words (set_codeSize (set_method (resumed oh oh2 rsp r) (i_method oh)) (i_codeSize oh)) oh3"
    and "c_interpreter oh2 \<noteq> i_stack oh2" "i_stack oh2 = i_stack oh" "0 \<le> rsp"
  shows "caller_resumed oh oh2 rsp r oh3"
proof -
  let ?S = "set_codeSize (set_method (resumed oh oh2 rsp r) (i_method oh)) (i_codeSize oh)"
  have "stack_at ?S k = (if k = rsp then r else stack_at oh2 k)" "i_stack ?S = i_stack oh2" if "0 \<le> k" for k
    unfolding resumed_def using assms(2,4) that by (simp_all add: stack_at_set_i i_stack_set_i i_set_stack_at stack_at_set)
  with assms same_words_i [OF assms(1)] stack_at_same_words [OF assms(1)] show ?thesis
    by (simp add: caller_resumed_def) (simp add: resumed_def i_defs)
qed

text \<open>The stores and the size of the code, at the end of leaving a frame.\<close>

lemma leave_stores:
  assumes "same_words G g" "i_closure G = c" "cm_method (mem G) c = m" "i_lexicalContext G = l"
    and "\<forall>x\<in>{l, c, m}. good G x" "object_hash (mem G) (c_interpreter G) < ID_HASH_RESERVED" "c \<noteq> c_interpreter G" "m \<noteq> c_interpreter G"
    and "object_type (mem G) (cm_code (mem G) m) \<noteq> TYPE_OBJECT" "payload_words (mem G) (cm_code (mem G) m) = n"
      "cm_code (mem G) m \<noteq> c_interpreter G"
  obtains x y z where "heap_store_into g (c_interpreter g) (i_lexicalContext g) = Some x"
    and "heap_store_into x (c_interpreter x) (i_closure x) = Some y"
    and "heap_store_into (set_method y (cm_method (mem y) (i_closure y))) (c_interpreter y) (cm_method (mem y) (i_closure y)) = Some z"
    and "i_closure (set_method y (cm_method (mem y) (i_closure y))) = i_closure y"
    and "cm_method (mem (set_method y (cm_method (mem y) (i_closure y)))) (i_closure y) = cm_method (mem y) (i_closure y)"
    and "object_array_size (mem z) (cm_code (mem z) (i_method z)) = Some n"
    and "same_words (set_codeSize (set_method G m) n) (set_codeSize z n)"
proof -
  note g = same_words_good [OF assms(1)] same_words_i [OF assms(1)] same_words_consts [OF assms(1)]
  from store_ok [of g l "c_interpreter g"] assms(4-6) g obtain x where x: "heap_store_into g (c_interpreter g) l = Some x" "same_words g x" by auto
  note Gx = same_words_trans [OF assms(1) x(2)]
  note gx = same_words_good [OF Gx] same_words_i [OF Gx] same_words_consts [OF Gx]
  from store_ok [of x c "c_interpreter x"] assms(5,6) gx obtain y where y: "heap_store_into x (c_interpreter x) c = Some y" "same_words x y" by auto
  note Gy = same_words_trans [OF Gx y(2)]
  note gy = same_words_good [OF Gy] same_words_i [OF Gy] same_words_consts [OF Gy] same_words_cm [OF Gy]
  have wy: "same_words (set_method G m) (set_method y m)" by (rule same_words_set_i [OF Gy]) simp
  note sy = kinds_eqs [OF kinds_set_i [of 5 G m]] same_words_good [OF wy] same_words_consts [OF wy]
  from store_ok [of "set_method y m" m "c_interpreter y"] assms(5,6) gy sy obtain z where
    z: "heap_store_into (set_method y m) (c_interpreter y) m = Some z" "same_words (set_method y m) z" by auto
  note Gz = same_words_trans [OF wy z(2)]
  note sz = same_words_good [OF Gz] same_words_i [OF Gz] same_words_cm [OF Gz] same_words_payload [OF Gz]
  have "i_method (set_method G m) = m" "cm_code (mem (set_method G m)) m = cm_code (mem G) m"
    "payload_words (mem (set_method G m)) (cm_code (mem G) m) = n"
    using assms(8,10,11) by (simp_all add: i_method_def cm_code_def payload_words_def payload_size_def)
  then have "object_array_size (mem z) (cm_code (mem z) (i_method z)) = Some n"
    using sz kinds_eqs(3) [OF kinds_set_i [of 5 G m]] assms(9) by (simp add: object_array_size_def)
  moreover have "same_words (set_codeSize (set_method G m) n) (set_codeSize z n)" by (rule same_words_set_i [OF Gz]) simp
  moreover have "i_closure (set_method y m) = c" "cm_method (mem (set_method y m)) c = m"
    using gy assms(2,3,7) by (simp_all add: i_closure_def cm_method_def)
  ultimately show thesis using that [of x y z] x y z assms(2-4) g gx gy by simp
qed

text \<open>The registers that leaving a frame reads off the stack.\<close>

lemma leave_reads:
  assumes "frame_of_call oh closure rsp oh2" "caller_ok oh rsp" "0 \<le> i_stackPointer oh" "c_interpreter b \<noteq> i_stack b"
    and rd: "\<And>k. 0 \<le> k \<Longrightarrow> stack_at b k = (if k = rsp then r else stack_at oh2 k)"
  defines "sp \<equiv> i_stackPointer oh" and "fp \<equiv> i_framePointer oh" and "cp \<equiv> i_codePointer oh" and "l \<equiv> i_lexicalContext oh"
  defines "c \<equiv> set_stackPointer b sp" and "d \<equiv> set_framePointer (set_stackPointer b sp) fp"
  defines "e \<equiv> set_codePointer (set_framePointer (set_stackPointer b sp) fp) cp"
  defines "f \<equiv> set_lexicalContext (set_codePointer (set_framePointer (set_stackPointer b sp) fp) cp) l"
  shows "object_to_smallint (stack_at b (sp + FUNCTION_FRAME_SIZE - FRAME_OFFSET_BEFORE_CALL_STACK_POINTER)) = sp"
    "object_to_smallint (stack_at c (sp + FUNCTION_FRAME_SIZE - FRAME_OFFSET_PREVIOUS_FRAME_POINTER)) = fp"
    "i_framePointer d = fp" "object_to_smallint (stack_at d (sp + FUNCTION_FRAME_SIZE - FRAME_OFFSET_CODE_POINTER)) = cp"
    "stack_at e (i_framePointer e - FRAME_OFFSET_LEXICAL_CONTEXT) = l" "stack_at f (i_framePointer f - FRAME_OFFSET_METHOD) = i_closure oh"
    "(fp < FUNCTION_FRAME_SIZE) = False"
proof -
  note fr = assms(1) [unfolded frame_of_call_def Let_def] and co = assms(2) [unfolded caller_ok_def Let_def]
  have st: "stack_at c k = stack_at b k" "stack_at d k = stack_at b k" "stack_at e k = stack_at b k" "stack_at f k = stack_at b k" for k
    using assms(4) unfolding c_def d_def e_def f_def by (simp_all add: stack_at_set_i i_stack_set_i)
  have fp: "i_framePointer d = fp" "i_framePointer e = fp" "i_framePointer f = fp"
    unfolding d_def e_def f_def by (simp_all add: i_framePointer_def)
  show "i_framePointer d = fp" by (rule fp(1))
  show "object_to_smallint (stack_at b (sp + FUNCTION_FRAME_SIZE - FRAME_OFFSET_BEFORE_CALL_STACK_POINTER)) = sp"
    "object_to_smallint (stack_at c (sp + FUNCTION_FRAME_SIZE - FRAME_OFFSET_PREVIOUS_FRAME_POINTER)) = fp"
    "object_to_smallint (stack_at d (sp + FUNCTION_FRAME_SIZE - FRAME_OFFSET_CODE_POINTER)) = cp"
    "stack_at e (i_framePointer e - FRAME_OFFSET_LEXICAL_CONTEXT) = l" "stack_at f (i_framePointer f - FRAME_OFFSET_METHOD) = i_closure oh"
    "(fp < FUNCTION_FRAME_SIZE) = False"
    using fr co assms(3) unfolding st fp sp_def fp_def cp_def l_def by (simp_all add: frame_consts rd tag_untag add.commute)
qed

lemma return_plain:
  assumes "caller_ok oh rsp" "ready_to_return oh closure rsp oh2 r" "0 \<le> i_stackPointer oh"
  shows "\<exists>oh3. interpreter_return_result env oh2 0 (Some r) prev = Some (False, oh3) \<and> caller_resumed oh oh2 rsp r oh3"
proof -
  note co = assms(1) [unfolded caller_ok_def Let_def]
  note re = assms(2) [unfolded ready_to_return_def Let_def]
  let ?sp = "i_stackPointer oh" and ?fp = "i_framePointer oh" and ?G = "resumed oh oh2 rsp r"
  have fr: "frame_of_call oh closure rsp oh2" using re by simp
  note f = fr [unfolded frame_of_call_def Let_def]
  have rsp: "0 \<le> rsp" "rsp < ?sp" "rsp \<noteq> ?fp - 2" "rsp \<noteq> ?fp - 3" using co by (auto simp: FUNCTION_FRAME_SIZE_def)
  have ci: "c_interpreter oh2 \<noteq> i_stack oh2" using re by simp
  let ?a = "set_stack_at oh2 rsp r"
  have ka: "good ?a x = good oh2 x" "object_hash (mem ?a) x = object_hash (mem oh2) x" for x
    using kinds_eqs [OF kinds_set_stack_at [OF rsp(1)]] by simp_all
  have ia: "i_stack ?a = i_stack oh2" using ci by (simp add: i_set_stack_at)
  from store_ok [of ?a r "i_stack ?a"] re ka ia obtain b where b: "heap_store_into ?a (i_stack ?a) r = Some b" "same_words ?a b" by auto
  have rd: "stack_at b k = (if k = rsp then r else stack_at oh2 k)" if "0 \<le> k" for k
    using stack_at_same_words [OF b(2) that] stack_at_set [OF ci rsp(1) that] by simp
  have cib: "c_interpreter b \<noteq> i_stack b" using ci ia same_words_consts [OF b(2)] same_words_i [OF b(2)] by simp
  note reads = leave_reads [OF fr assms(1,3) cib rd]
  let ?d = "set_framePointer (set_stackPointer b ?sp) ?fp"
  let ?g = "set_closure (set_lexicalContext (set_codePointer ?d (i_codePointer oh)) (i_lexicalContext oh)) (i_closure oh)"
  have G: "same_words ?G ?g" unfolding resumed_def by (intro same_words_set_i b(2)) simp_all
  note kG = kinds_eqs [OF kinds_resumed [OF rsp(1), of oh oh2 r]] rd_resumed [OF ci]
  have prof: "enter_profiled env ?d p q False = Some ?d" for p q
    using re same_words_consts(5) [OF b(2)] by (simp add: enter_profiled_def)
  have wG: "i_closure ?G = i_closure oh" "i_lexicalContext ?G = i_lexicalContext oh" by (simp_all add: resumed_def i_defs)
  have mG: "cm_method (mem ?G) (i_closure oh) = i_method oh" "cm_code (mem ?G) (i_method oh) = cm_code (mem oh2) (i_method oh)"
    "payload_words (mem ?G) (cm_code (mem oh2) (i_method oh)) = i_codeSize oh"
    using re kG(4) by (simp_all add: cm_method_def cm_code_def payload_words_def payload_size_def)
  have gG: "\<forall>x\<in>{i_lexicalContext oh, i_closure oh, i_method oh}. good ?G x" "object_hash (mem ?G) (c_interpreter ?G) < ID_HASH_RESERVED"
    "i_closure oh \<noteq> c_interpreter ?G" "i_method oh \<noteq> c_interpreter ?G" "object_type (mem ?G) (cm_code (mem ?G) (i_method oh)) \<noteq> TYPE_OBJECT"
    "payload_words (mem ?G) (cm_code (mem ?G) (i_method oh)) = i_codeSize oh" "cm_code (mem ?G) (i_method oh) \<noteq> c_interpreter ?G"
    using re mG kG(1-3) by auto
  from leave_stores [OF G wG(1) mG(1) wG(2) gG] obtain x y z where
    xyz: "heap_store_into ?g (c_interpreter ?g) (i_lexicalContext ?g) = Some x" "heap_store_into x (c_interpreter x) (i_closure x) = Some y"
      "heap_store_into (set_method y (cm_method (mem y) (i_closure y))) (c_interpreter y) (cm_method (mem y) (i_closure y)) = Some z"
      "i_closure (set_method y (cm_method (mem y) (i_closure y))) = i_closure y"
      "cm_method (mem (set_method y (cm_method (mem y) (i_closure y)))) (i_closure y) = cm_method (mem y) (i_closure y)"
    and size: "object_array_size (mem z) (cm_code (mem z) (i_method z)) = Some (i_codeSize oh)"
    and w: "same_words (set_codeSize (set_method ?G (i_method oh)) (i_codeSize oh)) (set_codeSize z (i_codeSize oh))" .
  have res: "object_to_smallint (stack_at oh2 (i_framePointer oh2 - FRAME_OFFSET_RESULT_STACK_POINTER)) = rsp"
    and fp2: "i_framePointer oh2 = ?sp + FUNCTION_FRAME_SIZE"
    using f co by (simp_all add: frame_consts tag_untag add.commute)
  have leave: "leave_frame env b (?sp + FUNCTION_FRAME_SIZE) = Some (False, set_codeSize z (i_codeSize oh))"
    unfolding leave_frame_def Let_def
    by (simp only: reads if_False bind.bind_lunit prof xyz [unfolded set_i_fields(1)] size set_i_fields(1))
  have "\<not> ?sp + FUNCTION_FRAME_SIZE \<le> object_to_smallint (i_ensureHandlers b)"
    using re f ci same_words_i(5) [OF b(2)] by (simp add: i_ensureHandlers_def)
  with b(1) res fp2 leave have "interpreter_return_result env oh2 0 (Some r) prev = Some (False, set_codeSize z (i_codeSize oh))"
    by (simp add: interpreter_return_result_def Let_def)
  with resumed_final [OF w ci _ rsp(1)] f show ?thesis by blast
qed

section \<open>A call and its return\<close>

text \<open>
  C6. A method on the common path is entered with its arguments in place, in a frame above the words of
  the caller; and whatever the callee does, as long as its frame and the words of the caller
  are intact at its end, its return brings back every register of the caller, puts the result into the slot the caller has
  reserved for it and changes no other word of the stack. Neither step fails an assertion.
\<close>

theorem call_then_return:
  assumes "plain_call oh closure args" and "caller_ok oh rsp"
  shows "\<exists>oh1. interpreter_apply_to_arity_with_optionals env oh closure args [] rsp = Some oh1 \<and>
    frame_of_call oh closure rsp oh1 \<and> callee_started oh closure args oh1 \<and>
    (\<forall>oh2 r prev. ready_to_return oh closure rsp oh2 r \<longrightarrow>
       (\<exists>oh3. interpreter_return_result env oh2 0 (Some r) prev = Some (False, oh3) \<and> caller_resumed oh oh2 rsp r oh3))"
proof -
  have sp: "0 \<le> i_stackPointer oh" using assms(1) by (simp add: plain_call_def Let_def)
  from enter_plain [OF assms(1), of env rsp] obtain oh1 where
    1: "enter_method env oh closure args [] rsp = Some (Applied oh1)" and w: "same_words (entered oh closure args rsp) oh1" by blast
  have "interpreter_apply_to_arity_with_optionals env oh closure args [] rsp = Some oh1"
    by (subst interpreter_apply_to_arity_with_optionals.simps) (simp add: 1)
  moreover have "frame_of_call oh closure rsp oh1" "callee_started oh closure args oh1"
    using entered_frame [OF assms(1), of rsp] frame_of_call_cong [OF sp w] callee_started_cong [OF sp w] by simp_all
  ultimately show ?thesis using return_plain [OF assms(2) _ sp] by blast
qed

section \<open>Witness\<close>

text \<open>A caller in the middle of its code calls a method of one argument and one more variable.\<close>

definition call_blocks :: "(addr \<times> word_t list) list" where
  "call_blocks =
    [(1024, [header_word 0 5, 5, 0, 1024, 1024]),
     (2048, [header_word 0 7, 14, 0, 1024, 4096, 3000, 3000, 1024, 1, 6, 9, 2, 8, 40]),
     (3000, [header_word 0 8, 26, 0, 5000, 3000, 1024, 1, 1, 1024, 1024, 1024, 0, 0, 0, 3500]),
     (3200, [header_word 0 9, 26, 0, 5000, 3200, 1024, 3, 5, 1024, 1024, 1024, 0, 0, 0, 3600,
             0, 0, 0, 0, 9, 0, 3, 0, 0, 1024, 0]),
     (3500, [header_word 1 10, 4, 16, 1024, 1, 1]),
     (3600, [header_word 1 11, 4, 24, 1024, 1, 1, 1]),
     (4096, [header_word 1 12, 4, 320, 1024, 1, 1, 1, 3000, 1024, 1, 1024, 7]),
     (5000, [header_word 0 13, 12, 0, 1024, 1, 1, 5100]),
     (5100, [header_word 1 14, 4, 8, 1024, 5200])]"

definition call_heap :: object_heap where
  "call_heap = sample_heap\<lparr>mem := (\<lambda>p. case map_of call_blocks p of None \<Rightarrow> (\<lambda>k. 0) | Some ws \<Rightarrow> sample_block ws),
     c_interpreter := 2048, c_compiled_method_window := 5200\<rparr>"

theorem call_then_return_witness:
  "\<forall>env. \<exists>oh1 oh3. interpreter_apply_to_arity_with_optionals env call_heap 3200 [7] [] 6 = Some oh1 \<and> i_method oh1 = 3200 \<and>
    stack_at oh1 14 = 7 \<and> interpreter_return_result env (entered call_heap 3200 [7] 6) 0 (Some 9) 0 = Some (False, oh3) \<and>
    i_codePointer oh3 = 9 \<and> i_stackPointer oh3 = 8 \<and> stack_at oh3 6 = 9 \<and> stack_at oh3 7 = 7"
proof -
  have h: "plain_call call_heap 3200 [7]" "caller_ok call_heap 6" by code_simp+
  have r: "ready_to_return call_heap 3200 6 (entered call_heap 3200 [7] 6) 9" by code_simp
  have v: "cm_method (mem call_heap) 3200 = 3200" "i_stackPointer call_heap = 8" "i_codePointer call_heap = 9"
    "stack_at (entered call_heap 3200 [7] 6) 7 = 7" by code_simp+
  show ?thesis
  proof
    fix env
    from call_then_return [OF h, of env] r obtain oh1 oh3 where
      "interpreter_apply_to_arity_with_optionals env call_heap 3200 [7] [] 6 = Some oh1" "callee_started call_heap 3200 [7] oh1"
      "interpreter_return_result env (entered call_heap 3200 [7] 6) 0 (Some 9) 0 = Some (False, oh3)"
      "caller_resumed call_heap (entered call_heap 3200 [7] 6) 6 9 oh3" by blast
    with v show "\<exists>oh1 oh3. interpreter_apply_to_arity_with_optionals env call_heap 3200 [7] [] 6 = Some oh1 \<and> i_method oh1 = 3200 \<and>
      stack_at oh1 14 = 7 \<and> interpreter_return_result env (entered call_heap 3200 [7] 6) 0 (Some 9) 0 = Some (False, oh3) \<and>
      i_codePointer oh3 = 9 \<and> i_stackPointer oh3 = 8 \<and> stack_at oh3 6 = 9 \<and> stack_at oh3 7 = 7"
      by (auto simp: callee_started_def caller_resumed_def FUNCTION_FRAME_SIZE_def)
  qed
qed

end
