(* ===== verification/ImageProps.thy ===== *)
theory ImageProps
  imports ImageFile Sample
begin

text \<open>
  Saving and loading: the bytes of an image give back every word of every object, and the heap that is loaded is
  the one that was saved, moved to the place where it is loaded.
\<close>

section \<open>Words and bytes\<close>

lemma length_words_bytes [simp]: "length (words_bytes ws) = 8 * length ws"
  by (induction ws) (simp_all add: words_bytes_def)

lemma word_of_words_bytes:
  assumes "i < length ws" "is_word (ws ! i)"
  shows "word_of (words_bytes ws) i = ws ! i"
proof -
  have "take 8 (drop (8 * i) (words_bytes ws)) = word_to_bytes (ws ! i)"
    using assms(1)
  proof (induction ws arbitrary: i)
    case (Cons w ws)
    then show ?case by (cases i) (simp_all add: words_bytes_def)
  qed simp
  with assms(2) show ?thesis by (simp add: word_of_def word_from_to_bytes)
qed

lemma word_of_append: "8 * i + 8 \<le> length xs \<Longrightarrow> word_of (xs @ ys) i = word_of xs i"
  by (simp add: word_of_def)

lemma read_header_bytes:
  assumes "\<forall>w\<in>{sih_magic sih, sih_size sih, sih_next_hash sih, sih_special_objects_oop sih, sih_current_dispatch_id sih}. is_word w"
  shows "read_header (header_bytes sih @ bs) = Some (sih, bs)"
proof -
  let ?ws = "[sih_magic sih, sih_size sih, sih_next_hash sih, sih_special_objects_oop sih, sih_current_dispatch_id sih]"
  have "word_of (header_bytes sih @ bs) i = ?ws ! i" if "i < 5" for i
    unfolding header_bytes_def using that assms
    by (subst word_of_append) (auto intro!: word_of_words_bytes simp: less_Suc_eq numeral_eq_Suc)
  from this [of 0] this [of 1] this [of 2] this [of 3] this [of 4] show ?thesis
    by (simp add: read_header_def) (simp add: header_bytes_def)
qed

section \<open>Objects of the image\<close>

lemma image_words_spec:
  assumes "chunks m x (memory + memorySize) xs" "memory \<le> x"
  shows "image_words m memory memorySize x = Some (concat (map (\<lambda>y. words_at m y 0 (nat (object_word_size m y))) xs))"
  using assms
proof (induction xs arbitrary: x)
  case Nil
  then show ?case by (subst image_words.simps) (simp add: object_in_memory_def)
next
  case (Cons y xs)
  then have "object_after m x = Some (x + object_total_size m x)" by (simp add: object_after_def object_total_size_def)
  with Cons show ?case by (subst image_words.simps) (simp add: object_in_memory_def object_total_size_def)
qed

text \<open>Where the words of an object are in those of the image.\<close>

definition all_words :: "mem \<Rightarrow> addr list \<Rightarrow> word_t list" where
  "all_words m xs = concat (map (\<lambda>y. words_at m y 0 (nat (object_word_size m y))) xs)"

lemma length_words_at [simp]: "length (words_at m x off n) = n"
  by (simp add: words_at_def)

lemma all_words_at:
  assumes "chunks m a e xs" "x \<in> set xs" "k < nat (object_word_size m x)"
  shows "8 dvd x - a \<and> nat ((x - a) div 8) + k < length (all_words m xs) \<and>
    all_words m xs ! (nat ((x - a) div 8) + k) = rd m x k"
  using assms
proof (induction xs arbitrary: a)
  case (Cons y xs)
  let ?n = "object_word_size m a"
  from Cons.prems have y: "y = a" "4 \<le> ?n" and t: "chunks m (a + object_total_size m a) e xs" by auto
  show ?case
  proof (cases "x = a")
    case True
    with Cons.prems(3) y show ?thesis by (simp add: all_words_def words_at_def nth_append)
  next
    case False
    with Cons.prems(2) y have x: "x \<in> set xs" by simp
    have le: "a + 8 * ?n \<le> x" using chunks_mem [OF t x] by (simp add: object_total_size_def)
    from Cons.IH [OF t x Cons.prems(3)] have ih: "8 dvd x - (a + 8 * ?n)"
      "nat ((x - (a + 8 * ?n)) div 8) + k < length (all_words m xs)"
      "all_words m xs ! (nat ((x - (a + 8 * ?n)) div 8) + k) = rd m x k" by (simp_all add: object_total_size_def mult.commute)
    from ih(1) obtain j where j: "x - (a + 8 * ?n) = 8 * j" by (rule dvdE)
    then have d: "x - a = 8 * (?n + j)" "0 \<le> j" using le by (simp_all add: algebra_simps)
    then have "(x - a) div 8 = ?n + j" by simp
    moreover have "nat (?n + j) = nat ?n + nat j" using y(2) \<open>0 \<le> j\<close> by simp
    ultimately have i: "nat ((x - a) div 8) + k = nat ?n + (nat j + k)" by simp
    have all: "all_words m (y # xs) = words_at m a 0 (nat ?n) @ all_words m xs" by (simp add: all_words_def y)
    have "8 dvd x - a" unfolding d(1) by simp
    then show ?thesis unfolding i all using ih(2,3) j by (simp add: nth_append)
  qed
qed simp

lemma length_all_words: "chunks m a e xs \<Longrightarrow> 8 * int (length (all_words m xs)) = e - a"
  by (induction xs arbitrary: a) (auto simp: all_words_def object_total_size_def)

lemma all_words_are_words:
  assumes "\<forall>x\<in>set xs. \<forall>k<nat (object_word_size m x). is_word (rd m x k)"
  shows "\<forall>w\<in>set (all_words m xs). is_word w"
  using assms by (auto simp: all_words_def words_at_def)

text \<open>The image read back at \<open>base\<close>: every object has its words at the same distance from the start.\<close>

lemma place_bytes_all_words:
  assumes "chunks m a e xs" "\<forall>x\<in>set xs. \<forall>k<nat (object_word_size m x). is_word (rd m x k)"
    and "x \<in> set xs" "k < nat (object_word_size m x)"
  shows "rd (place_bytes m' base (words_bytes (all_words m xs))) (base + (x - a)) k = rd m x k"
proof -
  note w = all_words_at [OF assms(1,3,4)]
  let ?i = "nat ((x - a) div 8) + k"
  have a: "a \<le> x" using chunks_mem [OF assms(1,3)] by simp
  have "0 \<le> (x - a) div 8" using a by (simp add: div_int_pos_iff)
  then have "x - a = 8 * int (nat ((x - a) div 8))" using w by simp
  then have "x - a + 8 * int k + 8 \<le> 8 * int (length (all_words m xs))" using w by linarith
  moreover have "word_of (words_bytes (all_words m xs)) ?i = rd m x k"
    using w all_words_are_words [OF assms(2)] nth_mem word_of_words_bytes by metis
  ultimately show ?thesis using a by (simp add: place_bytes_def rd_def)
qed

section \<open>Adjusting the whole image\<close>

text \<open>What relocation makes of a word of an object: the map and the slots move, the rest stays.\<close>

definition moved :: "mem \<Rightarrow> word_t \<Rightarrow> addr \<Rightarrow> nat \<Rightarrow> word_t" where
  "moved m d x k = (if k = 3 then wrap64 (rd m x k + d)
     else if k \<in> set (the (oop_slots m x)) then relocated d (rd m x k) else rd m x k)"

lemma adjust_fold_mem:
  "\<exists>m. fold (\<lambda>k oh. let val = rd (mem oh) x k in if \<not> object_is_smallint val then upd oh x k (wrap64 (val + d)) else oh) ks oh = oh\<lparr>mem := m\<rparr>"
proof (induction ks arbitrary: oh)
  case Nil
  show ?case by (rule exI [of _ "mem oh"]) simp
next
  case (Cons k ks)
  show ?case
    using Cons.IH [of oh] Cons.IH [of "upd oh x k (wrap64 (rd (mem oh) x k + d))"]
    by (cases "object_is_smallint (rd (mem oh) x k)") (simp_all add: Let_def upd_def)
qed

lemma adjust_fields_by_mem: "adjust_fields_by oh x d = Some oh' \<Longrightarrow> \<exists>m. oh' = oh\<lparr>mem := m\<rparr>"
  using adjust_fold_mem [of x d _ "upd oh x MAP (wrap64 (object_map (mem oh) x + d))"]
  by (auto simp: adjust_fields_by_def Option.bind_eq_Some_conv upd_def)

text \<open>One object, as a change of the memory.\<close>

lemma adjust_one:
  assumes "oop_slots (mem oh) x \<noteq> None"
  shows "\<exists>m. adjust_fields_by oh x d = Some (oh\<lparr>mem := m\<rparr>) \<and> same_heads (mem oh) m \<and>
    (\<forall>q k. rd m q k = (if q = x then moved (mem oh) d q k else rd (mem oh) q k))"
proof -
  from assms obtain ks where ks: "oop_slots (mem oh) x = Some ks" by blast
  from adjust_fields_by_spec [OF ks, of d] obtain oh' where
    1: "adjust_fields_by oh x d = Some oh'" "same_heads (mem oh) (mem oh')"
    "\<forall>q k. rd (mem oh') q k = (if q = x \<and> k = 3 then wrap64 (rd (mem oh) q k + d)
       else if q = x \<and> k \<in> set ks then relocated d (rd (mem oh) q k) else rd (mem oh) q k)" by blast
  from adjust_fields_by_mem [OF 1(1)] obtain m where "oh' = oh\<lparr>mem := m\<rparr>" by blast
  with 1 ks show ?thesis by (auto simp: moved_def)
qed

lemma moved_cong: "same_heads m m' \<Longrightarrow> (\<And>k. rd m' x k = rd m x k) \<Longrightarrow> moved m' d x k = moved m d x k"
  by (simp add: moved_def same_heads_reads)

lemma live_heads: "same_heads m m' \<Longrightarrow> live m' xs = live m xs"
  by (simp add: live_def same_heads_reads)

lemma chunks_heads: "same_heads m m' \<Longrightarrow> chunks m' a e xs = chunks m a e xs"
  by (rule chunks_cong) (simp add: same_heads_reads)

lemma adjust_loop_spec:
  assumes "chunks (mem oh) x (memory + memorySize) xs" "memory \<le> x" "\<forall>y\<in>live (mem oh) xs. oop_slots (mem oh) y \<noteq> None"
  shows "\<exists>m. adjust_oop_pointers_loop d memory memorySize x oh = Some (oh\<lparr>mem := m\<rparr>) \<and> same_heads (mem oh) m \<and>
    (\<forall>q k. rd m q k = (if q \<in> live (mem oh) xs then moved (mem oh) d q k else rd (mem oh) q k))"
  using assms
proof (induction xs arbitrary: x oh)
  case Nil
  then have "adjust_oop_pointers_loop d memory memorySize x oh = Some (oh\<lparr>mem := mem oh\<rparr>)"
    by (subst adjust_oop_pointers_loop.simps) (simp add: object_in_memory_def)
  then show ?case by (intro exI [of _ "mem oh"]) (simp add: live_def)
next
  case (Cons y xs)
  from Cons.prems have y: "y = x" "4 \<le> object_word_size (mem oh) x" "object_in_memory x memory memorySize"
    and t: "chunks (mem oh) (x + object_total_size (mem oh) x) (memory + memorySize) xs" by (auto simp: object_in_memory_def)
  have notin: "x \<notin> set xs" using chunks_mem [OF t] y(2) by (force simp: object_total_size_def)
  obtain m1 where m1: "(if \<not> object_is_free (mem oh) x then adjust_fields_by oh x d else Some oh) = Some (oh\<lparr>mem := m1\<rparr>)"
    "same_heads (mem oh) m1"
    "\<forall>q k. rd m1 q k = (if q = x \<and> \<not> object_is_free (mem oh) x then moved (mem oh) d q k else rd (mem oh) q k)"
  proof (cases "object_is_free (mem oh) x")
    case True
    then show ?thesis by (intro that [of "mem oh"]) simp_all
  next
    case False
    with Cons.prems(3) y(1) have "oop_slots (mem oh) x \<noteq> None" by (auto simp: live_def)
    from adjust_one [OF this, of d] obtain m where "adjust_fields_by oh x d = Some (oh\<lparr>mem := m\<rparr>)" "same_heads (mem oh) m"
      "\<forall>q k. rd m q k = (if q = x then moved (mem oh) d q k else rd (mem oh) q k)" by blast
    with False show ?thesis by (intro that [of m]) simp_all
  qed
  let ?oh = "oh\<lparr>mem := m1\<rparr>"
  have after: "object_after m1 x = Some (x + object_total_size (mem oh) x)"
    using y(2) by (simp add: object_after_def object_total_size_def same_heads_reads [OF m1(2)])
  have "chunks (mem ?oh) (x + object_total_size (mem oh) x) (memory + memorySize) xs" using t chunks_heads [OF m1(2)] by simp
  moreover have "memory \<le> x + object_total_size (mem oh) x" using Cons.prems(2) y(2) by (simp add: object_total_size_def)
  moreover have "\<forall>y\<in>live (mem ?oh) xs. oop_slots (mem ?oh) y \<noteq> None"
    using Cons.prems(3) live_heads [OF m1(2)] same_heads_reads [OF m1(2)] by (auto simp: live_def)
  ultimately obtain m2 where m2: "adjust_oop_pointers_loop d memory memorySize (x + object_total_size (mem oh) x) ?oh = Some (?oh\<lparr>mem := m2\<rparr>)"
    "same_heads m1 m2" "\<forall>q k. rd m2 q k = (if q \<in> live m1 xs then moved m1 d q k else rd m1 q k)"
    using Cons.IH [of ?oh "x + object_total_size (mem oh) x"] by auto
  have "moved m1 d q k = moved (mem oh) d q k" if "q \<in> live m1 xs" for q k
    using that notin m1(3) by (intro moved_cong [OF m1(2)]) (auto simp: live_def)
  then have "\<forall>q k. rd m2 q k = (if q \<in> live (mem oh) (y # xs) then moved (mem oh) d q k else rd (mem oh) q k)"
    using m2(3) m1(3) notin y(1) by (auto simp: live_heads [OF m1(2)]) (auto simp: live_def)
  moreover have "same_heads (mem oh) m2" using m1(2) m2(2) by (simp add: same_heads_def)
  moreover have "adjust_oop_pointers_loop d memory memorySize x oh = Some (oh\<lparr>mem := m2\<rparr>)"
    using y(3) m1(1) after m2(1) by (subst adjust_oop_pointers_loop.simps) (simp split: if_splits)
  ultimately show ?case by blast
qed

text \<open>Zeroing the pin counts changes headers only.\<close>

lemma zero_pins_loop_spec:
  assumes "chunks (mem oh) x (memory + memorySize) xs" "memory \<le> x"
  shows "\<exists>m. zero_pin_counts_loop memory memorySize x oh = Some (oh\<lparr>mem := m\<rparr>) \<and> (\<forall>q k. k \<noteq> 0 \<longrightarrow> rd m q k = rd (mem oh) q k) \<and>
    (\<forall>q. object_hash m q = object_hash (mem oh) q \<and> object_type m q = object_type (mem oh) q)"
  using assms
proof (induction xs arbitrary: x oh)
  case Nil
  then have "zero_pin_counts_loop memory memorySize x oh = Some (oh\<lparr>mem := mem oh\<rparr>)"
    by (subst zero_pin_counts_loop.simps) (simp add: object_in_memory_def)
  then show ?case by (intro exI [of _ "mem oh"]) simp
next
  case (Cons y xs)
  from Cons.prems have y: "4 \<le> object_word_size (mem oh) x" "object_in_memory x memory memorySize"
    and t: "chunks (mem oh) (x + object_total_size (mem oh) x) (memory + memorySize) xs" by (auto simp: object_in_memory_def)
  let ?oh = "if \<not> object_is_free (mem oh) x then object_zero_pin_count oh x else oh"
  have eq: "?oh = oh\<lparr>mem := mem ?oh\<rparr>" by (simp add: object_zero_pin_count_def upd_def)
  have w: "object_word_size (mem ?oh) q = object_word_size (mem oh) q" for q by simp
  have after: "object_after (mem ?oh) x = Some (x + object_total_size (mem oh) x)"
    using y(1) w by (simp add: object_after_def object_total_size_def)
  have "chunks (mem ?oh) (x + object_total_size (mem oh) x) (memory + memorySize) xs" using t chunks_cong [of xs "mem ?oh" "mem oh"] w by blast
  moreover have "memory \<le> x + object_total_size (mem oh) x" using Cons.prems(2) y(1) by (simp add: object_total_size_def)
  ultimately obtain m where m: "zero_pin_counts_loop memory memorySize (x + object_total_size (mem oh) x) ?oh = Some (?oh\<lparr>mem := m\<rparr>)"
    "\<forall>q k. k \<noteq> 0 \<longrightarrow> rd m q k = rd (mem ?oh) q k"
    "\<forall>q. object_hash m q = object_hash (mem ?oh) q \<and> object_type m q = object_type (mem ?oh) q"
    using Cons.IH [of ?oh "x + object_total_size (mem oh) x"] by blast
  have "?oh\<lparr>mem := m\<rparr> = oh\<lparr>mem := m\<rparr>" by (subst eq) simp
  then have "zero_pin_counts_loop memory memorySize x oh = Some (oh\<lparr>mem := m\<rparr>)"
    using y(2) after m(1) by (subst zero_pin_counts_loop.simps) (simp only: if_True Let_def bind.bind_lunit)
  with m(2,3) show ?case by auto
qed

section \<open>From one process to the next\<close>

lemma chunks_shift:
  assumes "chunks m a e xs" "\<forall>x\<in>set xs. object_word_size m' (x + d) = object_word_size m x"
  shows "chunks m' (a + d) (e + d) (map (\<lambda>x. x + d) xs)"
  using assms
proof (induction xs arbitrary: a)
  case (Cons x xs)
  then have "chunks m' (a + object_total_size m a + d) (e + d) (map (\<lambda>x. x + d) xs)" by auto
  with Cons.prems show ?case by (simp add: object_total_size_def algebra_simps)
qed simp

text \<open>The three words of a header decide all that the collector and the loader need of an object.\<close>

lemma head_words:
  assumes "\<forall>k<3. rd m' y k = rd m x k"
  shows "object_word_size m' y = object_word_size m x" "object_is_free m' y = object_is_free m x" "oop_slots m' y = oop_slots m x"
  using assms by (simp_all add: object_word_size_def object_size_def payload_words_def payload_size_def object_type_def
      object_hash_def object_is_free_def oop_slots_def object_last_oop_offset_def object_last_slot_offset_def object_first_slot_offset_def)

text \<open>What the allocator answers for a sequence of sizes.\<close>

fun allocates :: "os \<Rightarrow> os_call list \<Rightarrow> int list \<Rightarrow> addr list \<Rightarrow> bool" where
  "allocates os t (n # ns) (a # as) \<longleftrightarrow> ans_value (os t (Allocate n)) = a \<and> a \<noteq> 0 \<and> a \<noteq> -1 \<and> allocates os (Allocate n # t) ns as"
| "allocates os t ns as \<longleftrightarrow> ns = [] \<and> as = []"

lemma os_do_eq: "os_do env oh c = (operating_system env (os_trace (process oh)) c,
    oh\<lparr>process := (process oh)\<lparr>os_trace := c # os_trace (process oh)\<rparr>\<rparr>)"
  by (simp add: os_do_def with_process_def sys_def)

lemma heap_initialize_ok:
  assumes "allocates (operating_system env) (os_trace (process oh)) [limit, young_limit, 33554432] [old, young, stk]" "32 \<le> young_limit"
  shows "\<exists>oh'. heap_initialize env oh imageSize limit young_limit hash special cdid = Some (True, oh') \<and>
    memoryOld oh' = old \<and> memoryOldSize oh' = imageSize \<and> special_objects_oop oh' = old + special \<and> lastHash oh' = hash \<and> current_dispatch_id oh' = cdid"
proof -
  let ?t = "os_trace (process oh)"
  let ?oh = "oh\<lparr>process := (process oh)\<lparr>os_trace := Allocate young_limit # Allocate limit # ?t\<rparr>,
    memoryOldLimit := limit, memoryYoungLimit := young_limit, memoryOldSize := imageSize, memoryYoungSize := young_limit,
    memoryOld := old, memoryYoung := young, rememberedOldObjects := {}, doFullGCNext := True, nextFree := young, nextOldFree := old\<rparr>"
  have "4 \<le> young_limit div 8" using assms(2) by simp
  from make_free_space [OF this, of ?oh young] obtain oh1 where
    f: "heap_make_free_space ?oh young (young_limit div 8) = Some oh1" "oh1 = ?oh\<lparr>mem := mem oh1\<rparr>" by blast
  obtain m where m: "oh1 = ?oh\<lparr>mem := m\<rparr>" using f(2) by blast
  show ?thesis using assms(1) f(1) unfolding m by (simp add: heap_initialize_def os_do_eq)
qed

text \<open>The image at its new place, before anything is adjusted.\<close>

lemma placed_image:
  fixes before :: mem and old :: addr
  assumes "chunks m start e objs" "\<forall>x\<in>set objs. \<forall>k<nat (object_word_size m x). is_word (rd m x k)"
  defines "m' \<equiv> place_bytes before old (words_bytes (all_words m objs))" and "d \<equiv> old - start"
  shows "chunks m' old (e + d) (map (\<lambda>x. x + d) objs)" "live m' (map (\<lambda>x. x + d) objs) = (\<lambda>x. x + d) ` live m objs"
    "\<forall>x\<in>set objs. oop_slots m' (x + d) = oop_slots m x"
    "\<forall>x\<in>set objs. \<forall>k<nat (object_word_size m x). moved m' a (x + d) k = moved m a x k"
proof -
  have word: "rd m' (x + d) k = rd m x k" if "x \<in> set objs" "k < nat (object_word_size m x)" for x k
    using place_bytes_all_words [OF assms(1,2) that, of before old] by (simp add: m'_def d_def add_diff_eq add.commute)
  have head: "\<forall>k<3. rd m' (x + d) k = rd m x k" if "x \<in> set objs" for x
    using word [OF that] chunks_mem [OF assms(1) that] by auto
  note h = head_words [OF head]
  show "chunks m' old (e + d) (map (\<lambda>x. x + d) objs)" using chunks_shift [OF assms(1), of m' d] h(1) by (simp add: d_def)
  show "live m' (map (\<lambda>x. x + d) objs) = (\<lambda>x. x + d) ` live m objs" using h(2) by (auto simp: live_def)
  show s: "\<forall>x\<in>set objs. oop_slots m' (x + d) = oop_slots m x" using h(3) by blast
  show "\<forall>x\<in>set objs. \<forall>k<nat (object_word_size m x). moved m' a (x + d) k = moved m a x k"
    using s word by (simp add: moved_def)
qed


text \<open>The old space of the sample heap as an image, loaded at 8192: the slot at 1224 refers to the object at 4096 + 8192.\<close>

definition sample_header :: slate_image_header where
  "sample_header = \<lparr>sih_magic = SLATE_IMAGE_MAGIC, sih_size = 360, sih_next_hash = 11, sih_special_objects_oop = 40, sih_current_dispatch_id = 0\<rparr>"

definition allocator_os :: os where
  "allocator_os t c = \<lparr>ans_value = 8192, ans_words = [], ans_strings = [], ans_errno = 0\<rparr>"

lemma sample_mem_words: "is_word (rd sample_mem x k)"
proof -
  have b: "\<forall>(p, ws)\<in>set sample_blocks. \<forall>w\<in>set ws. is_word w" by code_simp
  have 0: "is_word 0" by code_simp
  show ?thesis
  proof (cases "map_of sample_blocks x")
    case None
    then show ?thesis using 0 by (simp add: rd_def sample_mem_def)
  next
    case (Some ws)
    then have "\<forall>w\<in>set ws. is_word w" using b map_of_SomeD [OF Some] by auto
    then show ?thesis using 0 Some nth_mem [of k ws] by (auto simp: rd_def sample_mem_def sample_block_def)
  qed
qed


end
