(* ===== verification/Cloning.thy ===== *)
theory Cloning
  imports ArrayProps
begin

text \<open>
  New byte arrays (\<open>heap_allocate_with_payload\<close>, \<open>heap_clone_byte_array_sized\<close> and
  \<open>heap_new_byte_array_with\<close> of gc.cpp) when the young space has room: what the object is, and that nothing else
  changes.
\<close>

section \<open>One new object\<close>

text \<open>The fields that allocation in the young space leaves alone are all but three.\<close>

definition mem_only :: "object_heap \<Rightarrow> object_heap \<Rightarrow> bool" where
  "mem_only oh oh' \<longleftrightarrow> oh' = oh\<lparr>mem := mem oh', lastHash := lastHash oh', nextFree := nextFree oh'\<rparr>"

lemma mem_onlyI: "oh' = oh\<lparr>mem := m, lastHash := l, nextFree := n\<rparr> \<Longrightarrow> mem_only oh oh'"
  by (simp add: mem_only_def)

lemma mem_only_trans:
  assumes "mem_only oh oh1" "mem_only oh1 oh2"
  shows "mem_only oh oh2"
proof -
  have "oh2 = oh1\<lparr>mem := mem oh2, lastHash := lastHash oh2, nextFree := nextFree oh2\<rparr>"
    using assms(2) by (simp only: mem_only_def)
  also have "\<dots> = oh\<lparr>mem := mem oh2, lastHash := lastHash oh2, nextFree := nextFree oh2\<rparr>"
    by (rule trans [OF arg_cong [OF assms(1) [unfolded mem_only_def], of "\<lambda>s. s\<lparr>mem := mem oh2, lastHash := lastHash oh2, nextFree := nextFree oh2\<rparr>"]])
      simp
  finally show ?thesis by (simp only: mem_only_def)
qed

lemma mem_only_changed [simp]: "mem_only oh oh" "mem_only oh (oh\<lparr>mem := m\<rparr>)" "mem_only oh (oh\<lparr>lastHash := l\<rparr>)"
  by (simp_all add: mem_only_def)

lemma mem_only_upd [simp]: "mem_only oh (upd oh x k v)"
  by (simp add: upd_def)

lemma mem_only_fields:
  assumes "mem_only oh oh'"
  shows "mark_color oh' = mark_color oh" "memoryYoung oh' = memoryYoung oh" "memoryYoungSize oh' = memoryYoungSize oh"
    "special_objects_oop oh' = special_objects_oop oh" "c_nil oh' = c_nil oh" "c_true_object oh' = c_true_object oh"
    "c_false_object oh' = c_false_object oh"
  by (subst assms [unfolded mem_only_def], simp)+

text \<open>
  \<open>made oh xs bytes x oh'\<close>: on a young space with objects \<open>xs\<close>, \<open>x\<close> is a new live object of the given
  size; the other live objects and all blocks outside the space are as they were.
\<close>

definition made :: "object_heap \<Rightarrow> addr list \<Rightarrow> word_t \<Rightarrow> addr \<Rightarrow> object_heap \<Rightarrow> bool" where
  "made oh xs bytes x oh' \<longleftrightarrow> mem_only oh oh' \<and>
     memoryYoung oh \<le> x \<and> x + bytes < memoryYoung oh + memoryYoungSize oh \<and>
     (\<forall>q. q \<noteq> x \<and> q \<noteq> x + bytes \<longrightarrow> mem oh' q = mem oh q) \<and>
     (\<exists>zs. allocated (mem oh) (memoryYoung oh) xs (memoryYoung oh + memoryYoungSize oh) x bytes (mem oh') zs)"

lemma allocated_block:
  assumes al: "allocated m a xs e p bytes m' zs" and same: "\<forall>q. q \<noteq> p \<longrightarrow> m'' q = m' q"
    and p: "object_word_size m'' p = object_word_size m' p" "\<not> object_is_free m'' p"
  shows "allocated m a xs e p bytes m'' zs"
proof -
  have w: "object_word_size m'' x = object_word_size m' x" for x using frame_blocks [OF same, of x] p(1) by (cases "x = p") auto
  then have "chunks m'' a e zs" using al chunks_cong [of zs m'' m'] by (simp add: allocated_def)
  moreover have "live m'' zs = live m' zs"
    using frame_blocks(3) [OF same] p(2) al by (force simp: live_def allocated_def)
  ultimately show ?thesis using al same w unfolding allocated_def object_total_size_def by metis
qed

lemma made_step:
  assumes "made oh xs bytes x oh1" "mem_only oh1 oh2" "\<forall>q. q \<noteq> x \<longrightarrow> mem oh2 q = mem oh1 q"
    and "object_word_size (mem oh2) x = object_word_size (mem oh1) x" "\<not> object_is_free (mem oh2) x"
  shows "made oh xs bytes x oh2"
proof -
  obtain zs where "allocated (mem oh) (memoryYoung oh) xs (memoryYoung oh + memoryYoungSize oh) x bytes (mem oh1) zs"
    using assms(1) by (auto simp: made_def)
  note allocated_block [OF this assms(3-5)]
  moreover have "mem_only oh oh2" using assms(1,2) mem_only_trans by (simp only: made_def) blast
  moreover have "\<forall>q. q \<noteq> x \<and> q \<noteq> x + bytes \<longrightarrow> mem oh2 q = mem oh q" using assms(1,3) by (simp add: made_def)
  ultimately show ?thesis using assms(1) unfolding made_def by blast
qed

lemma made_live:
  assumes "made oh xs bytes x oh'"
  shows "x \<notin> live (mem oh) xs" "\<not> object_is_free (mem oh') x" "object_total_size (mem oh') x = bytes"
  using assms by (auto simp: made_def allocated_def live_def)

section \<open>Allocation with a payload\<close>

lemma and_not_7: "x AND NOT 7 = 8 * (x div 8 :: int)"
proof -
  have "x AND NOT (mask 3) = push_bit 3 (drop_bit 3 x)"
    by (rule bit_eqI) (auto simp: bit_simps)
  then show ?thesis by (simp add: mask_eq_exp_minus_1 push_bit_eq_mult drop_bit_eq_div)
qed

lemma zero_pins:
  defines "z \<equiv> \<lambda>h. h AND NOT (push_bit PINNED_OFFSET PINNED_MASK)"
  shows "hdr_markbit (z h) = hdr_markbit h" "hdr_hash (z h) = hdr_hash h" "hdr_pins (z h) = 0" "hdr_type (z h) = hdr_type h"
proof -
  have "0 \<le> PINNED_MASK" by (simp add: PINNED_MASK_def)
  then show "hdr_markbit (z h) = hdr_markbit h" "hdr_hash (z h) = hdr_hash h" "hdr_pins (z h) = 0" "hdr_type (z h) = hdr_type h"
    unfolding z_def hdr_zero_pins using hdr_get_set_pins [of 0 h] by simp_all
qed

text \<open>The room that an object with a payload needs.\<close>

definition sized :: "word_t \<Rightarrow> word_t \<Rightarrow> word_t" where
  "sized words payload = 8 * (words + (payload + 7) div 8)"

definition young_room :: "object_heap \<Rightarrow> addr list \<Rightarrow> word_t \<Rightarrow> bool" where
  "young_room oh xs bytes \<longleftrightarrow>
     chunks (mem oh) (memoryYoung oh) (memoryYoung oh + memoryYoungSize oh) xs \<and>
     (\<exists>us vs. xs = us @ vs \<and> vs \<noteq> [] \<and> nextFree oh = hd vs \<and> (\<exists>v\<in>set vs. fits (mem oh) (bytes + 32) v))"

lemma allocate_with_payload:
  assumes room: "young_room oh xs (sized words payload)" and words: "4 \<le> words" "0 \<le> payload"
  shows "\<exists>x oh'. heap_allocate_with_payload oh words payload = Some (x, oh') \<and> made oh xs (sized words payload) x oh' \<and>
    object_type (mem oh') x = TYPE_BYTE_ARRAY \<and> object_size (mem oh') x = words \<and> payload_size (mem oh') x = payload \<and>
    object_markbit (mem oh') x = mark_color oh AND 1 \<and> object_pin_count (mem oh') x = 0"
proof -
  let ?b = "sized words payload"
  obtain us vs where xs: "xs = us @ vs" "vs \<noteq> [] \<and> nextFree oh = hd vs" "\<exists>v\<in>set vs. fits (mem oh) (?b + 32) v"
    and ch: "chunks (mem oh) (memoryYoung oh) (memoryYoung oh + memoryYoungSize oh) (us @ vs)"
    using room by (auto simp: young_room_def)
  have b: "8 dvd ?b" "32 \<le> ?b" using words by (simp_all add: sized_def)
  obtain x oh1 l zs where g: "gc_allocate oh ?b = Some (x, oh1)"
    and y: "oh1 = oh\<lparr>nextFree := x, mem := mem oh1, lastHash := l\<rparr>"
      "\<forall>q. q \<noteq> x \<and> q \<noteq> x + ?b \<longrightarrow> mem oh1 q = mem oh q" "memoryYoung oh \<le> x" "x + ?b < memoryYoung oh + memoryYoungSize oh"
      "allocated (mem oh) (memoryYoung oh) (us @ vs) (memoryYoung oh + memoryYoungSize oh) x ?b (mem oh1) zs"
    using young_allocation [OF ch xs(2,3) b] by blast
  have "mem_only oh oh1" by (rule mem_onlyI [where m = "mem oh1" and l = l and n = x], rule trans [OF y(1)]) simp
  with y(2-) have m: "made oh xs ?b x oh1" unfolding made_def xs(1) by blast
  have bytes: "words * 8 + (payload + 7 AND - 8) = ?b" by (simp add: and_not_7 [simplified] sized_def)
  define oh2 where "oh2 = object_zero_pin_count (object_set_mark (upd (payload_set_size (object_set_format oh1 x TYPE_BYTE_ARRAY) x payload) x OBJECT_SIZE words) x) x"
  have o: "mem_only oh1 oh2" "\<forall>q. q \<noteq> x \<longrightarrow> mem oh2 q = mem oh1 q"
    by (simp_all add: oh2_def object_zero_pin_count_def object_set_mark_def payload_set_size_def object_set_format_def upd_def)
  have h: "object_hash (mem oh2) x = object_hash (mem oh1) x" "object_type (mem oh2) x = TYPE_BYTE_ARRAY"
    "object_size (mem oh2) x = words" "payload_size (mem oh2) x = payload" "object_pin_count (mem oh2) x = 0"
    "object_markbit (mem oh2) x = mark_color oh1 AND 1"
    by (simp_all add: oh2_def payload_set_size_def object_size_def payload_size_def object_hash_def object_type_def
        object_markbit_def object_pin_count_def object_zero_pin_count_def object_set_mark_def object_set_format_def zero_pins type_consts)
  have "\<not> object_is_free (mem oh2) x" using made_live(2) [OF m] h(1) by (simp add: object_is_free_def)
  moreover have "object_word_size (mem oh2) x = object_word_size (mem oh1) x"
    using made_live(3) [OF m] h(2-4) by (simp add: object_total_size_def object_word_size_def payload_words_def sized_def type_consts)
  ultimately have "made oh xs ?b x oh2" using made_step [OF m o] by simp
  moreover have "heap_allocate_with_payload oh words payload = Some (x, oh2)"
    using g words \<open>\<not> object_is_free (mem oh2) x\<close>
    by (simp add: heap_allocate_with_payload_def Let_def bytes object_set_size_def oh2_def)
  moreover have "mark_color oh1 = mark_color oh" using m mem_only_fields(1) by (auto simp: made_def)
  ultimately show ?thesis using h by simp
qed

section \<open>Byte arrays\<close>

text \<open>A byte of the contents is a byte of the object after its slots.\<close>

lemma element_byte:
  assumes "0 \<le> i"
  shows "byte_array_get_element m x i = get_byte m x (object_array_offset m x + i)"
    "byte_array_set_element oh x i b = set_byte oh x (object_array_offset (mem oh) x + i) b"
  by (simp_all add: byte_array_get_element_def byte_array_set_element_def get_byte_def set_byte_def object_array_offset_def Let_def)

lemma set_element:
  fixes b :: word_t
  assumes "4 \<le> object_size (mem oh) x" "0 \<le> i"
  defines "oh' \<equiv> byte_array_set_element oh x i b"
  shows "mem_only oh oh'" "\<forall>q. q \<noteq> x \<longrightarrow> mem oh' q = mem oh q" "\<forall>k. int k < object_size (mem oh) x \<longrightarrow> rd (mem oh') x k = rd (mem oh) x k"
    and "\<And>j. 0 \<le> j \<Longrightarrow> byte_array_get_element (mem oh') x j = (if j = i then take_bit 8 b else byte_array_get_element (mem oh) x j)"
proof -
  have k: "object_size (mem oh) x \<le> object_size (mem oh) x + i div 8" using assms(2) by simp
  show "mem_only oh oh'" "\<forall>q. q \<noteq> x \<longrightarrow> mem oh' q = mem oh q"
    by (simp_all add: oh'_def byte_array_set_element_def Let_def)
  show r: "\<forall>k. int k < object_size (mem oh) x \<longrightarrow> rd (mem oh') x k = rd (mem oh) x k"
    using k by (auto simp: oh'_def byte_array_set_element_def Let_def)
  have "object_array_offset (mem oh') x = object_array_offset (mem oh) x"
    using r [rule_format, of 1] assms(1) by (simp add: object_array_offset_def object_size_def)
  then show "byte_array_get_element (mem oh') x j = (if j = i then take_bit 8 b else byte_array_get_element (mem oh) x j)"
    if "0 \<le> j" for j
    using that assms(1,2) get_set_byte [of "object_array_offset (mem oh) x + i" "object_array_offset (mem oh) x + j" oh x b x]
    by (simp add: element_byte(1) oh'_def element_byte(2) object_array_offset_def)
qed

text \<open>What a loop over the elements keeps, as a whole.\<close>

definition body_only :: "object_heap \<Rightarrow> addr \<Rightarrow> object_heap \<Rightarrow> bool" where
  "body_only oh x oh' \<longleftrightarrow> mem_only oh oh' \<and> (\<forall>q. q \<noteq> x \<longrightarrow> mem oh' q = mem oh q) \<and>
     (\<forall>k. int k < object_size (mem oh) x \<longrightarrow> rd (mem oh') x k = rd (mem oh) x k)"

lemma body_only_size: "body_only oh x oh' \<Longrightarrow> 4 \<le> object_size (mem oh) x \<Longrightarrow> object_size (mem oh') x = object_size (mem oh) x"
  by (simp add: body_only_def object_size_def)

lemma body_only_step:
  "body_only oh x oh1 \<Longrightarrow> body_only oh1 x oh2 \<Longrightarrow> 4 \<le> object_size (mem oh) x \<Longrightarrow> body_only oh x oh2"
  using body_only_size [of oh x oh1] mem_only_trans [of oh oh1 oh2] by (simp add: body_only_def)

lemma put_elements:
  assumes "4 \<le> object_size (mem oh) x" "n \<le> length bs"
  defines "oh' \<equiv> fold (\<lambda>i oh. byte_array_set_element oh x i (bs ! nat i)) [0..int n - 1] oh"
  shows "body_only oh x oh' \<and> (\<forall>j. 0 \<le> j \<longrightarrow> byte_array_get_element (mem oh') x j =
    (if j < int n then take_bit 8 (bs ! nat j) else byte_array_get_element (mem oh) x j))"
  unfolding oh'_def using assms(2)
proof (induction n)
  case 0
  then show ?case by (simp add: body_only_def)
next
  case (Suc n)
  define oh1 where "oh1 = fold (\<lambda>i oh. byte_array_set_element oh x i (bs ! nat i)) [0..int n - 1] oh"
  have IH: "body_only oh x oh1" "\<forall>j. 0 \<le> j \<longrightarrow> byte_array_get_element (mem oh1) x j =
    (if j < int n then take_bit 8 (bs ! nat j) else byte_array_get_element (mem oh) x j)"
    using Suc by (simp_all add: oh1_def)
  have "[0..int (Suc n) - 1] = [0..int n - 1] @ [int n]" using upto_rec2 [of 0 "int n"] by simp
  then have f: "fold (\<lambda>i oh. byte_array_set_element oh x i (bs ! nat i)) [0..int (Suc n) - 1] oh
      = byte_array_set_element oh1 x (int n) (bs ! n)" by (simp add: oh1_def)
  have s: "4 \<le> object_size (mem oh1) x" using body_only_size [OF IH(1)] assms(1) by simp
  note e = set_element [OF s, where i = "int n" and b = "bs ! n"]
  have "body_only oh1 x (byte_array_set_element oh1 x (int n) (bs ! n))" using e by (simp add: body_only_def)
  then show ?case unfolding f using body_only_step [OF IH(1)] IH(2) e(4) assms(1) by auto
qed

text \<open>
  The object \<open>x\<close> that cloning \<open>proto\<close> with \<open>n\<close> bytes makes: the map and the slots are those of the prototype.
\<close>

definition byte_array_like :: "mem \<Rightarrow> addr \<Rightarrow> word_t \<Rightarrow> mem \<Rightarrow> addr \<Rightarrow> bool" where
  "byte_array_like m proto n m' x \<longleftrightarrow> object_type m' x = TYPE_BYTE_ARRAY \<and> object_size m' x = object_size m proto \<and> payload_size m' x = n \<and>
     object_pin_count m' x = 0 \<and> (\<forall>k. 3 \<le> k \<and> int k < object_size m proto \<longrightarrow> rd m' x k = rd m proto k)"

text \<open>A prototype outlives the allocation: it is live, or not in the young space.\<close>

definition kept :: "object_heap \<Rightarrow> addr list \<Rightarrow> addr \<Rightarrow> bool" where
  "kept oh xs p \<longleftrightarrow> p \<in> live (mem oh) xs \<or> p < memoryYoung oh \<or> memoryYoung oh + memoryYoungSize oh \<le> p"

lemma made_kept:
  assumes "made oh xs bytes x oh'" "0 \<le> bytes" "kept oh xs p"
  shows "mem oh' p = mem oh p \<and> p \<noteq> x"
  using assms by (auto simp: made_def kept_def allocated_def)

lemma clone_byte_array_sized:
  assumes room: "young_room oh xs (sized (object_size (mem oh) proto) n)" and proto: "kept oh xs proto" "4 \<le> object_size (mem oh) proto"
    and n: "0 \<le> n"
  shows "\<exists>x oh'. heap_clone_byte_array_sized oh proto n = Some (x, oh') \<and>
    made oh xs (sized (object_size (mem oh) proto) n) x oh' \<and> byte_array_like (mem oh) proto n (mem oh') x"
proof -
  let ?k = "object_size (mem oh) proto"
  let ?b = "sized ?k n"
  obtain x oh1 where a: "heap_allocate_with_payload oh ?k n = Some (x, oh1)" "made oh xs ?b x oh1"
    "object_type (mem oh1) x = TYPE_BYTE_ARRAY" "object_size (mem oh1) x = ?k" "payload_size (mem oh1) x = n"
    "object_pin_count (mem oh1) x = 0"
    using allocate_with_payload [OF room proto(2) n] by blast
  have "0 \<le> ?b" using proto(2) n by (simp add: sized_def)
  then have p: "mem oh1 proto = mem oh proto" "proto \<noteq> x" using made_kept [OF a(2) _ proto(1)] by auto
  define oh2 where "oh2 = object_set_format oh1 x TYPE_BYTE_ARRAY"
  obtain h l where h: "heap_new_hash oh2 = Some (h, oh2\<lparr>lastHash := l\<rparr>)" "0 \<le> h" "h < ID_HASH_RESERVED"
    using heap_new_hash_total by blast
  define oh3 where "oh3 = object_set_idhash (oh2\<lparr>lastHash := l\<rparr>) x h"
  have r3: "rd (mem oh3) q k = rd (mem oh1) q k" if "k \<noteq> 0 \<or> q \<noteq> x" for q k
    using that by (auto simp: oh3_def oh2_def object_set_idhash_def object_set_format_def)
  define oh4 where "oh4 = oh3\<lparr>mem := fill_words_with (copy_words_into (mem oh3) proto 3 (nat (?k - 3)) x 3) x (nat ?k) (nat ((n + 7) div 8)) 0\<rparr>"
  have k: "object_size (mem oh3) proto = ?k" using p r3 [of 1 proto] by (simp add: object_size_def rd_def)
  have c: "heap_clone_byte_array_sized oh proto n = Some (x, oh4)"
    using a(1) h(1) k by (simp add: heap_clone_byte_array_sized_def Let_def oh2_def oh3_def oh4_def)
  have o: "mem_only oh1 oh4" "\<forall>q. q \<noteq> x \<longrightarrow> mem oh4 q = mem oh1 q"
    by (simp_all add: oh4_def oh3_def oh2_def object_set_idhash_def object_set_format_def upd_def fill_words_with_def copy_words_into_def
        mem_only_def)
  have r4: "rd (mem oh4) x k' = (if 3 \<le> k' \<and> int k' < ?k then rd (mem oh) proto k' else if k' = 0 then rd (mem oh3) x 0 else rd (mem oh1) x k')"
    if "int k' < ?k" for k'
    using that p r3 by (auto simp: oh4_def rd_def [of "mem oh"] rd_def [of "mem oh1" proto])
  have like: "byte_array_like (mem oh) proto n (mem oh4) x"
    using a(3-6) r4 [of 0] r4 [of 1] r4 [of 2] r4 proto(2)
    by (auto simp: byte_array_like_def object_type_def object_size_def payload_size_def object_pin_count_def oh3_def oh2_def
        object_set_idhash_def object_set_format_def type_consts)
  have "\<not> object_is_free (mem oh4) x"
    using r4 [of 0] proto(2) h(2,3) mask_hash_id [of h] by (simp add: object_is_free_def object_hash_def oh3_def object_set_idhash_def header_consts)
  moreover have "object_word_size (mem oh4) x = object_word_size (mem oh1) x"
    using like a(3-5) by (simp add: byte_array_like_def object_word_size_def payload_words_def)
  ultimately have "made oh xs ?b x oh4" using made_step [OF a(2) o] by simp
  with c like show ?thesis by blast
qed

lemma new_byte_array:
  assumes room: "young_room oh xs (sized (object_size (mem oh) proto) (int (length bs)))"
    and proto: "proto = get_special oh SPECIAL_OOP_BYTE_ARRAY_PROTO" "kept oh xs proto" "4 \<le> object_size (mem oh) proto"
  shows "\<exists>x oh'. heap_new_byte_array_with oh bs = Some (x, oh') \<and>
    made oh xs (sized (object_size (mem oh) proto) (int (length bs))) x oh' \<and> byte_array_like (mem oh) proto (int (length bs)) (mem oh') x \<and>
    (\<forall>i<length bs. byte_array_get_element (mem oh') x (int i) = take_bit 8 (bs ! i))"
proof -
  let ?n = "int (length bs)"
  obtain x oh1 where c: "heap_clone_byte_array_sized oh proto ?n = Some (x, oh1)"
    "made oh xs (sized (object_size (mem oh) proto) ?n) x oh1" "byte_array_like (mem oh) proto ?n (mem oh1) x"
    using clone_byte_array_sized [OF room proto(2,3)] by auto
  define oh2 where "oh2 = put_byte_words x bs oh1"
  have s: "4 \<le> object_size (mem oh1) x" using c(3) proto(3) by (simp add: byte_array_like_def)
  have p: "body_only oh1 x oh2" "\<forall>j. 0 \<le> j \<longrightarrow> byte_array_get_element (mem oh2) x j =
      (if j < ?n then take_bit 8 (bs ! nat j) else byte_array_get_element (mem oh1) x j)"
    using put_elements [OF s order_refl, of bs] by (simp_all add: oh2_def put_byte_words_def)
  have r: "rd (mem oh2) x k = rd (mem oh1) x k" if "int k < object_size (mem oh1) x" for k
    using p(1) that by (simp add: body_only_def)
  have r': "rd (mem oh2) x 0 = rd (mem oh1) x 0" "rd (mem oh2) x 1 = rd (mem oh1) x 1" "rd (mem oh2) x 2 = rd (mem oh1) x 2"
    using r s by simp_all
  have "byte_array_like (mem oh) proto ?n (mem oh2) x"
    using c(3) r r' by (simp add: byte_array_like_def object_type_def object_size_def payload_size_def object_pin_count_def)
  moreover have "made oh xs (sized (object_size (mem oh) proto) ?n) x oh2"
    using made_step [OF c(2), of oh2] p(1) r' made_live(2) [OF c(2)]
    by (simp add: body_only_def object_word_size_def object_type_def object_size_def payload_words_def payload_size_def object_is_free_def object_hash_def)
  ultimately show ?thesis using c(1) p(2) proto(1) by (simp add: heap_new_byte_array_with_def flip: oh2_def)
qed

section \<open>The new byte array\<close>

text \<open>
  C9. Making a byte array of C bytes when a large enough free chunk lies at or after \<open>nextFree\<close> returns: the
  object is new, unpinned, of the format of byte arrays, with the map and slots of the prototype, and
  holds exactly these bytes; the young space is partitioned again, every other live object and every block outside it is
  unchanged.
\<close>

theorem new_byte_array_ok:
  assumes "young_room oh xs (sized (object_size (mem oh) proto) (int (length bs)))"
    and "proto = get_special oh SPECIAL_OOP_BYTE_ARRAY_PROTO" "kept oh xs proto" "4 \<le> object_size (mem oh) proto"
    and "\<forall>b\<in>set bs. 0 \<le> b \<and> b < 256"
  shows "\<exists>x oh' zs. heap_new_byte_array_with oh bs = Some (x, oh') \<and>
    x \<notin> live (mem oh) xs \<and> live (mem oh') zs = insert x (live (mem oh) xs) \<and>
    chunks (mem oh') (memoryYoung oh) (memoryYoung oh + memoryYoungSize oh) zs \<and>
    byte_array_like (mem oh) proto (int (length bs)) (mem oh') x \<and>
    map (\<lambda>i. byte_array_get_element (mem oh') x (int i)) [0..<length bs] = bs \<and>
    (\<forall>q\<in>live (mem oh) xs. mem oh' q = mem oh q) \<and>
    (\<forall>q. q < memoryYoung oh \<or> memoryYoung oh + memoryYoungSize oh \<le> q \<longrightarrow> mem oh' q = mem oh q)"
proof -
  let ?b = "sized (object_size (mem oh) proto) (int (length bs))"
  obtain x oh' where n: "heap_new_byte_array_with oh bs = Some (x, oh')" "made oh xs ?b x oh'"
    "byte_array_like (mem oh) proto (int (length bs)) (mem oh') x"
    "\<forall>i<length bs. byte_array_get_element (mem oh') x (int i) = take_bit 8 (bs ! i)"
    using new_byte_array [OF assms(1-4)] by blast
  have "0 \<le> ?b" using assms(4) by (simp add: sized_def)
  then have out: "mem oh' q = mem oh q" if "q < memoryYoung oh \<or> memoryYoung oh + memoryYoungSize oh \<le> q" for q
    using that made_kept [OF n(2), of q] by (simp add: kept_def)
  have "map (\<lambda>i. byte_array_get_element (mem oh') x (int i)) [0..<length bs] = bs"
    using n(4) assms(5) by (intro nth_equalityI) (simp_all add: take_bit_int_eq_self)
  with n(1-3) out show ?thesis by (auto simp: made_def allocated_def)
qed

text \<open>The sample heap with an array of special objects that reaches to the prototype of byte arrays.\<close>

definition array_heap :: object_heap where
  "array_heap = sample_heap\<lparr>
     mem := sample_mem(1384 := sample_block ([header_word 1 11, 4, 88, 1024] @ replicate 6 1024 @ [1288] @ replicate 4 1024)),
     special_objects_oop := 1384, memoryOldSize := 480\<rparr>"

lemma array_heap_ok:
  "young_room array_heap sample_youngs (sized 4 8)" "get_special array_heap SPECIAL_OOP_BYTE_ARRAY_PROTO = 1288"
  "kept array_heap sample_youngs 1288" "object_size (mem array_heap) 1288 = 4"
proof -
  have "chunks (mem array_heap) (memoryYoung array_heap) (memoryYoung array_heap + memoryYoungSize array_heap) sample_youngs"
    "nextFree array_heap = hd sample_youngs" "sample_youngs \<noteq> []" "\<exists>v\<in>set sample_youngs. fits (mem array_heap) (sized 4 8 + 32) v"
    by code_simp+
  then show "young_room array_heap sample_youngs (sized 4 8)" 
    unfolding young_room_def by (metis append_Nil)
  show "get_special array_heap SPECIAL_OOP_BYTE_ARRAY_PROTO = 1288" "kept array_heap sample_youngs 1288"
    "object_size (mem array_heap) 1288 = 4" by code_simp+
qed

theorem new_byte_array_ok_witness:
  "\<exists>x oh'. heap_new_byte_array_with array_heap [1, 2, 3, 4, 5, 6, 7, 255] = Some (x, oh') \<and> payload_size (mem oh') x = 8 \<and>
    byte_array_get_element (mem oh') x 7 = 255"
proof -
  define bs :: "int list" where "bs = [1, 2, 3, 4, 5, 6, 7, 255]"
  have b: "length bs = 8" "\<forall>b\<in>set bs. 0 \<le> b \<and> b < 256" "bs ! 7 = 255" by (simp_all add: bs_def)
  have r: "young_room array_heap sample_youngs (sized (object_size (mem array_heap) 1288) (int (length bs)))"
    using array_heap_ok(1,4) b(1) by simp
  obtain x oh' where n: "heap_new_byte_array_with array_heap bs = Some (x, oh')"
    "byte_array_like (mem array_heap) 1288 (int (length bs)) (mem oh') x"
    "map (\<lambda>i. byte_array_get_element (mem oh') x (int i)) [0..<length bs] = bs"
    using new_byte_array_ok [OF r array_heap_ok(2) [symmetric] array_heap_ok(3) _ b(2)] array_heap_ok(4) by auto
  have "map (\<lambda>i. byte_array_get_element (mem oh') x (int i)) [0..<length bs] ! 7 = bs ! 7" unfolding n(3) ..
  with n(1,2) b show ?thesis by (simp add: byte_array_like_def bs_def)
qed

end
