(* ===== verification/LibraryProps.thy ===== *)
theory LibraryProps
  imports Cloning Libraries
begin

text \<open>Properties of foreign functions: words that cross the boundary both ways, and the calls that are made.\<close>

section \<open>Integers\<close>

lemma chunks_aligned: "chunks m a e xs \<Longrightarrow> 8 dvd a \<Longrightarrow> x \<in> set xs \<Longrightarrow> 8 dvd x"
  by (induction xs arbitrary: a) (auto simp: object_total_size_def)

lemma made_aligned:
  assumes "made oh xs bytes x oh'" "8 dvd memoryYoung oh"
  shows "8 dvd x"
proof -
  obtain zs where "chunks (mem oh') (memoryYoung oh) (memoryYoung oh + memoryYoungSize oh) zs" "x \<in> live (mem oh') zs"
    using assms(1) by (auto simp: made_def allocated_def)
  then show ?thesis using chunks_aligned assms(2) by (auto simp: live_def)
qed

lemma bytes_of_word: "\<forall>b\<in>set (word_to_bytes v). take_bit 8 b = b"
proof -
  have "w AND 255 = take_bit 8 w" for w :: int by (simp add: take_bit_eq_mask mask_eq_exp_minus_1)
  then show ?thesis unfolding word_to_bytes_def by simp
qed

lemma get_element_bytes:
  "get_bytes m x (object_array_offset m x) n = map (\<lambda>i. byte_array_get_element m x (int i)) [0..<n]"
  by (simp add: get_bytes_def element_byte)

text \<open>
  C25. An integer that a foreign function answers and that is handed to one again is the same word: as a small integer, or
  as the eight bytes of a new byte array when it does not fit.
\<close>

theorem foreign_integer_roundtrip:
  assumes "is_word (ans_value a)" "8 dvd memoryYoung oh"
    and "young_room oh xs (sized (object_size (mem oh) proto) 8)"
    and "proto = get_special oh SPECIAL_OOP_BYTE_ARRAY_PROTO" "kept oh xs proto" "4 \<le> object_size (mem oh) proto"
  shows "\<exists>x oh'. external_result oh ARG_FORMAT_INT a = Some (x, oh') \<and>
    (object_is_smallint x \<longleftrightarrow> smallint_fits_object (ans_value a)) \<and>
    marshal_arg env oh' ARG_FORMAT_INT x n = Some (Some ([ans_value a], 0), oh')"
proof (cases "smallint_fits_object (ans_value a)")
  case True
  then show ?thesis using tag_untag smallint_fits_iff [OF assms(1)] by (simp add: external_result_def marshal_arg_def)
next
  case False
  let ?r = "ans_value a"
  have room: "young_room oh xs (sized (object_size (mem oh) proto) (int (length (word_to_bytes ?r))))" using assms(3) by simp
  obtain x oh' where b: "heap_new_byte_array_with oh (word_to_bytes ?r) = Some (x, oh')"
    "made oh xs (sized (object_size (mem oh) proto) 8) x oh'" "byte_array_like (mem oh) proto 8 (mem oh') x"
    "\<forall>i<8. byte_array_get_element (mem oh') x (int i) = take_bit 8 (word_to_bytes ?r ! i)"
    using new_byte_array [OF room assms(4-6)] by auto
  have x: "\<not> object_is_smallint x" using made_aligned [OF b(2) assms(2)] by (auto simp: is_smallint_odd)
  have "get_bytes (mem oh') x (object_array_offset (mem oh') x) 8 = word_to_bytes ?r"
    unfolding get_element_bytes using b(4) bytes_of_word [of ?r, unfolded all_set_conv_all_nth] by (intro nth_equalityI) simp_all
  then have "extractBigInteger (mem oh') x = Some ?r"
    using b(3) x word_from_to_bytes [OF assms(1)] by (simp add: extractBigInteger_def byte_array_like_def)
  with False b(1) x show ?thesis by (simp add: external_result_def marshal_arg_def injectBigInteger_def)
qed

definition number_answer :: "int \<Rightarrow> os_answer" where
  "number_answer v = \<lparr>ans_value = v, ans_words = [], ans_strings = [], ans_errno = 0\<rparr>"

theorem foreign_integer_roundtrip_witness:
  "\<forall>env. \<exists>x oh'. external_result array_heap ARG_FORMAT_INT (number_answer (2 ^ 63 - 1)) = Some (x, oh') \<and>
    marshal_arg env oh' ARG_FORMAT_INT x 1 = Some (Some ([2 ^ 63 - 1], 0), oh')"
proof
  fix env
  have "is_word (ans_value (number_answer (2 ^ 63 - 1)))"
    by (simp add: number_answer_def is_word_def WORD_MIN_def WORD_MAX_def)
  moreover have "8 dvd memoryYoung array_heap" by (simp add: array_heap_def sample_heap_def)
  moreover have "young_room array_heap sample_youngs (sized (object_size (mem array_heap) 1288) 8)" using array_heap_ok(1,4) by simp
  ultimately show "\<exists>x oh'. external_result array_heap ARG_FORMAT_INT (number_answer (2 ^ 63 - 1)) = Some (x, oh') \<and>
    marshal_arg env oh' ARG_FORMAT_INT x 1 = Some (Some ([2 ^ 63 - 1], 0), oh')"
    using foreign_integer_roundtrip [OF _ _ _ array_heap_ok(2) [symmetric] array_heap_ok(3), where n = 1] array_heap_ok(4)
    by (fastforce simp: number_answer_def)
qed

section \<open>Calls\<close>

lemma call_foreign_trace [simp]:
  "os_trace (process (snd (call_foreign env oh std fn ws))) = CallForeign std fn ws # os_trace (process oh)"
  by (simp add: call_foreign_def os_do_def with_process_def split_beta Let_def)

lemma repeated_calls:
  "\<exists>wss. map length wss = ks \<and>
    os_trace (process (snd (fold (\<lambda>k (_, oh). call_foreign env oh True fn (first_args env oh args k)) ks r)))
      = map (CallForeign True fn) (rev wss) @ os_trace (process (snd r))"
proof (induction ks arbitrary: r)
  case Nil
  then show ?case by simp
next
  case (Cons k ks)
  let ?r = "call_foreign env (snd r) True fn (first_args env (snd r) args k)"
  obtain wss where w: "map length wss = ks"
    "os_trace (process (snd (fold (\<lambda>k (_, oh). call_foreign env oh True fn (first_args env oh args k)) ks ?r)))
      = map (CallForeign True fn) (rev wss) @ os_trace (process (snd ?r))"
    using Cons by blast
  have "length (first_args env (snd r) args k) = k" by (simp add: first_args_def)
  with w show ?case
    by (intro exI [of _ "first_args env (snd r) args k # wss"]) (simp add: case_prod_unfold)
qed

lemma first_args_all: "length args = n \<Longrightarrow> first_args env oh args n = args"
  by (simp add: first_args_def list_eq_iff_nth_eq)

lemma marshal_integers:
  assumes "\<forall>i\<in>set is. rd (mem oh) argsFormat (4 + i) = ARG_FORMAT_INT \<and> object_is_smallint (rd (mem oh) argsArr (4 + i))"
    and "length args + length is \<le> MAX_ARG_COUNT"
  shows "marshal env argsFormat argsArr argCount is args outArgCount oh =
    Some (Some (args @ map (\<lambda>i. object_to_smallint (rd (mem oh) argsArr (4 + i))) is, outArgCount), oh)"
  using assms by (induction "is" arbitrary: args) (simp_all add: marshal_arg_def push_args_def Let_def)

text \<open>
  C24. Calling a foreign function with integers hands it exactly the untagged arguments, in order. It is called once; but
  with the standard calling convention and \<open>n\<close> arguments, from 13 to 15, the missing \<open>break\<close>s of the switch call it \<open>17 - n\<close>
  times, each time with one word more, and the result is that of the last call.
\<close>

theorem foreign_calls_made:
  assumes "has_room (mem oh) fnHandle" "object_array_size (mem oh) argsArr = Some (int n)" "object_array_size (mem oh) argsFormat = Some (int n)"
    and "n \<le> 16" "\<forall>i<n. rd (mem oh) argsFormat (4 + i) = ARG_FORMAT_INT \<and> object_is_smallint (rd (mem oh) argsArr (4 + i))"
    and "callFormat = CALL_FORMAT_C \<or> callFormat = CALL_FORMAT_STD"
  shows "\<exists>a oh' wss. applyExternalLibraryPrimitive env oh fnHandle argsFormat callFormat resultFormat argsArr = external_result oh' resultFormat a \<and>
    os_trace (process oh') = map (CallForeign (callFormat = CALL_FORMAT_STD) (get_pointer (mem oh) fnHandle)) (rev wss) @ os_trace (process oh) \<and>
    hd wss = map (\<lambda>i. object_to_smallint (rd (mem oh) argsArr (4 + i))) [0..<n] \<and>
    map length wss = (if callFormat = CALL_FORMAT_STD \<and> 13 \<le> n then [n..<17] else [n])"
proof -
  let ?fn = "get_pointer (mem oh) fnHandle"
  define args where "args = map (\<lambda>i. object_to_smallint (rd (mem oh) argsArr (4 + i))) [0..<n]"
  have len: "length args = n" by (simp add: args_def)
  have m: "marshal env argsFormat argsArr (int n) [0..<n] [] (int n) oh = Some (Some (args, int n), oh)"
    using assms(4,5) by (subst marshal_integers) (simp_all add: args_def MAX_ARG_COUNT_def)
  let ?c = "\<lambda>std. call_foreign env oh std ?fn args"
  let ?more = "if 13 \<le> n then [Suc n..<17] else []"
  let ?f = "fold (\<lambda>k (_, oh). call_foreign env oh True ?fn (first_args env oh args k)) ?more (?c True)"
  have n: "\<not> int n > int MAX_ARG_COUNT" "0 \<le> int n \<and> int n \<le> int MAX_ARG_COUNT" using assms(4) by (simp_all add: MAX_ARG_COUNT_def)
  have a: "applyExternalLibraryPrimitive env oh fnHandle argsFormat callFormat resultFormat argsArr =
      (let r = if callFormat = CALL_FORMAT_C then ?c False else ?f in external_result (snd r) resultFormat (fst r))"
    using assms(1-3,6) n m
    by (auto simp: applyExternalLibraryPrimitive_def switch_c_def switch_std_def first_args_all [OF len] Let_def split_beta
        CALL_FORMAT_C_def CALL_FORMAT_STD_def)
  show ?thesis
  proof (cases "callFormat = CALL_FORMAT_C")
    case True
    then show ?thesis unfolding a args_def [symmetric]
      by (intro exI [of _ "fst (?c False)"] exI [of _ "snd (?c False)"] exI [of _ "[args]"])
        (simp add: CALL_FORMAT_C_def CALL_FORMAT_STD_def len Let_def)
  next
    case False
    obtain wss where w: "map length wss = ?more"
      "os_trace (process (snd ?f)) = map (CallForeign True ?fn) (rev wss) @ os_trace (process (snd (?c True)))"
      using repeated_calls [of ?more env ?fn args "?c True"] by blast
    have "map length (args # wss) = (if 13 \<le> n then [n..<17] else [n])"
      using w(1) len assms(4) by (simp add: upt_conv_Cons)
    then show ?thesis unfolding a args_def [symmetric] using False assms(6) w(2)
      by (intro exI [of _ "fst ?f"] exI [of _ "snd ?f"] exI [of _ "args # wss"]) (simp add: Let_def)
  qed
qed

text \<open>The sample heap with a function at address 9000 and thirteen arguments 7.\<close>

definition foreign_heap :: object_heap where
  "foreign_heap = sample_heap\<lparr>mem := sample_mem(
     20480 := sample_block [header_word 2 20, 4, 8, 1024, 9000],
     20544 := sample_block ([header_word 1 21, 4, 104, 1024] @ replicate 13 ARG_FORMAT_INT),
     20736 := sample_block ([header_word 1 22, 4, 104, 1024] @ replicate 13 (smallint_to_object 7)))\<rparr>"

theorem foreign_calls_made_witness:
  "\<forall>env. \<exists>a oh' wss. applyExternalLibraryPrimitive env foreign_heap 20480 20544 CALL_FORMAT_STD ARG_FORMAT_BOOLEAN 20736
      = external_result oh' ARG_FORMAT_BOOLEAN a \<and>
    os_trace (process oh') = map (CallForeign True 9000) (rev wss) @ os_trace (process foreign_heap) \<and>
    hd wss = replicate 13 7 \<and> length wss = 4"
proof
  fix env
  have h: "has_room (mem foreign_heap) 20480" "object_array_size (mem foreign_heap) 20736 = Some (int 13)"
    "object_array_size (mem foreign_heap) 20544 = Some (int 13)"
    "\<forall>i<13. rd (mem foreign_heap) 20544 (4 + i) = ARG_FORMAT_INT \<and> object_is_smallint (rd (mem foreign_heap) 20736 (4 + i))"
    "get_pointer (mem foreign_heap) 20480 = 9000"
    "map (\<lambda>i. object_to_smallint (rd (mem foreign_heap) 20736 (4 + i))) [0..<13] = replicate 13 7"
    by code_simp+
  have "(13::nat) \<le> 16" by simp
  then obtain a oh' wss where r: "applyExternalLibraryPrimitive env foreign_heap 20480 20544 CALL_FORMAT_STD ARG_FORMAT_BOOLEAN 20736
      = external_result oh' ARG_FORMAT_BOOLEAN a"
    "os_trace (process oh') = map (CallForeign (CALL_FORMAT_STD = CALL_FORMAT_STD) 9000) (rev wss) @ os_trace (process foreign_heap)"
    "hd wss = replicate 13 7" "map length wss = (if CALL_FORMAT_STD = CALL_FORMAT_STD \<and> 13 \<le> (13::nat) then [13..<17] else [13])"
    using foreign_calls_made [OF h(1-3) _ h(4) disjI2 [OF refl], of env ARG_FORMAT_BOOLEAN, unfolded h(5,6)] by blast
  have "length wss = 4" using arg_cong [OF r(4), of length] by simp
  moreover have "os_trace (process oh') = map (CallForeign True 9000) (rev wss) @ os_trace (process foreign_heap)" using r(2) by simp
  ultimately show "\<exists>a oh' wss. applyExternalLibraryPrimitive env foreign_heap 20480 20544 CALL_FORMAT_STD ARG_FORMAT_BOOLEAN 20736
      = external_result oh' ARG_FORMAT_BOOLEAN a \<and>
    os_trace (process oh') = map (CallForeign True 9000) (rev wss) @ os_trace (process foreign_heap) \<and>
    hd wss = replicate 13 7 \<and> length wss = 4" using r(1,3) by blast
qed

end
