(* ===== verification/Debug.thy ===== *)
theory Debug
  imports Primitives
begin

text \<open>
  The printing routines (debug.cpp, \<open>print_code\<close> of optimizer.cpp, \<open>unhandled_signal\<close> of interpreter.cpp) as the text that
  they write. Pointers and the null string are printed as by the GNU C library. A routine that fails an assertion or
  reads where nothing is has no text (\<open>None\<close>).
\<close>

section \<open>Formats\<close>

definition NL :: string where "NL = [CHR 0x0A]"
definition QUOTE :: string where "QUOTE = [CHR 0x27]"

definition digit :: "int \<Rightarrow> char" where
  "digit n = ''0123456789abcdef'' ! nat n"

function digits :: "int \<Rightarrow> int \<Rightarrow> string" where
  "digits base n = (if n < base \<or> base < 2 then [digit n] else digits base (n div base) @ [digit (n mod base)])"
  by auto
termination
  by (relation "measure (\<lambda>(base, n). nat n)") (auto simp: nat_less_eq_zless int_div_less_self)

declare digits.simps [simp del]

definition decimal :: "word_t \<Rightarrow> string" where
  "decimal n = (if n < 0 then ''-'' @ digits 10 (- n) else digits 10 n)"

definition unsigned_decimal :: "word_t \<Rightarrow> string" where
  "unsigned_decimal n = digits 10 (take_bit 64 n)"

definition hex :: "word_t \<Rightarrow> string" where
  "hex n = digits 16 (take_bit 64 n)"

definition zero_padded :: "nat \<Rightarrow> string \<Rightarrow> string" where
  "zero_padded k s = replicate (k - length s) CHR ''0'' @ s"

definition pointer :: "addr \<Rightarrow> string" where
  "pointer p = (if p = 0 then ''(nil)'' else ''0x'' @ hex p)"

text \<open>The texts of a sequence.\<close>

fun texts :: "('a \<Rightarrow> string option) \<Rightarrow> 'a list \<Rightarrow> string option" where
  "texts f [] = Some []"
| "texts f (x # xs) = do { t \<leftarrow> f x; ts \<leftarrow> texts f xs; Some (t @ ts) }"

lemma texts_cong [fundef_cong]: "xs = ys \<Longrightarrow> (\<And>x. x \<in> set ys \<Longrightarrow> f x = g x) \<Longrightarrow> texts f xs = texts g ys"
  by (induction ys arbitrary: xs) auto

section \<open>Objects\<close>

definition type_name :: "word_t \<Rightarrow> string" where
  "type_name t = (if t = TYPE_OBJECT then ''normal'' else if t = TYPE_OOP_ARRAY then ''oop array''
     else if t = TYPE_BYTE_ARRAY then ''byte array'' else ''(null)'')"

definition print_object :: "mem \<Rightarrow> oop \<Rightarrow> string" where
  "print_object m x =
     (if x = 0 then ''<object NULL>'' @ NL
      else if object_is_smallint x then ''<object int_value: '' @ decimal (object_to_smallint x) @ ''>'' @ NL
      else ''<object at '' @ pointer x @ '', hash: 0x'' @ hex (object_hash m x) @ '', size: '' @ decimal (object_size m x)
        @ '', payload size: '' @ decimal (payload_size m x) @ '', type: '' @ type_name (object_type m x) @ ''>'' @ NL)"

definition print_symbol :: "mem \<Rightarrow> addr \<Rightarrow> string" where
  "print_symbol m name = map char_of (get_bytes m name ELEMENTS (nat (payload_size m name)))"

definition indent :: "word_t \<Rightarrow> string" where
  "indent amount = concat (replicate (nat amount) ''    '')"

text \<open>A byte is a signed \<open>char\<close>: from 128 on it is printed as the sixteen digits of a negative word.\<close>

definition byte_text :: "word_t \<Rightarrow> string" where
  "byte_text c = (if 32 \<le> c \<and> c \<le> 126 then [char_of c] else CHR 0x5C # ''x'' @ zero_padded 2 (hex c))"

function bytes_text :: "mem \<Rightarrow> addr \<Rightarrow> word_t \<Rightarrow> word_t \<Rightarrow> string" where
  "bytes_text m x n i =
     (if i < n then
        let text = byte_text (signed_take_bit 7 (byte_array_get_element m x i)) in
        if i > 10 \<and> n - i > 100 then text @ ''{..snip..}'' @ bytes_text m x n (n - 20 + 1)
        else text @ bytes_text m x n (i + 1)
      else [])"
  by auto
termination
  by (relation "measure (\<lambda>(m, x, n, i). nat (n - i))") auto

declare bytes_text.simps [simp del]

definition print_byte_array :: "mem \<Rightarrow> addr \<Rightarrow> string" where
  "print_byte_array m x = QUOTE @ bytes_text m x (payload_size m x) 0 @ QUOTE"

text \<open>The indexes of an array that are printed; \<open>True\<close> when the rest but the last one is left out after it.\<close>

function array_shown :: "word_t \<Rightarrow> word_t \<Rightarrow> (word_t \<times> bool) list" where
  "array_shown n i =
     (if i < n then if n - i > 10 then (i, True) # array_shown n (n - 2 + 1) else (i, False) # array_shown n (i + 1)
      else [])"
  by auto
termination
  by (relation "measure (\<lambda>(n, i). nat (n - i))") auto

declare array_shown.simps [simp del]

function roles_text :: "mem \<Rightarrow> oop \<Rightarrow> addr \<Rightarrow> word_t \<Rightarrow> word_t \<Rightarrow> word_t \<Rightarrow> string" where
  "roles_text m nil table depth limit i =
     (if i < limit then
        if role_name m table i = nil then roles_text m nil table depth limit (i + 1)
        else indent depth @ ''role['' @ decimal i @ '']['' @ QUOTE @ print_symbol m (role_name m table i)
          @ QUOTE @ ''] @ 0x'' @ zero_padded 4 (hex (object_to_smallint (role_positions m table i))) @ NL
          @ (if limit - i > 50 \<and> depth \<ge> 2
             then indent depth @ ''...'' @ NL @ roles_text m nil table depth limit (limit - 3 + 1)
             else roles_text m nil table depth limit (i + 1))
      else [])"
  by auto
termination
  by (relation "measure (\<lambda>(m, nil, table, depth, limit, i). nat (limit - i))") auto

declare roles_text.simps [simp del]

definition slot_text :: "mem \<Rightarrow> addr \<Rightarrow> addr \<Rightarrow> word_t \<Rightarrow> word_t \<Rightarrow> string" where
  "slot_text m x table depth i =
     (let obj = object_slot_value_at_offset m x (object_to_smallint (slot_offset m table i)) in
      indent depth @ ''slot['' @ decimal i @ '']['' @ QUOTE @ print_symbol m (slot_name m table i) @ QUOTE @ ''] = ''
      @ (if object_is_smallint obj \<or> object_type m obj \<noteq> TYPE_BYTE_ARRAY then print_object m obj
         else print_byte_array m obj @ NL))"

function print_object_with_depth :: "object_heap \<Rightarrow> oop \<Rightarrow> word_t \<Rightarrow> word_t \<Rightarrow> string option" where
  "print_object_with_depth oh x depth max_depth =
     (let m = mem oh; mp = object_map m x in
      if depth \<ge> max_depth \<or> object_is_smallint x then Some (''(depth limit reached) '' @ print_object m x)
      else if x = c_nil oh then Some (''<object NilObject>'' @ NL)
      else if object_hash m x \<ge> ID_HASH_RESERVED
      then Some (print_object m x @ indent depth @ ''<object is free/reserved>'' @ NL)
      else do {
        let bytes = (if object_type m x = TYPE_BYTE_ARRAY then indent depth @ ''bytes: '' @ print_byte_array m x @ NL else []);
        array \<leftarrow> if object_type m x = TYPE_OOP_ARRAY then do {
            ts \<leftarrow> texts (\<lambda>(i, snip). do {
                t \<leftarrow> print_object_with_depth oh (elements m x i) (depth + 1) max_depth;
                Some (indent depth @ ''array['' @ decimal i @ '']: '' @ t @ (if snip then indent depth @ ''...'' @ NL else [])) })
              (array_shown (payload_words m x) 0);
            Some (indent depth @ ''size(array) = '' @ decimal (payload_words m x) @ NL @ ts) }
          else Some [];
        let restricted = (map_flags m mp AND MAP_FLAG_RESTRICT_DELEGATION \<noteq> 0);
        let flags = indent depth @ ''map flags: '' @ decimal (object_to_smallint (map_flags m mp)) @ '' (''
          @ (if restricted then ''delegation restricted'' else ''delegation not restricted'') @ '')'' @ NL;
        let delegates = map_delegates m mp;
        let count = object_word_size m delegates - object_size m delegates;
        check (0 \<le> count);
        ds \<leftarrow> texts (\<lambda>i. do {
            t \<leftarrow> print_object_with_depth oh (rd m delegates (nat (object_size m delegates + i)))
              (if restricted then max (max_depth - 1) (depth + 1) else depth + 1) max_depth;
            Some (indent depth @ ''delegate['' @ decimal i @ ''] = '' @ t) })
          [0..count - 1];
        let slotTable = map_slotTable m mp;
        limit \<leftarrow> slot_table_capacity m slotTable;
        let slots = indent depth @ ''slot count: '' @ decimal (object_to_smallint (map_slotCount m mp)) @ NL
          @ concat (map (slot_text m x slotTable depth) (filter (\<lambda>i. slot_name m slotTable i \<noteq> c_nil oh) [0..limit - 1]));
        limit \<leftarrow> role_table_capacity m (map_roleTable m mp);
        let roles = indent depth @ ''role table capacity: '' @ decimal limit @ NL
          @ roles_text m (c_nil oh) (map_roleTable m mp) depth limit 0;
        Some (print_object m x @ indent depth @ ''{'' @ NL @ bytes @ array @ flags @ ds @ slots @ roles
          @ indent depth @ ''}'' @ NL) })"
  by pat_completeness auto
termination
  by (relation "measure (\<lambda>(oh, x, depth, max_depth). nat (max_depth - depth))") auto

declare print_object_with_depth.simps [simp del]

definition print_detail :: "object_heap \<Rightarrow> oop \<Rightarrow> string option" where
  "print_detail oh x = print_object_with_depth oh x 1 5"

section \<open>Names and types\<close>

text \<open>The answer tells whether a name was found.\<close>

definition print_printname :: "object_heap \<Rightarrow> addr \<Rightarrow> (bool \<times> string) option" where
  "print_printname oh x = do {
     let m = mem oh;
     let slotTable = map_slotTable m (object_map m x);
     limit \<leftarrow> slot_table_capacity m slotTable;
     case List.find (\<lambda>i. slot_name m slotTable i \<noteq> c_nil oh
         \<and> map char_of (get_bytes m (slot_name m slotTable i) ELEMENTS 9) = ''printName'') [0..limit - 1] of
       None \<Rightarrow> Some (False, [])
     | Some i \<Rightarrow>
         let obj = object_slot_value_at_offset m x (object_to_smallint (slot_offset m slotTable i)) in
         if object_is_smallint obj \<or> object_type m obj \<noteq> TYPE_BYTE_ARRAY then Some (False, [])
         else Some (True, print_byte_array m obj) }"

text \<open>The delegates of the map of an object, unless there are none.\<close>

definition delegates_of :: "mem \<Rightarrow> addr \<Rightarrow> (addr \<times> word_t) option option" where
  "delegates_of m x =
     (let d = map_delegates m (object_map m x) in
      if d = 0 then Some None
      else do { n \<leftarrow> object_array_size m d; Some (if n < 1 then None else Some (d, n)) })"

text \<open>The hexadecimal prefix of a small integer is followed by decimal digits.\<close>

definition print_type :: "object_heap \<Rightarrow> oop \<Rightarrow> string option" where
  "print_type oh x =
     (let m = mem oh; fail = ''<unknown type>'' @ NL in
      if object_is_smallint x
      then Some (decimal (object_to_smallint x) @ '' (0x'' @ unsigned_decimal (object_to_smallint x) @ '')'' @ NL)
      else do {
        let bytes = (if object_type m x = TYPE_BYTE_ARRAY then ''('' @ print_byte_array m x @ '') '' else []);
        ds \<leftarrow> delegates_of m x;
        case ds of
          None \<Rightarrow> Some (bytes @ fail)
        | Some (d, _) \<Rightarrow> do {
            let window = elements m d 0;
            let bytes = bytes @ (if window = c_compiled_method_window oh
              then ''(method #'' @ print_byte_array m (cm_selector m (cm_method m x)) @ '')'' else []);
            ds \<leftarrow> delegates_of m window;
            case ds of
              None \<Rightarrow> Some (bytes @ fail)
            | Some (d, n) \<Rightarrow>
                let traits = elements m d (n - 1) in
                if x = c_nil oh then Some (bytes @ ''nil'' @ NL)
                else if x = c_true_object oh then Some (bytes @ ''true'' @ NL)
                else if x = c_false_object oh then Some (bytes @ ''false'' @ NL)
                else do {
                  (_, own) \<leftarrow> print_printname oh x;
                  (_, name) \<leftarrow> print_printname oh traits;
                  Some (bytes @ own @ ''('' @ name @ '')'' @ NL) } } })"

section \<open>The stack\<close>

definition stack_line :: "(oop \<Rightarrow> string option) \<Rightarrow> object_heap \<Rightarrow> word_t \<Rightarrow> string option" where
  "stack_line f oh j = do { t \<leftarrow> f (stack_at oh j); Some (''stack['' @ decimal j @ ''] = '' @ t) }"

definition print_stack :: "object_heap \<Rightarrow> string option" where
  "print_stack oh = texts (stack_line (print_detail oh) oh) [0..i_stackPointer oh - 1]"

definition print_stack_types :: "object_heap \<Rightarrow> word_t \<Rightarrow> string option" where
  "print_stack_types oh last_count =
     texts (stack_line (print_type oh) oh) (filter (\<lambda>j. \<not> i_stackPointer oh - j > last_count) [0..i_stackPointer oh - 1])"

text \<open>One frame of a backtrace: the registers, then the variables from the context on the heap or from the stack.\<close>

definition variable_line :: "object_heap \<Rightarrow> word_t \<Rightarrow> string \<Rightarrow> word_t \<Rightarrow> string \<Rightarrow> oop \<Rightarrow> string option" where
  "variable_line oh depth name j eq v = do {
     t \<leftarrow> if depth > - 1 then print_type oh v else print_detail oh v;
     Some (name @ ''['' @ decimal j @ ''] ('' @ pointer v @ eq @ t) }"

definition frame_text :: "object_heap \<Rightarrow> addr \<Rightarrow> addr \<Rightarrow> word_t \<Rightarrow> word_t \<Rightarrow> word_t \<Rightarrow> word_t \<Rightarrow> word_t \<Rightarrow> word_t \<Rightarrow> string option" where
  "frame_text oh closure lc fp sp codePointer codeSize resultStackPointer depth =
     (let m = mem oh; cm = cm_method m closure;
          inputs = object_to_smallint (cm_inputVariables m cm); locals = object_to_smallint (cm_localVariables m cm);
          on_heap = (cm_heapAllocate m cm = c_true_object oh);
          vars = (\<lambda>j. if on_heap then rd m lc (nat (5 + j)) else stack_at oh (fp + j))
      in do {
        args \<leftarrow> texts (\<lambda>j. variable_line oh depth ''arg'' j '') = '' (vars j)) [0..inputs - 1];
        variables \<leftarrow> if on_heap then texts (\<lambda>j. variable_line oh depth ''var'' j '')= '' (rd m lc (nat (5 + j)))) [0..locals - 1]
          else texts (\<lambda>j. variable_line oh depth ''var'' (j - inputs) '') = '' (vars j)) [inputs..inputs + locals - 1];
        Some (replicate 30 CHR ''-'' @ NL @ ''FP: '' @ decimal fp @ NL @ ''SP: '' @ decimal sp @ NL
          @ ''IP: '' @ decimal codePointer @ ''/'' @ decimal codeSize @ NL @ ''result: '' @ decimal resultStackPointer @ NL
          @ ''code: '' @ pointer (cm_code m cm) @ NL @ ''selector #'' @ print_byte_array m (cm_selector m cm) @ NL
          @ ''regs: '' @ decimal (object_to_smallint (cm_registerCount m cm)) @ NL
          @ ''heap alloc: '' @ (if on_heap then ''true'' else ''false'') @ NL @ args @ variables) })"

partial_function (option) backtrace_loop ::
  "object_heap \<Rightarrow> addr \<Rightarrow> addr \<Rightarrow> word_t \<Rightarrow> word_t \<Rightarrow> word_t \<Rightarrow> word_t \<Rightarrow> word_t \<Rightarrow> word_t \<Rightarrow> string option" where
  "backtrace_loop oh closure lc fp sp codePointer codeSize resultStackPointer depth = do {
     text \<leftarrow> frame_text oh closure lc fp sp codePointer codeSize resultStackPointer depth;
     let codePointer = object_to_smallint (stack_at oh (fp - FRAME_OFFSET_CODE_POINTER));
     let fp = object_to_smallint (stack_at oh (fp - FRAME_OFFSET_PREVIOUS_FRAME_POINTER));
     if fp < FUNCTION_FRAME_SIZE then Some text
     else do {
       let closure = stack_at oh (fp - FRAME_OFFSET_METHOD);
       codeSize \<leftarrow> object_array_size (mem oh) (cm_code (mem oh) (cm_method (mem oh) closure));
       rest \<leftarrow> backtrace_loop oh closure (stack_at oh (fp - FRAME_OFFSET_LEXICAL_CONTEXT)) fp
         (object_to_smallint (stack_at oh (fp - FRAME_OFFSET_BEFORE_CALL_STACK_POINTER))) codePointer codeSize
         (object_to_smallint (stack_at oh (fp - FRAME_OFFSET_RESULT_STACK_POINTER))) (depth + 1);
       Some (text @ rest) } }"

declare backtrace_loop.simps [code]

definition print_backtrace :: "object_heap \<Rightarrow> string option" where
  "print_backtrace oh = do {
     let fp = i_framePointer oh;
     text \<leftarrow> backtrace_loop oh (i_method oh) (stack_at oh (fp - FRAME_OFFSET_LEXICAL_CONTEXT)) fp (i_stackPointer oh)
       (i_codePointer oh) (i_codeSize oh) (object_to_smallint (stack_at oh (fp - FRAME_OFFSET_RESULT_STACK_POINTER))) 0;
     Some (''printing backtrace from fp='' @ decimal fp @ '', sp='' @ decimal (i_stackPointer oh) @ NL @ text) }"

text \<open>What is printed before an unhandled signal ends the process.\<close>

definition unhandled_signal :: "object_heap \<Rightarrow> addr \<Rightarrow> oop list \<Rightarrow> string option" where
  "unhandled_signal oh selector args = do {
     ts \<leftarrow> texts (\<lambda>(i, a). do { t \<leftarrow> print_detail oh a; Some (''arg['' @ decimal (int i) @ ''] = '' @ t) })
       (enumerate 0 args);
     trace \<leftarrow> print_backtrace oh;
     Some (''Unhandled signal: '' @ print_symbol (mem oh) selector @ '' with '' @ decimal (int (length args)) @ '' arguments: '' @ NL
       @ ts @ ''partial stack: '' @ NL @ trace) }"

section \<open>Code\<close>

definition opcode_names :: "string list" where
  "opcode_names = [''direct send message '', ''indirect send message '', ''-'', ''load literal '', ''store literal '',
     ''send message with opts '', ''-'', ''new closure '', ''new array with '', ''resend message '', ''return from '',
     ''load env '', ''load var '', ''store var '', ''load free var '', ''store free var '', ''is identical to '',
     ''branch keyed '', ''jump to '', ''move reg '', ''branch true '', ''branch false '', ''return reg '', ''return val '',
     ''resume '', ''primitiveDo '', ''directApplyTo '', ''is nil '', ''inline primitive check jump '', ''inline method check jump '']"

definition print_opcode_args :: "object_heap \<Rightarrow> word_t list \<Rightarrow> int \<Rightarrow> int \<Rightarrow> string option" where
  "print_opcode_args oh code start args = texts (\<lambda>i. do { w \<leftarrow> code_at code i; print_type oh w }) [start..start + args - 1]"

text \<open>An opcode above the table and below the internal ones has no name: a read past the table.\<close>

definition opcode_name :: "word_t \<Rightarrow> string option" where
  "opcode_name rawop =
     (if rawop \<ge> op_word OP_INTERNAL_SEND then Some ''<internal>''
      else do { check (0 \<le> rawop \<and> drop_bit 1 rawop < int (length opcode_names)); Some (opcode_names ! nat (drop_bit 1 rawop)) })"

partial_function (option) print_code_loop :: "object_heap \<Rightarrow> word_t list \<Rightarrow> int \<Rightarrow> string option" where
  "print_code_loop oh code i =
     (if i < int (length code) then do {
        rawop \<leftarrow> code_at code i;
        name \<leftarrow> opcode_name rawop;
        n \<leftarrow> opcode_length code i;
        args \<leftarrow> print_opcode_args oh code (i + 1) (n - 1);
        rest \<leftarrow> print_code_loop oh code (i + n);
        Some (''['' @ decimal i @ ''] '' @ name @ args @ NL @ rest) }
      else Some [])"

declare print_code_loop.simps [code]

definition print_code :: "object_heap \<Rightarrow> word_t list \<Rightarrow> string option" where
  "print_code oh code = print_code_loop oh code 0"

definition print_code_disassembled :: "object_heap \<Rightarrow> addr \<Rightarrow> string option" where
  "print_code_disassembled oh slatecode = do {
     code \<leftarrow> optimizer_append_code_to_vector (mem oh) slatecode;
     print_code oh code }"

definition print_pic_entries :: "object_heap \<Rightarrow> addr \<Rightarrow> string option" where
  "print_pic_entries oh aMethod =
     (let m = mem oh; pic = cm_calleeCount m aMethod in
      if pic = c_nil oh then Some []
      else do {
        n \<leftarrow> object_array_size m pic;
        texts (\<lambda>i. let def = elements m pic (i + PIC_CALLEE) in
          if def = c_nil oh then Some []
          else do {
            let picMethod = def_method m def;
            check (traitsWindow m picMethod = c_compiled_method_window oh \<or> traitsWindow m picMethod = c_primitive_method_window oh);
            print_type oh (cm_selector m picMethod) })
          (filter (\<lambda>i. CALLER_PIC_ENTRY_SIZE dvd i) [0..n - 1]) })"

section \<open>Length of a printed byte array\<close>

lemma digits_length: "0 \<le> n \<Longrightarrow> n < 16 ^ Suc k \<Longrightarrow> length (digits 16 n) \<le> Suc k"
proof (induction k arbitrary: n)
  case 0
  then show ?case by (simp add: digits.simps)
next
  case (Suc k)
  show ?case
  proof (cases "n < 16")
    case False
    have "n div 16 < 16 ^ Suc k" using Suc.prems by simp
    with Suc False show ?thesis by (subst digits.simps) (simp add: pos_imp_zdiv_nonneg_iff)
  qed (simp add: digits.simps)
qed

lemma byte_text_length: "length (byte_text c) \<le> 18"
proof -
  have "take_bit 64 c < 16 ^ Suc 15" using take_bit_int_less_exp [of 64 c] by simp
  then have "length (hex c) \<le> 16" using digits_length [of "take_bit 64 c" 15] by (simp add: hex_def)
  then have "length (zero_padded 2 (hex c)) \<le> 16" by (simp add: zero_padded_def)
  then show ?thesis by (simp add: byte_text_def)
qed

lemma bytes_text_short: "n - i \<le> 100 \<Longrightarrow> int (length (bytes_text m x n i)) \<le> 18 * max 0 (n - i)"
proof (induction m x n i rule: bytes_text.induct)
  case (1 m x n i)
  let ?t = "byte_text (signed_take_bit 7 (byte_array_get_element m x i))"
  show ?case
  proof (cases "i < n")
    case True
    then have "int (length (bytes_text m x n (i + 1))) \<le> 18 * max 0 (n - (i + 1))" using 1 by simp
    moreover have "bytes_text m x n i = ?t @ bytes_text m x n (i + 1)" using True 1(3) by (subst bytes_text.simps) simp
    ultimately show ?thesis using True byte_text_length [of "signed_take_bit 7 (byte_array_get_element m x i)"] by simp
  qed (simp add: bytes_text.simps)
qed

lemma bytes_text_snip:
  assumes "10 < i" "i \<le> 11"
  shows "int (length (bytes_text m x n i)) \<le> 1800"
proof (cases "n - i \<le> 100")
  case True
  then have "18 * max 0 (n - i) \<le> 1800" by simp
  with bytes_text_short [OF True, of m x] show ?thesis by (rule order_trans)
next
  case False
  then have "bytes_text m x n i = byte_text (signed_take_bit 7 (byte_array_get_element m x i)) @ ''{..snip..}'' @ bytes_text m x n (n - 20 + 1)"
    using assms by (subst bytes_text.simps) simp
  moreover have "int (length (bytes_text m x n (n - 20 + 1))) \<le> 18 * 19"
    using bytes_text_short [of n "n - 20 + 1" m x] by simp
  ultimately show ?thesis using byte_text_length [of "signed_take_bit 7 (byte_array_get_element m x i)"] by simp
qed

lemma bytes_text_start: "0 \<le> i \<Longrightarrow> i \<le> 11 \<Longrightarrow> int (length (bytes_text m x n i)) \<le> 1800 + 18 * (11 - i)"
proof (induction "nat (11 - i)" arbitrary: i)
  case 0
  then show ?case using bytes_text_snip [of i m x n] by simp
next
  case (Suc k)
  then have i: "i \<le> 10" by simp
  have "int (length (bytes_text m x n (i + 1))) \<le> 1800 + 18 * (11 - (i + 1))" using Suc by (intro Suc.hyps(1)) auto
  moreover have "bytes_text m x n i = (if i < n then byte_text (signed_take_bit 7 (byte_array_get_element m x i)) @ bytes_text m x n (i + 1) else [])"
    using i by (subst bytes_text.simps) simp
  ultimately show ?case using i byte_text_length [of "signed_take_bit 7 (byte_array_get_element m x i)"] by simp
qed

text \<open>
  C39. However large a byte array is, it is printed with at most 2000 characters: its first twelve bytes and its last nineteen
  when it has more than 111, with up to eighteen characters for each byte.
\<close>

theorem print_byte_array_bounded: "length (print_byte_array m x) \<le> 2000"
  using bytes_text_start [of 0 m x "payload_size m x"] by (simp add: print_byte_array_def QUOTE_def)

end
