(* ===== verification/Integrity.thy ===== *)
theory Integrity
  imports Debug Sample
begin

text \<open>
  Walks over a space that change nothing: statistics and references (debug.cpp), and the integrity checks of the
  collector (gc.cpp) with what they establish.
\<close>

section \<open>Walks\<close>

locale space_walk =
  fixes m :: mem
    and body :: "'s \<Rightarrow> addr \<Rightarrow> 's option"
    and loop :: "addr \<Rightarrow> word_t \<Rightarrow> addr \<Rightarrow> 's \<Rightarrow> 's option"
  assumes loop_eq: "loop memory memorySize x s =
      (if object_in_memory x memory memorySize
       then do { s \<leftarrow> body s x; x \<leftarrow> object_after m x; loop memory memorySize x s }
       else Some s)"
begin

lemma loop_from:
  "chunks m a (memory + memorySize) xs \<Longrightarrow> memory \<le> a \<Longrightarrow> loop memory memorySize a s = fold_opt body xs s"
proof (induction xs arbitrary: a s)
  case Nil
  then show ?case by (subst loop_eq) (simp add: object_in_memory_def)
next
  case (Cons x xs)
  then have "x = a" "4 \<le> object_word_size m a" "a < memory + memorySize"
    "chunks m (a + object_total_size m a) (memory + memorySize) xs" by auto
  moreover from this have "loop memory memorySize (a + object_total_size m a) s' = fold_opt body xs s'" for s'
    by (intro Cons.IH) (use Cons.prems in \<open>auto simp: object_total_size_def\<close>)
  ultimately show ?case using Cons.prems
    by (subst loop_eq) (simp add: object_in_memory_def object_after_chunk)
qed

lemma walk: "chunks m memory (memory + memorySize) xs \<Longrightarrow> loop memory memorySize memory s = fold_opt body xs s"
  by (rule loop_from) simp_all

end

section \<open>Statistics\<close>

text \<open>Pinned, free and used objects, counted in this order; the text so far comes first.\<close>

datatype object_state = Pinned | Free | Used

definition object_state :: "object_heap \<Rightarrow> addr \<Rightarrow> object_state" where
  "object_state oh x = (if object_is_pinned oh x then Pinned else if object_is_free (mem oh) x then Free else Used)"

definition counts_text :: "object_state list \<Rightarrow> string" where
  "counts_text ss = ''free: '' @ decimal (int (length (filter ((=) Free) ss))) @ '', used: '' @ decimal (int (length (filter ((=) Used) ss)))
     @ '', pinned: '' @ decimal (int (length (filter ((=) Pinned) ss))) @ NL"

fun state_text :: "object_state \<Rightarrow> string" where
  "state_text Pinned = ''[pinned ''"
| "state_text Free = ''[free ''"
| "state_text Used = ''[used ''"

fun state_mark :: "object_state \<Rightarrow> string" where
  "state_mark Pinned = ''X''"
| "state_mark Free = '' ''"
| "state_mark Used = ''*''"

partial_function (option) print_objects_loop ::
  "object_heap \<Rightarrow> addr \<Rightarrow> word_t \<Rightarrow> addr \<Rightarrow> string \<times> object_state list \<Rightarrow> (string \<times> object_state list) option" where
  "print_objects_loop oh memory memorySize x s =
     (if object_in_memory x memory memorySize
      then let state = object_state oh x;
               s = (fst s @ state_text state @ decimal (object_total_size (mem oh) x) @ '']'' @ NL, state # snd s) in do {
        x \<leftarrow> object_after (mem oh) x;
        print_objects_loop oh memory memorySize x s }
      else Some s)"

declare print_objects_loop.simps [code]

definition heap_print_objects :: "object_heap \<Rightarrow> addr \<Rightarrow> word_t \<Rightarrow> string option" where
  "heap_print_objects oh memory memorySize = do {
     (text, states) \<leftarrow> print_objects_loop oh memory memorySize memory (NL @ ''memory:'' @ NL, []);
     Some (text @ NL @ counts_text states) }"

text \<open>Lines of eighty marks.\<close>

partial_function (option) print_marks_loop ::
  "object_heap \<Rightarrow> addr \<Rightarrow> word_t \<Rightarrow> addr \<Rightarrow> string \<times> object_state list \<times> word_t \<Rightarrow> (string \<times> object_state list \<times> word_t) option" where
  "print_marks_loop oh memory memorySize x s =
     (if object_in_memory x memory memorySize
      then let state = object_state oh x; count = snd (snd s) - 1;
               text = fst s @ state_mark state @ (if count = 0 then NL else []);
               s = (text, state # fst (snd s), if count = 0 then 80 else count) in do {
        x \<leftarrow> object_after (mem oh) x;
        print_marks_loop oh memory memorySize x s }
      else Some s)"

declare print_marks_loop.simps [code]

definition heap_print_marks :: "object_heap \<Rightarrow> addr \<Rightarrow> word_t \<Rightarrow> string option" where
  "heap_print_marks oh memory memorySize = do {
     (text, states, _) \<leftarrow> print_marks_loop oh memory memorySize memory (NL @ ''memory:'' @ NL, [], 80);
     Some (text @ NL @ counts_text states) }"

section \<open>References\<close>

definition points_to :: "mem \<Rightarrow> oop \<Rightarrow> addr \<Rightarrow> bool option" where
  "points_to m x obj = do { slots \<leftarrow> oop_slots m obj; Some (\<exists>k\<in>set slots. rd m obj k = x) }"

text \<open>Free chunks are searched too, but do not count.\<close>

definition count_pointer :: "mem \<Rightarrow> oop \<Rightarrow> bool \<Rightarrow> word_t \<times> string \<Rightarrow> addr \<Rightarrow> (word_t \<times> string) option" where
  "count_pointer m x print s obj = do {
     found \<leftarrow> points_to m x obj;
     Some (if found \<and> \<not> object_is_free m obj
       then (fst s + 1, snd s @ (if print then ''pointed to by '' @ print_object m obj else [])) else s) }"

partial_function (option) what_points_to_loop ::
  "mem \<Rightarrow> oop \<Rightarrow> bool \<Rightarrow> addr \<Rightarrow> word_t \<Rightarrow> addr \<Rightarrow> word_t \<times> string \<Rightarrow> (word_t \<times> string) option" where
  "what_points_to_loop m x print memory memorySize obj s =
     (if object_in_memory obj memory memorySize
      then do {
        s \<leftarrow> count_pointer m x print s obj;
        obj \<leftarrow> object_after m obj;
        what_points_to_loop m x print memory memorySize obj s }
      else Some s)"

declare what_points_to_loop.simps [code]

definition heap_what_points_to_in :: "object_heap \<Rightarrow> oop \<Rightarrow> addr \<Rightarrow> word_t \<Rightarrow> bool \<Rightarrow> (word_t \<times> string) option" where
  "heap_what_points_to_in oh x memory memorySize print =
     what_points_to_loop (mem oh) x print memory memorySize memory (0, [])"

definition heap_what_points_to :: "object_heap \<Rightarrow> oop \<Rightarrow> bool \<Rightarrow> (word_t \<times> string) option" where
  "heap_what_points_to oh x print = do {
     (n, olds) \<leftarrow> heap_what_points_to_in oh x (memoryOld oh) (memoryOldSize oh) print;
     (k, youngs) \<leftarrow> heap_what_points_to_in oh x (memoryYoung oh) (memoryYoungSize oh) print;
     Some (n + k, olds @ youngs) }"

section \<open>Integrity checks\<close>

definition assert_good_object :: "object_heap \<Rightarrow> oop \<Rightarrow> unit option" where
  "assert_good_object oh obj =
     (let m = mem oh in
      if object_is_smallint obj then Some ()
      else do {
        check (payload_size m obj < 40 * 1024 * 1024);
        check (object_size m obj < 40 * 1024 * 1024);
        check (object_type m obj < 3);
        check (object_is_young oh obj \<or> object_is_old oh obj);
        check (object_is_young oh (object_map m obj) \<or> object_is_old oh (object_map m obj));
        check (\<not> object_is_free m obj);
        check (\<not> object_is_free m (object_map m obj)) })"

fun assert_good_object_recursive :: "object_heap \<Rightarrow> oop \<Rightarrow> nat \<Rightarrow> unit option" where
  "assert_good_object_recursive oh obj 0 = assert_good_object oh obj"
| "assert_good_object_recursive oh obj (Suc depth) = do {
     assert_good_object oh obj;
     slots \<leftarrow> oop_slots (mem oh) obj;
     fold_opt (\<lambda>_ k. let val = rd (mem oh) obj k in
       if \<not> object_is_smallint val then assert_good_object_recursive oh val depth else Some ()) slots () }"

definition check_object :: "object_heap \<Rightarrow> (oop \<Rightarrow> unit option) \<Rightarrow> unit \<Rightarrow> addr \<Rightarrow> unit option" where
  "check_object oh good _ x =
     (if object_is_free (mem oh) x then do {
        (n, _) \<leftarrow> heap_what_points_to oh x False;
        check (n = 0) }
      else good x)"

partial_function (option) integrity_loop :: "object_heap \<Rightarrow> (oop \<Rightarrow> unit option) \<Rightarrow> addr \<Rightarrow> word_t \<Rightarrow> addr \<Rightarrow> unit \<Rightarrow> unit option" where
  "integrity_loop oh good memory memorySize x u =
     (if object_in_memory x memory memorySize
      then do {
        u \<leftarrow> check_object oh good u x;
        x \<leftarrow> object_after (mem oh) x;
        integrity_loop oh good memory memorySize x u }
      else Some u)"

declare integrity_loop.simps [code]

definition heap_integrity_check :: "object_heap \<Rightarrow> addr \<Rightarrow> word_t \<Rightarrow> unit option" where
  "heap_integrity_check oh memory memorySize = integrity_loop oh (assert_good_object oh) memory memorySize memory ()"

definition heap_integrity_depth_check :: "object_heap \<Rightarrow> addr \<Rightarrow> word_t \<Rightarrow> unit option" where
  "heap_integrity_depth_check oh memory memorySize =
     integrity_loop oh (\<lambda>x. assert_good_object_recursive oh x 1) memory memorySize memory ()"

interpretation pointers: space_walk m "count_pointer m x print" "what_points_to_loop m x print" for m x print
  by unfold_locales (rule what_points_to_loop.simps)

interpretation checks: space_walk "mem oh" "check_object oh good" "integrity_loop oh good" for oh good
  by unfold_locales (rule integrity_loop.simps)

section \<open>What a passed check means\<close>

text \<open>The objects of a list that refer to \<open>x\<close> from a slot.\<close>

definition referrers :: "mem \<Rightarrow> addr list \<Rightarrow> oop \<Rightarrow> addr list" where
  "referrers m xs x = filter (\<lambda>p. \<not> object_is_free m p \<and> (\<exists>k\<in>oop_positions m p - {3}. rd m p k = x)) xs"

lemma points_to_positions:
  assumes "oop_slots m p \<noteq> None"
  shows "points_to m x p = Some (\<exists>k\<in>oop_positions m p - {3}. rd m p k = x)"
proof -
  obtain ks where ks: "oop_slots m p = Some ks" using assms by blast
  then have "oop_positions m p - {3} = set ks" using oop_slots_ge [OF ks] by (force simp: oop_positions_def)
  with ks show ?thesis by (simp add: points_to_def)
qed

definition pointed_by :: "mem \<Rightarrow> bool \<Rightarrow> addr list \<Rightarrow> string" where
  "pointed_by m print ps = (if print then concat (map (\<lambda>p. ''pointed to by '' @ print_object m p) ps) else [])"

lemma pointed_by_simps [simp]:
  "pointed_by m print [] = []"
  "pointed_by m print (p # ps) = (if print then ''pointed to by '' @ print_object m p else []) @ pointed_by m print ps"
  "pointed_by m print (ps @ qs) = pointed_by m print ps @ pointed_by m print qs"
  by (simp_all add: pointed_by_def)

lemma count_pointers:
  "\<forall>p\<in>set xs. oop_slots m p \<noteq> None \<Longrightarrow>
   fold_opt (count_pointer m x print) xs (n, t) =
     Some (n + int (length (referrers m xs x)), t @ pointed_by m print (referrers m xs x))"
proof (induction xs arbitrary: n t)
  case (Cons p xs)
  then have "points_to m x p = Some (\<exists>k\<in>oop_positions m p - {3}. rd m p k = x)" by (simp add: points_to_positions)
  with Cons show ?case by (simp add: count_pointer_def referrers_def)
qed (simp add: referrers_def)

definition partitioned :: "object_heap \<Rightarrow> addr list \<Rightarrow> addr list \<Rightarrow> bool" where
  "partitioned oh olds youngs \<longleftrightarrow>
     chunks (mem oh) (memoryOld oh) (memoryOld oh + memoryOldSize oh) olds \<and>
     chunks (mem oh) (memoryYoung oh) (memoryYoung oh + memoryYoungSize oh) youngs \<and>
     (\<forall>p\<in>set olds \<union> set youngs. oop_slots (mem oh) p \<noteq> None)"

lemma what_points_to:
  assumes "partitioned oh olds youngs"
  shows "heap_what_points_to oh x print = Some (int (length (referrers (mem oh) (olds @ youngs) x)),
    pointed_by (mem oh) print (referrers (mem oh) (olds @ youngs) x))"
proof -
  have h: "heap_what_points_to_in oh x a n print = Some (int (length (referrers (mem oh) xs x)), pointed_by (mem oh) print (referrers (mem oh) xs x))"
    if "chunks (mem oh) a (a + n) xs" "\<forall>p\<in>set xs. oop_slots (mem oh) p \<noteq> None" for a n xs
    using count_pointers [OF that(2), of x print 0 "[]"] pointers.walk [OF that(1), of x print "(0, [])"]
    by (simp add: heap_what_points_to_in_def)
  have "referrers (mem oh) (olds @ youngs) x = referrers (mem oh) olds x @ referrers (mem oh) youngs x" by (simp add: referrers_def)
  with assms h [of "memoryOld oh" "memoryOldSize oh" olds] h [of "memoryYoung oh" "memoryYoungSize oh" youngs]
  show ?thesis by (simp add: heap_what_points_to_def partitioned_def)
qed

lemma fold_checks: "fold_opt f xs () = Some () \<longleftrightarrow> (\<forall>x\<in>set xs. f () x = Some ())"
  by (induction xs) (auto simp: Option.bind_eq_Some_conv)

text \<open>
  C5. The integrity check of a space passes exactly when no slot of a live object, old or young, refers to a free chunk of the
  space, and every live object of the space is good: of a moderate size and a known format, with a map in one of the two spaces that is
  not free itself.
\<close>

theorem heap_integrity_check_exact:
  assumes "partitioned oh olds youngs"
    and "(memory, memorySize, xs) = (memoryOld oh, memoryOldSize oh, olds) \<or> (memory, memorySize, xs) = (memoryYoung oh, memoryYoungSize oh, youngs)"
  shows "heap_integrity_check oh memory memorySize = Some () \<longleftrightarrow>
    (\<forall>x\<in>set xs. if object_is_free (mem oh) x
       then \<forall>p\<in>live (mem oh) (olds @ youngs). \<forall>k\<in>oop_positions (mem oh) p - {3}. rd (mem oh) p k \<noteq> x
       else assert_good_object oh x = Some ())"
proof -
  have c: "chunks (mem oh) memory (memory + memorySize) xs" using assms by (auto simp: partitioned_def)
  have "heap_integrity_check oh memory memorySize = Some () \<longleftrightarrow> (\<forall>x\<in>set xs. check_object oh (assert_good_object oh) () x = Some ())"
    using checks.walk [OF c, of "assert_good_object oh" "()"] fold_checks by (simp add: heap_integrity_check_def)
  moreover have "check_object oh (assert_good_object oh) () x = Some () \<longleftrightarrow>
      (if object_is_free (mem oh) x then referrers (mem oh) (olds @ youngs) x = [] else assert_good_object oh x = Some ())" for x
    using what_points_to [OF assms(1), of x False] by (simp add: check_object_def) (metis check_simps not_None_eq)
  moreover have "referrers (mem oh) (olds @ youngs) x = [] \<longleftrightarrow>
      (\<forall>p\<in>live (mem oh) (olds @ youngs). \<forall>k\<in>oop_positions (mem oh) p - {3}. rd (mem oh) p k \<noteq> x)" for x
    unfolding referrers_def filter_empty_conv live_def by blast
  ultimately show ?thesis by simp
qed

text \<open>The check of the young space of the sample heap: the object on the stack is good, nothing points to the free chunk.\<close>

theorem heap_integrity_check_exact_witness:
  "heap_integrity_check sample_heap 4096 200 = Some () \<and> 4136 \<in> set sample_youngs \<and> object_is_free (mem sample_heap) 4136"
proof -
  have "\<forall>p\<in>set sample_olds \<union> set sample_youngs. oop_slots (mem sample_heap) p \<noteq> None" by code_simp
  then have p: "partitioned sample_heap sample_olds sample_youngs" using sample_spaces by (simp add: partitioned_def)
  have s: "(4096, 200, sample_youngs) = (memoryYoung sample_heap, memoryYoungSize sample_heap, sample_youngs)" by (simp add: sample_heap_def)
  have "\<forall>x\<in>set sample_youngs. if object_is_free (mem sample_heap) x
      then \<forall>p\<in>live (mem sample_heap) (sample_olds @ sample_youngs). \<forall>k\<in>oop_positions (mem sample_heap) p - {3}. rd (mem sample_heap) p k \<noteq> x
      else assert_good_object sample_heap x = Some ()" by code_simp
  moreover have "4136 \<in> set sample_youngs" "object_is_free (mem sample_heap) 4136" by code_simp+
  ultimately show ?thesis using heap_integrity_check_exact [OF p disjI2 [OF s]] by simp
qed

end
