(* ===== verification/Startup.thy ===== *)
theory Startup
  imports Machine
begin

text \<open>
  The start of the process (vm.cpp): the options of the command line, the choice of the image, loading
  it, and the machine running. Strings of the C side are lists of bytes without the zero byte. The files are a parameter: what the file of
  a name holds, \<open>None\<close> when it cannot be opened; so are the two names that the build fixes.
\<close>

section \<open>Strings\<close>

definition cstr :: "string \<Rightarrow> int list" where
  "cstr s = map of_char s"

definition is_digit :: "int \<Rightarrow> bool" where "is_digit c \<longleftrightarrow> 48 \<le> c \<and> c \<le> 57"
definition is_space :: "int \<Rightarrow> bool" where "is_space c \<longleftrightarrow> c = 32 \<or> 9 \<le> c \<and> c \<le> 13"

text \<open>\<open>atoi\<close>: blanks, a sign, digits; a value that is no \<open>int\<close> is undefined.\<close>

definition atoi :: "int list \<Rightarrow> int option" where
  "atoi s =
     (let s = dropWhile is_space s;
          negative = (s \<noteq> [] \<and> hd s = 45);
          s = (if s \<noteq> [] \<and> hd s \<in> {43, 45} then tl s else s);
          n = foldl (\<lambda>n c. 10 * n + (c - 48)) 0 (takeWhile is_digit s);
          n = (if negative then - n else n)
      in do { check (is_int32 n); Some n })"

fun starts_with :: "int list \<Rightarrow> int list \<Rightarrow> bool" where
  "starts_with [] s = True"
| "starts_with (c # cs) [] = False"
| "starts_with (c # cs) (d # s) = (c = d \<and> starts_with cs s)"

text \<open>\<open>strstr(s, needle) != NULL\<close>\<close>

fun strstr :: "int list \<Rightarrow> int list \<Rightarrow> bool" where
  "strstr [] needle = (needle = [])"
| "strstr (c # s) needle = (starts_with needle (c # s) \<or> strstr s needle)"

definition KB :: int where "KB = 1024"
definition MB :: int where "MB = 1024 * 1024"
definition GB :: int where "GB = 1024 * 1024 * 1024"

definition memory_string_to_bytes :: "int list \<Rightarrow> word_t option" where
  "memory_string_to_bytes str = do {
     res \<leftarrow> atoi str;
     Some (if strstr str (cstr ''GB'') then res * GB else if strstr str (cstr ''MB'') then res * MB
       else if strstr str (cstr ''KB'') then res * KB else res) }"

section \<open>Options\<close>

record options =
  image_name :: "int list option"
  memory_limit :: word_t
  young_limit :: word_t
  opt_inline :: bool
  quiet :: bool
  verbose :: bool
  quietGC :: bool
  opt_die_on_break :: bool

definition default_options :: options where
  "default_options = \<lparr>image_name = None, memory_limit = 400 * MB, young_limit = 5 * MB, opt_inline = False,
    quiet = False, verbose = False, quietGC = True, opt_die_on_break = False\<rparr>"

text \<open>
  The arguments after the name of the program: \<open>Inl\<close> is the status with which the process ends. An image option without
  a name ends it in \<open>error\<close>; a memory option without a size hands the null pointer to \<open>atoi\<close>.
\<close>

fun scan_options :: "options \<Rightarrow> int list list \<Rightarrow> (int + options) option" where
  "scan_options opts [] = Some (Inr opts)"
| "scan_options opts (a # rest) =
     (if a \<in> {cstr ''-h'', cstr ''--help''} then Some (Inl 0)
      else if a \<in> {cstr ''-i'', cstr ''--image''} then
        (case rest of [] \<Rightarrow> None | name # rest \<Rightarrow> scan_options (opts\<lparr>image_name := Some name\<rparr>) rest)
      else if a \<in> {cstr ''-v'', cstr ''--version''} then Some (Inl 0)
      else if a = cstr ''-mo'' then
        (case rest of [] \<Rightarrow> None | s # rest \<Rightarrow> do {
           n \<leftarrow> memory_string_to_bytes s; scan_options (opts\<lparr>memory_limit := n\<rparr>) rest })
      else if a = cstr ''-mn'' then
        (case rest of [] \<Rightarrow> None | s # rest \<Rightarrow> do {
           n \<leftarrow> memory_string_to_bytes s; scan_options (opts\<lparr>young_limit := n\<rparr>) rest })
      else if a = cstr ''-O'' then scan_options (opts\<lparr>opt_inline := True\<rparr>) rest
      else if a = cstr ''-V'' then scan_options (opts\<lparr>quiet := False, verbose := True\<rparr>) rest
      else if a \<in> {cstr ''-q'', cstr ''--quiet''} then scan_options (opts\<lparr>quiet := True, verbose := False\<rparr>) rest
      else if a = cstr ''-d'' then scan_options (opts\<lparr>opt_die_on_break := True\<rparr>) rest
      else if a \<in> {cstr ''-gc'', cstr ''--show-gc''} then scan_options (opts\<lparr>quietGC := False\<rparr>) rest
      else if a = cstr ''--'' then Some (Inr opts)
      else scan_options opts rest)"

section \<open>The image\<close>

text \<open>\<open>getenv\<close>: an entry of the environment is a name, \<open>=\<close> and a value.\<close>

definition getenv :: "int list list \<Rightarrow> int list \<Rightarrow> int list option" where
  "getenv env name = map_option (drop (length name + 1)) (List.find (starts_with (name @ [61])) env)"

text \<open>The default image is looked for in the working directory first, then in the data directory.\<close>

definition choose_image :: "vm_env \<Rightarrow> (int list \<Rightarrow> int list option) \<Rightarrow> int list \<Rightarrow> int list \<Rightarrow> int list option \<Rightarrow> int list option" where
  "choose_image env files defaultImage dataDir name =
     (case name of
        Some n \<Rightarrow> files n
      | None \<Rightarrow>
          case getenv (envp env) (cstr ''SLATE_IMAGE'') of
            Some n \<Rightarrow> files n
          | None \<Rightarrow> (case files defaultImage of Some bs \<Rightarrow> Some bs | None \<Rightarrow> files (dataDir @ [47] @ defaultImage)))"

section \<open>\<open>main\<close>\<close>

text \<open>
  From the arguments to the heap with the image: the status of a process that ends before, or the
  heap and the environment in which the interpreter runs.
\<close>

definition start :: "vm_env \<Rightarrow> object_heap \<Rightarrow> (int list \<Rightarrow> int list option) \<Rightarrow> int list \<Rightarrow> int list \<Rightarrow> int list list
    \<Rightarrow> (int + vm_env \<times> object_heap) option" where
  "start env oh files defaultImage dataDir argv = do {
     r \<leftarrow> scan_options default_options (tl argv);
     case r of
       Inl status \<Rightarrow> Some (Inl status)
     | Inr opts \<Rightarrow>
         case choose_image env files defaultImage dataDir (image_name opts) of
           None \<Rightarrow> Some (Inl 1)
         | Some bs \<Rightarrow> do {
             r \<leftarrow> load_image env oh (memory_limit opts) (young_limit opts) (opt_inline opts) bs;
             Some (map_sum id (\<lambda>oh. (env\<lparr>die_on_break := opt_die_on_break opts, argvSaved := argv\<rparr>, oh)) r) } }"

text \<open>The machine, with its primitives nested at most \<open>n\<close> deep, for a number of turns of the interpreter.\<close>

definition main :: "vm_env \<Rightarrow> object_heap \<Rightarrow> (int list \<Rightarrow> int list option) \<Rightarrow> int list \<Rightarrow> int list \<Rightarrow> int list list
    \<Rightarrow> nat \<Rightarrow> bool list \<Rightarrow> (int + bool \<times> object_heap) option" where
  "main env oh files defaultImage dataDir argv n turns = do {
     r \<leftarrow> start env oh files defaultImage dataDir argv;
     case r of
       Inl status \<Rightarrow> Some (Inl status)
     | Inr (env, oh) \<Rightarrow> do {
         oh \<leftarrow> interpret_start oh;
         map_option Inr (interpret_turns (vm env n) turns oh) } }"

end
